(* ===== verification/Prelude.thy ===== *)
theory Prelude
  imports Main "HOL-Library.Word" "HOL-Library.Monad_Syntax"
begin

unbundle bit_operations_syntax

section \<open>Prelude: Go values, byte buffers and the library of shared lemmas\<close>

text \<open>
  What every component of the development shares.

  \<^item> The types of Go values: bytes and \<^verbatim>\<open>uint32\<close> as words, byte slices as
    lists of bytes, strings as lists of characters, pointers as natural numbers.
  \<^item> \<^bold>\<open>Panics.\<close> A Go statement that panics (a slice expression out of range, a nil
    dereference) makes the whole function evaluate to \<^term>\<open>None\<close>; a function that
    runs to its end is \<^term>\<open>Some r\<close>. An error that the Go code returns as a value is
    a value of a sum type inside the \<^term>\<open>Some\<close>.
  \<^item> The operations of \<^verbatim>\<open>encoding/binary\<close>, \<^verbatim>\<open>copy\<close>, \<^verbatim>\<open>make\<close> and the slice expression, with
    the bound checks of the language, and the lemmas that let the simplifier run a
    sequence of writes into a fresh buffer and a sequence of reads out of a
    concatenation.
  \<^item> \<^verbatim>\<open>io.ReadFull\<close> over a connection whose input is a list of bytes and errors.
\<close>

subsection \<open>Types\<close>

type_synonym byte = "8 word"
type_synonym bytes = "byte list"
type_synonym u32 = "32 word"
type_synonym addr = nat

named_theorems codec "facts that run encoders and decoders"
named_theorems inv_intros "introduction rules for invariants"

subsection \<open>Conversion between strings and byte slices\<close>

definition gobytes :: "string \<Rightarrow> bytes" where
  "gobytes s = map (\<lambda>c. of_nat (of_char c)) s"

definition gostring :: "bytes \<Rightarrow> string" where
  "gostring b = map (\<lambda>x. char_of (unat x)) b"

lemma unat_of_char [simp]: "unat (of_nat (of_char c) :: byte) = of_char c"
proof -
  have "(of_char c :: nat) mod 256 = of_char c"
    using of_char_mod_256 [of c, where 'a = nat] .
  then show ?thesis by (simp add: unat_of_nat)
qed

lemma of_nat_unat_mod_256 [simp]: "(of_nat (unat x mod 256) :: byte) = x"
proof -
  have "unat x < 256" using unsigned_less [of x] by simp
  then show ?thesis by simp
qed

lemma gostring_gobytes [simp]: "gostring (gobytes s) = s"
  by (simp add: gostring_def gobytes_def o_def)

lemma gobytes_gostring [simp]: "gobytes (gostring b) = b"
  by (simp add: gostring_def gobytes_def o_def)

lemma length_gobytes [simp]: "length (gobytes s) = length s"
  by (simp add: gobytes_def)

lemma length_gostring [simp]: "length (gostring b) = length b"
  by (simp add: gostring_def)

lemma gobytes_Nil_iff [simp]: "gobytes s = [] \<longleftrightarrow> s = []"
  by (simp add: gobytes_def)

lemma gostring_Nil_iff [simp]: "gostring b = [] \<longleftrightarrow> b = []"
  by (simp add: gostring_def)

subsection \<open>Big-endian 32-bit integers\<close>

text \<open>\<^verbatim>\<open>binary.BigEndian.PutUint32\<close> and \<^verbatim>\<open>binary.BigEndian.Uint32\<close> on the four bytes
  they work on.\<close>

definition be32 :: "u32 \<Rightarrow> bytes" where
  "be32 v = [ucast (drop_bit 24 v), ucast (drop_bit 16 v), ucast (drop_bit 8 v), ucast v]"

definition un32 :: "bytes \<Rightarrow> u32" where
  "un32 b = (ucast (b ! 3)) OR push_bit 8 (ucast (b ! 2)) OR push_bit 16 (ucast (b ! 1))
     OR push_bit 24 (ucast (b ! 0))"

lemma length_be32 [simp]: "length (be32 v) = 4"
  by (simp add: be32_def)

lemma be32_neq_Nil [simp]: "be32 v \<noteq> []"
  by (simp add: be32_def)

lemma bit32_split:
  assumes "(n :: nat) < 32"
  obtains "n < 8" | "8 \<le> n" "n < 16" | "16 \<le> n" "n < 24" | "24 \<le> n" "n < 32"
  using assms by linarith

lemma un32_be32 [simp]: "un32 (be32 v) = v"
proof (rule bit_word_eqI)
  fix n assume "n < LENGTH(32)"
  then have n: "n < 32" by simp
  show "bit (un32 (be32 v)) n = bit v n"
    using n by (cases rule: bit32_split)
      (auto simp: un32_def be32_def bit_or_iff bit_push_bit_iff bit_ucast_iff bit_drop_bit_eq)
qed

lemma be32_inject [simp]: "be32 v = be32 w \<longleftrightarrow> v = w"
  using un32_be32 by metis

subsection \<open>Buffers and slices\<close>

text \<open>\<^verbatim>\<open>utils.GetBuffer\<close> and \<^verbatim>\<open>make([]byte, n)\<close>: a slice of \<open>n\<close> zero bytes.\<close>

definition GetBuffer :: "nat \<Rightarrow> bytes" where
  "GetBuffer n = replicate n 0"

text \<open>The slice expression \<^verbatim>\<open>b[s:e]\<close>. Every buffer of the program is sliced from an
  allocation of exactly its length, so the capacity bound of the language is the
  length.\<close>

definition slice :: "bytes \<Rightarrow> nat \<Rightarrow> nat \<Rightarrow> bytes option" where
  "slice b s e = (if s \<le> e \<and> e \<le> length b then Some (take (e - s) (drop s b)) else None)"

text \<open>\<^verbatim>\<open>copy(dst, src)\<close>: the number of bytes copied is the smaller length.\<close>

definition gocopy :: "bytes \<Rightarrow> bytes \<Rightarrow> bytes" where
  "gocopy dst src = take (length dst) src @ drop (length src) dst"

text \<open>\<^verbatim>\<open>copy(b[s:e], src)\<close> and \<^verbatim>\<open>binary.BigEndian.PutUint32(b[s:e], v)\<close>; the latter
  also panics on a window of fewer than four bytes.\<close>

definition copy_at :: "bytes \<Rightarrow> nat \<Rightarrow> nat \<Rightarrow> bytes \<Rightarrow> bytes option" where
  "copy_at b s e src =
     (case slice b s e of
        None \<Rightarrow> None
      | Some win \<Rightarrow> Some (take s b @ gocopy win src @ drop e b))"

definition PutUint32 :: "bytes \<Rightarrow> nat \<Rightarrow> nat \<Rightarrow> u32 \<Rightarrow> bytes option" where
  "PutUint32 b s e v = (if e - s < 4 then None else copy_at b s e (be32 v))"

definition Uint32 :: "bytes \<Rightarrow> nat \<Rightarrow> nat \<Rightarrow> u32 option" where
  "Uint32 b s e =
     (case slice b s e of
        None \<Rightarrow> None
      | Some win \<Rightarrow> if length win < 4 then None else Some (un32 win))"

lemma length_GetBuffer [simp]: "length (GetBuffer n) = n"
  by (simp add: GetBuffer_def)

lemma slice_Some_iff:
  "slice b s e = Some w \<longleftrightarrow> s \<le> e \<and> e \<le> length b \<and> w = take (e - s) (drop s b)"
  by (auto simp: slice_def)

lemma slice_length: "slice b s e = Some w \<Longrightarrow> length w = e - s"
  by (auto simp: slice_def split: if_splits)

lemma gocopy_full [simp]: "length dst = length src \<Longrightarrow> gocopy dst src = src"
  by (simp add: gocopy_def)

lemma length_gocopy [simp]: "length (gocopy dst src) = length dst"
  by (simp add: gocopy_def)

lemma gocopy_take: "length dst \<le> length src \<Longrightarrow> gocopy dst src = take (length dst) src"
  by (simp add: gocopy_def)

lemma copy_at_length: "copy_at b s e src = Some b' \<Longrightarrow> length b' = length b"
  by (auto simp: copy_at_def slice_def split: option.splits if_splits)

subsection \<open>Writing a message into a fresh buffer\<close>

text \<open>\<open>filled p n\<close> is a buffer of \<open>n\<close> bytes whose first bytes are \<open>p\<close> and whose rest is
  still zero: the state of a buffer that an encoder fills from left to right.\<close>

definition filled :: "bytes \<Rightarrow> nat \<Rightarrow> bytes" where
  "filled p n = p @ replicate (n - length p) 0"

lemma GetBuffer_filled: "GetBuffer n = filled [] n"
  by (simp add: GetBuffer_def filled_def)

lemma filled_full: "length p = n \<Longrightarrow> filled p n = p"
  by (simp add: filled_def)

lemma length_filled: "length p \<le> n \<Longrightarrow> length (filled p n) = n"
  by (simp add: filled_def)

lemma copy_at_filled:
  assumes "s = length p" "e = s + length src" "e \<le> n"
  shows "copy_at (filled p n) s e src = Some (filled (p @ src) n)"
  using assms by (simp add: copy_at_def slice_def filled_def min_def)

lemma PutUint32_filled:
  assumes "s = length p" "e = s + 4" "e \<le> n"
  shows "PutUint32 (filled p n) s e v = Some (filled (p @ be32 v) n)"
  using assms by (simp add: PutUint32_def copy_at_filled)

lemmas fill_simps = GetBuffer_filled copy_at_filled PutUint32_filled length_filled

subsection \<open>Reading fields out of a concatenation\<close>

lemma slice_at:
  assumes "s = length p" "e = s + length x"
  shows "slice (p @ x @ r) s e = Some x"
  using assms by (simp add: slice_def)

lemma Uint32_be32:
  assumes "slice b s e = Some (be32 v)"
  shows "Uint32 b s e = Some v"
  using assms by (simp add: Uint32_def)

lemma Uint32_None_iff: "Uint32 b s (s + 4) = None \<longleftrightarrow> length b < s + 4"
  by (auto simp: Uint32_def slice_def split: option.splits)

lemma Uint32_Some: "s + 4 \<le> length b \<Longrightarrow> \<exists>v. Uint32 b s (s + 4) = Some v"
  using Uint32_None_iff [of b s] by (cases "Uint32 b s (s + 4)") auto

subsection \<open>Lengths as 32-bit words\<close>

abbreviation len32 :: "'a list \<Rightarrow> u32" where
  "len32 xs \<equiv> word_of_nat (length xs)"

lemma unat_len32: "length xs < 2 ^ 32 \<Longrightarrow> unat (len32 xs) = length xs"
  by (simp add: unat_of_nat)

lemma len32_unat: "unat w = length xs \<Longrightarrow> w = len32 xs"
proof -
  assume "unat w = length xs"
  then have "len32 xs = word_of_nat (unat w)" by simp
  then show ?thesis by simp
qed

lemma len32_0_iff: "length xs < 2 ^ 32 \<Longrightarrow> len32 xs = 0 \<longleftrightarrow> xs = []"
  by (auto simp: word_of_nat_eq_0_iff dvd_def)

lemma unat_plus32: "unat a + unat b < 2 ^ 32 \<Longrightarrow> unat (a + b :: u32) = unat a + unat b"
  by (simp add: unat_word_ariths)

subsection \<open>Reading from a connection\<close>

text \<open>The errors a read can return: \<^verbatim>\<open>io.EOF\<close>, \<^verbatim>\<open>io.ErrUnexpectedEOF\<close> and a
  \<^verbatim>\<open>*net.OpError\<close> with the answer of its \<^verbatim>\<open>Temporary()\<close>.\<close>

datatype io_error = EOF | ErrUnexpectedEOF | OpError bool

text \<open>What the peer and the network deliver, in order; behind the last item the
  connection is at its end.\<close>

datatype input_item = Byte byte | ReadErr io_error

type_synonym input = "input_item list"

text \<open>\<^verbatim>\<open>io.ReadFull\<close>: reads until the buffer is full; an error before that is
  returned as it is, except that \<^verbatim>\<open>io.EOF\<close> after at least one byte becomes
  \<^verbatim>\<open>io.ErrUnexpectedEOF\<close>. The bytes read so far are consumed in every case.\<close>

definition read_err :: "nat \<Rightarrow> io_error \<Rightarrow> io_error" where
  "read_err got e = (if e = EOF \<and> 0 < got then ErrUnexpectedEOF else e)"

fun ReadFull_acc :: "nat \<Rightarrow> bytes \<Rightarrow> input \<Rightarrow> (io_error + bytes) \<times> input" where
  "ReadFull_acc 0 acc i = (Inr (rev acc), i)"
| "ReadFull_acc (Suc n) acc [] = (Inl (read_err (length acc) EOF), [])"
| "ReadFull_acc (Suc n) acc (ReadErr e # i) = (Inl (read_err (length acc) e), i)"
| "ReadFull_acc (Suc n) acc (Byte b # i) = ReadFull_acc n (b # acc) i"

definition ReadFull :: "nat \<Rightarrow> input \<Rightarrow> (io_error + bytes) \<times> input" where
  "ReadFull n i = ReadFull_acc n [] i"

lemma ReadFull_acc_bytes:
  "ReadFull_acc (length bs) acc (map Byte bs @ i) = (Inr (rev acc @ bs), i)"
  by (induction bs arbitrary: acc) auto

lemma ReadFull_bytes: "n = length bs \<Longrightarrow> ReadFull n (map Byte bs @ i) = (Inr bs, i)"
  by (simp add: ReadFull_def ReadFull_acc_bytes)

lemma ReadFull_acc_length:
  "ReadFull_acc n acc i = (Inr bs, i') \<Longrightarrow> length bs = n + length acc"
  by (induction n acc i rule: ReadFull_acc.induct) auto

lemma ReadFull_length: "ReadFull n i = (Inr bs, i') \<Longrightarrow> length bs = n"
  by (auto simp: ReadFull_def dest: ReadFull_acc_length)

lemma ReadFull_acc_shrinks:
  "ReadFull_acc n acc i = (r, i') \<Longrightarrow> length i' \<le> length i"
  by (induction n acc i rule: ReadFull_acc.induct) auto

lemma ReadFull_shrinks: "ReadFull n i = (r, i') \<Longrightarrow> length i' \<le> length i"
  by (auto simp: ReadFull_def dest: ReadFull_acc_shrinks)

lemma ReadFull_acc_consumes:
  "ReadFull_acc n acc i = (Inr bs, i') \<Longrightarrow> length i = n + length i'"
  by (induction n acc i rule: ReadFull_acc.induct) auto

lemma ReadFull_consumes: "ReadFull n i = (Inr bs, i') \<Longrightarrow> length i = n + length i'"
  by (auto simp: ReadFull_def dest: ReadFull_acc_consumes)

lemma ReadFull_Inr:
  "ReadFull n i = (Inr bs, i') \<Longrightarrow> length bs = n \<and> length i = n + length i'"
  by (blast dest: ReadFull_length ReadFull_consumes)

lemma ReadFull_empty: "0 < n \<Longrightarrow> ReadFull n [] = (Inl EOF, [])"
  by (cases n) (simp_all add: ReadFull_def read_err_def)

subsection \<open>Writing to a connection\<close>

text \<open>The loop that writes a buffer. \<^verbatim>\<open>net.Conn.Write\<close> either writes the whole buffer or
  returns an error with the number of bytes written before it, so the loop body runs at
  most once: the bytes written, and whether there was no error.\<close>

datatype write_answer = WroteAll | WroteErr nat

definition write_all :: "write_answer \<Rightarrow> bytes \<Rightarrow> bytes \<times> bool" where
  "write_all ans buf = (if length buf > 0
     then (case ans of WroteAll \<Rightarrow> (buf, True) | WroteErr n \<Rightarrow> (take n buf, False))
     else ([], True))"

lemma write_all_WroteAll [simp]: "write_all WroteAll buf = (buf, True)"
  by (simp add: write_all_def)

subsection \<open>Lists used as queues and as sequences of workers\<close>

text \<open>Removing the first element that satisfies a predicate: the loops that find an
  element, splice it out of a slice or a list and stop.\<close>

fun remove_first :: "('a \<Rightarrow> bool) \<Rightarrow> 'a list \<Rightarrow> 'a list" where
  "remove_first p [] = []"
| "remove_first p (x # xs) = (if p x then xs else x # remove_first p xs)"

lemma remove_first_none [simp]: "\<forall>x \<in> set xs. \<not> p x \<Longrightarrow> remove_first p xs = xs"
  by (induction xs) auto

lemma length_remove_first:
  "length (remove_first p xs) = (if \<exists>x \<in> set xs. p x then length xs - 1 else length xs)"
  by (induction xs) (auto simp: Suc_diff_1 length_greater_0_conv intro: Suc_pred)

lemma remove_first_shorter: "x \<in> set xs \<Longrightarrow> p x \<Longrightarrow> length (remove_first p xs) < length xs"
  by (induction xs) auto

lemma set_remove_first_subset: "set (remove_first p xs) \<subseteq> set xs"
  by (induction xs) auto

lemma distinct_remove_first: "distinct xs \<Longrightarrow> distinct (remove_first p xs)"
  using set_remove_first_subset by (induction xs) fastforce+

lemma remove_first_distinct:
  "distinct xs \<Longrightarrow> x \<in> set xs \<Longrightarrow> remove_first ((=) x) xs = filter ((\<noteq>) x) xs"
  by (induction xs) (auto intro!: filter_True [symmetric])

lemma remove_first_gone:
  assumes "length (filter p xs) \<le> 1" "x \<in> set (remove_first p xs)"
  shows "\<not> p x"
  using assms
proof (induction xs)
  case (Cons y ys)
  show ?case
  proof (cases "p y")
    case True
    then have "filter p ys = []" using Cons.prems(1) by simp
    then show ?thesis using True Cons.prems(2) by (simp add: filter_empty_conv)
  qed (use Cons in auto)
qed simp

lemma filter_remove_first [simp]:
  "filter (\<lambda>x. \<not> p x) (remove_first p xs) = filter (\<lambda>x. \<not> p x) xs"
  by (induction xs) auto

lemma length_filter_remove_first:
  "length (filter p (remove_first p xs)) = length (filter p xs) - 1"
  by (induction xs) auto

lemma remove_first_filter:
  "length (filter p xs) \<le> 1 \<Longrightarrow> remove_first p xs = filter (\<lambda>x. \<not> p x) xs"
  by (induction xs) (auto simp: filter_empty_conv filter_id_conv)

lemma remove_first_twice:
  assumes "length (filter p xs) \<le> 2"
  shows "remove_first p (remove_first p xs) = filter (\<lambda>x. \<not> p x) xs"
  using assms
  by (induction xs) (auto simp: remove_first_filter filter_empty_conv)

lemma distinct_map_filter_le_one:
  "distinct (map f xs) \<Longrightarrow> length (filter (\<lambda>x. f x = y) xs) \<le> 1"
  by (induction xs) (auto simp: filter_empty_conv image_iff)

end
