(* ===== verification/Model_Const.thy ===== *)
theory Model_Const
  imports Prelude
begin

section \<open>The constants of the protocol (pkg/model/const.go)\<close>

text \<open>
  The untyped constants of \<^verbatim>\<open>pkg/model/const.go\<close> at the type the code uses them at: sizes
  as natural numbers, package data types, connection types, parameter types and job
  states as \<^verbatim>\<open>uint32\<close> values. They are simplification rules, so that a comparison of two of
  them is decided by evaluation. Note that the source gives \<open>PDT_S_HEARTBEAT_PONG\<close> and
  \<open>PDT_W_SET_NAME\<close> the same value, and \<open>PDT_BREAKER\<close> and \<open>PDT_SC_REG_SERVICE\<close> too.
\<close>

definition QUEUE_SIZE :: nat where [simp]: "QUEUE_SIZE = 1"
definition MIN_DATA_SIZE :: nat where [simp]: "MIN_DATA_SIZE = 12"
definition UINT32_SIZE :: nat where [simp]: "UINT32_SIZE = 4"

text \<open>Package data types.\<close>

definition PDT_OK :: u32 where [simp]: "PDT_OK = 1"
definition PDT_ERROR :: u32 where [simp]: "PDT_ERROR = 2"
definition PDT_CAN_DO :: u32 where [simp]: "PDT_CAN_DO = 3"
definition PDT_CANT_DO :: u32 where [simp]: "PDT_CANT_DO = 4"
definition PDT_NO_JOB :: u32 where [simp]: "PDT_NO_JOB = 5"
definition PDT_HAVE_JOB :: u32 where [simp]: "PDT_HAVE_JOB = 6"
definition PDT_TOSLEEP :: u32 where [simp]: "PDT_TOSLEEP = 7"
definition PDT_WAKEUP :: u32 where [simp]: "PDT_WAKEUP = 8"
definition PDT_WAKEUPED :: u32 where [simp]: "PDT_WAKEUPED = 9"
definition PDT_S_GET_DATA :: u32 where [simp]: "PDT_S_GET_DATA = 10"
definition PDT_S_RETURN_DATA :: u32 where [simp]: "PDT_S_RETURN_DATA = 11"
definition PDT_S_HEARTBEAT_PONG :: u32 where [simp]: "PDT_S_HEARTBEAT_PONG = 23"
definition PDT_W_GRAB_JOB :: u32 where [simp]: "PDT_W_GRAB_JOB = 12"
definition PDT_W_ADD_FUNC :: u32 where [simp]: "PDT_W_ADD_FUNC = 13"
definition PDT_W_DEL_FUNC :: u32 where [simp]: "PDT_W_DEL_FUNC = 14"
definition PDT_W_RETURN_DATA :: u32 where [simp]: "PDT_W_RETURN_DATA = 15"
definition PDT_W_HEARTBEAT_PING :: u32 where [simp]: "PDT_W_HEARTBEAT_PING = 22"
definition PDT_W_SET_NAME :: u32 where [simp]: "PDT_W_SET_NAME = 23"
definition PDT_C_DO_JOB :: u32 where [simp]: "PDT_C_DO_JOB = 16"
definition PDT_C_GET_DATA :: u32 where [simp]: "PDT_C_GET_DATA = 17"
definition PDT_RATELIMIT :: u32 where [simp]: "PDT_RATELIMIT = 18"

text \<open>Connection types, parameter types and job states.\<close>

definition CONN_TYPE_INIT :: u32 where [simp]: "CONN_TYPE_INIT = 0"
definition CONN_TYPE_SERVER :: u32 where [simp]: "CONN_TYPE_SERVER = 1"
definition CONN_TYPE_WORKER :: u32 where [simp]: "CONN_TYPE_WORKER = 2"
definition CONN_TYPE_CLIENT :: u32 where [simp]: "CONN_TYPE_CLIENT = 3"
definition CONN_TYPE_SERVICE :: u32 where [simp]: "CONN_TYPE_SERVICE = 4"
definition PARAMS_TYPE_MSGPACK :: u32 where [simp]: "PARAMS_TYPE_MSGPACK = 5"
definition PARAMS_TYPE_JSON :: u32 where [simp]: "PARAMS_TYPE_JSON = 6"
definition JOB_STATUS_INIT :: u32 where [simp]: "JOB_STATUS_INIT = 7"
definition JOB_STATUS_DOING :: u32 where [simp]: "JOB_STATUS_DOING = 8"
definition JOB_STATUS_DONE :: u32 where [simp]: "JOB_STATUS_DONE = 9"
definition PARAMS_HANDLE_TYPE_ENCODE :: u32 where [simp]: "PARAMS_HANDLE_TYPE_ENCODE = 10"
definition PARAMS_HANDLE_TYPE_ORIGINAL :: u32 where [simp]: "PARAMS_HANDLE_TYPE_ORIGINAL = 11"

text \<open>Load balancing, at the \<^verbatim>\<open>int\<close> type of \<^verbatim>\<open>Func.LoadBlanceType\<close>.\<close>

definition LOADBLANCE_HASH :: int where [simp]: "LOADBLANCE_HASH = 1"
definition LOADBLANCE_LRU :: int where [simp]: "LOADBLANCE_LRU = 2"
definition LOADBLANCE_ROUND_WEIGHT :: int where [simp]: "LOADBLANCE_ROUND_WEIGHT = 3"

text \<open>The frame size limit that the three frame readers declare locally.\<close>

definition maxFrameSize :: nat where [simp]: "maxFrameSize = 32 * 1024 * 1024"

end
