(* ===== verification/Func_Map.thy ===== *)
theory Func_Map
  imports Model_Const "HOL-Library.AList"
begin

section \<open>The function table of the server (pkg/server/function.go)\<close>

text \<open>
  \<^verbatim>\<open>Func\<close> and \<^verbatim>\<open>FuncMap\<close> with the operations that register and deregister workers.
  \<^verbatim>\<open>GetBestWorker\<close>, which also closes connections, is in the theory of the server state.

  The \<^verbatim>\<open>sync.Map\<close> is an association list with its \<^verbatim>\<open>Load\<close>, \<^verbatim>\<open>Store\<close>, \<^verbatim>\<open>Delete\<close> and \<^verbatim>\<open>Range\<close>
  (which visits a snapshot of the keys and loads each of them). A worker is a pointer;
  the parameter \<open>wid\<close> reads the \<^verbatim>\<open>WorkerId\<close> behind it, a field that never changes after
  the worker was created. Every operation returns its boolean result and the table.

  The invariant \<open>fm_inv\<close> says that the counters the code keeps by hand count what they
  are named after. The contract of the table is the locale \<open>worker_registry\<close>: the list of
  workers per function name and what each operation does to it.
\<close>

subsection \<open>Definitions\<close>

record Func =
  f_FuncName :: string
  f_WorkerNum :: int
  f_LoadBlanceType :: int
  f_Workers :: "addr list"

record FuncMap =
  fm_FuncNum :: int
  fm_Funcs :: "(string \<times> Func) list"

definition NewFuncMap :: FuncMap where
  "NewFuncMap = \<lparr>fm_FuncNum = 0, fm_Funcs = []\<rparr>"

definition fm_Load :: "string \<Rightarrow> FuncMap \<Rightarrow> Func option" where
  "fm_Load name fm = map_of (fm_Funcs fm) name"

definition fm_Store :: "string \<Rightarrow> Func \<Rightarrow> FuncMap \<Rightarrow> FuncMap" where
  "fm_Store name f fm = fm\<lparr>fm_Funcs := AList.update name f (fm_Funcs fm)\<rparr>"

definition fm_Delete :: "string \<Rightarrow> FuncMap \<Rightarrow> FuncMap" where
  "fm_Delete name fm = fm\<lparr>fm_Funcs := AList.delete name (fm_Funcs fm)\<rparr>"

definition GetFunc :: "string \<Rightarrow> FuncMap \<Rightarrow> Func option" where
  "GetFunc name fm = fm_Load name fm"

text \<open>\<^verbatim>\<open>AddFunc\<close>: the worker may be nil. The function object is updated in place, so its
  final state is stored back under its name.\<close>

definition AddFunc :: "addr option \<Rightarrow> string \<Rightarrow> FuncMap \<Rightarrow> bool \<times> FuncMap" where
  "AddFunc worker name fm =
    (case worker of
       None \<Rightarrow> (False, fm)
     | Some w \<Rightarrow>
         if length name = 0 then (False, fm)
         else
           let (function, fm) =
             (case fm_Load name fm of
                Some function \<Rightarrow> (function, fm)
              | None \<Rightarrow>
                  let function = \<lparr>f_FuncName = name, f_WorkerNum = 0,
                                  f_LoadBlanceType = LOADBLANCE_HASH, f_Workers = []\<rparr>
                  in (function, fm_Store name function (fm\<lparr>fm_FuncNum := fm_FuncNum fm + 1\<rparr>)));
               function = function\<lparr>f_WorkerNum := f_WorkerNum function + 1\<rparr>;
               function = function\<lparr>f_Workers := f_Workers function @ [w]\<rparr>
           in (True, fm_Store name function fm))"

definition DelAllFunc :: "string \<Rightarrow> FuncMap \<Rightarrow> bool \<times> FuncMap" where
  "DelAllFunc name fm =
    (case fm_Load name fm of
       Some _ \<Rightarrow> (True, (fm_Delete name fm)\<lparr>fm_FuncNum := fm_FuncNum fm - 1\<rparr>)
     | None \<Rightarrow> (False, fm))"

text \<open>The loop that finds the first worker with the id, splices it out of the slice and
  decrements the counter.\<close>

definition splice_worker :: "(addr \<Rightarrow> string) \<Rightarrow> string \<Rightarrow> Func \<Rightarrow> Func" where
  "splice_worker wid workerId f =
    (if \<exists>w \<in> set (f_Workers f). wid w = workerId
     then f\<lparr>f_Workers := remove_first (\<lambda>w. wid w = workerId) (f_Workers f),
            f_WorkerNum := f_WorkerNum f - 1\<rparr>
     else f)"

definition DelWorkerFunc ::
  "(addr \<Rightarrow> string) \<Rightarrow> string \<Rightarrow> string \<Rightarrow> FuncMap \<Rightarrow> bool \<times> FuncMap" where
  "DelWorkerFunc wid workerId name fm =
    (if length name = 0 then (False, fm)
     else case GetFunc name fm of
       None \<Rightarrow> (False, fm)
     | Some function \<Rightarrow>
         if f_WorkerNum function = 0 then (False, fm)
         else if f_FuncName function \<noteq> name then (False, fm)
         else if \<not> (\<exists>w \<in> set (f_Workers function). wid w = workerId) then (False, fm)
         else
           let function = splice_worker wid workerId function;
               fm = fm_Store name function fm
           in if f_WorkerNum function = 0 then (True, snd (DelAllFunc name fm))
              else (True, fm))"

definition CleanWorkerFunc :: "(addr \<Rightarrow> string) \<Rightarrow> string \<Rightarrow> FuncMap \<Rightarrow> bool \<times> FuncMap" where
  "CleanWorkerFunc wid workerId fm =
    (True,
     fold (\<lambda>key fm. case fm_Load key fm of
             None \<Rightarrow> fm
           | Some function \<Rightarrow> snd (DelWorkerFunc wid workerId (f_FuncName function) fm))
       (map fst (fm_Funcs fm)) fm)"

definition DelWorker :: "(addr \<Rightarrow> string) \<Rightarrow> string \<Rightarrow> FuncMap \<Rightarrow> bool \<times> FuncMap" where
  "DelWorker wid workerId fm =
    (if fm_FuncNum fm = 0 then (True, fm)
     else (fm_Funcs fm \<noteq> [],
           fm\<lparr>fm_Funcs := map (\<lambda>(key, f). (key, splice_worker wid workerId f)) (fm_Funcs fm)\<rparr>))"

subsection \<open>Invariant and abstraction\<close>

definition func_inv :: "string \<Rightarrow> Func \<Rightarrow> bool" where
  "func_inv n f \<longleftrightarrow> n \<noteq> [] \<and> f_FuncName f = n \<and> f_WorkerNum f = int (length (f_Workers f))"

definition fm_inv :: "FuncMap \<Rightarrow> bool" where
  "fm_inv fm \<longleftrightarrow> distinct (map fst (fm_Funcs fm))
     \<and> fm_FuncNum fm = int (length (fm_Funcs fm))
     \<and> (\<forall>(n, f) \<in> set (fm_Funcs fm). func_inv n f)"

text \<open>No function without workers.\<close>

definition fm_live :: "FuncMap \<Rightarrow> bool" where
  "fm_live fm \<longleftrightarrow> (\<forall>(n, f) \<in> set (fm_Funcs fm). f_Workers f \<noteq> [])"

definition fm_hash :: "FuncMap \<Rightarrow> bool" where
  "fm_hash fm \<longleftrightarrow> (\<forall>n f. fm_Load n fm = Some f \<longrightarrow> f_LoadBlanceType f = LOADBLANCE_HASH)"

definition workers_of :: "FuncMap \<Rightarrow> string \<Rightarrow> addr list" where
  "workers_of fm name = (case fm_Load name fm of None \<Rightarrow> [] | Some f \<Rightarrow> f_Workers f)"

text \<open>\<^verbatim>\<open>AddFunc\<close> as a single store.\<close>

definition add_entry :: "addr \<Rightarrow> string \<Rightarrow> FuncMap \<Rightarrow> FuncMap" where
  "add_entry w n fm = (case fm_Load n fm of
     Some f \<Rightarrow> fm_Store n (f\<lparr>f_WorkerNum := f_WorkerNum f + 1, f_Workers := f_Workers f @ [w]\<rparr>) fm
   | None \<Rightarrow> fm_Store n \<lparr>f_FuncName = n, f_WorkerNum = 1, f_LoadBlanceType = LOADBLANCE_HASH,
                       f_Workers = [w]\<rparr> (fm\<lparr>fm_FuncNum := fm_FuncNum fm + 1\<rparr>))"

text \<open>What \<^verbatim>\<open>CleanWorkerFunc\<close> does for one key of the snapshot.\<close>

abbreviation clean_step :: "(addr \<Rightarrow> string) \<Rightarrow> string \<Rightarrow> string \<Rightarrow> FuncMap \<Rightarrow> FuncMap" where
  "clean_step wid i \<equiv> (\<lambda>key fm. case fm_Load key fm of
       None \<Rightarrow> fm
     | Some function \<Rightarrow> snd (DelWorkerFunc wid i (f_FuncName function) fm))"

subsection \<open>The association list\<close>

lemma length_AList_update:
  "length (AList.update k v al) = (if k \<in> fst ` set al then length al else Suc (length al))"
  by (induction al) auto

lemma length_AList_delete:
  "distinct (map fst al) \<Longrightarrow> k \<in> fst ` set al \<Longrightarrow> Suc (length (AList.delete k al)) = length al"
proof (induction al)
  case (Cons p al)
  show ?case
  proof (cases "fst p = k")
    case True
    then have "AList.delete k al = al" using Cons.prems(1) by (auto intro: delete_id)
    then show ?thesis using True by (cases p) simp
  qed (use Cons in auto)
qed simp

lemma fm_Load_Store [simp]:
  "fm_Load k (fm_Store n f fm) = (if k = n then Some f else fm_Load k fm)"
  by (simp add: fm_Load_def fm_Store_def update_conv)

lemma fm_Load_Delete [simp]:
  "fm_Load k (fm_Delete n fm) = (if k = n then None else fm_Load k fm)"
  by (simp add: fm_Load_def fm_Delete_def delete_conv)

lemma fm_Load_FuncNum [simp]: "fm_Load k (fm\<lparr>fm_FuncNum := x\<rparr>) = fm_Load k fm"
  by (simp add: fm_Load_def)

lemma fm_Load_None_iff: "fm_Load n fm = None \<longleftrightarrow> n \<notin> fst ` set (fm_Funcs fm)"
  by (simp add: fm_Load_def map_of_eq_None_iff)

lemma fm_inv_alt:
  "fm_inv fm \<longleftrightarrow> distinct (map fst (fm_Funcs fm))
     \<and> fm_FuncNum fm = int (length (fm_Funcs fm))
     \<and> (\<forall>n f. fm_Load n fm = Some f \<longrightarrow> func_inv n f)"
  by (auto simp: fm_inv_def fm_Load_def)

lemma fm_live_alt:
  "distinct (map fst (fm_Funcs fm)) \<Longrightarrow>
   fm_live fm \<longleftrightarrow> (\<forall>n f. fm_Load n fm = Some f \<longrightarrow> f_Workers f \<noteq> [])"
  by (auto simp: fm_live_def fm_Load_def)

lemma fm_inv_Load: "fm_inv fm \<Longrightarrow> fm_Load n fm = Some f \<Longrightarrow> func_inv n f"
  by (simp add: fm_inv_alt)

lemma fm_inv_Store_old:
  assumes "fm_inv fm" "fm_Load n fm = Some f0" "func_inv n f"
  shows "fm_inv (fm_Store n f fm)"
proof -
  have "n \<in> fst ` set (fm_Funcs fm)"
    using assms(2) fm_Load_None_iff [of n fm] by simp
  then have "length (fm_Funcs (fm_Store n f fm)) = length (fm_Funcs fm)"
    by (simp add: fm_Store_def length_AList_update)
  then show ?thesis
    using assms by (auto simp: fm_inv_alt fm_Store_def distinct_update)
      (auto simp: fm_Load_def update_conv split: if_splits)
qed

lemma fm_inv_Store_new:
  assumes "fm_inv fm" "fm_Load n fm = None" "func_inv n f"
  shows "fm_inv (fm_Store n f (fm\<lparr>fm_FuncNum := fm_FuncNum fm + 1\<rparr>))"
proof -
  have "n \<notin> fst ` set (fm_Funcs fm)"
    using assms(2) by (simp add: fm_Load_None_iff)
  then show ?thesis
    using assms by (auto simp: fm_inv_alt fm_Store_def distinct_update length_AList_update)
      (auto simp: fm_Load_def update_conv split: if_splits)
qed

lemma fm_inv_Delete:
  assumes "fm_inv fm" "fm_Load n fm = Some f"
  shows "fm_inv ((fm_Delete n fm)\<lparr>fm_FuncNum := fm_FuncNum fm - 1\<rparr>)"
proof -
  have "n \<in> fst ` set (fm_Funcs fm)"
    using assms(2) fm_Load_None_iff [of n fm] by simp
  then have "Suc (length (AList.delete n (fm_Funcs fm))) = length (fm_Funcs fm)"
    using assms(1) by (simp add: length_AList_delete fm_inv_def)
  then show ?thesis
    using assms by (auto simp: fm_inv_alt fm_Delete_def distinct_delete)
      (auto simp: fm_Load_def delete_conv split: if_splits)
qed

lemma func_inv_splice:
  "func_inv n f \<Longrightarrow> func_inv n (splice_worker wid i f)"
  by (auto simp: func_inv_def splice_worker_def length_remove_first of_nat_diff Suc_leI
      dest: length_pos_if_in_set)

lemma splice_worker_Workers [simp]:
  "f_Workers (splice_worker wid i f) = remove_first (\<lambda>w. wid w = i) (f_Workers f)"
  by (simp add: splice_worker_def)

subsection \<open>The operations keep the invariant\<close>

lemma NewFuncMap_inv [inv_intros]: "fm_inv NewFuncMap"
  by (simp add: fm_inv_def NewFuncMap_def)

lemma NewFuncMap_live: "fm_live NewFuncMap"
  by (simp add: fm_live_def NewFuncMap_def)

lemma fm_Store_Store [simp]: "fm_Store n f (fm_Store n g fm) = fm_Store n f fm"
  by (simp add: fm_Store_def)

lemma AddFunc_Some:
  "n \<noteq> [] \<Longrightarrow> AddFunc (Some w) n fm = (True, add_entry w n fm)"
  by (auto simp: AddFunc_def add_entry_def Let_def split: option.splits)

lemma AddFunc_fails [simp]:
  "AddFunc None n fm = (False, fm)" "AddFunc worker [] fm = (False, fm)"
  by (auto simp: AddFunc_def split: option.splits)

lemma AddFunc_inv [inv_intros]: "fm_inv fm \<Longrightarrow> fm_inv (snd (AddFunc worker n fm))"
proof (cases worker)
  case (Some w)
  assume inv: "fm_inv fm"
  show ?thesis
  proof (cases "n = []")
    case False
    then have "fm_inv (add_entry w n fm)"
      using inv fm_inv_Load [OF inv, of n] unfolding add_entry_def
      by (cases "fm_Load n fm")
        (auto intro: fm_inv_Store_new fm_inv_Store_old simp: func_inv_def)
    then show ?thesis using False Some by (simp add: AddFunc_Some)
  qed (use inv Some in simp)
qed simp

lemma DelAllFunc_inv [inv_intros]: "fm_inv fm \<Longrightarrow> fm_inv (snd (DelAllFunc n fm))"
  by (auto simp: DelAllFunc_def fm_inv_Delete split: option.splits)

lemma DelWorkerFunc_inv [inv_intros]:
  assumes "fm_inv fm" shows "fm_inv (snd (DelWorkerFunc wid i n fm))"
proof (cases "fm_Load n fm")
  case (Some f)
  then have "fm_inv (fm_Store n (splice_worker wid i f) fm)"
    using assms by (intro fm_inv_Store_old func_inv_splice) (auto dest: fm_inv_Load)
  then show ?thesis
    using assms Some by (auto simp: DelWorkerFunc_def GetFunc_def Let_def intro: inv_intros)
qed (use assms in \<open>auto simp: DelWorkerFunc_def GetFunc_def\<close>)

lemma CleanWorkerFunc_fold_inv:
  "fm_inv fm \<Longrightarrow> fm_inv (fold (\<lambda>key fm. case fm_Load key fm of
       None \<Rightarrow> fm
     | Some function \<Rightarrow> snd (DelWorkerFunc wid i (f_FuncName function) fm)) ks fm)"
  by (induction ks arbitrary: fm) (auto intro: inv_intros split: option.splits)

lemma CleanWorkerFunc_inv [inv_intros]: "fm_inv fm \<Longrightarrow> fm_inv (snd (CleanWorkerFunc wid i fm))"
  by (simp add: CleanWorkerFunc_def CleanWorkerFunc_fold_inv)

lemma DelWorker_inv [inv_intros]: "fm_inv fm \<Longrightarrow> fm_inv (snd (DelWorker wid i fm))"
  by (fastforce simp: DelWorker_def fm_inv_def func_inv_splice comp_def case_prod_beta)

subsection \<open>What the operations do to the workers of a function\<close>

lemma workers_of_Store [simp]:
  "workers_of (fm_Store n f fm) m = (if m = n then f_Workers f else workers_of fm m)"
  by (simp add: workers_of_def)

lemma workers_of_FuncNum [simp]: "workers_of (fm\<lparr>fm_FuncNum := x\<rparr>) = workers_of fm"
  by (rule ext) (simp add: workers_of_def)

lemma AddFunc_workers:
  "n \<noteq> [] \<Longrightarrow> workers_of (snd (AddFunc (Some w) n fm)) m
     = (if m = n then workers_of fm n @ [w] else workers_of fm m)"
  by (auto simp: AddFunc_Some add_entry_def workers_of_def split: option.splits)

lemma DelAllFunc_workers:
  "workers_of (snd (DelAllFunc n fm)) m = (if m = n then [] else workers_of fm m)"
  by (auto simp: DelAllFunc_def workers_of_def split: option.splits)

text \<open>The exact result of deregistering a worker from one function.\<close>

lemma DelWorkerFunc_workers:
  assumes "fm_inv fm"
  shows "workers_of (snd (DelWorkerFunc wid i n fm)) m
     = (if m = n then remove_first (\<lambda>w. wid w = i) (workers_of fm n) else workers_of fm m)"
proof (cases "fm_Load n fm")
  case (Some f)
  then have f: "func_inv n f" using assms by (rule fm_inv_Load [rotated])
  have "f_WorkerNum (splice_worker wid i f) = 0 \<Longrightarrow> remove_first (\<lambda>w. wid w = i) (f_Workers f) = []"
    using func_inv_splice [OF f, of wid i] by (simp add: func_inv_def)
  then show ?thesis
    using Some f
    by (auto simp: DelWorkerFunc_def GetFunc_def Let_def DelAllFunc_workers func_inv_def)
      (auto simp: workers_of_def)
qed (auto simp: DelWorkerFunc_def GetFunc_def workers_of_def)

lemma DelWorkerFunc_result:
  assumes "fm_inv fm"
  shows "fst (DelWorkerFunc wid i n fm) \<longleftrightarrow> (\<exists>w \<in> set (workers_of fm n). wid w = i)"
proof (cases "fm_Load n fm")
  case (Some f)
  then have "func_inv n f" using assms by (rule fm_inv_Load [rotated])
  then show ?thesis
    using Some by (auto simp: DelWorkerFunc_def GetFunc_def Let_def workers_of_def func_inv_def)
qed (auto simp: DelWorkerFunc_def GetFunc_def workers_of_def)

lemma clean_step_eq: "fm_inv fm \<Longrightarrow> clean_step wid i key fm = snd (DelWorkerFunc wid i key fm)"
  by (cases "fm_Load key fm")
    (auto simp: DelWorkerFunc_def GetFunc_def func_inv_def dest: fm_inv_Load)

lemma CleanWorkerFunc_fold_workers:
  assumes "fm_inv fm" "distinct ks"
  shows "workers_of (fold (clean_step wid i) ks fm) m
     = (if m \<in> set ks then remove_first (\<lambda>w. wid w = i) (workers_of fm m) else workers_of fm m)"
  using assms
proof (induction ks arbitrary: fm)
  case (Cons k ks)
  have "clean_step wid i k fm = snd (DelWorkerFunc wid i k fm)"
    using Cons.prems(1) by (rule clean_step_eq)
  then show ?case
    using Cons by (auto simp: DelWorkerFunc_inv DelWorkerFunc_workers)
qed simp

lemma workers_of_not_key: "m \<notin> set (map fst (fm_Funcs fm)) \<Longrightarrow> workers_of fm m = []"
  using fm_Load_None_iff [of m fm] by (simp add: workers_of_def)

lemma CleanWorkerFunc_workers:
  assumes "fm_inv fm"
  shows "workers_of (snd (CleanWorkerFunc wid i fm)) m
    = remove_first (\<lambda>w. wid w = i) (workers_of fm m)"
proof -
  have "distinct (map fst (fm_Funcs fm))" using assms by (simp add: fm_inv_def)
  then show ?thesis
    using CleanWorkerFunc_fold_workers [OF assms, of "map fst (fm_Funcs fm)" wid i m]
      workers_of_not_key [of m fm]
    by (simp add: CleanWorkerFunc_def)
qed

lemma DelWorker_workers:
  assumes "fm_inv fm"
  shows "workers_of (snd (DelWorker wid i fm)) m
    = remove_first (\<lambda>w. wid w = i) (workers_of fm m)"
proof (cases "fm_FuncNum fm = 0")
  case True
  then have "workers_of fm m = []"
    using assms by (intro workers_of_not_key) (simp add: fm_inv_def)
  then show ?thesis using True by (simp add: DelWorker_def)
next
  case False
  have "map_of (map (\<lambda>(k, f). (k, splice_worker wid i f)) (fm_Funcs fm)) m
      = map_option (splice_worker wid i) (map_of (fm_Funcs fm) m)"
    by (simp add: map_of_map)
  then show ?thesis
    using False by (simp add: DelWorker_def workers_of_def fm_Load_def split: option.splits)
qed

subsection \<open>No function without workers\<close>

lemma fm_live_workers:
  assumes "fm_inv fm"
  shows "fm_live fm \<longleftrightarrow> (\<forall>n f. fm_Load n fm = Some f \<longrightarrow> workers_of fm n \<noteq> [])"
  using assms by (simp add: fm_live_alt fm_inv_def workers_of_def)

lemma AddFunc_live: "fm_inv fm \<Longrightarrow> fm_live fm \<Longrightarrow> fm_live (snd (AddFunc worker n fm))"
  using AddFunc_inv [of fm worker n]
  by (cases "n = []"; cases worker)
    (auto simp: fm_live_alt fm_inv_def AddFunc_Some add_entry_def split: option.splits if_splits)

lemma DelWorkerFunc_live:
  assumes "fm_inv fm" "fm_live fm"
  shows "fm_live (snd (DelWorkerFunc wid i n fm))"
proof (cases "fm_Load n fm")
  case (Some f)
  have "func_inv n (splice_worker wid i f)"
    using assms(1) Some by (intro func_inv_splice) (rule fm_inv_Load)
  then show ?thesis
    using assms DelWorkerFunc_inv [OF assms(1), of wid i n] Some
    by (auto simp: fm_live_alt fm_inv_def DelWorkerFunc_def GetFunc_def Let_def DelAllFunc_def
        func_inv_def split: if_splits)
qed (use assms in \<open>auto simp: DelWorkerFunc_def GetFunc_def\<close>)

lemma CleanWorkerFunc_live:
  assumes "fm_inv fm" "fm_live fm"
  shows "fm_live (snd (CleanWorkerFunc wid i fm))"
proof -
  have "fm_inv (fold (clean_step wid i) ks fm) \<and> fm_live (fold (clean_step wid i) ks fm)" for ks
    using assms
    by (induction ks arbitrary: fm)
      (auto simp: DelWorkerFunc_inv DelWorkerFunc_live split: option.splits)
  then show ?thesis by (simp add: CleanWorkerFunc_def)
qed

text \<open>The table only ever holds functions that are balanced by random choice: \<^verbatim>\<open>AddFunc\<close> sets
  that type and nothing changes it.\<close>

lemma AddFunc_hash [inv_intros]: "fm_hash fm \<Longrightarrow> fm_hash (snd (AddFunc worker n fm))"
  by (cases "n = []"; cases worker)
    (auto simp: fm_hash_def AddFunc_Some add_entry_def split: option.splits if_splits)

lemma splice_worker_LB [simp]: "f_LoadBlanceType (splice_worker wid i f) = f_LoadBlanceType f"
  by (simp add: splice_worker_def)

lemma DelWorkerFunc_hash [inv_intros]: "fm_hash fm \<Longrightarrow> fm_hash (snd (DelWorkerFunc wid i n fm))"
  by (auto simp: fm_hash_def DelWorkerFunc_def GetFunc_def Let_def DelAllFunc_def
      split: option.splits if_splits)

lemma CleanWorkerFunc_hash [inv_intros]: "fm_hash fm \<Longrightarrow> fm_hash (snd (CleanWorkerFunc wid i fm))"
proof -
  assume "fm_hash fm"
  then have "fm_hash (fold (clean_step wid i) ks fm)" for ks
    by (induction ks arbitrary: fm) (auto intro: DelWorkerFunc_hash split: option.splits)
  then show ?thesis by (simp add: CleanWorkerFunc_def)
qed

lemma DelWorker_hash [inv_intros]: "fm_hash fm \<Longrightarrow> fm_hash (snd (DelWorker wid i fm))"
  by (auto simp: fm_hash_def DelWorker_def fm_Load_def map_of_map)

subsection \<open>The contract of the table\<close>

locale worker_registry =
  fixes inv :: "'t \<Rightarrow> bool"
    and ws :: "'t \<Rightarrow> string \<Rightarrow> addr list"
    and wid :: "addr \<Rightarrow> string"
    and add :: "addr \<Rightarrow> string \<Rightarrow> 't \<Rightarrow> 't"
    and del :: "string \<Rightarrow> string \<Rightarrow> 't \<Rightarrow> 't"
    and clean :: "string \<Rightarrow> 't \<Rightarrow> 't"
  assumes add_inv: "inv t \<Longrightarrow> inv (add w n t)"
    and del_inv: "inv t \<Longrightarrow> inv (del i n t)"
    and clean_inv: "inv t \<Longrightarrow> inv (clean i t)"
    and ws_add: "n \<noteq> [] \<Longrightarrow> ws (add w n t) m = (if m = n then ws t n @ [w] else ws t m)"
    and ws_del: "inv t \<Longrightarrow>
      ws (del i n t) m = (if m = n then remove_first (\<lambda>w. wid w = i) (ws t n) else ws t m)"
    and ws_clean: "inv t \<Longrightarrow> ws (clean i t) m = remove_first (\<lambda>w. wid w = i) (ws t m)"
begin

text \<open>A worker that registers a function once and is then deregistered leaves no trace.\<close>

lemma add_del:
  assumes "inv t" "n \<noteq> []" "\<forall>v \<in> set (ws t n). wid v \<noteq> wid w"
  shows "ws (del (wid w) n (add w n t)) m = ws t m"
proof -
  have "remove_first (\<lambda>v. wid v = wid w) (xs @ [w]) = xs"
    if "\<forall>v \<in> set xs. wid v \<noteq> wid w" for xs
    using that by (induction xs) auto
  then show ?thesis using assms by (simp add: ws_del ws_add add_inv)
qed

text \<open>Cleaning up a worker removes it from every function, provided it is registered at
  most once per function, and keeps all the others in their order.\<close>

lemma clean_gone:
  assumes "inv t" "\<forall>n. length (filter (\<lambda>w. wid w = i) (ws t n)) \<le> 1"
    and "w \<in> set (ws (clean i t) n)"
  shows "wid w \<noteq> i"
  using assms remove_first_gone [of "\<lambda>w. wid w = i" "ws t n" w] by (simp add: ws_clean)

lemma clean_others:
  assumes "inv t"
  shows "filter (\<lambda>w. wid w \<noteq> i) (ws (clean i t) n) = filter (\<lambda>w. wid w \<noteq> i) (ws t n)"
  using assms by (simp add: ws_clean)

end

interpretation fr: worker_registry fm_inv workers_of wid
  "\<lambda>w n fm. snd (AddFunc (Some w) n fm)" "\<lambda>i n fm. snd (DelWorkerFunc wid i n fm)"
  "\<lambda>i fm. snd (CleanWorkerFunc wid i fm)" for wid
  by (unfold_locales; erule inv_intros AddFunc_workers DelWorkerFunc_workers CleanWorkerFunc_workers)

interpretation fd: worker_registry fm_inv workers_of wid
  "\<lambda>w n fm. snd (AddFunc (Some w) n fm)" "\<lambda>i n fm. snd (DelWorkerFunc wid i n fm)"
  "\<lambda>i fm. snd (DelWorker wid i fm)" for wid
  by (unfold_locales; erule inv_intros AddFunc_workers DelWorkerFunc_workers DelWorker_workers)

end
