(* ===== verification/Server_IO.thy ===== *)
theory Server_IO
  imports Model_Const
begin

section \<open>The server's packets (pkg/server/io.go)\<close>

text \<open>
  The server's \<^verbatim>\<open>Request\<close> (what a worker or client sends to the server) and \<^verbatim>\<open>Response\<close> (what
  the server sends), the packing of a response and the unpacking of a request. The
  lengths are \<^verbatim>\<open>uint32\<close>; their sums in the packing are sums of \<^verbatim>\<open>uint32\<close> values, which wrap
  around. The field \<^verbatim>\<open>ScInfo\<close> of the source is neither read nor written anywhere and is
  left out.

  The lemmas give the layout of the two kinds of response that carry data, as the
  concatenation of their fields, when the lengths fit; the result of unpacking each of
  the two kinds of request laid out the same way; and that nothing else is touched.
\<close>

subsection \<open>Definitions\<close>

record SRequest =
  rq_DataType :: u32
  rq_Data :: bytes
  rq_DataLen :: u32
  rq_Handle :: string
  rq_HandleLen :: u32
  rq_ParamsType :: u32
  rq_ParamsHandleType :: u32
  rq_ParamsLen :: u32
  rq_Params :: bytes
  rq_JobId :: string
  rq_JobIdLen :: u32
  rq_Ret :: bytes
  rq_RetLen :: u32

record SResponse =
  rs_DataType :: u32
  rs_Data :: bytes
  rs_DataLen :: u32
  rs_Handle :: string
  rs_HandleLen :: u32
  rs_ParamsType :: u32
  rs_ParamsHandleType :: u32
  rs_ParamsLen :: u32
  rs_Params :: bytes
  rs_JobId :: string
  rs_JobIdLen :: u32
  rs_Ret :: bytes
  rs_RetLen :: u32

definition server_NewReq :: SRequest where
  "server_NewReq = \<lparr>rq_DataType = 0, rq_Data = [], rq_DataLen = 0, rq_Handle = [],
     rq_HandleLen = 0, rq_ParamsType = 0, rq_ParamsHandleType = 0, rq_ParamsLen = 0,
     rq_Params = [], rq_JobId = [], rq_JobIdLen = 0, rq_Ret = [], rq_RetLen = 0\<rparr>"

definition server_NewRes :: SResponse where
  "server_NewRes = \<lparr>rs_DataType = 0, rs_Data = [], rs_DataLen = 0, rs_Handle = [],
     rs_HandleLen = 0, rs_ParamsType = 0, rs_ParamsHandleType = 0, rs_ParamsLen = 0,
     rs_Params = [], rs_JobId = [], rs_JobIdLen = 0, rs_Ret = [], rs_RetLen = 0\<rparr>"

definition GetReqDataType :: "SRequest \<Rightarrow> u32" where
  "GetReqDataType req = rq_DataType req"

definition GetResDataType :: "SResponse \<Rightarrow> u32" where
  "GetResDataType res = rs_DataType res"

definition GetReqData :: "SRequest \<Rightarrow> bytes" where
  "GetReqData req = (if rq_DataLen req = len32 (rq_Data req) then rq_Data req else [])"

definition GetResData :: "SResponse \<Rightarrow> bytes" where
  "GetResData res = (if rs_DataLen res = len32 (rs_Data res) then rs_Data res else [])"

text \<open>\<^verbatim>\<open>GetResContent\<close>: the content and its length. A slice expression with an open upper
  end goes to the length of the buffer.\<close>

definition GetResContent :: "SResponse \<Rightarrow> (bytes \<times> nat) option" where
  "GetResContent res =
    (if rs_DataType res = PDT_S_GET_DATA then do {
       let contentLen = unat (4 + 4 + 4 + rs_HandleLen res + 4 + rs_ParamsLen res + 4
                              + rs_JobIdLen res);
       let content = GetBuffer contentLen;
       content \<leftarrow> PutUint32 content 0 4 (rs_ParamsType res);
       content \<leftarrow> PutUint32 content 4 8 (rs_ParamsHandleType res);
       content \<leftarrow> PutUint32 content 8 12 (rs_HandleLen res);
       content \<leftarrow> PutUint32 content 12 16 (rs_ParamsLen res);
       content \<leftarrow> PutUint32 content 16 20 (rs_JobIdLen res);
       let e1 = 20 + unat (rs_HandleLen res);
       content \<leftarrow> copy_at content 20 e1 (gobytes (rs_Handle res));
       let e2 = e1 + unat (rs_ParamsLen res);
       content \<leftarrow> copy_at content e1 e2 (rs_Params res);
       content \<leftarrow> copy_at content e2 (length content) (gobytes (rs_JobId res));
       Some (content, contentLen)
     }
     else if rs_DataType res = PDT_S_RETURN_DATA then do {
       let contentLen = unat (4 + rs_HandleLen res + 4 + rs_ParamsLen res + 4 + rs_RetLen res);
       let content = GetBuffer contentLen;
       content \<leftarrow> PutUint32 content 0 4 (rs_HandleLen res);
       content \<leftarrow> PutUint32 content 4 8 (rs_ParamsLen res);
       content \<leftarrow> PutUint32 content 8 12 (rs_RetLen res);
       let e1 = 12 + unat (rs_HandleLen res);
       content \<leftarrow> copy_at content 12 e1 (gobytes (rs_Handle res));
       let e2 = e1 + unat (rs_ParamsLen res);
       content \<leftarrow> copy_at content e1 e2 (rs_Params res);
       content \<leftarrow> copy_at content e2 (length content) (rs_Ret res);
       Some (content, contentLen)
     }
     else Some ([], 0))"

text \<open>\<^verbatim>\<open>ReqDecodePack\<close> writes the decoded fields into the request.\<close>

definition decode_return_data :: "SRequest \<Rightarrow> SRequest option" where
  "decode_return_data req = (let data = rq_Data req in do {
     handleLen \<leftarrow> Uint32 data 0 4;
     let e = 4 + unat handleLen;
     h \<leftarrow> slice data 4 e;
     let handle = gocopy (GetBuffer (unat handleLen)) h;
     paramsLen \<leftarrow> Uint32 data e (e + 4);
     let s = e + 4;
     let e = s + unat paramsLen;
     p \<leftarrow> slice data s e;
     let params = gocopy (GetBuffer (unat paramsLen)) p;
     retLen \<leftarrow> Uint32 data e (e + 4);
     let s = e + 4;
     let e = s + unat retLen;
     r \<leftarrow> slice data s e;
     let ret = gocopy (GetBuffer (unat retLen)) r;
     jobIdLen \<leftarrow> Uint32 data e (e + 4);
     let s = e + 4;
     j \<leftarrow> slice data s (length data);
     let jobId = gocopy (GetBuffer (unat jobIdLen)) j;
     Some (req\<lparr>rq_HandleLen := handleLen, rq_Handle := gostring handle,
       rq_ParamsLen := paramsLen, rq_Params := params, rq_RetLen := retLen, rq_Ret := ret,
       rq_JobIdLen := jobIdLen, rq_JobId := gostring jobId\<rparr>)
   })"

definition decode_do_job :: "SRequest \<Rightarrow> SRequest option" where
  "decode_do_job req = (let data = rq_Data req in do {
     paramsType \<leftarrow> Uint32 data 0 4;
     paramsHandleType \<leftarrow> Uint32 data 4 8;
     handleLen \<leftarrow> Uint32 data 8 12;
     let e = 12 + unat handleLen;
     h \<leftarrow> slice data 12 e;
     let handle = gocopy (GetBuffer (unat handleLen)) h;
     paramsLen \<leftarrow> Uint32 data e (e + 4);
     let s = e + 4;
     p \<leftarrow> slice data s (length data);
     let params = gocopy (GetBuffer (unat paramsLen)) p;
     Some (req\<lparr>rq_ParamsType := paramsType, rq_ParamsHandleType := paramsHandleType,
       rq_HandleLen := handleLen, rq_Handle := gostring handle,
       rq_ParamsLen := paramsLen, rq_Params := params\<rparr>)
   })"

definition ReqDecodePack :: "SRequest \<Rightarrow> SRequest option" where
  "ReqDecodePack req =
    (if rq_DataLen req > 0 \<and> length (rq_Data req) > 0 \<and> rq_DataLen req = len32 (rq_Data req)
     then if rq_DataType req = PDT_W_RETURN_DATA then decode_return_data req
          else if rq_DataType req = PDT_C_DO_JOB then decode_do_job req
          else Some req
     else Some req)"

text \<open>\<^verbatim>\<open>ResEncodePack\<close>: the packet and the response with \<^verbatim>\<open>DataLen\<close> and \<^verbatim>\<open>Data\<close> set.\<close>

definition ResEncodePack :: "SResponse \<Rightarrow> (SResponse \<times> bytes) option" where
  "ResEncodePack res = do {
     (content, contentLen) \<leftarrow> GetResContent res;
     let resDataLen = MIN_DATA_SIZE + contentLen;
     let res = res\<lparr>rs_DataLen := word_of_nat resDataLen\<rparr>;
     let resData = GetBuffer resDataLen;
     resData \<leftarrow> PutUint32 resData 0 4 CONN_TYPE_SERVER;
     resData \<leftarrow> PutUint32 resData 4 8 (rs_DataType res);
     resData \<leftarrow> PutUint32 resData 8 12 (word_of_nat contentLen);
     if contentLen > 0 then do {
       resData \<leftarrow> copy_at resData MIN_DATA_SIZE (length resData) content;
       Some (res\<lparr>rs_Data := resData\<rparr>, resData)
     } else Some (res, resData)
   }"

subsection \<open>The layouts the packets should have\<close>

text \<open>\<open>res_sized\<close>: a response whose length fields are the lengths of its fields, as every
  response the server builds, and whose total length fits into the length word of the
  header. \<open>do_job_wf\<close> and \<open>return_data_wf\<close>: the length words that the decoder reads stay inside
  the payload.\<close>

definition res_sized :: "SResponse \<Rightarrow> bool" where
  "res_sized res \<longleftrightarrow>
     unat (rs_HandleLen res) = length (rs_Handle res) \<and>
     unat (rs_ParamsLen res) = length (rs_Params res) \<and>
     unat (rs_JobIdLen res) = length (rs_JobId res) \<and>
     unat (rs_RetLen res) = length (rs_Ret res) \<and>
     length (rs_Handle res) + length (rs_Params res) + length (rs_JobId res)
       + length (rs_Ret res) + 32 < 2 ^ 32"

definition header :: "u32 \<Rightarrow> u32 \<Rightarrow> bytes \<Rightarrow> bytes" where
  "header connType dataType content =
     be32 connType @ be32 dataType @ be32 (len32 content)"

definition get_data_content :: "SResponse \<Rightarrow> bytes" where
  "get_data_content res =
     be32 (rs_ParamsType res) @ be32 (rs_ParamsHandleType res) @ be32 (rs_HandleLen res)
     @ be32 (rs_ParamsLen res) @ be32 (rs_JobIdLen res) @ gobytes (rs_Handle res)
     @ rs_Params res @ gobytes (rs_JobId res)"

definition return_data_content :: "SResponse \<Rightarrow> bytes" where
  "return_data_content res =
     be32 (rs_HandleLen res) @ be32 (rs_ParamsLen res) @ be32 (rs_RetLen res)
     @ gobytes (rs_Handle res) @ rs_Params res @ rs_Ret res"

definition res_content :: "SResponse \<Rightarrow> bytes" where
  "res_content res =
     (if rs_DataType res = PDT_S_GET_DATA then get_data_content res
      else if rs_DataType res = PDT_S_RETURN_DATA then return_data_content res
      else [])"

definition packet :: "SResponse \<Rightarrow> bytes" where
  "packet res = header CONN_TYPE_SERVER (rs_DataType res) (res_content res) @ res_content res"

definition return_data_layout :: "string \<Rightarrow> bytes \<Rightarrow> bytes \<Rightarrow> string \<Rightarrow> bytes" where
  "return_data_layout handle params ret jobId =
     be32 (len32 handle) @ gobytes handle @ be32 (len32 params) @ params
     @ be32 (len32 ret) @ ret @ be32 (len32 jobId) @ gobytes jobId"

definition do_job_layout :: "u32 \<Rightarrow> u32 \<Rightarrow> string \<Rightarrow> bytes \<Rightarrow> bytes" where
  "do_job_layout paramsType paramsHandleType handle params =
     be32 paramsType @ be32 paramsHandleType @ be32 (len32 handle) @ gobytes handle
     @ be32 (len32 params) @ params"

definition u32_at :: "bytes \<Rightarrow> nat \<Rightarrow> nat" where
  "u32_at data s = unat (un32 (take 4 (drop s data)))"

definition do_job_wf :: "bytes \<Rightarrow> bool" where
  "do_job_wf data \<longleftrightarrow> 12 \<le> length data \<and> 16 + u32_at data 8 \<le> length data"

definition return_data_wf :: "bytes \<Rightarrow> bool" where
  "return_data_wf data \<longleftrightarrow>
     (let e1 = 4 + u32_at data 0; e2 = e1 + 4 + u32_at data e1; e3 = e2 + 4 + u32_at data e2
      in 4 \<le> length data \<and> e1 + 4 \<le> length data \<and> e2 + 4 \<le> length data \<and> e3 + 4 \<le> length data)"

subsection \<open>Layout of the packets\<close>

lemma length_header [simp]: "length (header c d x) = 12"
  by (simp add: header_def)

lemma length_res_content:
  assumes "res_sized res"
  shows "length (res_content res) < 2 ^ 32"
  using assms
  by (auto simp: res_content_def get_data_content_def return_data_content_def res_sized_def)

lemma GetResContent_get_data:
  assumes "res_sized res" "rs_DataType res = PDT_S_GET_DATA"
  shows "GetResContent res = Some (get_data_content res, length (get_data_content res))"
proof -
  let ?n = "20 + length (rs_Handle res) + length (rs_Params res) + length (rs_JobId res)"
  have len: "unat (4 + 4 + 4 + rs_HandleLen res + 4 + rs_ParamsLen res + 4 + rs_JobIdLen res)
      = ?n"
    using assms(1) by (simp add: res_sized_def unat_word_ariths)
  show ?thesis
    using assms
    unfolding GetResContent_def len
    by (simp add: fill_simps filled_full res_sized_def get_data_content_def Let_def)
qed

lemma GetResContent_return_data:
  assumes "res_sized res" "rs_DataType res = PDT_S_RETURN_DATA"
  shows "GetResContent res = Some (return_data_content res, length (return_data_content res))"
proof -
  let ?n = "12 + length (rs_Handle res) + length (rs_Params res) + length (rs_Ret res)"
  have len: "unat (4 + rs_HandleLen res + 4 + rs_ParamsLen res + 4 + rs_RetLen res) = ?n"
    using assms(1) by (simp add: res_sized_def unat_word_ariths)
  show ?thesis
    using assms
    unfolding GetResContent_def len
    by (simp add: fill_simps filled_full res_sized_def return_data_content_def Let_def)
qed

lemma GetResContent_eq:
  assumes "res_sized res"
  shows "GetResContent res = Some (res_content res, length (res_content res))"
proof (cases "rs_DataType res = PDT_S_GET_DATA \<or> rs_DataType res = PDT_S_RETURN_DATA")
  case True
  then show ?thesis
    using assms GetResContent_get_data GetResContent_return_data
    by (auto simp: res_content_def)
next
  case False
  then show ?thesis by (simp add: GetResContent_def res_content_def)
qed

lemma ResEncodePack_eq:
  assumes "res_sized res"
  shows "ResEncodePack res =
    Some (res\<lparr>rs_DataLen := word_of_nat (length (packet res)),
              rs_Data := (if res_content res = [] then rs_Data res else packet res)\<rparr>,
          packet res)"
  using assms
  by (simp add: ResEncodePack_def GetResContent_eq fill_simps filled_full packet_def header_def
      Let_def)

text \<open>A response of a type without content never panics, whatever its fields hold.\<close>

lemma ResEncodePack_plain:
  assumes "rs_DataType res \<noteq> PDT_S_GET_DATA" "rs_DataType res \<noteq> PDT_S_RETURN_DATA"
  shows "ResEncodePack res =
    Some (res\<lparr>rs_DataLen := 12\<rparr>, header CONN_TYPE_SERVER (rs_DataType res) [])"
  using assms
  by (simp add: ResEncodePack_def GetResContent_def fill_simps filled_full header_def Let_def)

lemma packet_plain:
  assumes "rs_DataType res \<noteq> PDT_S_GET_DATA" "rs_DataType res \<noteq> PDT_S_RETURN_DATA"
  shows "packet res = header CONN_TYPE_SERVER (rs_DataType res) []"
  using assms by (simp add: packet_def res_content_def)

subsection \<open>Decoding a request\<close>

lemma decode_return_data_layout:
  assumes "length handle < 2 ^ 32" "length params < 2 ^ 32" "length ret < 2 ^ 32"
    "length jobId < 2 ^ 32"
    and "rq_Data req = return_data_layout handle params ret jobId"
  shows "decode_return_data req = Some (req\<lparr>
    rq_HandleLen := len32 handle, rq_Handle := handle,
    rq_ParamsLen := len32 params, rq_Params := params,
    rq_RetLen := len32 ret, rq_Ret := ret,
    rq_JobIdLen := len32 jobId, rq_JobId := jobId\<rparr>)"
  using assms
  by (simp add: decode_return_data_def return_data_layout_def Let_def Uint32_def slice_def
      unat_len32)

lemma decode_do_job_layout:
  assumes "length handle < 2 ^ 32" "length params < 2 ^ 32"
    and "rq_Data req = do_job_layout paramsType paramsHandleType handle params"
  shows "decode_do_job req = Some (req\<lparr>
    rq_ParamsType := paramsType, rq_ParamsHandleType := paramsHandleType,
    rq_HandleLen := len32 handle, rq_Handle := handle,
    rq_ParamsLen := len32 params, rq_Params := params\<rparr>)"
  using assms
  by (simp add: decode_do_job_def do_job_layout_def Let_def Uint32_def slice_def unat_len32)

text \<open>Exactly which payloads the decoder survives.\<close>

lemma Uint32_eq: "Uint32 data s (s + 4) =
    (if s + 4 \<le> length data then Some (un32 (take 4 (drop s data))) else None)"
  by (simp add: Uint32_def slice_def)

lemma Uint32_eq_numeral:
  "Uint32 data 0 4 = (if 4 \<le> length data then Some (un32 (take 4 data)) else None)"
  "Uint32 data 4 8 = (if 8 \<le> length data then Some (un32 (take 4 (drop 4 data))) else None)"
  "Uint32 data 8 12 = (if 12 \<le> length data then Some (un32 (take 4 (drop 8 data))) else None)"
  using Uint32_eq [of data 0] Uint32_eq [of data 4] Uint32_eq [of data 8] by simp_all

lemma u32_at_0: "u32_at data 0 = unat (un32 (take 4 data))"
  by (simp add: u32_at_def)

lemma decode_do_job_None: "decode_do_job req = None \<longleftrightarrow> \<not> do_job_wf (rq_Data req)"
  by (simp add: decode_do_job_def do_job_wf_def Let_def Uint32_eq Uint32_eq_numeral slice_def
      u32_at_def Option.bind_eq_None_conv)

lemma decode_return_data_None:
  "decode_return_data req = None \<longleftrightarrow> \<not> return_data_wf (rq_Data req)"
proof -
  let ?d = "rq_Data req"
  define a where "a = un32 (take 4 ?d)"
  define b where "b = un32 (take 4 (drop (4 + unat a) ?d))"
  define c where "c = un32 (take 4 (drop (8 + unat a + unat b) ?d))"
  define j where "j = un32 (take 4 (drop (12 + unat a + unat b + unat c) ?d))"
  have u: "Uint32 ?d 0 4 = (if 4 \<le> length ?d then Some a else None)"
    "Uint32 ?d (4 + unat a) (8 + unat a) = (if 8 + unat a \<le> length ?d then Some b else None)"
    "Uint32 ?d (8 + (unat a + unat b)) (12 + (unat a + unat b))
      = (if 12 + unat a + unat b \<le> length ?d then Some c else None)"
    "Uint32 ?d (12 + (unat a + (unat b + unat c))) (16 + (unat a + (unat b + unat c)))
      = (if 16 + unat a + unat b + unat c \<le> length ?d then Some j else None)"
    by (simp_all add: Uint32_def slice_def a_def b_def c_def j_def add.assoc)
  have wf: "return_data_wf ?d \<longleftrightarrow> 4 \<le> length ?d \<and> 8 + unat a \<le> length ?d
      \<and> 12 + unat a + unat b \<le> length ?d \<and> 16 + unat a + unat b + unat c \<le> length ?d"
    by (simp add: return_data_wf_def u32_at_def Let_def a_def b_def c_def add.assoc
        add.left_commute)
  show ?thesis
    unfolding wf
    by (simp add: decode_return_data_def Let_def u slice_def Option.bind_eq_None_conv add.assoc)
qed

lemma ReqDecodePack_None:
  "ReqDecodePack req = None \<longleftrightarrow>
     rq_Data req \<noteq> [] \<and> rq_DataLen req = len32 (rq_Data req) \<and> rq_DataLen req \<noteq> 0 \<and>
     (rq_DataType req = PDT_W_RETURN_DATA \<and> \<not> return_data_wf (rq_Data req) \<or>
      rq_DataType req = PDT_C_DO_JOB \<and> \<not> do_job_wf (rq_Data req))"
  by (auto simp: ReqDecodePack_def decode_do_job_None decode_return_data_None word_gt_0)

text \<open>Whatever is decoded, the three raw fields of the request stay as they were.\<close>

lemma ReqDecodePack_frame:
  assumes "ReqDecodePack req = Some req'"
  shows "rq_DataType req' = rq_DataType req" "rq_Data req' = rq_Data req"
    "rq_DataLen req' = rq_DataLen req"
  using assms
  by (auto simp: ReqDecodePack_def decode_do_job_def decode_return_data_def Let_def
      Option.bind_eq_Some_conv split: if_splits)

end
