(* ===== verification/Job_Data_List.thy ===== *)
theory Job_Data_List
  imports Server_IO
begin

section \<open>Jobs and the lists of jobs (pkg/server/joblist.go)\<close>

text \<open>
  \<^verbatim>\<open>JobData\<close>, and \<^verbatim>\<open>JobDataList\<close> over \<^verbatim>\<open>container/list\<close>. A list holds pointers to jobs; the
  parameter \<open>jd\<close> is the store behind them. The fields \<^verbatim>\<open>Sw8\<close> and \<^verbatim>\<open>Sw8Len\<close> are never used.
  \<^verbatim>\<open>HTTPClientR\<close> is the flag whether the pointer is non-nil. The fresh id of a job (from the
  uuid package) and the time are arguments of \<^verbatim>\<open>NewJobData\<close>.

  \<^verbatim>\<open>list.Remove\<close> clears the links of the element it removes, so that \<^verbatim>\<open>Next\<close> of a removed
  element is nil: the loop of \<^verbatim>\<open>DelJobDataStats\<close> is modelled with that behaviour.

  The lemmas: the four push and pop operations form a double-ended queue (locale \<open>deque\<close>),
  and what each deletion and lookup returns.
\<close>

subsection \<open>Definitions\<close>

record JobData =
  jd_JobId :: string
  jd_ClientId :: string
  jd_Client :: "addr option"
  jd_HTTPClientR :: bool
  jd_WorkerId :: string
  jd_status :: u32
  jd_FuncName :: string
  jd_ParamsType :: u32
  jd_ParamsHandleType :: u32
  jd_Params :: bytes
  jd_RetData :: bytes
  jd_BeginDuring :: nat
  jd_Response :: "SResponse option"

record JobDataList =
  JList :: "addr list"

definition NewJobData :: "string \<Rightarrow> nat \<Rightarrow> JobData" where
  "NewJobData uuid now =
    \<lparr>jd_JobId = uuid, jd_ClientId = [], jd_Client = None, jd_HTTPClientR = False,
     jd_WorkerId = [], jd_status = JOB_STATUS_INIT, jd_FuncName = [], jd_ParamsType = 0,
     jd_ParamsHandleType = 0, jd_Params = [], jd_RetData = [], jd_BeginDuring = now,
     jd_Response = None\<rparr>"

definition NewJobDataList :: JobDataList where
  "NewJobDataList = \<lparr>JList = []\<rparr>"

definition SetJobDataClient :: "string \<Rightarrow> JobData \<Rightarrow> JobData" where
  "SetJobDataClient i data = data\<lparr>jd_ClientId := i\<rparr>"

definition SetJobDataWorker :: "string \<Rightarrow> JobData \<Rightarrow> JobData" where
  "SetJobDataWorker i data = data\<lparr>jd_WorkerId := i\<rparr>"

definition JobDataList_GetJobNum :: "JobDataList \<Rightarrow> nat" where
  "JobDataList_GetJobNum jlist = length (JList jlist)"

definition PushJobData :: "addr option \<Rightarrow> JobDataList \<Rightarrow> bool \<times> JobDataList" where
  "PushJobData data jlist = (case data of
     None \<Rightarrow> (False, jlist)
   | Some d \<Rightarrow> (True, jlist\<lparr>JList := JList jlist @ [d]\<rparr>))"

definition PopJobData :: "JobDataList \<Rightarrow> addr option \<times> JobDataList" where
  "PopJobData jlist = (if JList jlist = [] then (None, jlist)
     else (Some (last (JList jlist)), jlist\<lparr>JList := butlast (JList jlist)\<rparr>))"

definition UnShiftJobData :: "addr option \<Rightarrow> JobDataList \<Rightarrow> bool \<times> JobDataList" where
  "UnShiftJobData data jlist = (case data of
     None \<Rightarrow> (False, jlist)
   | Some d \<Rightarrow> (True, jlist\<lparr>JList := d # JList jlist\<rparr>))"

definition ShiftJobData :: "JobDataList \<Rightarrow> addr option \<times> JobDataList" where
  "ShiftJobData jlist = (case JList jlist of
     [] \<Rightarrow> (None, jlist)
   | d # ds \<Rightarrow> (Some d, jlist\<lparr>JList := ds\<rparr>))"

text \<open>An element is at a position of the list or, after \<^verbatim>\<open>Remove\<close>, in no list.\<close>

definition list_Front :: "'a list \<Rightarrow> nat option" where
  "list_Front xs = (if xs = [] then None else Some 0)"

definition list_Next :: "nat option \<Rightarrow> 'a list \<Rightarrow> nat option" where
  "list_Next e xs = (case e of
     None \<Rightarrow> None
   | Some k \<Rightarrow> if Suc k < length xs then Some (Suc k) else None)"

definition list_Remove :: "nat \<Rightarrow> 'a list \<Rightarrow> 'a list" where
  "list_Remove k xs = take k xs @ drop (Suc k) xs"

text \<open>The position of an element after it was removed: it is in no list.\<close>

definition removed :: "nat option" where
  "removed = None"

function DelJobData_loop ::
  "(addr \<Rightarrow> JobData) \<Rightarrow> string \<Rightarrow> nat option \<Rightarrow> addr list \<Rightarrow> bool \<times> addr list" where
  "DelJobData_loop jd jobId None xs = (False, xs)"
| "DelJobData_loop jd jobId (Some k) xs =
    (if \<not> k < length xs then (False, xs)
     else if jd_JobId (jd (xs ! k)) = jobId then (True, list_Remove k xs)
     else DelJobData_loop jd jobId (list_Next (Some k) xs) xs)"
  by pat_completeness auto
termination
  by (relation "measure (\<lambda>(jd, jobId, e, xs). case e of None \<Rightarrow> 0 | Some k \<Rightarrow> Suc (length xs) - k)")
    (auto simp: list_Next_def)

definition DelJobData :: "(addr \<Rightarrow> JobData) \<Rightarrow> string \<Rightarrow> JobDataList \<Rightarrow> bool \<times> JobDataList" where
  "DelJobData jd jobId jlist =
    (let (r, xs) = DelJobData_loop jd jobId (list_Front (JList jlist)) (JList jlist)
     in (r, jlist\<lparr>JList := xs\<rparr>))"

function DelJobDataStats_loop ::
  "(addr \<Rightarrow> JobData) \<Rightarrow> u32 \<Rightarrow> nat option \<Rightarrow> addr list \<Rightarrow> nat \<Rightarrow> nat \<times> addr list" where
  "DelJobDataStats_loop jd st None xs delNum = (delNum, xs)"
| "DelJobDataStats_loop jd st (Some k) xs delNum =
    (if \<not> k < length xs then (delNum, xs)
     else if jd_status (jd (xs ! k)) = st
     then let xs = list_Remove k xs
          in DelJobDataStats_loop jd st (list_Next removed xs) xs (delNum + 1)
     else DelJobDataStats_loop jd st (list_Next (Some k) xs) xs delNum)"
  by pat_completeness auto
termination
  by (relation "measure (\<lambda>(jd, st, e, xs, n). case e of None \<Rightarrow> 0 | Some k \<Rightarrow> Suc (length xs) - k)")
    (auto simp: list_Next_def removed_def)

definition DelJobDataStats ::
  "(addr \<Rightarrow> JobData) \<Rightarrow> u32 \<Rightarrow> JobDataList \<Rightarrow> nat \<times> JobDataList" where
  "DelJobDataStats jd st jlist =
    (let (n, xs) = DelJobDataStats_loop jd st (list_Front (JList jlist)) (JList jlist) 0
     in (n, jlist\<lparr>JList := xs\<rparr>))"

function GetJobData_loop ::
  "(addr \<Rightarrow> JobData) \<Rightarrow> string \<Rightarrow> nat option \<Rightarrow> addr list \<Rightarrow> addr option" where
  "GetJobData_loop jd jobId None xs = None"
| "GetJobData_loop jd jobId (Some k) xs =
    (if \<not> k < length xs then None
     else if jd_JobId (jd (xs ! k)) = jobId then Some (xs ! k)
     else GetJobData_loop jd jobId (list_Next (Some k) xs) xs)"
  by pat_completeness auto
termination
  by (relation "measure (\<lambda>(jd, jobId, e, xs). case e of None \<Rightarrow> 0 | Some k \<Rightarrow> Suc (length xs) - k)")
    (auto simp: list_Next_def)

definition GetJobData :: "(addr \<Rightarrow> JobData) \<Rightarrow> string \<Rightarrow> JobDataList \<Rightarrow> addr option" where
  "GetJobData jd jobId jlist = GetJobData_loop jd jobId (list_Front (JList jlist)) (JList jlist)"

subsection \<open>Deletion and lookup\<close>

lemma list_Front_drop: "list_Front (drop k xs) = (if k < length xs then Some 0 else None)"
  by (simp add: list_Front_def)

lemma DelJobData_loop_eq:
  "DelJobData_loop jd i (if k < length xs then Some k else None) xs
   = (\<exists>d \<in> set (drop k xs). jd_JobId (jd d) = i,
      take k xs @ remove_first (\<lambda>d. jd_JobId (jd d) = i) (drop k xs))"
proof (induction "length xs - k" arbitrary: k)
  case (Suc n)
  then have k: "k < length xs" by simp
  then have d: "drop k xs = xs ! k # drop (Suc k) xs" by (simp add: Cons_nth_drop_Suc)
  have "n = length xs - Suc k" using Suc.hyps(2) by simp
  note IH = Suc.hyps(1) [OF this]
  show ?case
    using IH k
    by (auto simp: d list_Remove_def list_Next_def take_Suc_conv_app_nth simp del: append_take_drop_id)
qed simp

lemma DelJobData_eq:
  "DelJobData jd i jlist
   = (\<exists>d \<in> set (JList jlist). jd_JobId (jd d) = i,
      jlist\<lparr>JList := remove_first (\<lambda>d. jd_JobId (jd d) = i) (JList jlist)\<rparr>)"
  using DelJobData_loop_eq [of jd i 0 "JList jlist"]
  by (cases "JList jlist") (simp_all add: DelJobData_def list_Front_def del: DelJobData_loop.simps(2))

lemma DelJobDataStats_loop_eq:
  "DelJobDataStats_loop jd st (if k < length xs then Some k else None) xs c
   = (c + (if \<exists>d \<in> set (drop k xs). jd_status (jd d) = st then 1 else 0),
      take k xs @ remove_first (\<lambda>d. jd_status (jd d) = st) (drop k xs))"
proof (induction "length xs - k" arbitrary: k)
  case (Suc n)
  then have k: "k < length xs" by simp
  then have d: "drop k xs = xs ! k # drop (Suc k) xs" by (simp add: Cons_nth_drop_Suc)
  have "n = length xs - Suc k" using Suc.hyps(2) by simp
  note IH = Suc.hyps(1) [OF this]
  show ?case
    using IH k
    by (auto simp: d list_Remove_def list_Next_def removed_def take_Suc_conv_app_nth
        simp del: append_take_drop_id)
qed simp

text \<open>At most one job is deleted, whatever the number of jobs with the status.\<close>

lemma DelJobDataStats_eq:
  "DelJobDataStats jd st jlist
   = ((if \<exists>d \<in> set (JList jlist). jd_status (jd d) = st then 1 else 0),
      jlist\<lparr>JList := remove_first (\<lambda>d. jd_status (jd d) = st) (JList jlist)\<rparr>)"
  using DelJobDataStats_loop_eq [of jd st 0 "JList jlist" 0]
  by (cases "JList jlist")
    (simp_all add: DelJobDataStats_def list_Front_def del: DelJobDataStats_loop.simps(2))

lemma GetJobData_loop_eq:
  "GetJobData_loop jd i (if k < length xs then Some k else None) xs
   = find (\<lambda>d. jd_JobId (jd d) = i) (drop k xs)"
proof (induction "length xs - k" arbitrary: k)
  case (Suc n)
  then have k: "k < length xs" by simp
  then have d: "drop k xs = xs ! k # drop (Suc k) xs" by (simp add: Cons_nth_drop_Suc)
  have "n = length xs - Suc k" using Suc.hyps(2) by simp
  note IH = Suc.hyps(1) [OF this]
  show ?case using IH k by (auto simp: d list_Next_def)
qed simp

lemma GetJobData_eq:
  "GetJobData jd i jlist = find (\<lambda>d. jd_JobId (jd d) = i) (JList jlist)"
  using GetJobData_loop_eq [of jd i 0 "JList jlist"]
  by (cases "JList jlist") (simp_all add: GetJobData_def list_Front_def del: GetJobData_loop.simps(2))

text \<open>After a deletion the job is gone, when ids are unique.\<close>

lemma GetJobData_after_DelJobData:
  assumes "distinct (map (\<lambda>d. jd_JobId (jd d)) (JList jlist))"
  shows "GetJobData jd i (snd (DelJobData jd i jlist)) = None"
proof -
  have "length (filter (\<lambda>d. jd_JobId (jd d) = i) xs) \<le> 1"
    if "distinct (map (\<lambda>d. jd_JobId (jd d)) xs)" for xs
    using that by (induction xs) (force simp: filter_empty_conv image_iff)+
  from this [OF assms]
  have "\<not> jd_JobId (jd d) = i"
    if "d \<in> set (remove_first (\<lambda>d. jd_JobId (jd d) = i) (JList jlist))" for d
    using that by (rule remove_first_gone)
  then have "find (\<lambda>d. jd_JobId (jd d) = i)
      (remove_first (\<lambda>d. jd_JobId (jd d) = i) (JList jlist)) = None"
    unfolding find_None_iff by blast
  then show ?thesis by (simp add: GetJobData_eq DelJobData_eq)
qed

subsection \<open>The double-ended queue\<close>

locale deque =
  fixes items :: "'q \<Rightarrow> 'a list"
    and push_back :: "'a \<Rightarrow> 'q \<Rightarrow> 'q"
    and push_front :: "'a \<Rightarrow> 'q \<Rightarrow> 'q"
    and pop_back :: "'q \<Rightarrow> 'a option \<times> 'q"
    and pop_front :: "'q \<Rightarrow> 'a option \<times> 'q"
  assumes items_push_back: "items (push_back x q) = items q @ [x]"
    and items_push_front: "items (push_front x q) = x # items q"
    and pop_back_empty: "items q = [] \<Longrightarrow> pop_back q = (None, q)"
    and pop_front_empty: "items q = [] \<Longrightarrow> pop_front q = (None, q)"
    and pop_back_snoc: "items q = xs @ [x] \<Longrightarrow> fst (pop_back q) = Some x \<and> items (snd (pop_back q)) = xs"
    and pop_front_Cons: "items q = x # xs \<Longrightarrow> fst (pop_front q) = Some x \<and> items (snd (pop_front q)) = xs"
begin

text \<open>Pushed at the back and taken at the back: last in, first out. Pushed at the back and
  taken at the front: first in, first out.\<close>

lemma lifo: "fst (pop_back (push_back x q)) = Some x \<and> items (snd (pop_back (push_back x q))) = items q"
  by (rule pop_back_snoc) (rule items_push_back)

lemma items_fold_push: "items (fold push_back xs q) = items q @ xs"
  by (induction xs arbitrary: q) (auto simp: items_push_back)

lemma fifo_front:
  assumes "items q = []"
  shows "fst (pop_front (fold push_back (x # xs) q)) = Some x \<and>
    items (snd (pop_front (fold push_back (x # xs) q))) = xs"
  by (rule pop_front_Cons) (simp add: items_fold_push items_push_back assms)

end

interpretation jq: deque JList "\<lambda>x q. snd (PushJobData (Some x) q)"
  "\<lambda>x q. snd (UnShiftJobData (Some x) q)" PopJobData ShiftJobData
  by unfold_locales (auto simp: PushJobData_def UnShiftJobData_def PopJobData_def ShiftJobData_def)

end
