(* ===== verification/Frame_IO.thy ===== *)
theory Frame_IO
  imports Server_IO
begin

section \<open>Reading frames from a connection\<close>

text \<open>
  The three frame readers: \<^verbatim>\<open>Connect.ReadFrame\<close> of the server (pkg/server/connect.go),
  \<^verbatim>\<open>Client.ReadFrame\<close> (pkg/client/client.go) and \<^verbatim>\<open>Agent.ReadFrame\<close> (pkg/worker/agent.go).
  Each takes whether the connection is nil and the input of the connection, and returns
  the frame or an error together with what is left of the input.

  The interface of a framed connection is the locale \<open>framing\<close>: an encoder, a reader,
  and the law that the reader returns exactly the frame that was written and leaves the
  rest of the input. Inside it, a sequence of frames written one after the other is read
  back as the same sequence. The three readers are interpretations.
\<close>

subsection \<open>Definitions\<close>

datatype frame_error = ConnNil | IoErr io_error | InvalidConnType u32 | InvalidFrameSize nat

definition server_ReadFrame ::
  "bool \<Rightarrow> input \<Rightarrow> (frame_error + u32 \<times> u32 \<times> bytes) \<times> input" where
  "server_ReadFrame connNil i =
    (if connNil then (Inl ConnNil, i)
     else case ReadFull MIN_DATA_SIZE i of
       (Inl err, i') \<Rightarrow> (Inl (IoErr err), i')
     | (Inr hdr, i') \<Rightarrow>
         let connType = un32 (take 4 hdr);
             dataType = un32 (take 4 (drop 4 hdr));
             dataLen = unat (un32 (take 4 (drop 8 hdr)))
         in if connType \<noteq> CONN_TYPE_WORKER \<and> connType \<noteq> CONN_TYPE_CLIENT
               \<and> connType \<noteq> CONN_TYPE_SERVICE
            then (Inl (InvalidConnType connType), i')
            else if dataLen > maxFrameSize then (Inl (InvalidFrameSize dataLen), i')
            else if dataLen = 0 then (Inr (connType, dataType, []), i')
            else case ReadFull dataLen i' of
              (Inl err, i'') \<Rightarrow> (Inl (IoErr err), i'')
            | (Inr payload, i'') \<Rightarrow> (Inr (connType, dataType, payload), i''))"

definition client_ReadFrame :: "bool \<Rightarrow> input \<Rightarrow> (frame_error + bytes) \<times> input" where
  "client_ReadFrame connNil i =
    (if connNil then (Inl ConnNil, i)
     else case ReadFull MIN_DATA_SIZE i of
       (Inl err, i') \<Rightarrow> (Inl (IoErr err), i')
     | (Inr hdr, i') \<Rightarrow>
         let connType = un32 (take 4 hdr);
             contentLen = unat (un32 (take 4 (drop 8 hdr)))
         in if connType \<noteq> CONN_TYPE_SERVER then (Inl (InvalidConnType connType), i')
            else if contentLen > maxFrameSize then (Inl (InvalidFrameSize contentLen), i')
            else let data = hdr @ GetBuffer contentLen in
              if contentLen > 0 then
                case ReadFull contentLen i' of
                  (Inl err, i'') \<Rightarrow> (Inl (IoErr err), i'')
                | (Inr rest, i'') \<Rightarrow> (Inr (take MIN_DATA_SIZE data @ rest), i'')
              else (Inr data, i'))"

definition agent_ReadFrame :: "bool \<Rightarrow> input \<Rightarrow> (frame_error + bytes) \<times> input" where
  "agent_ReadFrame connNil i =
    (if connNil then (Inl ConnNil, i)
     else case ReadFull MIN_DATA_SIZE i of
       (Inl err, i') \<Rightarrow> (Inl (IoErr err), i')
     | (Inr hdr, i') \<Rightarrow>
         let connType = un32 (take 4 hdr) in
         if connType \<noteq> CONN_TYPE_SERVER then (Inl (InvalidConnType connType), i')
         else let contentLen = unat (un32 (take 4 (drop 8 hdr))) in
           if contentLen > maxFrameSize then (Inl (InvalidFrameSize contentLen), i')
           else let data = hdr @ GetBuffer contentLen in
             if contentLen > 0 then
               case ReadFull contentLen i' of
                 (Inl err, i'') \<Rightarrow> (Inl (IoErr err), i'')
               | (Inr rest, i'') \<Rightarrow> (Inr (take MIN_DATA_SIZE data @ rest), i'')
             else (Inr data, i'))"

text \<open>The bytes of a frame, and the frames a reader accepts.\<close>

definition frame_bytes :: "u32 \<times> u32 \<times> bytes \<Rightarrow> bytes" where
  "frame_bytes f = (case f of (ct, dt, payload) \<Rightarrow> header ct dt payload @ payload)"

definition server_frame_ok :: "u32 \<times> u32 \<times> bytes \<Rightarrow> bool" where
  "server_frame_ok f = (case f of (ct, dt, payload) \<Rightarrow>
     ct \<in> {CONN_TYPE_WORKER, CONN_TYPE_CLIENT, CONN_TYPE_SERVICE}
     \<and> length payload \<le> maxFrameSize)"

definition peer_frame_ok :: "bytes \<Rightarrow> bool" where
  "peer_frame_ok b \<longleftrightarrow> 12 \<le> length b \<and> take 4 b = be32 CONN_TYPE_SERVER
     \<and> take 4 (drop 8 b) = be32 (len32 (drop 12 b)) \<and> length (drop 12 b) \<le> maxFrameSize"

text \<open>Reading a given number of frames, up to the first error.\<close>

fun read_many :: "(input \<Rightarrow> ('e + 'm) \<times> input) \<Rightarrow> nat \<Rightarrow> input \<Rightarrow> ('e + 'm list) \<times> input" where
  "read_many rd 0 i = (Inr [], i)"
| "read_many rd (Suc n) i = (case rd i of
     (Inl e, i') \<Rightarrow> (Inl e, i')
   | (Inr m, i') \<Rightarrow> (case read_many rd n i' of
       (Inl e, i'') \<Rightarrow> (Inl e, i'')
     | (Inr ms, i'') \<Rightarrow> (Inr (m # ms), i'')))"

subsection \<open>Framed connections\<close>

locale framing =
  fixes enc :: "'m \<Rightarrow> bytes"
    and rd :: "input \<Rightarrow> ('e + 'm) \<times> input"
    and ok :: "'m \<Rightarrow> bool"
  assumes rd_enc: "ok m \<Longrightarrow> rd (map Byte (enc m) @ i) = (Inr m, i)"
begin

lemma read_many_enc:
  "\<forall>m \<in> set ms. ok m \<Longrightarrow>
   read_many rd (length ms) (map Byte (concat (map enc ms)) @ i) = (Inr ms, i)"
  by (induction ms) (auto simp: rd_enc)

end

lemma server_ReadFrame_header:
  assumes "server_frame_ok (ct, dt, payload)"
  shows "server_ReadFrame False (map Byte (header ct dt payload @ payload) @ i)
    = (Inr (ct, dt, payload), i)"
proof -
  have small: "length payload \<le> 33554432" and ct: "ct \<in> {2, 3, 4}"
    using assms by (auto simp: server_frame_ok_def)
  have rdh: "ReadFull 12 (map Byte (header ct dt payload) @ map Byte payload @ i)
      = (Inr (header ct dt payload), map Byte payload @ i)"
    using ReadFull_bytes [of 12 "header ct dt payload" "map Byte payload @ i"] by simp
  have len: "unat (len32 payload) = length payload"
    using small by (simp add: unat_len32)
  show ?thesis
    using ct small
    by (simp add: server_ReadFrame_def rdh Let_def) (auto simp: header_def len ReadFull_bytes)
qed

lemma peer_frame_split:
  assumes "peer_frame_ok b"
  obtains dt body where "b = be32 CONN_TYPE_SERVER @ dt @ be32 (len32 body) @ body"
    "length dt = 4" "length body \<le> maxFrameSize"
proof (rule that [of "take 4 (drop 4 b)" "drop 12 b"])
  have "b = take 4 b @ drop 4 b" by simp
  also have "drop 4 b = take 4 (drop 4 b) @ drop 8 b"
    using append_take_drop_id [of 4 "drop 4 b"] by simp
  also have "drop 8 b = take 4 (drop 8 b) @ drop 12 b"
    using append_take_drop_id [of 4 "drop 8 b"] by simp
  finally show "b = be32 CONN_TYPE_SERVER @ take 4 (drop 4 b) @ be32 (len32 (drop 12 b)) @ drop 12 b"
    using assms by (simp add: peer_frame_ok_def)
qed (use assms in \<open>auto simp: peer_frame_ok_def\<close>)

lemma peer_ReadFrame_enc:
  assumes "peer_frame_ok b"
  shows "client_ReadFrame False (map Byte b @ i) = (Inr b, i)"
    and "agent_ReadFrame False (map Byte b @ i) = (Inr b, i)"
proof -
  obtain dt body where b: "b = be32 CONN_TYPE_SERVER @ dt @ be32 (len32 body) @ body"
    and dt: "length dt = 4" and small: "length body \<le> maxFrameSize"
    using assms by (rule peer_frame_split)
  let ?h = "be32 CONN_TYPE_SERVER @ dt @ be32 (len32 body)"
  have rdh: "ReadFull 12 (map Byte b @ i) = (Inr ?h, map Byte body @ i)"
    using ReadFull_bytes [of 12 ?h "map Byte body @ i"] dt b by simp
  have len: "unat (len32 body) = length body"
    using small by (simp add: unat_len32)
  show "client_ReadFrame False (map Byte b @ i) = (Inr b, i)"
    using small dt
    by (simp add: client_ReadFrame_def rdh Let_def len ReadFull_bytes)
      (simp add: b GetBuffer_def)
  show "agent_ReadFrame False (map Byte b @ i) = (Inr b, i)"
    using small dt
    by (simp add: agent_ReadFrame_def rdh Let_def len ReadFull_bytes)
      (simp add: b GetBuffer_def)
qed

interpretation sf: framing frame_bytes "server_ReadFrame False" server_frame_ok
proof
  fix m :: "u32 \<times> u32 \<times> bytes" and i
  assume "server_frame_ok m"
  then show "server_ReadFrame False (map Byte (frame_bytes m) @ i) = (Inr m, i)"
    by (cases m) (simp only: frame_bytes_def server_ReadFrame_header split_conv)
qed

interpretation cf: framing id "client_ReadFrame False" peer_frame_ok
  by unfold_locales (simp add: peer_ReadFrame_enc)

interpretation af: framing id "agent_ReadFrame False" peer_frame_ok
  by unfold_locales (simp add: peer_ReadFrame_enc)

subsection \<open>Every frame that is read\<close>

text \<open>Whatever the peer sends, a frame that the server accepts is bounded, has one of the
  three connection types, and its bytes were all consumed; a frame that a peer accepts
  is one of those above. An end of the input is reported as an error, never as a frame.\<close>

lemma server_ReadFrame_sound:
  assumes "server_ReadFrame connNil i = (Inr f, i')"
  shows "server_frame_ok f" and "length i = length (frame_bytes f) + length i'"
  using assms
  by (auto simp: server_ReadFrame_def server_frame_ok_def frame_bytes_def Let_def
      split: if_splits prod.splits sum.splits dest!: ReadFull_Inr)

lemma peer_ReadFrame_sound:
  assumes "client_ReadFrame connNil i = (Inr b, i') \<or> agent_ReadFrame connNil i = (Inr b, i')"
  shows "12 \<le> length b" and "length b \<le> 12 + maxFrameSize" and "length i = length b + length i'"
  using assms
  by (auto simp: client_ReadFrame_def agent_ReadFrame_def Let_def
      split: if_splits prod.splits sum.splits dest!: ReadFull_Inr)

lemma ReadFrame_at_end:
  "server_ReadFrame False [] = (Inl (IoErr EOF), [])"
  "client_ReadFrame False [] = (Inl (IoErr EOF), [])"
  "agent_ReadFrame False [] = (Inl (IoErr EOF), [])"
  by (simp_all add: server_ReadFrame_def client_ReadFrame_def agent_ReadFrame_def ReadFull_empty)

text \<open>The packets that the three parties write are frames the other side accepts.\<close>

lemma packet_peer_frame_ok:
  assumes "length (res_content res) \<le> maxFrameSize"
  shows "peer_frame_ok (packet res)"
  using assms by (simp add: peer_frame_ok_def packet_def header_def)

end
