(* ===== verification/Go_Chan.thy ===== *)
theory Go_Chan
  imports Prelude
begin

section \<open>Buffered channels\<close>

text \<open>
  A buffered channel is the list of its elements, oldest first. The program uses channels
  through \<^verbatim>\<open>select\<close> with a default or a timeout only, so a send into a full channel and a
  receive from an empty one return at once with a failure.

  The locale \<open>bounded_fifo\<close> is the interface of a component that wraps a channel: what is
  received, in the order of receiving, followed by what is still queued, is what was
  queued at the start followed by what was accepted, for every sequence of operations.
\<close>

text \<open>The outcome of an operation that may wait on a channel, or poll for ever.\<close>

datatype 'a waiting = Got 'a | Waits | Spins

definition chan_send :: "nat \<Rightarrow> 'a \<Rightarrow> 'a list \<Rightarrow> bool \<times> 'a list" where
  "chan_send cap x q = (if length q < cap then (True, q @ [x]) else (False, q))"

definition chan_recv :: "'a list \<Rightarrow> 'a option \<times> 'a list" where
  "chan_recv q = (case q of [] \<Rightarrow> (None, []) | x # xs \<Rightarrow> (Some x, xs))"

datatype 'a chan_op = Send 'a | Recv

text \<open>Running a sequence of operations: what was accepted, what was received, the end.\<close>

fun run_ops ::
  "('a \<Rightarrow> 's \<Rightarrow> bool \<times> 's) \<Rightarrow> ('s \<Rightarrow> 'a option \<times> 's) \<Rightarrow> 'a chan_op list \<Rightarrow> 's
    \<Rightarrow> 'a list \<times> 'a list \<times> 's" where
  "run_ops send recv [] s = ([], [], s)"
| "run_ops send recv (Send x # ops) s =
     (let (ok, s) = send x s; (acc, rcv, s) = run_ops send recv ops s
      in (if ok then x # acc else acc, rcv, s))"
| "run_ops send recv (Recv # ops) s =
     (let (y, s) = recv s; (acc, rcv, s) = run_ops send recv ops s
      in (acc, (case y of None \<Rightarrow> rcv | Some v \<Rightarrow> v # rcv), s))"

locale bounded_fifo =
  fixes cap :: "'s \<Rightarrow> nat"
    and items :: "'s \<Rightarrow> 'a list"
    and send :: "'a \<Rightarrow> 's \<Rightarrow> bool \<times> 's"
    and recv :: "'s \<Rightarrow> 'a option \<times> 's"
  assumes send_cap: "cap (snd (send x s)) = cap s"
    and recv_cap: "cap (snd (recv s)) = cap s"
    and send_ok: "length (items s) < cap s \<Longrightarrow>
      fst (send x s) \<and> items (snd (send x s)) = items s @ [x]"
    and send_full: "\<not> length (items s) < cap s \<Longrightarrow>
      \<not> fst (send x s) \<and> items (snd (send x s)) = items s"
    and recv_empty: "items s = [] \<Longrightarrow> fst (recv s) = None \<and> items (snd (recv s)) = []"
    and recv_ok: "items s = y # ys \<Longrightarrow> fst (recv s) = Some y \<and> items (snd (recv s)) = ys"
begin

lemma send_items: "items (snd (send x s)) = items s @ (if fst (send x s) then [x] else [])"
  using send_ok [of s x] send_full [of s x] by auto

lemma recv_items: "(case fst (recv s) of None \<Rightarrow> [] | Some y \<Rightarrow> [y]) @ items (snd (recv s)) = items s"
  using recv_empty [of s] recv_ok [of s] by (cases "items s") auto

lemma send_bounded: "length (items s) \<le> cap s \<Longrightarrow> length (items (snd (send x s))) \<le> cap s"
  using send_ok [of s x] send_full [of s x] by (cases "length (items s) < cap s") auto

lemma recv_bounded: "length (items s) \<le> cap s \<Longrightarrow> length (items (snd (recv s))) \<le> cap s"
  using recv_empty [of s] recv_ok [of s] by (cases "items s") auto

lemma fifo:
  assumes "run_ops send recv ops s = (acc, rcv, s')"
  shows "rcv @ items s' = items s @ acc"
  using assms
proof (induction ops arbitrary: s acc rcv s')
  case (Cons op ops)
  show ?case
  proof (cases op)
    case (Send x)
    then show ?thesis
      using Cons.prems Cons.IH [of "snd (send x s)"]
      by (auto simp: split_beta Let_def send_items split: if_splits)
         (metis prod.collapse)+
  next
    case Recv
    obtain acc2 rcv2 s2 where r: "run_ops send recv ops (snd (recv s)) = (acc2, rcv2, s2)"
      by (metis prod.collapse)
    then have "rcv2 @ items s2 = items (snd (recv s)) @ acc2" by (rule Cons.IH)
    then show ?thesis
      using Cons.prems r recv_items [of s] Recv
      by (cases "fst (recv s)") (auto simp: split_beta Let_def)
  qed
qed simp

lemma bounded:
  assumes "run_ops send recv ops s = (acc, rcv, s')" "length (items s) \<le> cap s"
  shows "length (items s') \<le> cap s'"
  using assms
proof (induction ops arbitrary: s acc rcv)
  case (Cons op ops)
  then show ?case
    by (cases op)
      (auto simp: split_beta Let_def send_bounded recv_bounded send_cap recv_cap prod_eq_iff)
qed simp

end

interpretation gochan: bounded_fifo "\<lambda>_. cap" id "chan_send cap" chan_recv for cap
  by unfold_locales (auto simp: chan_send_def chan_recv_def)

end
