(* ===== verification/Go_Utf8.thy ===== *)
theory Go_Utf8
  imports Prelude
begin

section \<open>Strings that are UTF-8 (unicode/utf8 of the standard library)\<close>

text \<open>
  A Go string is any sequence of bytes. \<^verbatim>\<open>utf8.ValidString\<close> says whether it is UTF-8; Prometheus asks it of every
  label value and panics otherwise. The check runs over the bytes with the ranges of the continuation bytes that
  are still to come. The lemmas: ASCII strings, concatenations of valid strings and the encodings of code points are
  valid, and a string is not valid after a byte that starts nothing.
\<close>

text \<open>The ranges of the continuation bytes that a first byte above 127 asks for.\<close>

definition rune_tail :: "nat \<Rightarrow> (nat \<times> nat) list option" where
  "rune_tail b =
    (if 194 \<le> b \<and> b \<le> 223 then Some [(128, 191)]
     else if b = 224 then Some [(160, 191), (128, 191)]
     else if b = 237 then Some [(128, 159), (128, 191)]
     else if 225 \<le> b \<and> b \<le> 239 then Some [(128, 191), (128, 191)]
     else if b = 240 then Some [(144, 191), (128, 191), (128, 191)]
     else if 241 \<le> b \<and> b \<le> 243 then Some [(128, 191), (128, 191), (128, 191)]
     else if b = 244 then Some [(128, 143), (128, 191), (128, 191)]
     else None)"

fun utf8_run :: "(nat \<times> nat) list \<Rightarrow> nat list \<Rightarrow> bool" where
  "utf8_run [] [] = True"
| "utf8_run (r # rs) [] = False"
| "utf8_run [] (b # bs) = (if b < 128 then utf8_run [] bs
     else case rune_tail b of None \<Rightarrow> False | Some rs \<Rightarrow> utf8_run rs bs)"
| "utf8_run ((lo, hi) # rs) (b # bs) = (lo \<le> b \<and> b \<le> hi \<and> utf8_run rs bs)"

definition valid_utf8 :: "string \<Rightarrow> bool" where
  "valid_utf8 s = utf8_run [] (map of_char s)"

lemma valid_utf8_Nil [simp]: "valid_utf8 []"
  by (simp add: valid_utf8_def)

lemma valid_utf8_ascii [simp]: "(of_char c :: nat) < 128 \<Longrightarrow> valid_utf8 (c # s) = valid_utf8 s"
  by (simp add: valid_utf8_def)

lemma utf8_run_append: "utf8_run rs xs \<Longrightarrow> utf8_run [] ys \<Longrightarrow> utf8_run rs (xs @ ys)"
  by (induction rs xs rule: utf8_run.induct) (auto split: option.splits if_splits)

lemma valid_utf8_append: "valid_utf8 s \<Longrightarrow> valid_utf8 t \<Longrightarrow> valid_utf8 (s @ t)"
  by (simp add: valid_utf8_def utf8_run_append)

lemma utf8_run_stuck: "utf8_run rs xs \<Longrightarrow> 128 \<le> b \<Longrightarrow> rune_tail b = None \<Longrightarrow> \<not> utf8_run rs (xs @ b # ys)"
  by (induction rs xs rule: utf8_run.induct) (auto split: option.splits if_splits)

lemma valid_utf8_stuck: "\<not> valid_utf8 (s @ CHR 0xFF # t)" if "valid_utf8 s"
  using utf8_run_stuck [OF that [unfolded valid_utf8_def], of 255] by (simp add: valid_utf8_def rune_tail_def)

text \<open>The bytes of a code point.\<close>

definition encode_rune :: "nat \<Rightarrow> nat list" where
  "encode_rune c =
    (if c < 128 then [c]
     else if c < 2048 then [192 + c div 64, 128 + c mod 64]
     else if c < 65536 then [224 + c div 4096, 128 + c div 64 mod 64, 128 + c mod 64]
     else [240 + c div 262144, 128 + c div 4096 mod 64, 128 + c div 64 mod 64, 128 + c mod 64])"

lemma div_bounds: "0 < d \<Longrightarrow> (n::nat) \<le> c div d \<longleftrightarrow> n * d \<le> c" "0 < d \<Longrightarrow> c div d \<le> n \<longleftrightarrow> c < Suc n * d"
  using div_less_iff_less_mult [of d c "Suc n"] by (simp_all add: less_eq_div_iff_mult_less_eq less_Suc_eq_le)

lemma encode_rune_valid:
  assumes "c < 1114112" "c < 55296 \<or> 57344 \<le> c"
  shows "utf8_run [] (encode_rune c)"
proof -
  have m: "x mod 64 \<le> 63" for x :: nat by (simp add: less_Suc_eq_le [symmetric])
  consider "c < 128" | "128 \<le> c" "c < 2048" | "2048 \<le> c" "c < 65536" | "65536 \<le> c" by linarith
  then show ?thesis
  proof cases
    case 2
    then have "2 \<le> c div 64" "c div 64 \<le> 31" by (simp_all add: div_bounds)
    then show ?thesis using 2 m by (simp add: encode_rune_def rune_tail_def)
  next
    case 3
    then have h: "c div 4096 \<le> 15" by (simp add: div_bounds)
    have q: "c div 4096 = c div 64 div 64" by (simp add: div_mult2_eq [symmetric])
    have "c div 64 = 64 * (c div 4096) + c div 64 mod 64" unfolding q by simp
    moreover have "32 \<le> c div 64" using 3 by (simp add: div_bounds)
    ultimately have e0: "c div 4096 = 0 \<Longrightarrow> 32 \<le> c div 64 mod 64" by simp
    have ed: "c div 64 mod 64 \<le> 31" if "c div 4096 = 13"
    proof -
      have "c < 57344" using that div_bounds(2) [of 4096 c 13] by simp
      then have "c div 64 \<le> 863" using assms(2) by (simp add: div_bounds)
      then show ?thesis using that \<open>c div 64 = 64 * (c div 4096) + c div 64 mod 64\<close> by simp
    qed
    show ?thesis using 3 h e0 ed m by (auto simp: encode_rune_def rune_tail_def)
  next
    case 4
    have q: "c div 262144 = c div 4096 div 64" by (simp add: div_mult2_eq [symmetric])
    have s: "c div 4096 = 64 * (c div 262144) + c div 4096 mod 64" unfolding q by simp
    have "c div 262144 \<le> 4" "16 \<le> c div 4096" "c div 4096 \<le> 271" using 4 assms(1) by (simp_all add: div_bounds)
    then have "c div 262144 \<le> 4" "c div 262144 = 0 \<Longrightarrow> 16 \<le> c div 4096 mod 64" "c div 262144 = 4 \<Longrightarrow> c div 4096 mod 64 \<le> 15"
      using s by simp_all
    then show ?thesis using 4 m by (auto simp: encode_rune_def rune_tail_def)
  qed (simp add: encode_rune_def)
qed

end
