(* ===== verification/Server_State.thy ===== *)
theory Server_State
  imports Func_Map Job_Data_List Frame_IO Go_Chan Go_Utf8
begin

section \<open>The state of the server and the write side of a connection\<close>

text \<open>
  The objects of \<^verbatim>\<open>pkg/server\<close>: \<^verbatim>\<open>Connect\<close>, \<^verbatim>\<open>SWorker\<close>, \<^verbatim>\<open>SClient\<close>, \<^verbatim>\<open>ResultJob\<close>, the arguments of
  a dispatched job and of a routed result, and the whole server. Connections, workers and
  jobs are reached through several pointers and live in stores indexed by addresses; a
  client object is reached through its connection only and is a field of it.

  A connection also carries what the network sees of it: the input not yet read, the
  bytes written to the socket, and whether the socket was closed. \<^verbatim>\<open>Conn\<close> is the flag that
  the field is non-nil.

  The limiters of a worker and the timer of a client are created and stopped but never
  asked, and the unbuffered \<^verbatim>\<open>HttpResTag\<close> has no receiver: a send on it blocks its goroutine
  for ever, which \<open>s_Blocked\<close> counts. Prometheus counters are the log \<open>s_Metrics\<close>.

  This theory then has the operations of the write side: \<^verbatim>\<open>closeSignal\<close>, \<^verbatim>\<open>Write\<close> and one
  round of \<^verbatim>\<open>writeLoop\<close>, and the invariant of the pending byte counter.
\<close>

subsection \<open>Objects\<close>

record SClient =
  sc_ClientId :: string
  sc_Connect :: addr
  sc_Req :: SRequest
  sc_Res :: SResponse

record ResultJob =
  rj_JobId :: string
  rj_FuncName :: string
  rj_Request :: SRequest

record SWorker =
  sw_WorkerId :: string
  sw_WorkerName :: string
  sw_Connect :: addr
  sw_Weight :: nat
  sw_Jobs :: "string \<rightharpoonup> JobDataList"
  sw_JobChannels :: "string \<rightharpoonup> addr list"
  sw_Results :: "ResultJob list"
  sw_Sleep :: bool

record Connect =
  c_closed :: bool
  c_closeCh :: bool
  c_writeCh :: "bytes list"
  c_pendingBytes :: int
  c_maxPendingBytes :: int
  c_Id :: string
  c_Addr :: string
  c_Ip :: string
  c_Port :: string
  c_Conn :: bool
  c_ConnType :: u32
  c_RunWorker :: "addr option"
  c_RunClient :: "SClient option"
  c_DataType :: u32
  c_DataLen :: u32
  c_input :: input
  c_output :: bytes
  c_sockClosed :: bool

text \<open>The variables that the closure given to the dispatch pool captures, and a result on
  its way to the result router.\<close>

record dispatchJob =
  dj_handle :: string
  dj_params :: bytes
  dj_paramsType :: u32
  dj_paramsHandleType :: u32
  dj_clientId :: string
  dj_connect :: addr

record dispatchResult =
  dr_sw :: addr
  dr_jobFunc :: string
  dr_jobId :: string
  dr_req :: SRequest

record DispatchPool =
  dp_workers :: int
  dp_jobCh :: "dispatchJob list"
  dp_cancelled :: bool

record ResultRouter =
  rr_workers :: int
  rr_resultCh :: "dispatchResult list"
  rr_cancelled :: bool

text \<open>A Prometheus update: the metric, its labels and the amount.\<close>

datatype metric = Metric string "string list" int

record Server =
  s_conns :: "addr \<Rightarrow> Connect"
  s_workers :: "addr \<Rightarrow> SWorker"
  s_jobs :: "addr \<Rightarrow> JobData"
  s_nextConn :: addr
  s_nextWorker :: addr
  s_nextJob :: addr
  s_Funcs :: FuncMap
  s_DispatchPool :: DispatchPool
  s_ResultRouter :: ResultRouter
  s_Metrics :: "metric list"
  s_Blocked :: nat

text \<open>What the handlers take from outside: the draws of \<^verbatim>\<open>rand.Int\<close>, the weighted choice of the
  weightedrand package, a fresh uuid, the clock (in milliseconds) and the current time as
  it is formatted for a label.\<close>

record Env =
  e_rand :: "nat \<Rightarrow> nat"
  e_pick :: "(addr \<times> nat) list \<Rightarrow> addr option"
  e_uuid :: string
  e_now :: nat
  e_timeStr :: string

subsection \<open>Access to the stores\<close>

definition upd_conn :: "addr \<Rightarrow> (Connect \<Rightarrow> Connect) \<Rightarrow> Server \<Rightarrow> Server" where
  "upd_conn c f s = s\<lparr>s_conns := (s_conns s)(c := f (s_conns s c))\<rparr>"

definition upd_worker :: "addr \<Rightarrow> (SWorker \<Rightarrow> SWorker) \<Rightarrow> Server \<Rightarrow> Server" where
  "upd_worker w f s = s\<lparr>s_workers := (s_workers s)(w := f (s_workers s w))\<rparr>"

definition upd_job :: "addr \<Rightarrow> (JobData \<Rightarrow> JobData) \<Rightarrow> Server \<Rightarrow> Server" where
  "upd_job j f s = s\<lparr>s_jobs := (s_jobs s)(j := f (s_jobs s j))\<rparr>"

definition add_metric :: "metric \<Rightarrow> Server \<Rightarrow> Server" where
  "add_metric m s = s\<lparr>s_Metrics := s_Metrics s @ [m]\<rparr>"

text \<open>An update of a metric: \<^verbatim>\<open>WithLabelValues\<close> panics for a label value that is not UTF-8. The names that a peer
  sends are unchecked bytes; addresses and the zones of addresses, which \<^verbatim>\<open>net\<close> and the JSON decoder make, are UTF-8,
  so that the updates with these labels alone are \<open>add_metric\<close>.\<close>

fun labels_ok :: "metric \<Rightarrow> bool" where
  "labels_ok (Metric var ls a) = list_all valid_utf8 ls"

definition inc_metric :: "metric \<Rightarrow> Server \<Rightarrow> Server option" where
  "inc_metric m s = (if labels_ok m then Some (add_metric m s) else None)"

lemma inc_metric_Some: "inc_metric m s = Some s' \<longleftrightarrow> labels_ok m \<and> s' = add_metric m s"
  by (auto simp: inc_metric_def)

definition wid_of :: "Server \<Rightarrow> addr \<Rightarrow> string" where
  "wid_of s w = sw_WorkerId (s_workers s w)"

subsection \<open>Closing signal and writing\<close>

definition closeSignal :: "Connect \<Rightarrow> Connect" where
  "closeSignal c = (if c_closed c then c else c\<lparr>c_closed := True, c_closeCh := True\<rparr>)"

datatype write_error = ErrClosed | ErrConnNil | ErrPendingExceeded | ErrQueueFull

definition Connect_Write :: "bytes \<Rightarrow> Connect \<Rightarrow> write_error option \<times> Connect" where
  "Connect_Write resPack c =
    (if c_closed c then (Some ErrClosed, c)
     else if \<not> c_Conn c then (Some ErrConnNil, c)
     else if length resPack = 0 then (None, c)
     else
       let n = int (length resPack);
           c = c\<lparr>c_pendingBytes := c_pendingBytes c + n\<rparr>
       in if c_pendingBytes c > c_maxPendingBytes c
          then (Some ErrPendingExceeded, c\<lparr>c_pendingBytes := c_pendingBytes c - n\<rparr>)
          else case chan_send 256 resPack (c_writeCh c) of
            (True, q) \<Rightarrow> (None, c\<lparr>c_writeCh := q\<rparr>)
          | (False, _) \<Rightarrow> (Some ErrQueueFull, c\<lparr>c_pendingBytes := c_pendingBytes c - n\<rparr>))"

text \<open>One round of \<^verbatim>\<open>writeLoop\<close>; the flag says whether the loop goes on. The scheduler chooses
  between the two ready cases of the \<^verbatim>\<open>select\<close>.\<close>

fun drain :: "bytes list \<Rightarrow> int \<Rightarrow> int" where
  "drain [] pending = pending"
| "drain (buf # q) pending = drain q (pending - int (length buf))"

definition writeLoop_close :: "Connect \<Rightarrow> Connect" where
  "writeLoop_close c = c\<lparr>c_pendingBytes := drain (c_writeCh c) (c_pendingBytes c), c_writeCh := []\<rparr>"

definition writeLoop_write :: "write_answer \<Rightarrow> Connect \<Rightarrow> Connect \<times> bool" where
  "writeLoop_write ans c = (case chan_recv (c_writeCh c) of
     (None, q) \<Rightarrow> (c, True)
   | (Some buf, q) \<Rightarrow>
       let c = c\<lparr>c_writeCh := q\<rparr>; bufLen = int (length buf)
       in if \<not> c_Conn c
          then let c = closeSignal c
               in (c\<lparr>c_pendingBytes := c_pendingBytes c - bufLen\<rparr>, False)
          else case write_all ans buf of
            (out, True) \<Rightarrow>
              (c\<lparr>c_output := c_output c @ out, c_pendingBytes := c_pendingBytes c - bufLen\<rparr>, True)
          | (out, False) \<Rightarrow>
              let c = closeSignal (c\<lparr>c_output := c_output c @ out\<rparr>)
              in (c\<lparr>c_sockClosed := True, c_pendingBytes := c_pendingBytes c - bufLen\<rparr>, False))"

subsection \<open>Invariant of the write side\<close>

definition conn_inv :: "Connect \<Rightarrow> bool" where
  "conn_inv c \<longleftrightarrow> c_pendingBytes c = int (length (concat (c_writeCh c)))
     \<and> c_pendingBytes c \<le> c_maxPendingBytes c \<and> length (c_writeCh c) \<le> 256
     \<and> [] \<notin> set (c_writeCh c) \<and> c_closeCh c = c_closed c"

definition NewConnect_obj :: "string \<Rightarrow> string \<Rightarrow> string \<Rightarrow> string \<Rightarrow> input \<Rightarrow> Connect" where
  "NewConnect_obj cid ad ip port i =
    \<lparr>c_closed = False, c_closeCh = False, c_writeCh = [], c_pendingBytes = 0,
     c_maxPendingBytes = 4 * 1024 * 1024, c_Id = cid, c_Addr = ad, c_Ip = ip, c_Port = port,
     c_Conn = True, c_ConnType = CONN_TYPE_INIT, c_RunWorker = None, c_RunClient = None,
     c_DataType = 0, c_DataLen = 0, c_input = i, c_output = [], c_sockClosed = False\<rparr>"

lemma NewConnect_inv [inv_intros]: "conn_inv (NewConnect_obj cid ad ip port i)"
  by (simp add: conn_inv_def NewConnect_obj_def)

lemma closeSignal_inv [inv_intros]: "conn_inv c \<Longrightarrow> conn_inv (closeSignal c)"
  by (simp add: conn_inv_def closeSignal_def)

lemma closeSignal_frame [simp]:
  "c_writeCh (closeSignal c) = c_writeCh c" "c_pendingBytes (closeSignal c) = c_pendingBytes c"
  "c_output (closeSignal c) = c_output c" "c_Conn (closeSignal c) = c_Conn c"
  "c_maxPendingBytes (closeSignal c) = c_maxPendingBytes c" "c_Id (closeSignal c) = c_Id c"
  "c_RunWorker (closeSignal c) = c_RunWorker c" "c_RunClient (closeSignal c) = c_RunClient c"
  "c_ConnType (closeSignal c) = c_ConnType c" "c_input (closeSignal c) = c_input c"
  "c_closed (closeSignal c)"
  by (simp_all add: closeSignal_def)

text \<open>\<^verbatim>\<open>Write\<close> on an open connection: exactly when it accepts a packet, and what it does.\<close>

definition can_write :: "bytes \<Rightarrow> Connect \<Rightarrow> bool" where
  "can_write p c \<longleftrightarrow> \<not> c_closed c \<and> c_Conn c
     \<and> c_pendingBytes c + int (length p) \<le> c_maxPendingBytes c \<and> length (c_writeCh c) < 256"

lemma Connect_Write_ok:
  assumes "can_write p c" "p \<noteq> []"
  shows "Connect_Write p c = (None, c\<lparr>c_pendingBytes := c_pendingBytes c + int (length p),
    c_writeCh := c_writeCh c @ [p]\<rparr>)"
  using assms by (simp add: Connect_Write_def can_write_def chan_send_def)

lemma Connect_Write_fails:
  assumes "\<not> can_write p c" "p \<noteq> []"
  shows "\<exists>e. Connect_Write p c = (Some e, c)"
  using assms by (auto simp: Connect_Write_def can_write_def chan_send_def Let_def)

lemma Connect_Write_empty:
  "Connect_Write [] c = ((if c_closed c then Some ErrClosed else if \<not> c_Conn c then Some ErrConnNil
     else None), c)"
  by (simp add: Connect_Write_def)

lemma Connect_Write_cases:
  obtains (queued) "p \<noteq> []" "can_write p c" "Connect_Write p c = (None,
      c\<lparr>c_pendingBytes := c_pendingBytes c + int (length p), c_writeCh := c_writeCh c @ [p]\<rparr>)"
  | (unchanged) e where "Connect_Write p c = (e, c)"
  using Connect_Write_ok [of p c] Connect_Write_fails [of p c] Connect_Write_empty [of c]
  by (cases "p = []"; cases "can_write p c") auto

lemma Connect_Write_inv [inv_intros]:
  assumes "conn_inv c" shows "conn_inv (snd (Connect_Write p c))"
  using assms
  by (cases rule: Connect_Write_cases [of p c]) (auto simp: conn_inv_def can_write_def)

lemma drain_eq: "drain q p = p - int (length (concat q))"
  by (induction q arbitrary: p) auto

lemma writeLoop_close_inv [inv_intros]:
  assumes "conn_inv c" shows "conn_inv (writeLoop_close c)" "c_pendingBytes (writeLoop_close c) = 0"
  using assms by (auto simp: conn_inv_def writeLoop_close_def drain_eq)

lemma writeLoop_write_inv [inv_intros]:
  assumes "conn_inv c" shows "conn_inv (fst (writeLoop_write ans c))"
  using assms
  by (auto simp: conn_inv_def writeLoop_write_def chan_recv_def Let_def closeSignal_def
      split: list.splits prod.splits bool.splits if_splits)

text \<open>What reaches the socket is what was queued, in order: as long as no write fails, the
  output followed by the queue is unchanged by the write loop and extended by \<^verbatim>\<open>Write\<close>.\<close>

definition stream :: "Connect \<Rightarrow> bytes" where
  "stream c = c_output c @ concat (c_writeCh c)"

lemma Connect_Write_stream:
  "fst (Connect_Write p c) = None \<Longrightarrow> stream (snd (Connect_Write p c)) = stream c @ p"
  using Connect_Write_ok [of p c] Connect_Write_fails [of p c]
  by (cases "p = []"; cases "can_write p c") (auto simp: stream_def Connect_Write_empty)

lemma writeLoop_write_stream:
  assumes "c_Conn c"
  shows "stream (fst (writeLoop_write WroteAll c)) = stream c"
    and "snd (writeLoop_write WroteAll c)"
  using assms
  by (auto simp: stream_def writeLoop_write_def chan_recv_def write_all_def split: list.splits)

end
