(* ===== verification/Dispatch.thy ===== *)
theory Dispatch
  imports Server_State
begin

section \<open>Dispatch pool and result router (pkg/server/optimize.go)\<close>

text \<open>
  The two global pools: a buffered channel each, filled by \<^verbatim>\<open>Submit\<close> without blocking and
  emptied by the goroutines of the pool. What a goroutine does with the element it takes
  is in the theory of the server; here are the channels. Both are bounded first-in
  first-out buffers.
\<close>

subsection \<open>Definitions\<close>

definition NewDispatchPool :: "int \<Rightarrow> DispatchPool" where
  "NewDispatchPool workerCount =
    (let workerCount = (if workerCount \<le> 0 then 512 else workerCount)
     in \<lparr>dp_workers = workerCount, dp_jobCh = [], dp_cancelled = False\<rparr>)"

definition DispatchPool_cap :: "DispatchPool \<Rightarrow> nat" where
  "DispatchPool_cap dp = nat (dp_workers dp * 2)"

definition DispatchPool_Submit :: "dispatchJob \<Rightarrow> DispatchPool \<Rightarrow> bool \<times> DispatchPool" where
  "DispatchPool_Submit fn dp =
    (let (ok, ch) = chan_send (DispatchPool_cap dp) fn (dp_jobCh dp)
     in (ok, dp\<lparr>dp_jobCh := ch\<rparr>))"

text \<open>The receive of \<^verbatim>\<open>DispatchPool.worker\<close>, and \<^verbatim>\<open>Close\<close>.\<close>

definition DispatchPool_take :: "DispatchPool \<Rightarrow> dispatchJob option \<times> DispatchPool" where
  "DispatchPool_take dp = (let (x, ch) = chan_recv (dp_jobCh dp) in (x, dp\<lparr>dp_jobCh := ch\<rparr>))"

definition DispatchPool_Close :: "DispatchPool \<Rightarrow> DispatchPool option" where
  "DispatchPool_Close dp = (if dp_cancelled dp then None else Some (dp\<lparr>dp_cancelled := True\<rparr>))"

definition NewResultRouter :: "int \<Rightarrow> ResultRouter" where
  "NewResultRouter workerCount =
    (let workerCount = (if workerCount \<le> 0 then 256 else workerCount)
     in \<lparr>rr_workers = workerCount, rr_resultCh = [], rr_cancelled = False\<rparr>)"

definition ResultRouter_cap :: "ResultRouter \<Rightarrow> nat" where
  "ResultRouter_cap rr = nat (rr_workers rr * 4)"

definition ResultRouter_Submit ::
  "addr \<Rightarrow> string \<Rightarrow> string \<Rightarrow> SRequest \<Rightarrow> ResultRouter \<Rightarrow> bool \<times> ResultRouter" where
  "ResultRouter_Submit sw funcName jobId req rr =
    (let dr = \<lparr>dr_sw = sw, dr_jobFunc = funcName, dr_jobId = jobId, dr_req = req\<rparr>;
         (ok, ch) = chan_send (ResultRouter_cap rr) dr (rr_resultCh rr)
     in (ok, rr\<lparr>rr_resultCh := ch\<rparr>))"

definition ResultRouter_take :: "ResultRouter \<Rightarrow> dispatchResult option \<times> ResultRouter" where
  "ResultRouter_take rr = (let (x, ch) = chan_recv (rr_resultCh rr) in (x, rr\<lparr>rr_resultCh := ch\<rparr>))"

definition ResultRouter_Close :: "ResultRouter \<Rightarrow> ResultRouter option" where
  "ResultRouter_Close rr = (if rr_cancelled rr then None else Some (rr\<lparr>rr_cancelled := True\<rparr>))"

definition GetDispatchPool :: DispatchPool where
  "GetDispatchPool = NewDispatchPool 512"

definition GetResultRouter :: ResultRouter where
  "GetResultRouter = NewResultRouter 256"

text \<open>\<^verbatim>\<open>MultiplexClient\<close>: pending requests by id, each with a response channel. The channel is
  its capacity and content.\<close>

record MultiplexClient =
  mc_connect :: addr
  mc_pendingReqs :: "int \<rightharpoonup> nat \<times> bytes list"
  mc_reqId :: "64 word"

definition NewMultiplexClient :: "addr \<Rightarrow> MultiplexClient" where
  "NewMultiplexClient conn = \<lparr>mc_connect = conn, mc_pendingReqs = Map.empty, mc_reqId = 0\<rparr>"

definition nextReqId :: "MultiplexClient \<Rightarrow> int \<times> MultiplexClient" where
  "nextReqId mc = (let i = mc_reqId mc + 1 in (sint i, mc\<lparr>mc_reqId := i\<rparr>))"

definition QueueRequest :: "int \<Rightarrow> nat \<times> bytes list \<Rightarrow> MultiplexClient \<Rightarrow> MultiplexClient" where
  "QueueRequest reqId respCh mc = mc\<lparr>mc_pendingReqs := (mc_pendingReqs mc)(reqId \<mapsto> respCh)\<rparr>"

text \<open>\<^verbatim>\<open>HandleResponse\<close>: the response channel as it is after the response, if there was one.\<close>

definition HandleResponse ::
  "int \<Rightarrow> bytes \<Rightarrow> MultiplexClient \<Rightarrow> (nat \<times> bytes list) option \<times> MultiplexClient" where
  "HandleResponse reqId data mc = (case mc_pendingReqs mc reqId of
     None \<Rightarrow> (None, mc)
   | Some (cap, ch) \<Rightarrow>
       (Some (cap, snd (chan_send cap data ch)),
        mc\<lparr>mc_pendingReqs := (mc_pendingReqs mc)(reqId := None)\<rparr>))"

subsection \<open>Bounded first-in first-out buffers\<close>

definition submit_result :: "dispatchResult \<Rightarrow> ResultRouter \<Rightarrow> bool \<times> ResultRouter" where
  "submit_result dr = ResultRouter_Submit (dr_sw dr) (dr_jobFunc dr) (dr_jobId dr) (dr_req dr)"

lemma DispatchPool_cap_upd [simp]: "DispatchPool_cap (dp\<lparr>dp_jobCh := q\<rparr>) = DispatchPool_cap dp"
  by (simp add: DispatchPool_cap_def)

lemma ResultRouter_cap_upd [simp]: "ResultRouter_cap (rr\<lparr>rr_resultCh := q\<rparr>) = ResultRouter_cap rr"
  by (simp add: ResultRouter_cap_def)

lemma pool_caps: "DispatchPool_cap GetDispatchPool = 1024" "ResultRouter_cap GetResultRouter = 1024"
  by (simp_all add: DispatchPool_cap_def GetDispatchPool_def NewDispatchPool_def
      ResultRouter_cap_def GetResultRouter_def NewResultRouter_def)

interpretation dpf: bounded_fifo DispatchPool_cap dp_jobCh DispatchPool_Submit DispatchPool_take
  by unfold_locales
    (auto simp: DispatchPool_Submit_def DispatchPool_take_def chan_send_def chan_recv_def
      split: list.splits)

interpretation rrf: bounded_fifo ResultRouter_cap rr_resultCh submit_result ResultRouter_take
  by unfold_locales
    (auto simp: submit_result_def ResultRouter_Submit_def ResultRouter_take_def chan_send_def
      chan_recv_def split: list.splits)

subsection \<open>Matching responses with requests\<close>

lemma HandleResponse_once:
  "fst (HandleResponse i d (snd (HandleResponse i d' mc))) = None"
  by (auto simp: HandleResponse_def split: option.splits)

lemma HandleResponse_QueueRequest:
  "HandleResponse i d (QueueRequest i (cap, ch) mc)
   = (Some (cap, if length ch < cap then ch @ [d] else ch),
      mc\<lparr>mc_pendingReqs := (mc_pendingReqs mc)(i := None)\<rparr>)"
  by (simp add: HandleResponse_def QueueRequest_def chan_send_def)

end
