(* ===== verification/Server_Worker.thy ===== *)
theory Server_Worker
  imports Dispatch
begin

section \<open>Workers on the server (pkg/server/worker.go)\<close>

text \<open>
  The server's object for a connected worker: its job channels and job lists, the handlers
  of the packets a worker sends, the sending of a job (\<^verbatim>\<open>doWork\<close>) and the return of a result
  to the client (\<^verbatim>\<open>returnData\<close>). Every handler takes the address of the worker and the server
  state; \<^term>\<open>None\<close> is a panic.

  A receive that waits at most 50 ms and a send that waits at most 100 ms are modelled at
  the moment they end: with the job that arrived or the room there was, or empty-handed.
\<close>

subsection \<open>Job channels and job lists\<close>

definition NewSWorker :: "(addr \<times> Connect) option \<Rightarrow> SWorker option" where
  "NewSWorker conn = (case conn of
     None \<Rightarrow> None
   | Some (a, c) \<Rightarrow> Some \<lparr>sw_WorkerId = c_Id c, sw_WorkerName = [], sw_Connect = a, sw_Weight = 0,
       sw_Jobs = Map.empty, sw_JobChannels = Map.empty, sw_Results = [], sw_Sleep = False\<rparr>)"

definition GetJobChannel :: "string \<Rightarrow> SWorker \<Rightarrow> addr list \<times> SWorker" where
  "GetJobChannel funcName w = (case sw_JobChannels w funcName of
     Some ch \<Rightarrow> (ch, w)
   | None \<Rightarrow> ([], w\<lparr>sw_JobChannels := (sw_JobChannels w)(funcName \<mapsto> [])\<rparr>))"

definition PushJobToChannel :: "(addr \<Rightarrow> JobData) \<Rightarrow> addr option \<Rightarrow> SWorker \<Rightarrow> bool \<times> SWorker" where
  "PushJobToChannel jd job w = (case job of
     None \<Rightarrow> (False, w)
   | Some j \<Rightarrow>
       if jd_FuncName (jd j) = [] then (False, w)
       else let (ch, w) = GetJobChannel (jd_FuncName (jd j)) w
            in case chan_send 1024 j ch of
              (True, ch) \<Rightarrow> (True, w\<lparr>sw_JobChannels := (sw_JobChannels w)(jd_FuncName (jd j) \<mapsto> ch)\<rparr>)
            | (False, _) \<Rightarrow> (False, w))"

text \<open>With backpressure: the send waits for room until the timer fires.\<close>

definition PushJobToChannelWithBackpressure ::
  "(addr \<Rightarrow> JobData) \<Rightarrow> addr option \<Rightarrow> SWorker \<Rightarrow> bool \<times> SWorker" where
  "PushJobToChannelWithBackpressure jd job w = (case job of
     None \<Rightarrow> (False, w)
   | Some j \<Rightarrow>
       if jd_FuncName (jd j) = [] then (False, w)
       else let (ch, w) = GetJobChannel (jd_FuncName (jd j)) w
            in case chan_send 1024 j ch of
              (True, ch) \<Rightarrow> (True, w\<lparr>sw_JobChannels := (sw_JobChannels w)(jd_FuncName (jd j) \<mapsto> ch)\<rparr>)
            | (False, _) \<Rightarrow> (False, w))"

definition PopJobFromChannel :: "string \<Rightarrow> SWorker \<Rightarrow> addr option \<times> SWorker" where
  "PopJobFromChannel handle w =
    (let (ch, w) = GetJobChannel handle w;
         (job, ch) = chan_recv ch
     in (job, w\<lparr>sw_JobChannels := (sw_JobChannels w)(handle \<mapsto> ch)\<rparr>))"

definition GetOrCreateJobList :: "string \<Rightarrow> SWorker \<Rightarrow> JobDataList \<times> SWorker" where
  "GetOrCreateJobList funcName w = (case sw_Jobs w funcName of
     Some jobList \<Rightarrow> (jobList, w)
   | None \<Rightarrow> (NewJobDataList, w\<lparr>sw_Jobs := (sw_Jobs w)(funcName \<mapsto> NewJobDataList)\<rparr>))"

definition PushJobToList :: "(addr \<Rightarrow> JobData) \<Rightarrow> addr option \<Rightarrow> SWorker \<Rightarrow> bool \<times> SWorker" where
  "PushJobToList jd job w = (case job of
     None \<Rightarrow> (False, w)
   | Some j \<Rightarrow>
       if jd_FuncName (jd j) = [] then (False, w)
       else let (jobList, w) = GetOrCreateJobList (jd_FuncName (jd j)) w;
                (r, jobList) = PushJobData (Some j) jobList
            in (r, w\<lparr>sw_Jobs := (sw_Jobs w)(jd_FuncName (jd j) \<mapsto> jobList)\<rparr>))"

subsection \<open>Handlers\<close>

definition write_conn :: "addr \<Rightarrow> bytes \<Rightarrow> Server \<Rightarrow> write_error option \<times> Server" where
  "write_conn c pack s =
    (let (err, conn) = Connect_Write pack (s_conns s c) in (err, upd_conn c (\<lambda>_. conn) s))"

text \<open>\<^verbatim>\<open>resPack := res.ResEncodePack(); connect.Write(resPack)\<close>, the error ignored.\<close>

definition write_res :: "SResponse \<Rightarrow> addr \<Rightarrow> Server \<Rightarrow> Server option" where
  "write_res res c s = do {
     (_, resPack) \<leftarrow> ResEncodePack res;
     Some (snd (write_conn c resPack s))
   }"

definition addFunction :: "Env \<Rightarrow> addr \<Rightarrow> SRequest \<Rightarrow> Server \<Rightarrow> Server option" where
  "addFunction env w req s = (
     let sw = s_workers s w
     in do {
       s \<leftarrow> (if rq_DataLen req > 0 then
               let functionName = GetReqData req;
                   s = (if length functionName \<noteq> 0
                        then s\<lparr>s_Funcs := snd (AddFunc (Some w) (gostring functionName) (s_Funcs s))\<rparr>
                        else s)
               in do {
                 s \<leftarrow> inc_metric (Metric ''WorkerFuncCount'' [sw_WorkerId sw, sw_WorkerName sw,
                        c_Ip (s_conns s (sw_Connect sw)), gostring functionName, e_timeStr env] 1) s;
                 inc_metric (Metric ''FuncCount'' [gostring functionName] 1) s
               }
             else Some s);
       write_res (server_NewRes\<lparr>rs_DataType := PDT_OK\<rparr>) (sw_Connect sw) s
     })"

definition delFunction :: "Env \<Rightarrow> addr \<Rightarrow> SRequest \<Rightarrow> Server \<Rightarrow> Server option" where
  "delFunction env w req s = (
     let sw = s_workers s w in
     if rq_DataLen req > 0 then
       let functionName = GetReqData req
       in if length functionName \<noteq> 0 then
            let s = s\<lparr>s_Funcs := snd (DelWorkerFunc (wid_of s) (sw_WorkerId sw)
                        (gostring functionName) (s_Funcs s))\<rparr>
            in do {
              s \<leftarrow> inc_metric (Metric ''WorkerFuncCount'' [sw_WorkerId sw, sw_WorkerName sw,
                     c_Ip (s_conns s (sw_Connect sw)), gostring functionName, e_timeStr env] (-1)) s;
              inc_metric (Metric ''FuncCount'' [gostring functionName] (-1)) s
            }
          else Some s
     else Some s)"

definition doWork :: "addr \<Rightarrow> addr option \<Rightarrow> Server \<Rightarrow> Server option" where
  "doWork w job s = (case job of
     None \<Rightarrow> Some s
   | Some j \<Rightarrow>
       let sw = s_workers s w; jb = s_jobs s j in
       if jd_WorkerId jb = sw_WorkerId sw \<and> jd_status jb = JOB_STATUS_INIT then
         let s = upd_job j (\<lambda>jb. jb\<lparr>jd_status := JOB_STATUS_DOING\<rparr>) s;
             functionName = jd_FuncName jb;
             params = jd_Params jb;
             paramsLen = len32 params
         in if functionName \<noteq> [] \<and> paramsLen \<noteq> 0 then do {
              let res = server_NewRes\<lparr>rs_DataType := PDT_S_GET_DATA, rs_Handle := functionName,
                    rs_HandleLen := len32 functionName, rs_ParamsType := jd_ParamsType jb,
                    rs_ParamsHandleType := jd_ParamsHandleType jb, rs_ParamsLen := paramsLen,
                    rs_Params := params, rs_JobId := jd_JobId jb,
                    rs_JobIdLen := len32 (jd_JobId jb)\<rparr>;
              (res, resPack) \<leftarrow> ResEncodePack res;
              let s = snd (write_conn (sw_Connect sw) resPack s);
              Some (upd_job j (\<lambda>jb. jb\<lparr>jd_Response := Some res\<rparr>) s)
            } else Some s
       else Some s)"

text \<open>\<^verbatim>\<open>returnData\<close>, from the answer to the client on: the response is copied, the packet is
  written to the client connection and the counters are updated.\<close>

definition answer_client ::
  "Env \<Rightarrow> SWorker \<Rightarrow> addr \<Rightarrow> SResponse \<Rightarrow> SRequest \<Rightarrow> JobData \<Rightarrow> Server \<Rightarrow> Server option" where
  "answer_client env sw client response req jb s = (
     let functionName = jd_FuncName jb;
         res = response\<lparr>rs_DataType := PDT_S_RETURN_DATA, rs_Ret := jd_RetData jb,
                        rs_RetLen := rq_RetLen req\<rparr>
     in do {
       s \<leftarrow> (if c_ConnType (s_conns s client) = CONN_TYPE_CLIENT then do {
               (_, resPack) \<leftarrow> ResEncodePack res;
               let (werr, s) = write_conn client resPack s;
               if werr = None then do {
                 s \<leftarrow> inc_metric (Metric ''WorkerFuncSuccessCount'' [sw_WorkerName sw, functionName] 1) s;
                 inc_metric (Metric ''FuncSuccessCount'' [functionName] 1) s
               } else do {
                 s \<leftarrow> inc_metric (Metric ''WorkerFuncFailCount'' [sw_WorkerName sw, functionName] 1) s;
                 inc_metric (Metric ''FuncFailCount'' [functionName] 1) s
               }
             } else Some s);
       let ftime = int (e_now env) - int (jd_BeginDuring jb);
       s \<leftarrow> inc_metric (Metric ''requestDuring'' [sw_WorkerName sw, functionName] ftime) s;
       inc_metric (Metric ''requestDuration'' [sw_WorkerName sw, functionName] ftime) s
     })"

definition returnData :: "Env \<Rightarrow> addr \<Rightarrow> ResultJob \<Rightarrow> Server \<Rightarrow> Server option" where
  "returnData env w jobRet s = (
     let (job, sw) = PopJobFromChannel (rj_FuncName jobRet) (s_workers s w);
         s = upd_worker w (\<lambda>_. sw) s;
         req = rj_Request jobRet
     in case job of
       None \<Rightarrow> Some s
     | Some j \<Rightarrow>
         let jb = s_jobs s j in
         if jd_WorkerId jb = sw_WorkerId sw \<and> jd_status jb = JOB_STATUS_DOING then
           case jd_Response jb of
             None \<Rightarrow> Some s
           | Some response \<Rightarrow>
               if rs_HandleLen response = rq_HandleLen req \<and> rs_Handle response = rq_Handle req
                  \<and> rs_ParamsLen response = rq_ParamsLen req then
                 let jb = jb\<lparr>jd_RetData := jd_RetData jb @ rq_Ret req, jd_status := JOB_STATUS_DONE\<rparr>;
                     s = upd_job j (\<lambda>_. jb) s
                 in if jd_ClientId jb \<noteq> [] \<and> jd_FuncName jb \<noteq> [] \<and> length (jd_Params jb) \<noteq> 0 then
                      (case jd_Client jb of
                         None \<Rightarrow> Some s
                       | Some client \<Rightarrow> answer_client env sw client response req jb s)
                    else if jd_HTTPClientR jb \<and> jd_FuncName jb \<noteq> [] \<and> length (jd_Params jb) \<noteq> 0 then
                      let response = response\<lparr>rs_DataType := PDT_S_RETURN_DATA,
                            rs_Ret := jd_RetData jb, rs_RetLen := rq_RetLen req\<rparr>;
                          s = upd_job j (\<lambda>jb. jb\<lparr>jd_Response := Some response\<rparr>) s
                      in Some (s\<lparr>s_Blocked := s_Blocked s + 1\<rparr>)
                    else Some s
               else Some s
         else Some s)"

definition workerWakeup :: "addr \<Rightarrow> Server \<Rightarrow> Server" where
  "workerWakeup w s = upd_worker w (\<lambda>sw. sw\<lparr>sw_Sleep := False\<rparr>) s"

definition SWorker_doLimit :: "addr \<Rightarrow> Server \<Rightarrow> Server option" where
  "SWorker_doLimit w s =
     write_res (server_NewRes\<lparr>rs_DataType := PDT_RATELIMIT\<rparr>) (sw_Connect (s_workers s w)) s"

definition heartBeatPong :: "addr \<Rightarrow> Server \<Rightarrow> Server option" where
  "heartBeatPong w s =
     write_res (server_NewRes\<lparr>rs_DataType := PDT_S_HEARTBEAT_PONG\<rparr>) (sw_Connect (s_workers s w)) s"

definition setWorkerName :: "addr \<Rightarrow> SRequest \<Rightarrow> Server \<Rightarrow> Server option" where
  "setWorkerName w req s = (
     let s = (if rq_DataLen req > 0 then
                let workerName = GetReqData req
                in if length workerName \<noteq> 0
                   then upd_worker w (\<lambda>sw. sw\<lparr>sw_WorkerName := gostring workerName\<rparr>) s
                   else s
              else s)
     in write_res (server_NewRes\<lparr>rs_DataType := PDT_OK\<rparr>) (sw_Connect (s_workers s w)) s)"

text \<open>The request a worker's frame is unpacked from.\<close>

definition worker_req :: "addr \<Rightarrow> bytes \<Rightarrow> Server \<Rightarrow> SRequest option" where
  "worker_req w data s = (
     let c = s_conns s (sw_Connect (s_workers s w))
     in ReqDecodePack (server_NewReq\<lparr>rq_DataType := c_DataType c, rq_DataLen := c_DataLen c,
          rq_Data := data\<rparr>))"

definition result_job :: "SRequest \<Rightarrow> ResultJob" where
  "result_job req = \<lparr>rj_JobId = rq_JobId req, rj_FuncName = rq_Handle req, rj_Request = req\<rparr>"

text \<open>\<^verbatim>\<open>RunWorker\<close> hands results to the worker's own goroutine; \<^verbatim>\<open>RunWorkerOptimized\<close>, which
  \<^verbatim>\<open>DoIO\<close> calls, hands them to the router. Both fall back to handling the result at once.\<close>

definition SWorker_RunWorker :: "Env \<Rightarrow> addr \<Rightarrow> bytes \<Rightarrow> Server \<Rightarrow> Server option" where
  "SWorker_RunWorker env w data s = do {
     req \<leftarrow> worker_req w data s;
     let dt = rq_DataType req;
     if dt = PDT_W_ADD_FUNC then addFunction env w req s
     else if dt = PDT_W_DEL_FUNC then delFunction env w req s
     else if dt = PDT_WAKEUP then Some (workerWakeup w s)
     else if dt = PDT_W_GRAB_JOB then Some s
     else if dt = PDT_W_RETURN_DATA then
       (case chan_send QUEUE_SIZE (result_job req) (sw_Results (s_workers s w)) of
          (True, ch) \<Rightarrow> Some (upd_worker w (\<lambda>sw. sw\<lparr>sw_Results := ch\<rparr>) s)
        | (False, _) \<Rightarrow> returnData env w (result_job req) s)
     else if dt = PDT_W_HEARTBEAT_PING then heartBeatPong w s
     else if dt = PDT_W_SET_NAME then setWorkerName w req s
     else Some s
   }"

text \<open>One round of the goroutine \<^verbatim>\<open>processResults\<close>.\<close>

definition processResults :: "Env \<Rightarrow> addr \<Rightarrow> Server \<Rightarrow> Server option" where
  "processResults env w s = (case chan_recv (sw_Results (s_workers s w)) of
     (None, _) \<Rightarrow> Some s
   | (Some r, ch) \<Rightarrow> returnData env w r (upd_worker w (\<lambda>sw. sw\<lparr>sw_Results := ch\<rparr>) s))"

definition RunWorkerOptimized :: "Env \<Rightarrow> addr \<Rightarrow> bytes \<Rightarrow> Server \<Rightarrow> Server option" where
  "RunWorkerOptimized env w data s = do {
     req \<leftarrow> worker_req w data s;
     let dt = rq_DataType req;
     if dt = PDT_W_ADD_FUNC then addFunction env w req s
     else if dt = PDT_W_DEL_FUNC then delFunction env w req s
     else if dt = PDT_WAKEUP then Some (workerWakeup w s)
     else if dt = PDT_W_RETURN_DATA then
       (case ResultRouter_Submit w (rq_Handle req) (rq_JobId req) req (s_ResultRouter s) of
          (True, rr) \<Rightarrow> Some (s\<lparr>s_ResultRouter := rr\<rparr>)
        | (False, _) \<Rightarrow> returnData env w (result_job req) s)
     else if dt = PDT_W_HEARTBEAT_PING then heartBeatPong w s
     else if dt = PDT_W_SET_NAME then setWorkerName w req s
     else Some s
   }"

text \<open>One round of a goroutine of the result router.\<close>

definition ResultRouter_worker :: "Env \<Rightarrow> Server \<Rightarrow> Server option" where
  "ResultRouter_worker env s = (case ResultRouter_take (s_ResultRouter s) of
     (None, _) \<Rightarrow> Some s
   | (Some dr, rr) \<Rightarrow>
       returnData env (dr_sw dr) \<lparr>rj_JobId = dr_jobId dr, rj_FuncName = dr_jobFunc dr,
         rj_Request = dr_req dr\<rparr> (s\<lparr>s_ResultRouter := rr\<rparr>))"

definition CloseSelfWorker :: "addr \<Rightarrow> Server \<Rightarrow> Server" where
  "CloseSelfWorker w s = (
     let sw = s_workers s w;
         s = s\<lparr>s_Funcs := snd (CleanWorkerFunc (wid_of s) (sw_WorkerId sw) (s_Funcs s))\<rparr>
     in if c_Conn (s_conns s (sw_Connect sw))
        then upd_conn (sw_Connect sw) (\<lambda>c. c\<lparr>c_sockClosed := True\<rparr>) s
        else s)"

end
