(* ===== verification/Server_Inv.thy ===== *)
theory Server_Inv
  imports Server_Core "HOL-Library.Sublist"
begin

section \<open>The invariant of the server\<close>

text \<open>
  What holds of every state the server reaches, stated per part and proved for the primitive
  updates first and then for the handlers:

  \<^item> \<open>conns_ok\<close>: the write queue of every connection is within its bounds;
  \<^item> \<open>funcs_ok\<close>: the function table counts its entries and points to existing workers;
  \<^item> \<open>links_ok\<close>: connections, workers and clients point to each other and share their ids;
  \<^item> \<open>chans_ok\<close>: a queued job is in one channel only, was sent to the worker that owns the
    channel, waits for its result, and knows its client;
  \<^item> \<open>pools_ok\<close>: the two pools are within their bounds and their elements are complete.

  \<open>chans_ok\<close> takes a set of jobs exempt from being sent, for the moment between the queueing
  of a job and its sending.
\<close>

subsection \<open>Definitions\<close>

definition chan :: "Server \<Rightarrow> addr \<Rightarrow> string \<Rightarrow> addr list" where
  "chan s w f = (case sw_JobChannels (s_workers s w) f of None \<Rightarrow> [] | Some ch \<Rightarrow> ch)"

definition conns_ok :: "Server \<Rightarrow> bool" where
  "conns_ok s \<longleftrightarrow> (\<forall>c. conn_inv (s_conns s c)) \<and> (\<forall>c < s_nextConn s. c_Id (s_conns s c) \<noteq> [])"

definition funcs_ok :: "Server \<Rightarrow> bool" where
  "funcs_ok s \<longleftrightarrow> fm_inv (s_Funcs s)
     \<and> fm_hash (s_Funcs s)
     \<and> (\<forall>n. \<forall>w \<in> set (workers_of (s_Funcs s) n). w < s_nextWorker s)"

definition links_ok :: "Server \<Rightarrow> bool" where
  "links_ok s \<longleftrightarrow>
     (\<forall>w < s_nextWorker s. sw_Connect (s_workers s w) < s_nextConn s
        \<and> sw_WorkerId (s_workers s w) = c_Id (s_conns s (sw_Connect (s_workers s w))))
     \<and> (\<forall>c w. c_RunWorker (s_conns s c) = Some w \<longrightarrow>
          w < s_nextWorker s \<and> sw_Connect (s_workers s w) = c)
     \<and> (\<forall>c cl. c_RunClient (s_conns s c) = Some cl \<longrightarrow>
          sc_Connect cl = c \<and> sc_ClientId cl = c_Id (s_conns s c) \<and> c < s_nextConn s
          \<and> length (rq_Params (sc_Req cl)) < 2 ^ 32)"

text \<open>A job that was sent to its worker and waits for the result.\<close>

definition job_resp :: "JobData \<Rightarrow> SResponse \<Rightarrow> bool" where
  "job_resp jb r \<longleftrightarrow> rs_Handle r = jd_FuncName jb \<and> rs_HandleLen r = len32 (jd_FuncName jb)
     \<and> rs_Params r = jd_Params jb \<and> rs_ParamsLen r = len32 (jd_Params jb)
     \<and> rs_JobId r = jd_JobId jb \<and> rs_JobIdLen r = len32 (jd_JobId jb)
     \<and> rs_ParamsType r = jd_ParamsType jb \<and> rs_ParamsHandleType r = jd_ParamsHandleType jb"

definition job_fit :: "string \<Rightarrow> string \<Rightarrow> JobData \<Rightarrow> bool" where
  "job_fit workerId f jb \<longleftrightarrow> jd_FuncName jb = f \<and> f \<noteq> [] \<and> jd_WorkerId jb = workerId
     \<and> jd_Params jb \<noteq> [] \<and> length (jd_Params jb) < 2 ^ 32 \<and> jd_RetData jb = []"

definition job_sent :: "string \<Rightarrow> string \<Rightarrow> JobData \<Rightarrow> bool" where
  "job_sent workerId f jb \<longleftrightarrow> job_fit workerId f jb \<and> jd_status jb = JOB_STATUS_DOING
     \<and> (\<exists>r. jd_Response jb = Some r \<and> job_resp jb r)"

definition job_client :: "Server \<Rightarrow> JobData \<Rightarrow> bool" where
  "job_client s jb \<longleftrightarrow> (\<exists>c < s_nextConn s. jd_Client jb = Some c \<and> jd_ClientId jb = c_Id (s_conns s c))"

definition chans_ok :: "addr set \<Rightarrow> Server \<Rightarrow> bool" where
  "chans_ok X s \<longleftrightarrow>
     (\<forall>w f. length (chan s w f) \<le> 1024 \<and> distinct (chan s w f)
        \<and> (\<forall>j \<in> set (chan s w f). j < s_nextJob s \<and> job_client s (s_jobs s j)
             \<and> job_fit (sw_WorkerId (s_workers s w)) f (s_jobs s j)
             \<and> (j \<notin> X \<longrightarrow> job_sent (sw_WorkerId (s_workers s w)) f (s_jobs s j))))
     \<and> (\<forall>w f w' f' j. j \<in> set (chan s w f) \<longrightarrow> j \<in> set (chan s w' f') \<longrightarrow> w = w' \<and> f = f')"

definition dj_ok :: "Server \<Rightarrow> dispatchJob \<Rightarrow> bool" where
  "dj_ok s d \<longleftrightarrow> dj_handle d \<noteq> [] \<and> dj_params d \<noteq> [] \<and> length (dj_params d) < 2 ^ 32
     \<and> dj_connect d < s_nextConn s \<and> dj_clientId d = c_Id (s_conns s (dj_connect d))"

definition pools_ok :: "Server \<Rightarrow> bool" where
  "pools_ok s \<longleftrightarrow> dp_workers (s_DispatchPool s) = 512 \<and> rr_workers (s_ResultRouter s) = 256
     \<and> length (dp_jobCh (s_DispatchPool s)) \<le> 1024 \<and> length (rr_resultCh (s_ResultRouter s)) \<le> 1024
     \<and> (\<forall>d \<in> set (dp_jobCh (s_DispatchPool s)). dj_ok s d)
     \<and> (\<forall>r \<in> set (rr_resultCh (s_ResultRouter s)). dr_sw r < s_nextWorker s)"

definition server_inv_ex :: "addr set \<Rightarrow> Server \<Rightarrow> bool" where
  "server_inv_ex X s \<longleftrightarrow> conns_ok s \<and> funcs_ok s \<and> links_ok s \<and> chans_ok X s \<and> pools_ok s"

definition server_inv :: "Server \<Rightarrow> bool" where
  "server_inv s \<longleftrightarrow> server_inv_ex {} s"

lemmas inv_parts = server_inv_ex_def conns_ok_def funcs_ok_def links_ok_def chans_ok_def
  pools_ok_def chan_def job_client_def dj_ok_def

subsection \<open>Primitive updates\<close>

lemma upd_conn_sel [simp]:
  "s_conns (upd_conn c f s) = (s_conns s)(c := f (s_conns s c))"
  "s_workers (upd_conn c f s) = s_workers s" "s_jobs (upd_conn c f s) = s_jobs s"
  "s_nextConn (upd_conn c f s) = s_nextConn s" "s_nextWorker (upd_conn c f s) = s_nextWorker s"
  "s_nextJob (upd_conn c f s) = s_nextJob s" "s_Funcs (upd_conn c f s) = s_Funcs s"
  "s_DispatchPool (upd_conn c f s) = s_DispatchPool s"
  "s_ResultRouter (upd_conn c f s) = s_ResultRouter s"
  "s_Metrics (upd_conn c f s) = s_Metrics s" "s_Blocked (upd_conn c f s) = s_Blocked s"
  by (simp_all add: upd_conn_def)

lemma upd_worker_sel [simp]:
  "s_workers (upd_worker w f s) = (s_workers s)(w := f (s_workers s w))"
  "s_conns (upd_worker w f s) = s_conns s" "s_jobs (upd_worker w f s) = s_jobs s"
  "s_nextConn (upd_worker w f s) = s_nextConn s" "s_nextWorker (upd_worker w f s) = s_nextWorker s"
  "s_nextJob (upd_worker w f s) = s_nextJob s" "s_Funcs (upd_worker w f s) = s_Funcs s"
  "s_DispatchPool (upd_worker w f s) = s_DispatchPool s"
  "s_ResultRouter (upd_worker w f s) = s_ResultRouter s"
  "s_Metrics (upd_worker w f s) = s_Metrics s" "s_Blocked (upd_worker w f s) = s_Blocked s"
  by (simp_all add: upd_worker_def)

lemma upd_job_sel [simp]:
  "s_jobs (upd_job j f s) = (s_jobs s)(j := f (s_jobs s j))"
  "s_conns (upd_job j f s) = s_conns s" "s_workers (upd_job j f s) = s_workers s"
  "s_nextConn (upd_job j f s) = s_nextConn s" "s_nextWorker (upd_job j f s) = s_nextWorker s"
  "s_nextJob (upd_job j f s) = s_nextJob s" "s_Funcs (upd_job j f s) = s_Funcs s"
  "s_DispatchPool (upd_job j f s) = s_DispatchPool s"
  "s_ResultRouter (upd_job j f s) = s_ResultRouter s"
  "s_Metrics (upd_job j f s) = s_Metrics s" "s_Blocked (upd_job j f s) = s_Blocked s"
  by (simp_all add: upd_job_def)

lemma add_metric_sel [simp]:
  "s_conns (add_metric m s) = s_conns s" "s_workers (add_metric m s) = s_workers s"
  "s_jobs (add_metric m s) = s_jobs s" "s_nextConn (add_metric m s) = s_nextConn s"
  "s_nextWorker (add_metric m s) = s_nextWorker s" "s_nextJob (add_metric m s) = s_nextJob s"
  "s_Funcs (add_metric m s) = s_Funcs s" "s_DispatchPool (add_metric m s) = s_DispatchPool s"
  "s_ResultRouter (add_metric m s) = s_ResultRouter s" "s_Blocked (add_metric m s) = s_Blocked s"
  by (simp_all add: add_metric_def)

lemma chan_frame [simp]:
  "chan (upd_conn c g s) = chan s" "chan (upd_job j h s) = chan s" "chan (add_metric m s) = chan s"
  "chan (s\<lparr>s_Blocked := b\<rparr>) = chan s" "chan (s\<lparr>s_Funcs := fm\<rparr>) = chan s"
  "chan (s\<lparr>s_DispatchPool := dp\<rparr>) = chan s" "chan (s\<lparr>s_ResultRouter := rr\<rparr>) = chan s"
  by (auto simp: chan_def fun_eq_iff)

lemma wid_of_frame [simp]:
  "wid_of (upd_conn c g s) = wid_of s" "wid_of (upd_job j h s) = wid_of s"
  "wid_of (add_metric m s) = wid_of s" "wid_of (s\<lparr>s_Funcs := fm\<rparr>) = wid_of s"
  by (auto simp: wid_of_def fun_eq_iff)

lemma NewServer_inv: "server_inv NewServer"
  by (auto simp: server_inv_def inv_parts NewServer_def NewConnect_inv NewFuncMap_inv workers_of_def
      fm_Load_def NewFuncMap_def GetDispatchPool_def NewDispatchPool_def GetResultRouter_def
      NewResultRouter_def NewConnect_obj_def conn_inv_def fm_inv_def fm_hash_def)

lemma inv_add_metric [inv_intros]: "server_inv_ex X s \<Longrightarrow> server_inv_ex X (add_metric m s)"
  by (simp add: inv_parts)

lemma inv_Blocked [inv_intros]: "server_inv_ex X s \<Longrightarrow> server_inv_ex X (s\<lparr>s_Blocked := b\<rparr>)"
  by (simp add: inv_parts)

text \<open>Two states that agree on what a part of the invariant talks about. Connections may have
  been added.\<close>

definition same_ids :: "Server \<Rightarrow> Server \<Rightarrow> bool" where
  "same_ids s s' \<longleftrightarrow> s_nextConn s \<le> s_nextConn s'
     \<and> (\<forall>c < s_nextConn s. c_Id (s_conns s' c) = c_Id (s_conns s c))"

lemma chans_okD:
  assumes "chans_ok X s" "j \<in> set (chan s w f)"
  shows "j < s_nextJob s" "job_client s (s_jobs s j)"
    "job_fit (sw_WorkerId (s_workers s w)) f (s_jobs s j)"
    "j \<notin> X \<Longrightarrow> job_sent (sw_WorkerId (s_workers s w)) f (s_jobs s j)"
    "j \<in> set (chan s w' f') \<Longrightarrow> w = w' \<and> f = f'"
  using assms unfolding chans_ok_def by blast+

lemma chans_okI:
  assumes "\<And>w f. length (chan s w f) \<le> 1024" "\<And>w f. distinct (chan s w f)"
    "\<And>j w f. j \<in> set (chan s w f) \<Longrightarrow> j < s_nextJob s"
    "\<And>j w f. j \<in> set (chan s w f) \<Longrightarrow> job_client s (s_jobs s j)"
    "\<And>j w f. j \<in> set (chan s w f) \<Longrightarrow> job_fit (sw_WorkerId (s_workers s w)) f (s_jobs s j)"
    "\<And>j w f. j \<in> set (chan s w f) \<Longrightarrow> j \<notin> X \<Longrightarrow>
       job_sent (sw_WorkerId (s_workers s w)) f (s_jobs s j)"
    "\<And>j w f w' f'. j \<in> set (chan s w f) \<Longrightarrow> j \<in> set (chan s w' f') \<Longrightarrow> w = w' \<and> f = f'"
  shows "chans_ok X s"
  unfolding chans_ok_def
  by (intro conjI allI ballI impI;
      (rule assms | erule (1) assms | erule (1) assms(7) [THEN conjunct1]
        | erule (1) assms(7) [THEN conjunct2]); assumption?)

lemma chans_ok_suffix:
  assumes "chans_ok X s" "same_ids s s'" "\<And>w f. suffix (chan s' w f) (chan s w f)"
    "\<And>w f j. j \<in> set (chan s' w f) \<Longrightarrow> sw_WorkerId (s_workers s' w) = sw_WorkerId (s_workers s w)"
    "\<And>w f j. j \<in> set (chan s' w f) \<Longrightarrow> s_jobs s' j = s_jobs s j" "s_nextJob s \<le> s_nextJob s'"
  shows "chans_ok X s'"
proof -
  have sub: "j \<in> set (chan s w f)" if "j \<in> set (chan s' w f)" for j w f
    using that set_mono_suffix [OF assms(3)] by blast
  have cl: "job_client s' jb" if "job_client s jb" for jb
    using that assms(2) by (auto simp: job_client_def same_ids_def intro: order.strict_trans2)
  show ?thesis
  proof (rule chans_okI)
    fix j w f w' f'
    show "length (chan s' w f) \<le> 1024" "distinct (chan s' w f)"
      using assms(1) suffix_length_le [OF assms(3) [of w f]] distinct_suffix [OF _ assms(3) [of w f]]
      by (auto simp: chans_ok_def intro: order.trans)
    assume j: "j \<in> set (chan s' w f)"
    note old = chans_okD [OF assms(1) sub [OF j]]
    show "j < s_nextJob s'" "job_client s' (s_jobs s' j)"
      "job_fit (sw_WorkerId (s_workers s' w)) f (s_jobs s' j)"
      "j \<notin> X \<Longrightarrow> job_sent (sw_WorkerId (s_workers s' w)) f (s_jobs s' j)"
      using old(1-4) assms(6) by (auto simp: assms(4) [OF j] assms(5) [OF j] intro: cl)
    show "w = w' \<and> f = f'" if "j \<in> set (chan s' w' f')"
      using old(5) [OF sub [OF that]] .
  qed
qed

lemma chans_ok_cong:
  assumes "chans_ok X s" "same_ids s s'" "\<And>w f. chan s' w f = chan s w f"
    "\<And>w. sw_WorkerId (s_workers s' w) = sw_WorkerId (s_workers s w)"
    "s_jobs s' = s_jobs s" "s_nextJob s' = s_nextJob s"
  shows "chans_ok X s'"
  using assms(1,2) by (rule chans_ok_suffix) (simp_all add: assms)

lemma pools_ok_cong:
  assumes "pools_ok s" "same_ids s s'" "s_nextWorker s \<le> s_nextWorker s'"
    "s_DispatchPool s' = s_DispatchPool s" "s_ResultRouter s' = s_ResultRouter s"
  shows "pools_ok s'"
  using assms unfolding pools_ok_def dj_ok_def same_ids_def by (auto intro: order.strict_trans2)

lemma funcs_ok_cong:
  assumes "funcs_ok s" "s_Funcs s' = s_Funcs s" "s_nextWorker s \<le> s_nextWorker s'"
  shows "funcs_ok s'"
  using assms by (fastforce simp: funcs_ok_def)

text \<open>Updates of a connection: its id stays, it forgets its worker or keeps it, and its client
  is its own.\<close>

definition client_of :: "addr \<Rightarrow> Connect \<Rightarrow> bool" where
  "client_of a c \<longleftrightarrow> (\<forall>cl. c_RunClient c = Some cl \<longrightarrow> sc_Connect cl = a \<and> sc_ClientId cl = c_Id c
     \<and> length (rq_Params (sc_Req cl)) < 2 ^ 32)"

lemma inv_upd_conn:
  assumes inv: "server_inv_ex X s"
    and new: "conn_inv (f (s_conns s a))" "c_Id (f (s_conns s a)) = c_Id (s_conns s a)"
      "c_RunWorker (f (s_conns s a)) = c_RunWorker (s_conns s a) \<or> c_RunWorker (f (s_conns s a)) = None"
      "client_of a (f (s_conns s a))"
      "c_RunClient (f (s_conns s a)) \<noteq> None \<Longrightarrow> a < s_nextConn s"
  shows "server_inv_ex X (upd_conn a f s)"
proof -
  have ids: "same_ids s (upd_conn a f s)" using new(2) by (simp add: same_ids_def)
  have "conns_ok (upd_conn a f s)"
    using inv new(1,2) by (auto simp: server_inv_ex_def conns_ok_def)
  moreover have "links_ok (upd_conn a f s)"
    using inv new by (auto simp: server_inv_ex_def links_ok_def client_of_def)
  moreover have "chans_ok X (upd_conn a f s)" "pools_ok (upd_conn a f s)" "funcs_ok (upd_conn a f s)"
    using inv ids
    by (auto simp: server_inv_ex_def chan_def elim!: chans_ok_cong pools_ok_cong funcs_ok_cong)
  ultimately show ?thesis by (simp add: server_inv_ex_def)
qed

lemma inv_client_of: "server_inv_ex X s \<Longrightarrow> client_of a (s_conns s a)"
  by (simp add: server_inv_ex_def links_ok_def client_of_def)

lemma inv_client_lt: "server_inv_ex X s \<Longrightarrow> c_RunClient (s_conns s a) = Some cl \<Longrightarrow> a < s_nextConn s"
  by (auto simp: server_inv_ex_def links_ok_def)

lemma inv_conn: "server_inv_ex X s \<Longrightarrow> conn_inv (s_conns s a)"
  by (simp add: server_inv_ex_def conns_ok_def)

text \<open>Updates that leave ids, worker and client of the connection alone.\<close>

lemma inv_upd_conn_same [inv_intros]:
  assumes "server_inv_ex X s" "conn_inv (f (s_conns s a))"
    "c_Id (f (s_conns s a)) = c_Id (s_conns s a)"
    "c_RunWorker (f (s_conns s a)) = c_RunWorker (s_conns s a)"
    "c_RunClient (f (s_conns s a)) = c_RunClient (s_conns s a)"
  shows "server_inv_ex X (upd_conn a f s)"
proof (rule inv_upd_conn)
  show "client_of a (f (s_conns s a))"
    using inv_client_of [OF assms(1), of a] assms(3,5) by (simp add: client_of_def)
  show "a < s_nextConn s" if "c_RunClient (f (s_conns s a)) \<noteq> None"
    using that assms(1,5) inv_client_lt by auto
qed (use assms in simp_all)

lemma Connect_Write_sel [simp]:
  "c_Id (snd (Connect_Write p c)) = c_Id c" "c_RunWorker (snd (Connect_Write p c)) = c_RunWorker c"
  "c_RunClient (snd (Connect_Write p c)) = c_RunClient c"
  "c_ConnType (snd (Connect_Write p c)) = c_ConnType c" "c_Conn (snd (Connect_Write p c)) = c_Conn c"
  "c_output (snd (Connect_Write p c)) = c_output c" "c_input (snd (Connect_Write p c)) = c_input c"
  by (cases rule: Connect_Write_cases [of p c]; simp)+

lemma write_conn_eq: "snd (write_conn c p s) = upd_conn c (\<lambda>cn. snd (Connect_Write p cn)) s"
  by (simp add: write_conn_def upd_conn_def split: prod.split)

lemma inv_write_conn [inv_intros]:
  "server_inv_ex X s \<Longrightarrow> server_inv_ex X (snd (write_conn c p s))"
  unfolding write_conn_eq
  by (rule inv_upd_conn_same) (auto intro: Connect_Write_inv inv_conn)

lemma inv_write_res [inv_intros]:
  "server_inv_ex X s \<Longrightarrow> write_res res c s = Some s' \<Longrightarrow> server_inv_ex X s'"
  by (auto simp: write_res_def bind_eq_Some_conv intro: inv_write_conn)

lemma inv_Funcs:
  assumes "server_inv_ex X s" "fm_inv fm" "fm_hash fm"
    "\<And>n w. w \<in> set (workers_of fm n) \<Longrightarrow> w < s_nextWorker s"
  shows "server_inv_ex X (s\<lparr>s_Funcs := fm\<rparr>)"
proof -
  have "chans_ok X (s\<lparr>s_Funcs := fm\<rparr>)"
    using assms(1) by (auto simp: server_inv_ex_def same_ids_def chan_def elim!: chans_ok_cong)
  moreover have "pools_ok (s\<lparr>s_Funcs := fm\<rparr>)"
    using assms(1) by (auto simp: server_inv_ex_def same_ids_def elim!: pools_ok_cong)
  ultimately show ?thesis
    using assms by (auto simp: server_inv_ex_def conns_ok_def funcs_ok_def links_ok_def)
qed

lemma inv_fm: "server_inv_ex X s \<Longrightarrow> fm_inv (s_Funcs s)" "server_inv_ex X s \<Longrightarrow> fm_hash (s_Funcs s)"
  by (simp_all add: server_inv_ex_def funcs_ok_def)

lemma inv_registered:
  "server_inv_ex X s \<Longrightarrow> w \<in> set (workers_of (s_Funcs s) n) \<Longrightarrow> w < s_nextWorker s"
  by (auto simp: server_inv_ex_def funcs_ok_def)

lemma inv_AddFunc [inv_intros]:
  assumes "server_inv_ex X s" "w < s_nextWorker s"
  shows "server_inv_ex X (s\<lparr>s_Funcs := snd (AddFunc (Some w) n (s_Funcs s))\<rparr>)"
proof (cases "n = []")
  case False
  show ?thesis
    using assms False
    by (intro inv_Funcs) (auto intro: inv_intros inv_fm inv_registered simp: AddFunc_workers split: if_splits)
qed (use assms in simp)

lemma inv_DelWorkerFunc [inv_intros]:
  assumes "server_inv_ex X s"
  shows "server_inv_ex X (s\<lparr>s_Funcs := snd (DelWorkerFunc wid i n (s_Funcs s))\<rparr>)"
  using assms inv_fm [OF assms] set_remove_first_subset
  by (intro inv_Funcs)
    (auto intro: inv_intros inv_registered simp: DelWorkerFunc_workers split: if_splits
      dest!: subsetD [OF set_remove_first_subset])

lemma inv_CleanWorkerFunc [inv_intros]:
  assumes "server_inv_ex X s"
  shows "server_inv_ex X (s\<lparr>s_Funcs := snd (CleanWorkerFunc wid i (s_Funcs s))\<rparr>)"
  using assms inv_fm [OF assms]
  by (intro inv_Funcs)
    (auto intro: inv_intros inv_registered simp: CleanWorkerFunc_workers
      dest!: subsetD [OF set_remove_first_subset])

lemma inv_DelWorker [inv_intros]:
  assumes "server_inv_ex X s"
  shows "server_inv_ex X (s\<lparr>s_Funcs := snd (DelWorker wid i (s_Funcs s))\<rparr>)"
  using assms inv_fm [OF assms]
  by (intro inv_Funcs)
    (auto intro: inv_intros inv_registered simp: DelWorker_workers
      dest!: subsetD [OF set_remove_first_subset])

text \<open>Updates of a worker that keep its id, its connection and its channels.\<close>

lemma inv_upd_worker:
  assumes inv: "server_inv_ex X s"
    and new: "sw_WorkerId (f (s_workers s a)) = sw_WorkerId (s_workers s a)"
      "sw_Connect (f (s_workers s a)) = sw_Connect (s_workers s a)"
    and ch: "chans_ok X (upd_worker a f s)"
  shows "server_inv_ex X (upd_worker a f s)"
proof -
  have "pools_ok (upd_worker a f s)" "funcs_ok (upd_worker a f s)"
    using inv by (auto simp: server_inv_ex_def same_ids_def elim!: pools_ok_cong funcs_ok_cong)
  moreover have "links_ok (upd_worker a f s)"
    using inv new by (auto simp: server_inv_ex_def links_ok_def)
  ultimately show ?thesis using inv ch by (simp add: server_inv_ex_def conns_ok_def)
qed

lemma inv_upd_worker_same [inv_intros]:
  assumes "server_inv_ex X s"
    and "sw_WorkerId (f (s_workers s a)) = sw_WorkerId (s_workers s a)"
      "sw_Connect (f (s_workers s a)) = sw_Connect (s_workers s a)"
      "sw_JobChannels (f (s_workers s a)) = sw_JobChannels (s_workers s a)"
  shows "server_inv_ex X (upd_worker a f s)"
proof (rule inv_upd_worker)
  show "chans_ok X (upd_worker a f s)"
    using assms
    by (auto simp: server_inv_ex_def same_ids_def chan_def elim!: chans_ok_cong)
qed (use assms in auto)

text \<open>A job that is in no channel may change.\<close>

lemma inv_upd_job_free:
  assumes "server_inv_ex X s" "\<And>w f. j \<notin> set (chan s w f)"
  shows "server_inv_ex X (upd_job j g s)"
proof -
  have ch: "chan (upd_job j g s) = chan s" by (intro ext) (simp add: chan_def)
  have jb: "s_jobs (upd_job j g s) k = s_jobs s k" if "k \<in> set (chan s w f)" for k w f
    using that assms(2) by auto
  have "chans_ok X (upd_job j g s)"
    using assms(1)
    by (auto simp: server_inv_ex_def same_ids_def ch jb simp del: upd_job_sel(1) fun_upd_apply
        intro!: chans_ok_suffix [of X s])
  moreover have "pools_ok (upd_job j g s)" "funcs_ok (upd_job j g s)"
    using assms(1) by (auto simp: server_inv_ex_def same_ids_def elim!: pools_ok_cong funcs_ok_cong)
  ultimately show ?thesis using assms(1) by (simp add: server_inv_ex_def conns_ok_def links_ok_def)
qed

subsection \<open>Channels\<close>

lemma GetJobChannel_eq:
  "fst (GetJobChannel f w) = (case sw_JobChannels w f of None \<Rightarrow> [] | Some ch \<Rightarrow> ch)"
  "sw_WorkerId (snd (GetJobChannel f w)) = sw_WorkerId w"
  "sw_Connect (snd (GetJobChannel f w)) = sw_Connect w"
  "sw_WorkerName (snd (GetJobChannel f w)) = sw_WorkerName w"
  by (auto simp: GetJobChannel_def split: option.splits)

text \<open>Taking a job out of a channel: the job, the rest, and everything else unchanged.\<close>

lemma PopJobFromChannel_eq:
  assumes "PopJobFromChannel f (s_workers s w) = (job, sw)"
  shows "job = (case chan s w f of [] \<Rightarrow> None | j # _ \<Rightarrow> Some j)"
    and "chan (upd_worker w (\<lambda>_. sw) s) v g = (if v = w \<and> g = f then tl (chan s w f) else chan s v g)"
    and "sw_WorkerId sw = sw_WorkerId (s_workers s w)" "sw_Connect sw = sw_Connect (s_workers s w)"
      "sw_WorkerName sw = sw_WorkerName (s_workers s w)"
  using assms
  by (auto simp: PopJobFromChannel_def GetJobChannel_def chan_def chan_recv_def Let_def
      split: option.splits list.splits)

lemma inv_PopJobFromChannel:
  assumes "server_inv_ex X s" "PopJobFromChannel f (s_workers s w) = (job, sw)"
  shows "server_inv_ex X (upd_worker w (\<lambda>_. sw) s)"
proof (rule inv_upd_worker)
  note pop = PopJobFromChannel_eq [OF assms(2)]
  have "suffix (chan (upd_worker w (\<lambda>_. sw) s) v g) (chan s v g)" for v g
    by (simp add: pop(2) suffix_tl)
  then show "chans_ok X (upd_worker w (\<lambda>_. sw) s)"
    using assms(1) pop(3)
    by (auto simp: server_inv_ex_def same_ids_def elim!: chans_ok_suffix)
qed (use assms PopJobFromChannel_eq [OF assms(2)] in simp_all)

lemma popped_free:
  assumes "server_inv_ex X s" "PopJobFromChannel f (s_workers s w) = (Some j, sw)"
  shows "j \<notin> set (chan (upd_worker w (\<lambda>_. sw) s) v g)"
proof -
  have ok: "chans_ok X s" using assms(1) by (simp add: server_inv_ex_def)
  obtain ch where ch: "chan s w f = j # ch"
    using PopJobFromChannel_eq(1) [OF assms(2)] by (auto split: list.splits)
  have "distinct (chan s w f)" using ok by (simp add: chans_ok_def)
  then have "j \<notin> set ch" by (simp add: ch)
  moreover have "v = w \<and> g = f" if "j \<in> set (chan s v g)"
    using chans_okD(5) [OF ok that, of w f] by (simp add: ch)
  ultimately show ?thesis
    unfolding PopJobFromChannel_eq(2) [OF assms(2)] by (cases "v = w \<and> g = f") (auto simp: ch)
qed

lemma PushJobToChannelWithBackpressure_eq:
  "PushJobToChannelWithBackpressure = PushJobToChannel"
  by (intro ext) (simp add: PushJobToChannelWithBackpressure_def PushJobToChannel_def)

lemma PushJobToChannel_eq:
  assumes "PushJobToChannel jd (Some j) (s_workers s w) = (ok, sw)" "f = jd_FuncName (jd j)"
  shows "ok \<longleftrightarrow> f \<noteq> [] \<and> length (chan s w f) < 1024"
    and "chan (upd_worker w (\<lambda>_. sw) s) v g =
      (if v = w \<and> g = f \<and> ok then chan s w f @ [j] else chan s v g)"
    and "sw_WorkerId sw = sw_WorkerId (s_workers s w)" "sw_Connect sw = sw_Connect (s_workers s w)"
      "sw_WorkerName sw = sw_WorkerName (s_workers s w)"
  using assms
  by (auto simp: PushJobToChannel_def GetJobChannel_def chan_def chan_send_def Let_def
      split: option.splits if_splits)

lemma server_inv_ex_mono: "server_inv_ex X s \<Longrightarrow> X \<subseteq> Y \<Longrightarrow> server_inv_ex Y s"
  unfolding server_inv_ex_def chans_ok_def by blast

lemma server_inv_ex_drop:
  assumes inv: "server_inv_ex {j} s" and free: "\<And>w f. j \<notin> set (chan s w f)"
  shows "server_inv_ex {} s"
proof -
  have ok: "chans_ok {j} s" using inv by (simp add: server_inv_ex_def)
  have "chans_ok {} s"
  proof (rule chans_okI)
    fix k w f assume k: "k \<in> set (chan s w f)"
    then have "k \<notin> {j}" using free by auto
    then show "job_sent (sw_WorkerId (s_workers s w)) f (s_jobs s k)" by (rule chans_okD(4) [OF ok k])
  qed (use ok in \<open>auto simp: chans_ok_def\<close>)
  then show ?thesis using inv by (simp add: server_inv_ex_def)
qed

text \<open>A new job, queued but not yet sent.\<close>

lemma inv_alloc_job:
  assumes "server_inv_ex X s"
  shows "server_inv_ex X (snd (alloc_job jb s))"
proof -
  let ?s = "snd (alloc_job jb s)"
  have ch: "chan ?s = chan s" by (intro ext) (simp add: chan_def alloc_job_def)
  have jb: "s_jobs ?s j = s_jobs s j" if "j \<in> set (chan s w f)" for j w f
    using chans_okD(1) [OF _ that, of X] assms by (auto simp: server_inv_ex_def alloc_job_def)
  have "chans_ok X ?s"
    using assms unfolding server_inv_ex_def
    by (auto intro!: chans_ok_suffix [of X s] simp: ch jb) (simp_all add: alloc_job_def same_ids_def)
  moreover have "pools_ok ?s" "funcs_ok ?s"
    using assms by (auto simp: server_inv_ex_def same_ids_def alloc_job_def
        elim!: pools_ok_cong funcs_ok_cong)
  ultimately show ?thesis
    using assms by (simp add: server_inv_ex_def conns_ok_def links_ok_def alloc_job_def)
qed

lemma alloc_job_sel [simp]:
  "s_conns (snd (alloc_job jb s)) = s_conns s" "s_workers (snd (alloc_job jb s)) = s_workers s"
  "s_nextConn (snd (alloc_job jb s)) = s_nextConn s" "fst (alloc_job jb s) = s_nextJob s"
  "s_nextJob (snd (alloc_job jb s)) = Suc (s_nextJob s)"
  "s_jobs (snd (alloc_job jb s)) = (s_jobs s)(s_nextJob s := jb)"
  "chan (snd (alloc_job jb s)) = chan s"
  by (auto simp: alloc_job_def chan_def fun_eq_iff)

lemma inv_push:
  assumes inv: "server_inv s" and s0: "s0 = snd (alloc_job jb s)"
    and fit: "job_fit (sw_WorkerId (s_workers s w)) (jd_FuncName jb) jb" and cl: "job_client s jb"
    and push: "PushJobToChannel (s_jobs s0) (Some (s_nextJob s)) (s_workers s0 w) = (ok, sw)"
  shows "server_inv_ex {s_nextJob s} (upd_worker w (\<lambda>_. sw) s0)"
proof (rule inv_upd_worker)
  let ?j = "s_nextJob s" and ?f = "jd_FuncName jb"
  have i0: "server_inv_ex {} s0" using inv unfolding s0 server_inv_def by (rule inv_alloc_job)
  then have c0: "chans_ok {} s0" by (simp add: server_inv_ex_def)
  have jb: "s_jobs s0 ?j = jb" by (simp add: s0)
  have ws: "s_workers s = s_workers s0" by (simp add: s0)
  note pu = PushJobToChannel_eq [OF push refl, unfolded jb]
  have new: "?j \<notin> set (chan s0 v g)" for v g
    using chans_okD(1) [of "{}" s ?j v g] inv by (auto simp: s0 server_inv_def server_inv_ex_def)
  have job: "job_client s0 jb" using cl by (simp add: s0 job_client_def)
  show "chans_ok {?j} (upd_worker w (\<lambda>_. sw) s0)"
  proof (rule chans_okI; unfold pu(2))
    fix k v g v' g'
    show "length (if v = w \<and> g = ?f \<and> ok then chan s0 w ?f @ [?j] else chan s0 v g) \<le> 1024"
      "distinct (if v = w \<and> g = ?f \<and> ok then chan s0 w ?f @ [?j] else chan s0 v g)"
      using c0 pu(1) new by (auto simp: chans_ok_def)
    assume k: "k \<in> set (if v = w \<and> g = ?f \<and> ok then chan s0 w ?f @ [?j] else chan s0 v g)"
    then have k': "k \<in> set (chan s0 v g) \<or> k = ?j \<and> v = w \<and> g = ?f" by (auto split: if_splits)
    then show "k < s_nextJob (upd_worker w (\<lambda>_. sw) s0)"
      using chans_okD(1) [OF c0] by (auto simp: s0)
    show "job_client (upd_worker w (\<lambda>_. sw) s0) (s_jobs (upd_worker w (\<lambda>_. sw) s0) k)"
      using k' chans_okD(2) [OF c0] job by (auto simp: job_client_def jb)
    show "job_fit (sw_WorkerId (s_workers (upd_worker w (\<lambda>_. sw) s0) v)) g
        (s_jobs (upd_worker w (\<lambda>_. sw) s0) k)"
      using k' chans_okD(3) [OF c0, of k v g] fit pu(3) by (auto simp: jb ws)
    show "job_sent (sw_WorkerId (s_workers (upd_worker w (\<lambda>_. sw) s0) v)) g
        (s_jobs (upd_worker w (\<lambda>_. sw) s0) k)" if "k \<notin> {?j}"
      using k' that chans_okD(4) [OF c0] pu(3) by auto
    assume "k \<in> set (if v' = w \<and> g' = ?f \<and> ok then chan s0 w ?f @ [?j] else chan s0 v' g')"
    then have "k \<in> set (chan s0 v' g') \<or> k = ?j \<and> v' = w \<and> g' = ?f" by (auto split: if_splits)
    then show "v = v' \<and> g = g'"
      using k' new chans_okD(5) [OF c0, of k v g v' g'] by auto
  qed
next
  show "server_inv_ex {s_nextJob s} s0"
    using inv unfolding s0 server_inv_def by (blast intro: inv_alloc_job server_inv_ex_mono)
qed (simp_all add: PushJobToChannel_eq(3,4) [OF push refl])

subsection \<open>Handlers of a worker\<close>

lemma ResEncodePack_frame:
  assumes "ResEncodePack res = Some (res', pack)"
  shows "rs_DataType res' = rs_DataType res" "rs_Handle res' = rs_Handle res"
    "rs_HandleLen res' = rs_HandleLen res" "rs_ParamsType res' = rs_ParamsType res"
    "rs_ParamsHandleType res' = rs_ParamsHandleType res" "rs_ParamsLen res' = rs_ParamsLen res"
    "rs_Params res' = rs_Params res" "rs_JobId res' = rs_JobId res"
    "rs_JobIdLen res' = rs_JobIdLen res" "rs_Ret res' = rs_Ret res" "rs_RetLen res' = rs_RetLen res"
  using assms
  by (auto simp: ResEncodePack_def bind_eq_Some_conv Let_def split: if_splits)

lemma inv_addFunction [inv_intros]:
  assumes "server_inv_ex X s" "w < s_nextWorker s" "addFunction env w req s = Some s'"
  shows "server_inv_ex X s'"
  using assms
  by (auto simp: addFunction_def bind_eq_Some_conv inc_metric_Some Let_def elim!: inv_write_res [rotated] split: if_splits
      intro!: inv_add_metric inv_AddFunc)

lemma inv_delFunction [inv_intros]:
  "server_inv_ex X s \<Longrightarrow> delFunction env w req s = Some s' \<Longrightarrow> server_inv_ex X s'"
  by (auto simp: delFunction_def bind_eq_Some_conv inc_metric_Some Let_def split: if_splits intro: inv_intros)

lemma inv_setWorkerName [inv_intros]:
  assumes "server_inv_ex X s" "setWorkerName w req s = Some s'"
  shows "server_inv_ex X s'"
proof -
  have "server_inv_ex X (upd_worker w (sw_WorkerName_update h) s)" for h
    by (rule inv_upd_worker_same) (use assms(1) in auto)
  then show ?thesis
    using assms by (auto simp: setWorkerName_def Let_def elim!: inv_write_res [rotated] split: if_splits)
qed

lemma inv_heartBeatPong [inv_intros]:
  "server_inv_ex X s \<Longrightarrow> heartBeatPong w s = Some s' \<Longrightarrow> server_inv_ex X s'"
  by (auto simp: heartBeatPong_def intro: inv_intros)

lemma inv_workerWakeup [inv_intros]: "server_inv_ex X s \<Longrightarrow> server_inv_ex X (workerWakeup w s)"
  by (auto simp: workerWakeup_def intro: inv_upd_worker_same)

lemma inv_answer_client:
  assumes "server_inv_ex X s" "answer_client env sw c r req jb s = Some s'"
  shows "server_inv_ex X s'"
proof -
  have "server_inv_ex X (snd (write_conn c p s))" for p using assms(1) by (rule inv_write_conn)
  then show ?thesis
    using assms
    by (auto simp: answer_client_def bind_eq_Some_conv inc_metric_Some Let_def split_beta split: if_splits
        intro!: inv_add_metric)
qed

lemma inv_returnData [inv_intros]:
  assumes "server_inv_ex X s" "returnData env w rj s = Some s'"
  shows "server_inv_ex X s'"
proof -
  obtain job sw where pop: "PopJobFromChannel (rj_FuncName rj) (s_workers s w) = (job, sw)"
    by fastforce
  let ?s = "upd_worker w (\<lambda>_. sw) s"
  have s: "server_inv_ex X ?s" using assms(1) pop by (rule inv_PopJobFromChannel)
  have free: "server_inv_ex X (upd_job j g ?s)" if "job = Some j" for j g
    using s popped_free [OF assms(1)] pop that by (intro inv_upd_job_free) auto
  have free2: "server_inv_ex X (upd_job j h (upd_job j g ?s))" if "job = Some j" for j g h
    using s popped_free [OF assms(1)] pop that by (intro inv_upd_job_free) auto
  show ?thesis
    using assms(2) s free free2
    by (auto simp: returnData_def pop Let_def split: option.splits if_splits
        intro: inv_answer_client inv_Blocked)
qed

text \<open>Sending a queued job completes it.\<close>

lemma doWork_sent:
  assumes "doWork w (Some j) s = Some s'" "s_jobs s j = jb" "jd_status jb = JOB_STATUS_INIT"
    "job_fit (sw_WorkerId (s_workers s w)) f jb"
  shows "job_sent (sw_WorkerId (s_workers s w)) f (s_jobs s' j)"
    and "\<exists>p r. ResEncodePack r = Some (the (jd_Response (s_jobs s' j)), p)
      \<and> s' = upd_job j (\<lambda>_. s_jobs s' j) (snd (write_conn (sw_Connect (s_workers s w)) p s))
      \<and> rs_DataType r = PDT_S_GET_DATA \<and> job_resp jb r \<and> rs_Ret r = [] \<and> rs_RetLen r = 0"
    and "jd_Client (s_jobs s' j) = jd_Client jb" "jd_ClientId (s_jobs s' j) = jd_ClientId jb"
proof -
  have "len32 (jd_Params jb) \<noteq> 0"
    using assms(4) by (simp add: job_fit_def len32_0_iff)
  then obtain res pack where r: "ResEncodePack (server_NewRes\<lparr>rs_DataType := PDT_S_GET_DATA,
        rs_Handle := jd_FuncName jb,
        rs_HandleLen := len32 (jd_FuncName jb), rs_ParamsType := jd_ParamsType jb,
        rs_ParamsHandleType := jd_ParamsHandleType jb, rs_ParamsLen := len32 (jd_Params jb),
        rs_Params := jd_Params jb, rs_JobId := jd_JobId jb,
        rs_JobIdLen := len32 (jd_JobId jb)\<rparr>) = Some (res, pack)"
    and s': "s' = upd_job j (\<lambda>jb. jb\<lparr>jd_Response := Some res\<rparr>)
      (snd (write_conn (sw_Connect (s_workers s w)) pack (upd_job j (\<lambda>jb. jb\<lparr>jd_status := JOB_STATUS_DOING\<rparr>) s)))"
    using assms by (auto simp: doWork_def Let_def bind_eq_Some_conv job_fit_def split: if_splits)
  have jb': "s_jobs s' j = jb\<lparr>jd_status := JOB_STATUS_DOING, jd_Response := Some res\<rparr>"
    using assms(2) by (simp add: s' write_conn_eq)
  show "job_sent (sw_WorkerId (s_workers s w)) f (s_jobs s' j)"
    using assms(4) ResEncodePack_frame [OF r]
    by (auto simp: jb' job_sent_def job_fit_def job_resp_def)
  show "jd_Client (s_jobs s' j) = jd_Client jb" "jd_ClientId (s_jobs s' j) = jd_ClientId jb"
    by (simp_all add: jb')
  have "s' = upd_job j (\<lambda>_. s_jobs s' j) (snd (write_conn (sw_Connect (s_workers s w)) pack s))"
    by (simp add: s' write_conn_eq upd_job_def upd_conn_def)
  then show "\<exists>p r. ResEncodePack r = Some (the (jd_Response (s_jobs s' j)), p)
      \<and> s' = upd_job j (\<lambda>_. s_jobs s' j) (snd (write_conn (sw_Connect (s_workers s w)) p s))
      \<and> rs_DataType r = PDT_S_GET_DATA \<and> job_resp jb r \<and> rs_Ret r = [] \<and> rs_RetLen r = 0"
    using r by (auto simp: jb' job_resp_def server_NewRes_def intro!: exI)
qed

lemma inv_doWork:
  assumes inv: "server_inv_ex {j} s" and work: "doWork w (Some j) s = Some s'"
    and jb: "jd_status (s_jobs s j) = JOB_STATUS_INIT"
    and fit: "job_fit (sw_WorkerId (s_workers s w)) (jd_FuncName (s_jobs s j)) (s_jobs s j)"
    and own: "\<And>v g. j \<in> set (chan s v g) \<Longrightarrow> v = w"
  shows "server_inv s'"
proof -
  note sent = doWork_sent [OF work refl jb fit]
  obtain p where s': "s' = upd_job j (\<lambda>_. s_jobs s' j) (snd (write_conn (sw_Connect (s_workers s w)) p s))"
    using sent(2) by blast
  let ?s = "snd (write_conn (sw_Connect (s_workers s w)) p s)"
  have i: "server_inv_ex {j} ?s" using inv by (rule inv_write_conn)
  then have ok: "chans_ok {j} ?s" by (simp add: server_inv_ex_def)
  have wk: "s_workers ?s = s_workers s" "chan ?s = chan s" by (simp_all add: write_conn_eq)
  have sent_j: "job_sent (sw_WorkerId (s_workers s v)) g (s_jobs s' j)" if "j \<in> set (chan s v g)" for v g
  proof -
    have "job_fit (sw_WorkerId (s_workers s v)) g (s_jobs s j)"
      using that inv by (auto simp: server_inv_ex_def dest: chans_okD(3))
    then show ?thesis using sent(1) own [OF that] by (simp add: job_fit_def)
  qed
  have "chans_ok {} (upd_job j (\<lambda>_. s_jobs s' j) ?s)"
  proof (rule chans_okI; unfold chan_frame upd_job_sel)
    fix k v g v' g'
    show "length (chan ?s v g) \<le> 1024" "distinct (chan ?s v g)" using ok by (auto simp: chans_ok_def)
    assume k: "k \<in> set (chan ?s v g)"
    note old = chans_okD [OF ok k]
    show "k < s_nextJob ?s" by (rule old(1))
    show "job_client (upd_job j (\<lambda>_. s_jobs s' j) ?s) (((s_jobs ?s)(j := s_jobs s' j)) k)"
      using old(2) sent(3,4) by (auto simp: job_client_def write_conn_eq)
    show "job_sent (sw_WorkerId (s_workers ?s v)) g (((s_jobs ?s)(j := s_jobs s' j)) k)"
      using old(4) k sent_j by (auto simp: wk)
    then show "job_fit (sw_WorkerId (s_workers ?s v)) g (((s_jobs ?s)(j := s_jobs s' j)) k)"
      by (simp add: job_sent_def)
    show "v = v' \<and> g = g'" if "k \<in> set (chan ?s v' g')" using old(5) [OF that] .
  qed
  moreover have "pools_ok (upd_job j (\<lambda>_. s_jobs s' j) ?s)" "funcs_ok (upd_job j (\<lambda>_. s_jobs s' j) ?s)"
    using i by (auto simp: server_inv_ex_def same_ids_def elim!: pools_ok_cong funcs_ok_cong)
  ultimately have "server_inv (upd_job j (\<lambda>_. s_jobs s' j) ?s)"
    using i by (simp add: server_inv_def server_inv_ex_def conns_ok_def links_ok_def)
  then show ?thesis using s' by simp
qed

lemma inv_ResultRouter:
  assumes "server_inv_ex X s" "rr_workers rr = 256" "length (rr_resultCh rr) \<le> 1024"
    "\<And>r. r \<in> set (rr_resultCh rr) \<Longrightarrow> dr_sw r < s_nextWorker s"
  shows "server_inv_ex X (s\<lparr>s_ResultRouter := rr\<rparr>)"
proof -
  have "chans_ok X (s\<lparr>s_ResultRouter := rr\<rparr>)" "funcs_ok (s\<lparr>s_ResultRouter := rr\<rparr>)"
    using assms(1) by (auto simp: server_inv_ex_def same_ids_def elim!: chans_ok_cong funcs_ok_cong)
  then show ?thesis
    using assms by (auto simp: server_inv_ex_def conns_ok_def links_ok_def pools_ok_def dj_ok_def)
qed

lemma inv_DispatchPool:
  assumes "server_inv_ex X s" "dp_workers dp = 512" "length (dp_jobCh dp) \<le> 1024"
    "\<And>d. d \<in> set (dp_jobCh dp) \<Longrightarrow> dj_ok s d"
  shows "server_inv_ex X (s\<lparr>s_DispatchPool := dp\<rparr>)"
proof -
  have "chans_ok X (s\<lparr>s_DispatchPool := dp\<rparr>)" "funcs_ok (s\<lparr>s_DispatchPool := dp\<rparr>)"
    using assms(1) by (auto simp: server_inv_ex_def same_ids_def elim!: chans_ok_cong funcs_ok_cong)
  then show ?thesis
    using assms by (auto simp: server_inv_ex_def conns_ok_def links_ok_def pools_ok_def dj_ok_def)
qed

lemma inv_pools: "server_inv_ex X s \<Longrightarrow> pools_ok s"
  by (simp add: server_inv_ex_def)

lemma inv_ResultRouter_Submit [inv_intros]:
  assumes "server_inv_ex X s" "w < s_nextWorker s"
    "ResultRouter_Submit w f i req (s_ResultRouter s) = (ok, rr)"
  shows "server_inv_ex X (s\<lparr>s_ResultRouter := rr\<rparr>)"
  using assms inv_pools [OF assms(1)]
  by (intro inv_ResultRouter)
    (auto simp: ResultRouter_Submit_def chan_send_def pools_ok_def ResultRouter_cap_def split: if_splits)

lemma inv_ResultRouter_take [inv_intros]:
  assumes "server_inv_ex X s" "ResultRouter_take (s_ResultRouter s) = (r, rr)"
  shows "server_inv_ex X (s\<lparr>s_ResultRouter := rr\<rparr>)"
  using assms inv_pools [OF assms(1)]
  by (intro inv_ResultRouter)
    (auto simp: ResultRouter_take_def chan_recv_def pools_ok_def split: list.splits)

lemma inv_RunWorkerOptimized [inv_intros]:
  assumes "server_inv_ex X s" "w < s_nextWorker s" "RunWorkerOptimized env w data s = Some s'"
  shows "server_inv_ex X s'"
  using assms
  by (auto simp: RunWorkerOptimized_def bind_eq_Some_conv Let_def split: if_splits prod.splits bool.splits
      intro: inv_intros)

lemma inv_ResultRouter_worker [inv_intros]:
  assumes "server_inv_ex X s" "ResultRouter_worker env s = Some s'"
  shows "server_inv_ex X s'"
  using assms
  by (auto simp: ResultRouter_worker_def split: prod.splits option.splits
      intro: inv_returnData inv_ResultRouter_take)

end
