(* ===== verification/Server_Steps.thy ===== *)
theory Server_Steps
  imports Server_Inv
begin

section \<open>Load balancing, the read loop and the steps of the server\<close>

text \<open>
  The step relation of the server and its reachable states: a connection is accepted, bytes
  arrive, \<^verbatim>\<open>DoIO\<close> of a connection does one round, a goroutine of the dispatch pool or of the
  result router handles one element, the write loop of a connection does one round. The
  handlers are atomic; their interleaving is arbitrary. A panic is not a step.

  The lemmas: load balancing terminates and returns a registered, connected worker; every
  handler keeps the invariant; hence every reachable state satisfies it.
\<close>

subsection \<open>Definitions\<close>

text \<open>Load balancing changes the function table and closes sockets, nothing else.\<close>

definition lb_frame :: "Server \<Rightarrow> Server \<Rightarrow> bool" where
  "lb_frame s s' \<longleftrightarrow> s_workers s' = s_workers s \<and> s_jobs s' = s_jobs s
     \<and> s_nextConn s' = s_nextConn s \<and> s_nextWorker s' = s_nextWorker s \<and> s_nextJob s' = s_nextJob s
     \<and> s_DispatchPool s' = s_DispatchPool s \<and> s_ResultRouter s' = s_ResultRouter s
     \<and> s_Metrics s' = s_Metrics s \<and> s_Blocked s' = s_Blocked s
     \<and> (\<forall>c. (s_conns s' c)\<lparr>c_sockClosed := False\<rparr> = (s_conns s c)\<lparr>c_sockClosed := False\<rparr>)"

definition alive :: "Server \<Rightarrow> addr \<Rightarrow> bool" where
  "alive s w \<longleftrightarrow> c_RunWorker (s_conns s (sw_Connect (s_workers s w))) \<noteq> None"

inductive server_step :: "Server \<Rightarrow> Server \<Rightarrow> bool" where
  accept: "NewConnect cfg ad hp cid i s = (r, s') \<Longrightarrow> cid \<noteq> [] \<Longrightarrow> server_step s s'"
| arrive: "server_step s (upd_conn c (\<lambda>cn. cn\<lparr>c_input := c_input cn @ i\<rparr>) s)"
| io: "c < s_nextConn s \<Longrightarrow> DoIO env c s = Some (s', goes_on) \<Longrightarrow> server_step s s'"
| dispatch: "DispatchPool_worker env s = Some s' \<Longrightarrow> server_step s s'"
| route: "ResultRouter_worker env s = Some s' \<Longrightarrow> server_step s s'"
| send: "server_step s (upd_conn c (\<lambda>cn. fst (writeLoop_write ans cn)) s)"
| stop_writing: "c_closeCh (s_conns s c) \<Longrightarrow> server_step s (upd_conn c writeLoop_close s)"

inductive server_reachable :: "Server \<Rightarrow> bool" where
  start: "server_reachable NewServer"
| step: "server_reachable s \<Longrightarrow> server_step s s' \<Longrightarrow> server_reachable s'"

subsection \<open>Load balancing\<close>

lemma lb_frame_refl [simp]: "lb_frame s s"
  by (simp add: lb_frame_def)

lemma lb_frame_trans: "lb_frame s s' \<Longrightarrow> lb_frame s' s'' \<Longrightarrow> lb_frame s s''"
  by (simp add: lb_frame_def)

lemma sockClosed_eq:
  "x\<lparr>c_sockClosed := False\<rparr> = y\<lparr>c_sockClosed := False\<rparr> \<Longrightarrow> x = (y :: Connect)\<lparr>c_sockClosed := c_sockClosed x\<rparr>"
  by (cases x; cases y) simp

lemma lb_frame_conn:
  assumes "lb_frame s s'"
  shows "c_RunWorker (s_conns s' c) = c_RunWorker (s_conns s c)"
    "c_RunClient (s_conns s' c) = c_RunClient (s_conns s c)" "c_Id (s_conns s' c) = c_Id (s_conns s c)"
    "c_writeCh (s_conns s' c) = c_writeCh (s_conns s c)"
    "c_pendingBytes (s_conns s' c) = c_pendingBytes (s_conns s c)"
    "c_maxPendingBytes (s_conns s' c) = c_maxPendingBytes (s_conns s c)"
    "c_closed (s_conns s' c) = c_closed (s_conns s c)" "c_Conn (s_conns s' c) = c_Conn (s_conns s c)"
    "c_ConnType (s_conns s' c) = c_ConnType (s_conns s c)"
    "c_output (s_conns s' c) = c_output (s_conns s c)"
    "can_write p (s_conns s' c) = can_write p (s_conns s c)"
    "stream (s_conns s' c) = stream (s_conns s c)"
proof -
  obtain b where "s_conns s' c = (s_conns s c)\<lparr>c_sockClosed := b\<rparr>"
    using assms sockClosed_eq unfolding lb_frame_def by blast
  then show "c_RunWorker (s_conns s' c) = c_RunWorker (s_conns s c)"
    "c_RunClient (s_conns s' c) = c_RunClient (s_conns s c)" "c_Id (s_conns s' c) = c_Id (s_conns s c)"
    "c_writeCh (s_conns s' c) = c_writeCh (s_conns s c)"
    "c_pendingBytes (s_conns s' c) = c_pendingBytes (s_conns s c)"
    "c_maxPendingBytes (s_conns s' c) = c_maxPendingBytes (s_conns s c)"
    "c_closed (s_conns s' c) = c_closed (s_conns s c)" "c_Conn (s_conns s' c) = c_Conn (s_conns s c)"
    "c_ConnType (s_conns s' c) = c_ConnType (s_conns s c)"
    "c_output (s_conns s' c) = c_output (s_conns s c)"
    "can_write p (s_conns s' c) = can_write p (s_conns s c)"
    "stream (s_conns s' c) = stream (s_conns s c)"
    by (simp_all add: can_write_def stream_def)
qed

lemma lb_frame_alive: "lb_frame s s' \<Longrightarrow> alive s' w = alive s w"
  by (simp add: alive_def lb_frame_conn(1)) (simp add: lb_frame_def)

lemma lb_frame_input: "lb_frame s s' \<Longrightarrow> c_input (s_conns s' c) = c_input (s_conns s c)"
  unfolding lb_frame_def by (metis (no_types, lifting) Connect.ext_inject Connect.surjective Connect.update_convs(18))

lemma lb_frame_wid: "lb_frame s s' \<Longrightarrow> wid_of s' = wid_of s"
  by (rule ext) (simp add: wid_of_def lb_frame_def)

lemma lb_frame_chan: "lb_frame s s' \<Longrightarrow> chan s' = chan s"
  by (intro ext) (simp add: chan_def lb_frame_def)

lemma CloseSelfWorker_frame: "lb_frame s (CloseSelfWorker w s)"
  by (simp add: lb_frame_def CloseSelfWorker_def Let_def upd_conn_def)

lemma CloseSelfWorker_Funcs:
  "s_Funcs (CloseSelfWorker w s) = snd (CleanWorkerFunc (wid_of s) (wid_of s w) (s_Funcs s))"
  by (simp add: CloseSelfWorker_def Let_def wid_of_def)

lemma inv_CloseSelfWorker [inv_intros]:
  assumes "server_inv_ex X s" shows "server_inv_ex X (CloseSelfWorker w s)"
proof -
  let ?s = "s\<lparr>s_Funcs := snd (CleanWorkerFunc (wid_of s) (wid_of s w) (s_Funcs s))\<rparr>"
  have i: "server_inv_ex X ?s" using assms by (rule inv_CleanWorkerFunc)
  then have "server_inv_ex X (upd_conn c (c_sockClosed_update (\<lambda>_. True)) ?s)" for c
    by (rule inv_upd_conn_same) (use inv_conn [OF i, of c] in \<open>auto simp: conn_inv_def\<close>)
  with i show ?thesis by (simp add: CloseSelfWorker_def Let_def wid_of_def)
qed

text \<open>A random choice among the registered workers never leaves the slice.\<close>

lemma hashfunc_total:
  assumes "func_inv n f" "f_WorkerNum f > 0"
  obtains w where "hashfunc r f = Some w" "w \<in> set (f_Workers f)"
proof -
  have pos: "f_WorkerNum f = int (length (f_Workers f))" "length (f_Workers f) > 0"
    using assms by (auto simp: func_inv_def)
  have "nat (int r mod f_WorkerNum f) < length (f_Workers f)"
    using pos by (simp add: nat_less_iff)
  then show thesis using that by (simp add: hashfunc_def Let_def)
qed

lemma choose_worker_hash:
  "f_LoadBlanceType f = LOADBLANCE_HASH \<Longrightarrow> choose_worker env r n f s = map_option Some (hashfunc r f)"
  by (simp add: choose_worker_def)

lemma GetBestWorker_loop_total:
  assumes "fm_inv (s_Funcs s)" "fm_hash (s_Funcs s)" "length (workers_of (s_Funcs s) name) < n"
  shows "\<exists>r. GetBestWorker_loop n env name s = Done r"
  using assms
proof (induction n arbitrary: s)
  case (Suc n)
  show ?case
  proof (cases "fm_Load name (s_Funcs s)")
    case (Some f)
    show ?thesis
    proof (cases "f_WorkerNum f > 0")
      case True
      have "func_inv name f" using Suc.prems(1) Some by (rule fm_inv_Load)
      then obtain w where w: "hashfunc (e_rand env n) f = Some w" "w \<in> set (f_Workers f)"
        using True by (rule hashfunc_total)
      have hash: "f_LoadBlanceType f = LOADBLANCE_HASH"
        using Suc.prems(2) Some by (simp add: fm_hash_def)
      let ?s = "CloseSelfWorker w s"
      have ws: "workers_of (s_Funcs s) name = f_Workers f" using Some by (simp add: workers_of_def)
      have "workers_of (s_Funcs ?s) name = remove_first (\<lambda>v. wid_of s v = wid_of s w) (f_Workers f)"
        using Suc.prems(1) by (simp add: CloseSelfWorker_Funcs CleanWorkerFunc_workers ws)
      then have "length (workers_of (s_Funcs ?s) name) < n"
        using Suc.prems(3) ws remove_first_shorter [OF w(2), of "\<lambda>v. wid_of s v = wid_of s w"] by simp
      then have "\<exists>r. GetBestWorker_loop n env name ?s = Done r"
        using Suc.prems
        by (intro Suc.IH) (auto simp: CloseSelfWorker_Funcs intro: inv_intros)
      then show ?thesis using Some True w(1) hash by (simp add: choose_worker_hash)
    qed (use Some in simp)
  qed simp
qed simp

lemma GetBestWorker_loop_frame:
  "GetBestWorker_loop n env name s = Done (r, s') \<Longrightarrow> lb_frame s s'"
proof (induction n arbitrary: s)
  case (Suc n)
  then show ?case
    by (auto split: option.splits if_splits intro: lb_frame_trans CloseSelfWorker_frame)
qed simp

lemma GetBestWorker_loop_inv:
  "GetBestWorker_loop n env name s = Done (r, s') \<Longrightarrow> server_inv_ex X s \<Longrightarrow> server_inv_ex X s'"
proof (induction n arbitrary: s)
  case (Suc n)
  then show ?case
    by (auto split: option.splits if_splits intro: inv_CloseSelfWorker)
qed simp

text \<open>The worker returned is registered for the function and connected; if none is returned
  and ids are unique, no connected worker was registered.\<close>

lemma GetBestWorker_loop_Some:
  assumes "GetBestWorker_loop n env name s = Done (Some w, s')"
    "fm_inv (s_Funcs s)" "fm_hash (s_Funcs s)"
  shows "w \<in> set (workers_of (s_Funcs s) name) \<and> alive s w"
  using assms
proof (induction n arbitrary: s)
  case (Suc n)
  obtain f where f: "fm_Load name (s_Funcs s) = Some f" "f_WorkerNum f > 0"
    using Suc.prems(1) by (auto split: option.splits if_splits)
  have "func_inv name f" using Suc.prems(2) f(1) by (rule fm_inv_Load)
  then obtain b where b: "hashfunc (e_rand env n) f = Some b" "b \<in> set (f_Workers f)"
    using f(2) by (rule hashfunc_total)
  have ws: "workers_of (s_Funcs s) name = f_Workers f" using f(1) by (simp add: workers_of_def)
  have choose: "choose_worker env (e_rand env n) name f s = Some (Some b)"
    using Suc.prems(3) f(1) b(1) by (simp add: choose_worker_hash fm_hash_def)
  show ?case
  proof (cases "alive s b")
    case True
    then show ?thesis using Suc.prems(1) f b choose ws by (auto simp: alive_def)
  next
    case False
    let ?s = "CloseSelfWorker b s"
    have "GetBestWorker_loop n env name ?s = Done (Some w, s')"
      using Suc.prems(1) f choose False by (simp add: alive_def)
    then have "w \<in> set (workers_of (s_Funcs ?s) name) \<and> alive ?s w"
      using Suc.prems(2,3) by (intro Suc.IH) (auto simp: CloseSelfWorker_Funcs intro: inv_intros)
    then show ?thesis
      using Suc.prems(2) subsetD [OF set_remove_first_subset]
      by (auto simp: CloseSelfWorker_Funcs CleanWorkerFunc_workers
          lb_frame_alive [OF CloseSelfWorker_frame])
  qed
qed simp

lemma set_remove_first_cases:
  "x \<in> set xs \<Longrightarrow> \<exists>y \<in> set xs. p y \<Longrightarrow> x \<in> set (remove_first p xs) \<or> p x"
  by (induction xs) auto

lemma GetBestWorker_loop_None:
  assumes "GetBestWorker_loop n env name s = Done (None, s')"
    "fm_inv (s_Funcs s)" "fm_hash (s_Funcs s)"
    "w \<in> set (workers_of (s_Funcs s) name)"
  shows "\<exists>v \<in> set (workers_of (s_Funcs s) name). \<not> alive s v \<and> wid_of s v = wid_of s w"
  using assms
proof (induction n arbitrary: s)
  case (Suc n)
  obtain f where f: "fm_Load name (s_Funcs s) = Some f"
    using Suc.prems(4) by (cases "fm_Load name (s_Funcs s)") (auto simp: workers_of_def)
  have fi: "func_inv name f" using Suc.prems(2) f by (rule fm_inv_Load)
  have ws: "workers_of (s_Funcs s) name = f_Workers f" using f by (simp add: workers_of_def)
  then have pos: "f_WorkerNum f > 0" using fi Suc.prems(4) by (auto simp: func_inv_def)
  obtain b where b: "hashfunc (e_rand env n) f = Some b" "b \<in> set (f_Workers f)"
    using fi pos by (rule hashfunc_total)
  have choose: "choose_worker env (e_rand env n) name f s = Some (Some b)"
    using Suc.prems(3) f b(1) by (simp add: choose_worker_hash fm_hash_def)
  let ?s = "CloseSelfWorker b s"
  have dead: "\<not> alive s b" and loop: "GetBestWorker_loop n env name ?s = Done (None, s')"
    using Suc.prems(1) f pos choose by (auto simp: alive_def split: if_splits)
  have ws': "workers_of (s_Funcs ?s) name = remove_first (\<lambda>v. wid_of s v = wid_of s b) (f_Workers f)"
    using Suc.prems(2) by (simp add: CloseSelfWorker_Funcs CleanWorkerFunc_workers ws)
  have sub: "set (workers_of (s_Funcs ?s) name) \<subseteq> set (workers_of (s_Funcs s) name)"
    using set_remove_first_subset unfolding ws' ws .
  show ?case
  proof (cases "w \<in> set (workers_of (s_Funcs ?s) name)")
    case True
    have "fm_inv (s_Funcs ?s)" "fm_hash (s_Funcs ?s)"
      using Suc.prems(2,3) by (auto simp: CloseSelfWorker_Funcs intro: inv_intros)
    then obtain v where "v \<in> set (workers_of (s_Funcs ?s) name)" "\<not> alive ?s v" "wid_of ?s v = wid_of ?s w"
      using Suc.IH [OF loop _ _ True] by blast
    then show ?thesis
      using sub lb_frame_wid [OF CloseSelfWorker_frame [of s b]] lb_frame_alive [OF CloseSelfWorker_frame [of s b]] by auto
  next
    case False
    then have "wid_of s w = wid_of s b"
      using Suc.prems(4) b(2) set_remove_first_cases [of w "f_Workers f" "\<lambda>v. wid_of s v = wid_of s b"]
      unfolding ws' ws by blast
    then show ?thesis using dead b(2) ws by auto
  qed
qed simp

text \<open>The three facts for \<^verbatim>\<open>GetBestWorker\<close>.\<close>

lemma GetBestWorker_eq_Some:
  "GetBestWorker env name s = Some r \<longleftrightarrow>
   GetBestWorker_loop (Suc (length (workers_of (s_Funcs s) name))) env name s = Done r"
  by (simp add: GetBestWorker_def split: outcome.splits)

lemma GetBestWorker_frame: "GetBestWorker env name s = Some (r, s') \<Longrightarrow> lb_frame s s'"
  unfolding GetBestWorker_eq_Some by (rule GetBestWorker_loop_frame)

lemma GetBestWorker_returns:
  assumes "server_inv_ex X s"
  obtains r s' where "GetBestWorker env name s = Some (r, s')" "lb_frame s s'" "server_inv_ex X s'"
proof -
  obtain r s' where r: "GetBestWorker_loop (Suc (length (workers_of (s_Funcs s) name))) env name s
      = Done (r, s')"
    using GetBestWorker_loop_total [OF inv_fm [OF assms], of name "Suc (length (workers_of (s_Funcs s) name))" env]
    by auto
  show thesis
    using that [of r s'] GetBestWorker_loop_frame [OF r] GetBestWorker_loop_inv [OF r assms] r
    by (simp only: GetBestWorker_eq_Some)
qed

subsection \<open>Handlers of a client\<close>

lemma inv_upd_client:
  assumes inv: "server_inv_ex X s" and u: "upd_client c f s = Some s'"
    and f: "\<And>cl. c_RunClient (s_conns s c) = Some cl \<Longrightarrow>
      sc_Connect (f cl) = sc_Connect cl \<and> sc_ClientId (f cl) = sc_ClientId cl
      \<and> (length (rq_Params (sc_Req cl)) < 2 ^ 32 \<longrightarrow> length (rq_Params (sc_Req (f cl))) < 2 ^ 32)"
  shows "server_inv_ex X s'"
proof -
  obtain cl where cl: "c_RunClient (s_conns s c) = Some cl"
    and s': "s' = upd_conn c (\<lambda>cn. cn\<lparr>c_RunClient := Some (f cl)\<rparr>) s"
    using u by (auto simp: upd_client_def split: option.splits)
  show ?thesis
    unfolding s'
  proof (rule inv_upd_conn [OF inv])
    show "client_of c ((s_conns s c)\<lparr>c_RunClient := Some (f cl)\<rparr>)"
      using inv_client_of [OF inv, of c] cl f [OF cl] by (simp add: client_of_def)
    show "c < s_nextConn s" using inv cl by (rule inv_client_lt)
  qed (use inv_conn [OF inv, of c] in \<open>auto simp: conn_inv_def\<close>)
qed

lemma inv_client_reply [inv_intros]:
  assumes "server_inv_ex X s" "client_reply c dt s = Some s'"
  shows "server_inv_ex X s'"
  using assms
  by (auto simp: client_reply_def bind_eq_Some_conv intro!: inv_write_conn elim: inv_upd_client)

text \<open>A decoded request with parameters has a parameter buffer of at most the length its
  length word can say.\<close>

lemma ReqDecodePack_params_bound:
  assumes "ReqDecodePack req = Some req'" "length (rq_Params req) < 2 ^ 32"
  shows "length (rq_Params req') < 2 ^ 32"
proof -
  have "unat w < 2 ^ 32" for w :: u32 using unsigned_less [of w] by simp
  then show ?thesis
    using assms
    by (auto simp: ReqDecodePack_def decode_return_data_def decode_do_job_def bind_eq_Some_conv Let_def
        split: if_splits)
qed

lemma inv_decode_client_req:
  assumes "server_inv_ex X s" "decode_client_req c s = Some (cl, s')"
  shows "server_inv_ex X s'" and "sc_Connect cl = c \<and> sc_ClientId cl = c_Id (s_conns s' c)"
    and "c < s_nextConn s'" and "length (rq_Params (sc_Req cl)) < 2 ^ 32"
proof -
  obtain cl0 req where cl0: "c_RunClient (s_conns s c) = Some cl0" and cl: "cl = cl0\<lparr>sc_Req := req\<rparr>"
    and req: "ReqDecodePack (sc_Req cl0) = Some req" and u: "upd_client c (\<lambda>_. cl) s = Some s'"
    using assms(2) by (auto simp: decode_client_req_def bind_eq_Some_conv Let_def)
  have len: "length (rq_Params req) < 2 ^ 32"
    using ReqDecodePack_params_bound [OF req] inv_client_of [OF assms(1), of c] cl0
    by (auto simp: client_of_def)
  then show "length (rq_Params (sc_Req cl)) < 2 ^ 32" by (simp add: cl)
  show "server_inv_ex X s'"
    using assms(1) u by (rule inv_upd_client) (use cl0 cl len in simp)
  have "s' = upd_conn c (\<lambda>cn. cn\<lparr>c_RunClient := Some cl\<rparr>) s"
    using u cl0 by (simp add: upd_client_def)
  then show "sc_Connect cl = c \<and> sc_ClientId cl = c_Id (s_conns s' c)" "c < s_nextConn s'"
    using inv_client_of [OF assms(1), of c] inv_client_lt [OF assms(1) cl0] cl0 cl
    by (simp_all add: client_of_def)
qed

lemma inv_doJobAsync [inv_intros]:
  assumes "server_inv_ex X s" "doJobAsync c s = Some s'"
  shows "server_inv_ex X s'"
proof -
  obtain cl s1 where d: "decode_client_req c s = Some (cl, s1)"
    using assms(2) by (auto simp: doJobAsync_def bind_eq_Some_conv)
  note dec = inv_decode_client_req [OF assms(1) d]
  have "server_inv_ex X (s1\<lparr>s_DispatchPool := dp\<rparr>)"
    if "DispatchPool_Submit (client_job cl) (s_DispatchPool s1) = (ok, dp)"
      "rq_Handle (sc_Req cl) \<noteq> []" "rq_Params (sc_Req cl) \<noteq> []" for ok dp
    using that dec inv_pools [OF dec(1)]
    by (intro inv_DispatchPool)
      (auto simp: DispatchPool_Submit_def chan_send_def pools_ok_def DispatchPool_cap_def dj_ok_def
        client_job_def split: if_splits)
  then show ?thesis
    using assms(2) d dec(1)
    by (auto simp: doJobAsync_def Let_def split: if_splits prod.splits bool.splits
        intro: inv_client_reply)
qed

lemma inv_RunClientOptimized [inv_intros]:
  assumes "server_inv_ex X s" "RunClientOptimized c s = Some s'"
  shows "server_inv_ex X s'"
  using assms by (auto simp: RunClientOptimized_def bind_eq_Some_conv split: if_splits intro: inv_doJobAsync)

text \<open>The dispatched closure. A new job is queued, sent, and then satisfies the invariant.\<close>

lemma make_job_sel [simp]:
  "jd_status (make_job env d i) = JOB_STATUS_INIT" "jd_FuncName (make_job env d i) = dj_handle d"
  "jd_WorkerId (make_job env d i) = i" "jd_Params (make_job env d i) = dj_params d"
  "jd_RetData (make_job env d i) = []" "jd_Client (make_job env d i) = Some (dj_connect d)"
  "jd_ClientId (make_job env d i) = dj_clientId d" "jd_JobId (make_job env d i) = e_uuid env"
  "jd_ParamsType (make_job env d i) = dj_paramsType d"
  "jd_ParamsHandleType (make_job env d i) = dj_paramsHandleType d"
  "jd_HTTPClientR (make_job env d i) = False" "jd_Response (make_job env d i) = None"
  by (simp_all add: make_job_def NewJobData_def)

lemma inv_run_dispatched [inv_intros]:
  assumes inv: "server_inv s" and d: "dj_ok s d" and run: "run_dispatched env d s = Some s'"
  shows "server_inv s'"
proof -
  have inv0: "server_inv_ex {} s" using inv by (simp add: server_inv_def)
  obtain r s1 where best: "GetBestWorker env (dj_handle d) s = Some (r, s1)"
    and fr: "lb_frame s s1" and inv1: "server_inv_ex {} s1"
    using inv0 by (rule GetBestWorker_returns)
  have d1: "dj_ok s1 d" using d fr by (simp add: dj_ok_def lb_frame_conn) (simp add: lb_frame_def)
  show ?thesis
  proof (cases r)
    case None
    then show ?thesis using run best inv1 by (auto simp: run_dispatched_def server_inv_def intro: inv_write_res)
  next
    case (Some w)
    let ?jb = "make_job env d (wid_of s1 w)" and ?j = "s_nextJob s1"
    let ?s2 = "snd (alloc_job ?jb s1)"
    obtain ok sw where push: "PushJobToChannel (s_jobs ?s2) (Some ?j) (s_workers ?s2 w) = (ok, sw)"
      by fastforce
    let ?s3 = "upd_worker w (\<lambda>_. sw) ?s2"
    have fit: "job_fit (sw_WorkerId (s_workers s1 w)) (jd_FuncName ?jb) ?jb" and cl: "job_client s1 ?jb"
      using d1 by (auto simp: job_fit_def job_client_def dj_ok_def wid_of_def)
    have inv3: "server_inv_ex {?j} ?s3"
      using inv1 push fit cl unfolding server_inv_def [symmetric] by (intro inv_push) auto
    note pu = PushJobToChannel_eq [OF push refl]
    have fresh: "?j \<notin> set (chan s1 v g)" for v g
      using chans_okD(1) [of "{}" s1 ?j v g] inv1 by (auto simp: server_inv_ex_def)
    show ?thesis
    proof (cases ok)
      case False
      have "?j \<notin> set (chan ?s3 v g)" for v g using fresh False by (simp add: pu(2))
      with inv3 have "server_inv_ex {} ?s3" by (rule server_inv_ex_drop)
      then show ?thesis
        using run best Some False push
        by (auto simp: run_dispatched_def PushJobToChannelWithBackpressure_eq server_inv_def Let_def
            split_beta elim!: inv_write_res [rotated])
    next
      case True
      then obtain s4 where work: "doWork w (Some ?j) ?s3 = Some s4"
        and s': "s' = add_metric (Metric ''requestCount'' [sw_WorkerName (s_workers s4 w), dj_handle d] 1) s4"
        using run best Some push
        by (auto simp: run_dispatched_def PushJobToChannelWithBackpressure_eq bind_eq_Some_conv inc_metric_Some Let_def
            split_beta simp del: labels_ok.simps)
      have "server_inv s4"
        using inv3 work by (rule inv_doWork) (use fit pu fresh in \<open>auto split: if_splits\<close>)
      then show ?thesis unfolding s' server_inv_def by (rule inv_add_metric)
    qed
  qed
qed

lemma inv_DispatchPool_worker [inv_intros]:
  assumes "server_inv s" "DispatchPool_worker env s = Some s'"
  shows "server_inv s'"
proof -
  obtain x dp where t: "DispatchPool_take (s_DispatchPool s) = (x, dp)" by fastforce
  have inv: "server_inv_ex {} s" using assms(1) by (simp add: server_inv_def)
  note p = inv_pools [OF inv]
  show ?thesis
  proof (cases x)
    case (Some d)
    then have q: "dp_jobCh (s_DispatchPool s) = d # dp_jobCh dp" "dp_workers dp = dp_workers (s_DispatchPool s)"
      using t by (auto simp: DispatchPool_take_def chan_recv_def split: list.splits)
    have "server_inv_ex {} (s\<lparr>s_DispatchPool := dp\<rparr>)"
      using inv p q by (intro inv_DispatchPool) (auto simp: pools_ok_def)
    moreover have "dj_ok (s\<lparr>s_DispatchPool := dp\<rparr>) d"
      using p q by (auto simp: pools_ok_def dj_ok_def)
    ultimately show ?thesis
      using assms(2) t Some by (auto simp: DispatchPool_worker_def server_inv_def [symmetric] intro: inv_run_dispatched)
  qed (use assms t in \<open>auto simp: DispatchPool_worker_def\<close>)
qed

subsection \<open>Opening, reading and closing\<close>

lemma inv_NewConnect [inv_intros]:
  assumes inv: "server_inv_ex X s" and new: "NewConnect cfg ad hp cid i s = (r, s')" and cid: "cid \<noteq> []"
  shows "server_inv_ex X s'"
proof (cases r)
  case None
  then show ?thesis
    using assms by (auto simp: NewConnect_def split: option.splits if_splits intro: inv_add_metric)
next
  case (Some a)
  then obtain ip port where s': "s' = s\<lparr>s_conns := (s_conns s)(s_nextConn s := NewConnect_obj cid ad ip port i),
      s_nextConn := Suc (s_nextConn s)\<rparr>"
    using new by (auto simp: NewConnect_def split: option.splits if_splits)
  have ids: "same_ids s s'" by (auto simp: s' same_ids_def)
  have ch: "chan s' = chan s" by (intro ext) (simp add: s' chan_def)
  have "links_ok s'"
    using inv unfolding server_inv_ex_def links_ok_def
    by (auto simp: s' NewConnect_obj_def less_Suc_eq)
  moreover have "conns_ok s'"
    using inv cid NewConnect_inv [of cid ad ip port i]
    by (auto simp: s' server_inv_ex_def conns_ok_def less_Suc_eq NewConnect_obj_def)
  moreover have "chans_ok X s'" "pools_ok s'" "funcs_ok s'"
    using inv ids ch
    by (auto simp: server_inv_ex_def elim!: chans_ok_cong pools_ok_cong funcs_ok_cong) (simp_all add: s')
  ultimately show ?thesis by (simp add: server_inv_ex_def)
qed

lemma close_socket_inv: "conn_inv c \<Longrightarrow> conn_inv (close_socket c)"
  by (simp add: close_socket_def conn_inv_def closeSignal_def)

lemma close_socket_sel [simp]:
  "c_Id (close_socket c) = c_Id c" "c_RunWorker (close_socket c) = c_RunWorker c"
  "c_RunClient (close_socket c) = c_RunClient c" "c_ConnType (close_socket c) = c_ConnType c"
  "\<not> c_Conn (close_socket c)"
  by (simp_all add: close_socket_def)

lemma conn_inv_run [simp]:
  "conn_inv (c\<lparr>c_RunWorker := w\<rparr>) = conn_inv c" "conn_inv (c\<lparr>c_RunClient := cl\<rparr>) = conn_inv c"
  "conn_inv (c\<lparr>c_ConnType := t\<rparr>) = conn_inv c" "conn_inv (c\<lparr>c_input := i\<rparr>) = conn_inv c"
  "conn_inv (c\<lparr>c_DataType := dt, c_DataLen := dl\<rparr>) = conn_inv c"
  by (simp_all add: conn_inv_def)

lemma inv_CloseConnect [inv_intros]:
  assumes "server_inv_ex X s" shows "server_inv_ex X (CloseConnect c s)"
proof -
  have "server_inv_ex X (upd_conn c (\<lambda>cn. (close_socket cn)\<lparr>c_RunWorker := None, c_RunClient := None\<rparr>) s)"
    by (rule inv_upd_conn) (use assms inv_conn [OF assms, of c] in \<open>auto simp: close_socket_inv client_of_def\<close>)
  then show ?thesis using assms by (simp add: CloseConnect_def)
qed

lemma inv_CloseClientConnect [inv_intros]:
  assumes "server_inv_ex X s" shows "server_inv_ex X (CloseClientConnect c s)"
proof -
  have "server_inv_ex X (upd_conn c (\<lambda>cn. (close_socket cn)\<lparr>c_RunClient := None\<rparr>) s)"
    by (rule inv_upd_conn) (use assms inv_conn [OF assms, of c] in \<open>auto simp: close_socket_inv client_of_def\<close>)
  then show ?thesis using assms by (simp add: CloseClientConnect_def)
qed

lemma inv_CloseWorkerConnect [inv_intros]:
  assumes "server_inv_ex X s" "CloseWorkerConnect c s = Some s'" shows "server_inv_ex X s'"
proof (cases "c_Conn (s_conns s c)")
  case True
  have "server_inv_ex X (upd_conn c close_socket s)"
    by (rule inv_upd_conn_same) (use assms(1) inv_conn [OF assms(1), of c] in \<open>auto simp: close_socket_inv\<close>)
  then have i: "server_inv_ex X (CloseSelfWorker w (upd_conn c close_socket s))" for w
    by (rule inv_CloseSelfWorker)
  have "server_inv_ex X (upd_conn c (c_RunWorker_update (\<lambda>_. None)) (CloseSelfWorker w (upd_conn c close_socket s)))" for w
    by (rule inv_upd_conn [OF i])
      (use inv_conn [OF i] inv_client_of [OF i] inv_client_lt [OF i] in \<open>auto simp: client_of_def\<close>)
  then show ?thesis
    using assms True by (auto simp: CloseWorkerConnect_def Let_def split: option.splits)
qed (use assms in \<open>auto simp: CloseWorkerConnect_def\<close>)

lemma inv_CloseAll [inv_intros]:
  "server_inv_ex X s \<Longrightarrow> CloseAll c s = Some s' \<Longrightarrow> server_inv_ex X s'"
  by (auto simp: CloseAll_def Let_def split: if_splits intro: inv_intros)

lemma inv_getSWClinet:
  assumes inv: "server_inv_ex X s" and c: "c < s_nextConn s" and get: "getSWClinet c s = (r, s')"
  shows "server_inv_ex X s'" and "\<And>w. r = Some w \<Longrightarrow> w < s_nextWorker s' \<and> sw_Connect (s_workers s' w) = c"
proof -
  have "server_inv_ex X s' \<and> (\<forall>w. r = Some w \<longrightarrow> w < s_nextWorker s' \<and> sw_Connect (s_workers s' w) = c)"
  proof (cases "c_RunWorker (s_conns s c)")
    case (Some w)
    then show ?thesis using inv get by (auto simp: getSWClinet_def server_inv_ex_def links_ok_def)
  next
    case None
    let ?w = "s_nextWorker s"
    define sw where "sw = \<lparr>sw_WorkerId = c_Id (s_conns s c), sw_WorkerName = [], sw_Connect = c, sw_Weight = 0,
       sw_Jobs = Map.empty, sw_JobChannels = Map.empty, sw_Results = [], sw_Sleep = False\<rparr>"
    have r: "r = Some ?w" and s': "s' = upd_conn c (\<lambda>cn. cn\<lparr>c_RunWorker := Some ?w\<rparr>)
        (s\<lparr>s_workers := (s_workers s)(?w := sw), s_nextWorker := Suc ?w\<rparr>)"
      using get None by (auto simp: getSWClinet_def NewSWorker_def sw_def)
    have links: "links_ok s'"
      using inv c unfolding server_inv_ex_def links_ok_def
      by (auto simp: s' sw_def less_Suc_eq)
    have ids: "same_ids s s'" by (auto simp: s' same_ids_def)
    have "conns_ok s'" using inv by (auto simp: s' server_inv_ex_def conns_ok_def)
    moreover have "pools_ok s'" "funcs_ok s'"
      using inv ids by (auto simp: server_inv_ex_def s' elim!: pools_ok_cong funcs_ok_cong)
    moreover have "chans_ok X s'"
    proof (rule chans_ok_suffix)
      show "chans_ok X s" using inv by (simp add: server_inv_ex_def)
      show "suffix (chan s' v g) (chan s v g)" for v g by (auto simp: s' chan_def sw_def)
      show "s_jobs s' j = s_jobs s j" for j by (simp add: s')
      show "sw_WorkerId (s_workers s' v) = sw_WorkerId (s_workers s v)" if "j \<in> set (chan s' v g)" for v g j
        using that by (auto simp: s' chan_def sw_def split: if_splits)
    qed (use ids in \<open>simp_all add: s'\<close>)
    ultimately show ?thesis using links r by (simp add: server_inv_ex_def s' sw_def)
  qed
  then show "server_inv_ex X s'" and "\<And>w. r = Some w \<Longrightarrow> w < s_nextWorker s' \<and> sw_Connect (s_workers s' w) = c"
    by auto
qed

lemma inv_getSCClient:
  assumes inv: "server_inv_ex X s" and c: "c < s_nextConn s" and get: "getSCClient c s = (r, s')"
  shows "server_inv_ex X s'"
proof (cases "c_RunClient (s_conns s c)")
  case None
  let ?cl = "\<lparr>sc_ClientId = c_Id (s_conns s c), sc_Connect = c, sc_Req = server_NewReq, sc_Res = server_NewRes\<rparr>"
  have "s' = upd_conn c (c_RunClient_update (\<lambda>_. Some ?cl)) s"
    using get None by (auto simp: getSCClient_def NewSClient_def Let_def)
  moreover have "server_inv_ex X (upd_conn c (c_RunClient_update (\<lambda>_. Some ?cl)) s)"
    by (rule inv_upd_conn) (use inv inv_conn [OF inv, of c] c in \<open>auto simp: client_of_def server_NewReq_def\<close>)
  ultimately show ?thesis by simp
qed (use inv get in \<open>auto simp: getSCClient_def\<close>)

lemma inv_read_failed [inv_intros]:
  assumes "server_inv_ex X s" "read_failed c err s = Some (s', b)"
  shows "server_inv_ex X s'"
proof -
  have "server_inv_ex X ((add_metric m s)\<lparr>s_Funcs := snd (DelWorker wid i (s_Funcs s))\<rparr>)" for m wid i
    using inv_DelWorker [OF inv_add_metric [OF assms(1), of m], of wid i] by simp
  then show ?thesis
    using assms
    by (auto simp: read_failed_def Let_def bind_eq_Some_conv split: frame_error.splits
        io_error.splits if_splits intro!: inv_CloseConnect inv_CloseClientConnect
        elim!: inv_CloseWorkerConnect [rotated] intro: inv_add_metric)
qed

lemma frame_read_nextConn:
  assumes "server_inv_ex X s" "c < s_nextConn s"
  shows "server_inv_ex X (upd_conn c (c_ConnType_update (\<lambda>_. t)) s)"
  by (rule inv_upd_conn_same) (use assms inv_conn [OF assms(1), of c] in auto)

lemma inv_frame_read [inv_intros]:
  assumes inv: "server_inv_ex X s" and c: "c < s_nextConn s" and rd: "frame_read env c f s = Some s'"
  shows "server_inv_ex X s'"
proof -
  obtain ct dt p where f: "f = (ct, dt, p)" by (cases f)
  let ?s = "upd_conn c (c_ConnType_update (\<lambda>_. ct)) s"
  have i: "server_inv_ex X ?s" using inv c by (rule frame_read_nextConn)
  have c': "c < s_nextConn ?s" using c by simp
  consider (worker) "ct = CONN_TYPE_WORKER" | (client) "ct = CONN_TYPE_CLIENT"
    | (other) "ct \<noteq> CONN_TYPE_WORKER" "ct \<noteq> CONN_TYPE_CLIENT" by blast
  then show ?thesis
  proof cases
    case worker
    obtain r s1 where g: "getSWClinet c ?s = (r, s1)" by fastforce
    note gw = inv_getSWClinet [OF i c' g]
    have u: "server_inv_ex X (upd_conn a (\<lambda>cn. cn\<lparr>c_DataType := dt, c_DataLen := len32 p\<rparr>) s1)" for a
      by (rule inv_upd_conn_same) (use gw(1) inv_conn [OF gw(1), of a] in auto)
    show ?thesis
      using rd worker g gw u
      by (auto simp: frame_read_def f split: option.splits elim!: inv_RunWorkerOptimized [rotated 2])
  next
    case client
    obtain r s1 where g: "getSCClient c ?s = (r, s1)" by fastforce
    have i1: "server_inv_ex X s1" using i c' g by (rule inv_getSCClient)
    have "server_inv_ex X s2" if "upd_client c (\<lambda>cl. cl\<lparr>sc_Req := (sc_Req cl)\<lparr>rq_DataType := dt,
        rq_DataLen := len32 p, rq_Data := p\<rparr>\<rparr>) s1 = Some s2" for s2
      using i1 that by (rule inv_upd_client) simp
    then show ?thesis
      using rd client g i1
      by (auto simp: frame_read_def f bind_eq_Some_conv split: option.splits elim!: inv_RunClientOptimized [rotated])
  qed (use rd i in \<open>simp add: frame_read_def f\<close>)
qed

lemma inv_DoIO [inv_intros]:
  assumes inv: "server_inv_ex X s" and c: "c < s_nextConn s" and io: "DoIO env c s = Some (s', b)"
  shows "server_inv_ex X s'"
proof -
  obtain r i where rd: "server_ReadFrame (\<not> c_Conn (s_conns s c)) (c_input (s_conns s c)) = (r, i)"
    by fastforce
  let ?s = "upd_conn c (c_input_update (\<lambda>_. i)) s"
  have i: "server_inv_ex X ?s"
    by (rule inv_upd_conn_same) (use inv inv_conn [OF inv, of c] in auto)
  show ?thesis
    using io rd i c
    by (auto simp: DoIO_def Let_def bind_eq_Some_conv split: sum.splits if_splits
        intro: inv_read_failed elim!: inv_CloseAll [rotated] inv_frame_read [rotated 2])
qed

subsection \<open>Reachable states\<close>

lemma server_step_inv: "server_step s s' \<Longrightarrow> server_inv s \<Longrightarrow> server_inv s'"
proof (induction rule: server_step.induct)
  case (arrive s c i)
  then show ?case
    unfolding server_inv_def by (rule inv_upd_conn_same) (use arrive inv_conn [of "{}" s c] in \<open>auto simp: server_inv_def\<close>)
next
  case (send s c ans)
  have "c_Id (fst (writeLoop_write ans cn)) = c_Id cn"
    "c_RunWorker (fst (writeLoop_write ans cn)) = c_RunWorker cn"
    "c_RunClient (fst (writeLoop_write ans cn)) = c_RunClient cn" for cn
    by (auto simp: writeLoop_write_def closeSignal_def Let_def split: option.splits prod.splits bool.splits)
  then show ?case
    using send unfolding server_inv_def
    by (intro inv_upd_conn_same) (auto intro: writeLoop_write_inv inv_conn)
next
  case (stop_writing s c)
  then show ?case
    unfolding server_inv_def
    by (intro inv_upd_conn_same writeLoop_close_inv inv_conn) (auto simp: writeLoop_close_def)
qed (auto simp: server_inv_def intro: inv_NewConnect inv_DoIO inv_ResultRouter_worker
    inv_DispatchPool_worker [unfolded server_inv_def])

lemma reachable_inv: "server_reachable s \<Longrightarrow> server_inv s"
  by (induction rule: server_reachable.induct) (auto intro: NewServer_inv server_step_inv)

text \<open>Load balancing in a state with the invariant.\<close>

lemma GetBestWorker_spec:
  assumes "server_inv s"
  shows "\<exists>r s'. GetBestWorker env name s = Some (r, s') \<and> server_inv s'
    \<and> (case r of
         Some w \<Rightarrow> w \<in> set (workers_of (s_Funcs s) name) \<and> alive s w
       | None \<Rightarrow> \<forall>w \<in> set (workers_of (s_Funcs s) name).
                  \<exists>v \<in> set (workers_of (s_Funcs s) name). \<not> alive s v \<and> wid_of s v = wid_of s w)"
proof -
  have f: "fm_inv (s_Funcs s)" "fm_hash (s_Funcs s)"
    using assms by (simp_all add: server_inv_def server_inv_ex_def funcs_ok_def)
  obtain r s' where r: "GetBestWorker env name s = Some (r, s')" "lb_frame s s'" "server_inv_ex {} s'"
    by (rule GetBestWorker_returns [OF assms [unfolded server_inv_def]])
  have l: "GetBestWorker_loop (Suc (length (workers_of (s_Funcs s) name))) env name s = Done (r, s')"
    using r(1) GetBestWorker_eq_Some by blast
  show ?thesis
    using r l GetBestWorker_loop_Some [OF _ f] GetBestWorker_loop_None [OF _ f]
    by (cases r) (auto simp del: GetBestWorker_loop.simps simp: server_inv_def)
qed

lemma GetBestWorker_only:
  assumes "server_inv s" "workers_of (s_Funcs s) name = [w]" "alive s w"
  obtains s' where "GetBestWorker env name s = Some (Some w, s')"
  using GetBestWorker_spec [OF assms(1), of env name] assms(2,3) by (auto split: option.splits)

end
