(* ===== verification/Server_Jobs.thy ===== *)
theory Server_Jobs
  imports Server_Steps
begin

section \<open>The life of a job on the server\<close>

text \<open>
  What the handlers do, in a state that satisfies the invariant, to a well-formed packet: a
  client's request is queued for dispatch; a dispatched job is queued for a worker and sent
  to it; a worker's result is sent to the client whose job has waited longest for that
  function; a registration is entered and confirmed; a worker that goes away is taken out
  of the table. And which packets make the handlers panic.
\<close>

subsection \<open>Definitions\<close>

text \<open>The packet that carries a job to its worker, and the one that carries the result back.\<close>

definition job_packet :: "JobData \<Rightarrow> SResponse" where
  "job_packet jb = server_NewRes\<lparr>rs_DataType := PDT_S_GET_DATA, rs_Handle := jd_FuncName jb,
     rs_HandleLen := len32 (jd_FuncName jb), rs_ParamsType := jd_ParamsType jb,
     rs_ParamsHandleType := jd_ParamsHandleType jb, rs_ParamsLen := len32 (jd_Params jb),
     rs_Params := jd_Params jb, rs_JobId := jd_JobId jb, rs_JobIdLen := len32 (jd_JobId jb)\<rparr>"

definition result_packet :: "JobData \<Rightarrow> bytes \<Rightarrow> SResponse" where
  "result_packet jb ret = (job_packet jb)\<lparr>rs_DataType := PDT_S_RETURN_DATA, rs_Ret := ret,
     rs_RetLen := len32 ret\<rparr>"

definition job_small :: "JobData \<Rightarrow> bytes \<Rightarrow> bool" where
  "job_small jb ret \<longleftrightarrow> length (jd_FuncName jb) + length (jd_Params jb) + length (jd_JobId jb)
     + length ret + 32 < 2 ^ 32"

text \<open>The result that a worker should return for a job.\<close>

definition result_for :: "JobData \<Rightarrow> bytes \<Rightarrow> SRequest \<Rightarrow> bool" where
  "result_for jb ret req \<longleftrightarrow> rq_Handle req = jd_FuncName jb \<and> rq_HandleLen req = len32 (jd_FuncName jb)
     \<and> rq_ParamsLen req = len32 (jd_Params jb) \<and> rq_Ret req = ret \<and> rq_RetLen req = len32 ret"

text \<open>What reading a frame from one connection leaves alone: the objects, the other connections and, of
  its own connection, everything but the input, the type and the client's request.\<close>

definition conn_core :: "Connect \<Rightarrow> Connect" where
  "conn_core cn = cn\<lparr>c_ConnType := 0, c_RunClient := None, c_DataType := 0, c_DataLen := 0, c_input := []\<rparr>"

definition quiet :: "addr \<Rightarrow> Server \<Rightarrow> Server \<Rightarrow> bool" where
  "quiet c s s' \<longleftrightarrow> s_workers s' = s_workers s \<and> s_jobs s' = s_jobs s \<and> s_nextConn s' = s_nextConn s
     \<and> s_nextWorker s' = s_nextWorker s \<and> s_nextJob s' = s_nextJob s \<and> s_Funcs s' = s_Funcs s
     \<and> (\<forall>a. a \<noteq> c \<longrightarrow> s_conns s' a = s_conns s a) \<and> conn_core (s_conns s' c) = conn_core (s_conns s c)"

text \<open>What sending a job leaves alone, and the job that it leaves behind.\<close>

definition conn_idle :: "Connect \<Rightarrow> Connect \<Rightarrow> bool" where
  "conn_idle cn cn' \<longleftrightarrow> c_RunWorker cn' = c_RunWorker cn \<and> c_Conn cn' = c_Conn cn \<and> c_input cn' = c_input cn
     \<and> c_ConnType cn' = c_ConnType cn"

definition dispatched :: "JobData \<Rightarrow> addr \<Rightarrow> addr \<Rightarrow> Server \<Rightarrow> Server \<Rightarrow> bool" where
  "dispatched jb j c s s' \<longleftrightarrow> s_ResultRouter s' = s_ResultRouter s \<and> s_nextConn s' = s_nextConn s
     \<and> (\<exists>r. s_jobs s' j = jb\<lparr>jd_status := JOB_STATUS_DOING, jd_Response := Some r\<rparr>)
     \<and> (\<forall>a. conn_idle (s_conns s a) (s_conns s' a))
     \<and> (\<forall>v. sw_WorkerName (s_workers s' v) = sw_WorkerName (s_workers s v))
     \<and> (\<forall>a p. a \<noteq> c \<longrightarrow> can_write p (s_conns s' a) = can_write p (s_conns s a))"

text \<open>The name of the worker of a connection, empty before the worker says it, and the two gauges
  that a registration of a function raises.\<close>

definition worker_name_at :: "addr \<Rightarrow> Server \<Rightarrow> string" where
  "worker_name_at c s = (case c_RunWorker (s_conns s c) of None \<Rightarrow> [] | Some w \<Rightarrow> sw_WorkerName (s_workers s w))"

definition announce_labels :: "Env \<Rightarrow> addr \<Rightarrow> bytes \<Rightarrow> Server \<Rightarrow> string list" where
  "announce_labels env c p s = [c_Id (s_conns s c), worker_name_at c s, c_Ip (s_conns s c), gostring p, e_timeStr env]"

definition announce_metrics :: "Env \<Rightarrow> addr \<Rightarrow> bytes \<Rightarrow> Server \<Rightarrow> metric list" where
  "announce_metrics env c p s = [Metric ''WorkerFuncCount'' (announce_labels env c p s) 1, Metric ''FuncCount'' [gostring p] 1]"

subsection \<open>Packets of a job\<close>

lemma job_packet_sized: "job_small jb [] \<Longrightarrow> res_sized (job_packet jb)"
  by (simp add: job_small_def res_sized_def job_packet_def server_NewRes_def unat_len32)

lemma result_packet_sized: "job_small jb ret \<Longrightarrow> res_sized (result_packet jb ret)"
  by (simp add: job_small_def res_sized_def job_packet_def result_packet_def server_NewRes_def unat_len32)

lemma packet_cong:
  assumes "rs_DataType r = rs_DataType r'" "rs_Handle r = rs_Handle r'" "rs_HandleLen r = rs_HandleLen r'"
    "rs_ParamsType r = rs_ParamsType r'" "rs_ParamsHandleType r = rs_ParamsHandleType r'"
    "rs_ParamsLen r = rs_ParamsLen r'" "rs_Params r = rs_Params r'" "rs_JobId r = rs_JobId r'"
    "rs_JobIdLen r = rs_JobIdLen r'" "rs_Ret r = rs_Ret r'" "rs_RetLen r = rs_RetLen r'"
  shows "packet r = packet r'" and "res_sized r = res_sized r'"
  using assms
  by (simp_all add: packet_def res_content_def get_data_content_def return_data_content_def res_sized_def)

lemma packet_neq_Nil [simp]: "packet r \<noteq> []"
  by (simp add: packet_def header_def)

lemma write_conn_stream:
  assumes "can_write p (s_conns s c)" "p \<noteq> []"
  shows "write_conn c p s = (None, upd_conn c (\<lambda>cn. cn\<lparr>c_pendingBytes := c_pendingBytes cn + int (length p),
      c_writeCh := c_writeCh cn @ [p]\<rparr>) s)"
  using assms by (simp add: write_conn_def Connect_Write_ok upd_conn_def)

subsection \<open>Sending a job\<close>

lemma doWork_sends:
  assumes jb: "jb = s_jobs s j" and init: "jd_status jb = JOB_STATUS_INIT"
    and fit: "job_fit (sw_WorkerId (s_workers s w)) f jb" and small: "job_small jb []"
    and can: "can_write (packet (job_packet jb)) (s_conns s (sw_Connect (s_workers s w)))"
  obtains s' where "doWork w (Some j) s = Some s'"
    "stream (s_conns s' (sw_Connect (s_workers s w)))
       = stream (s_conns s (sw_Connect (s_workers s w))) @ packet (job_packet jb)"
    "\<And>c. c \<noteq> sw_Connect (s_workers s w) \<Longrightarrow> s_conns s' c = s_conns s c"
    "chan s' = chan s" "s_workers s' = s_workers s" "s_Funcs s' = s_Funcs s"
    "dispatched jb j (sw_Connect (s_workers s w)) s s'"
proof -
  let ?c = "sw_Connect (s_workers s w)"
  have nz: "len32 (jd_Params jb) \<noteq> 0" using fit by (simp add: job_fit_def len32_0_iff)
  obtain res where res: "ResEncodePack (job_packet jb) = Some (res, packet (job_packet jb))"
    using ResEncodePack_eq [OF job_packet_sized [OF small]] by blast
  let ?s1 = "upd_job j (\<lambda>jb. jb\<lparr>jd_status := JOB_STATUS_DOING\<rparr>) s"
  let ?s2 = "snd (write_conn ?c (packet (job_packet jb)) ?s1)"
  let ?s' = "upd_job j (\<lambda>jb. jb\<lparr>jd_Response := Some res\<rparr>) ?s2"
  have "doWork w (Some j) s = Some ?s'"
    using init fit nz res jb by (simp add: doWork_def job_fit_def Let_def job_packet_def)
  moreover have "?s2 = upd_conn ?c (\<lambda>cn. cn\<lparr>c_pendingBytes := c_pendingBytes cn + int (length (packet (job_packet jb))),
      c_writeCh := c_writeCh cn @ [packet (job_packet jb)]\<rparr>) ?s1"
    using can by (simp add: write_conn_stream)
  ultimately show thesis
    by (intro that [of ?s']) (auto simp: stream_def jb dispatched_def conn_idle_def)
qed

lemma conn_core_eq:
  assumes "conn_core cn' = conn_core cn"
  shows "c_RunWorker cn' = c_RunWorker cn" "c_Conn cn' = c_Conn cn" "c_Id cn' = c_Id cn" "stream cn' = stream cn"
    "can_write p cn' = can_write p cn"
  using assms by (cases cn; cases cn'; simp add: conn_core_def stream_def can_write_def)+

lemma quiet_eq:
  assumes "quiet c s s'"
  shows "s_workers s' = s_workers s" "s_jobs s' = s_jobs s" "s_nextConn s' = s_nextConn s" "s_nextJob s' = s_nextJob s"
    "s_Funcs s' = s_Funcs s" "chan s' = chan s" "wid_of s' = wid_of s" "alive s' w = alive s w"
    "c_RunWorker (s_conns s' a) = c_RunWorker (s_conns s a)" "c_Conn (s_conns s' a) = c_Conn (s_conns s a)"
    "stream (s_conns s' a) = stream (s_conns s a)" "can_write p (s_conns s' a) = can_write p (s_conns s a)"
    "a \<noteq> c \<Longrightarrow> s_conns s' a = s_conns s a"
proof -
  have core: "conn_core (s_conns s' a) = conn_core (s_conns s a)" for a
    using assms by (cases "a = c") (simp_all add: quiet_def)
  show "c_RunWorker (s_conns s' a) = c_RunWorker (s_conns s a)" "c_Conn (s_conns s' a) = c_Conn (s_conns s a)"
    "stream (s_conns s' a) = stream (s_conns s a)" "can_write p (s_conns s' a) = can_write p (s_conns s a)"
    using conn_core_eq [OF core] by blast+
  show "alive s' w = alive s w"
    using conn_core_eq(1) [OF core] assms by (simp add: alive_def quiet_def)
qed (use assms in \<open>simp_all add: quiet_def chan_def wid_of_def fun_eq_iff\<close>)

text \<open>A dispatched job whose function has a connected worker with room in its channel and on
  its connection is queued behind the others of that function and sent; then the request is counted.\<close>

lemma run_dispatched_counts:
  assumes inv: "server_inv s" and d: "dj_ok s d"
    and best: "GetBestWorker env (dj_handle d) s = Some (Some w, s1)"
    and jb: "jb = make_job env d (wid_of s w)" and small: "job_small jb []"
    and room: "length (chan s w (dj_handle d)) < 1024"
    and can: "can_write (packet (job_packet jb)) (s_conns s (sw_Connect (s_workers s w)))"
  obtains s' where "run_dispatched env d s
      = inc_metric (Metric ''requestCount'' [sw_WorkerName (s_workers s w), dj_handle d] 1) s'"
    "stream (s_conns s' (sw_Connect (s_workers s w)))
       = stream (s_conns s (sw_Connect (s_workers s w))) @ packet (job_packet jb)"
    "\<And>c. c \<noteq> sw_Connect (s_workers s w) \<Longrightarrow> stream (s_conns s' c) = stream (s_conns s c)"
    "\<And>v g. chan s' v g = (if v = w \<and> g = dj_handle d then chan s w g @ [s_nextJob s] else chan s v g)"
    "dispatched jb (s_nextJob s) (sw_Connect (s_workers s w)) s s'"
proof -
  have inv0: "server_inv_ex {} s" using inv by (simp add: server_inv_def)
  have fr: "lb_frame s s1" using best by (rule GetBestWorker_frame)
  note same = lb_frame_conn [OF fr] lb_frame_chan [OF fr] lb_frame_wid [OF fr]
  have wk: "s_workers s1 = s_workers s" "s_nextJob s1 = s_nextJob s" using fr by (simp_all add: lb_frame_def)
  let ?j = "s_nextJob s1" and ?c = "sw_Connect (s_workers s w)"
  let ?s2 = "snd (alloc_job jb s1)"
  obtain ok sw where push: "PushJobToChannel (s_jobs ?s2) (Some ?j) (s_workers ?s2 w) = (ok, sw)"
    by fastforce
  let ?s3 = "upd_worker w (\<lambda>_. sw) ?s2"
  have fn: "jd_FuncName (s_jobs ?s2 ?j) = dj_handle d" using jb by simp
  note pu = PushJobToChannel_eq [OF push refl, unfolded fn]
  have ok: "ok" using pu(1) room d by (simp add: same dj_ok_def)
  have j3: "jb = s_jobs ?s3 ?j" by simp
  have fit: "job_fit (sw_WorkerId (s_workers ?s3 w)) (dj_handle d) jb"
    using d pu(3) by (simp add: jb job_fit_def dj_ok_def wid_of_def wk)
  have con: "sw_Connect (s_workers ?s3 w) = ?c" using pu(4) by (simp add: wk)
  have can3: "can_write (packet (job_packet jb)) (s_conns ?s3 (sw_Connect (s_workers ?s3 w)))"
    unfolding con using can by (simp add: same)
  have init: "jd_status jb = JOB_STATUS_INIT" using jb by simp
  obtain s4 where w4: "doWork w (Some ?j) ?s3 = Some s4"
    "stream (s_conns s4 (sw_Connect (s_workers ?s3 w)))
       = stream (s_conns ?s3 (sw_Connect (s_workers ?s3 w))) @ packet (job_packet jb)"
    "\<And>c. c \<noteq> sw_Connect (s_workers ?s3 w) \<Longrightarrow> s_conns s4 c = s_conns ?s3 c"
    "chan s4 = chan ?s3" "dispatched jb ?j (sw_Connect (s_workers ?s3 w)) ?s3 s4" "s_workers s4 = s_workers ?s3"
    by (rule doWork_sends [OF j3 init fit small can3], rule that) blast+
  have nm: "sw_WorkerName (s_workers s4 w) = sw_WorkerName (s_workers s w)"
    using w4(6) pu(5) by (simp add: wk)
  have "run_dispatched env d s = inc_metric (Metric ''requestCount'' [sw_WorkerName (s_workers s w), dj_handle d] 1) s4"
    using best ok push w4(1) jb same(14)
    by (simp add: run_dispatched_def PushJobToChannelWithBackpressure_eq Let_def split_beta nm del: labels_ok.simps)
  moreover have "dispatched jb (s_nextJob s) ?c s s4"
    using w4(5) con fr pu(5) by (simp add: dispatched_def conn_idle_def same wk lb_frame_input) (auto simp: lb_frame_def alloc_job_def)
  ultimately show thesis
    by (intro that) (use w4(2-4) pu(2) ok con in \<open>auto simp: same wk\<close>)
qed

subsection \<open>Returning a result\<close>

text \<open>The result goes to the client of the job that has waited longest for the function,
  whatever job id the worker returned.\<close>

lemma returnData_counts:
  assumes inv: "server_inv s" and ch: "chan s w f = j # js" and jb: "jb = s_jobs s j"
    and c: "jd_Client jb = Some c" and ct: "c_ConnType (s_conns s c) = CONN_TYPE_CLIENT"
    and res: "rj_FuncName rj = f" "result_for jb ret (rj_Request rj)" and small: "job_small jb ret"
    and can: "can_write (packet (result_packet jb ret)) (s_conns s c)"
  obtains s' t where "returnData env w rj s = do {
      s1 \<leftarrow> inc_metric (Metric ''WorkerFuncSuccessCount'' [sw_WorkerName (s_workers s w), f] 1) s';
      s2 \<leftarrow> inc_metric (Metric ''FuncSuccessCount'' [f] 1) s1;
      s3 \<leftarrow> inc_metric (Metric ''requestDuring'' [sw_WorkerName (s_workers s w), f] t) s2;
      inc_metric (Metric ''requestDuration'' [sw_WorkerName (s_workers s w), f] t) s3 }"
    "stream (s_conns s' c) = stream (s_conns s c) @ packet (result_packet jb ret)"
    "\<And>c'. c' \<noteq> c \<Longrightarrow> s_conns s' c' = s_conns s c'"
    "\<And>v g. chan s' v g = (if v = w \<and> g = f then js else chan s v g)"
    "jd_status (s_jobs s' j) = JOB_STATUS_DONE" "jd_RetData (s_jobs s' j) = ret"
proof -
  have ok: "chans_ok {} s" and cok: "conns_ok s" using inv by (auto simp: server_inv_def server_inv_ex_def)
  have j: "j \<in> set (chan s w f)" by (simp add: ch)
  have sent: "job_sent (sw_WorkerId (s_workers s w)) f jb" and cl: "job_client s jb"
    using chans_okD [OF ok j] by (simp_all add: jb)
  then obtain r where r: "jd_Response jb = Some r" "job_resp jb r" by (auto simp: job_sent_def)
  have fit: "job_fit (sw_WorkerId (s_workers s w)) f jb" "jd_status jb = JOB_STATUS_DOING"
    using sent by (simp_all add: job_sent_def)
  have cid: "jd_ClientId jb \<noteq> []" using cl c cok by (auto simp: job_client_def conns_ok_def)
  obtain job sw where pop: "PopJobFromChannel f (s_workers s w) = (job, sw)" by fastforce
  note po = PopJobFromChannel_eq [OF pop]
  let ?s1 = "upd_worker w (\<lambda>_. sw) s"
  let ?jb = "jb\<lparr>jd_RetData := ret, jd_status := JOB_STATUS_DONE\<rparr>"
  let ?s2 = "upd_job j (\<lambda>_. ?jb) ?s1"
  let ?r = "r\<lparr>rs_DataType := PDT_S_RETURN_DATA, rs_Ret := ret, rs_RetLen := len32 ret\<rparr>"
  have pk: "packet ?r = packet (result_packet jb ret)" "res_sized ?r = res_sized (result_packet jb ret)"
    using r(2)
    by (intro packet_cong; simp add: result_packet_def job_packet_def job_resp_def)+
  obtain r' where enc: "ResEncodePack ?r = Some (r', packet (result_packet jb ret))"
    using ResEncodePack_eq [of ?r] result_packet_sized [OF small] pk by simp
  have ret: "returnData env w rj s = answer_client env sw c r (rj_Request rj) ?jb ?s2"
    using res r fit ch po(1,3) pop cid c jb
    by (simp add: returnData_def Let_def job_fit_def job_resp_def result_for_def)
  have wr: "write_conn c (packet (result_packet jb ret)) ?s2 = (None, upd_conn c (\<lambda>cn. cn\<lparr>
      c_pendingBytes := c_pendingBytes cn + int (length (packet (result_packet jb ret))),
      c_writeCh := c_writeCh cn @ [packet (result_packet jb ret)]\<rparr>) ?s2)" (is "_ = (None, ?s')")
    using can by (simp add: write_conn_stream)
  have nm: "sw_WorkerName sw = sw_WorkerName (s_workers s w)" and fn: "jd_FuncName jb = f"
    using po(5) fit(1) by (simp_all add: job_fit_def)
  show thesis
    by (rule that [of ?s' "int (e_now env) - int (jd_BeginDuring jb)"])
      (use po(2) ch ret enc ct res(2) wr in \<open>simp_all add: answer_client_def Let_def result_for_def stream_def nm fn\<close>)
qed

lemma returnData_answers:
  assumes "server_inv s" "chan s w f = j # js" "jb = s_jobs s j"
    and "jd_Client jb = Some c" "c_ConnType (s_conns s c) = CONN_TYPE_CLIENT"
    and "rj_FuncName rj = f" "result_for jb ret (rj_Request rj)" "job_small jb ret"
    and "can_write (packet (result_packet jb ret)) (s_conns s c)"
    and labels: "valid_utf8 (sw_WorkerName (s_workers s w))" "valid_utf8 f"
  obtains s' where "returnData env w rj s = Some s'"
    "stream (s_conns s' c) = stream (s_conns s c) @ packet (result_packet jb ret)"
    "\<And>c'. c' \<noteq> c \<Longrightarrow> s_conns s' c' = s_conns s c'"
    "\<And>v g. chan s' v g = (if v = w \<and> g = f then js else chan s v g)"
    "jd_status (s_jobs s' j) = JOB_STATUS_DONE" "jd_RetData (s_jobs s' j) = ret"
  by (rule returnData_counts [OF assms(1-9), of env]) (use labels that in \<open>simp add: inc_metric_def\<close>)

text \<open>The counters are labelled with the name of the worker and of the function: bytes that are not
  UTF-8 make the router's goroutine panic, after the result is sent.\<close>

lemma returnData_bad_label:
  assumes "server_inv s" "chan s w f = j # js" "jb = s_jobs s j"
    and "jd_Client jb = Some c" "c_ConnType (s_conns s c) = CONN_TYPE_CLIENT"
    and "rj_FuncName rj = f" "result_for jb ret (rj_Request rj)" "job_small jb ret"
    and "can_write (packet (result_packet jb ret)) (s_conns s c)"
    and bad: "\<not> (valid_utf8 (sw_WorkerName (s_workers s w)) \<and> valid_utf8 f)"
  shows "returnData env w rj s = None"
  by (rule returnData_counts [OF assms(1-9), of env]) (use bad in \<open>simp add: inc_metric_def\<close>)

text \<open>A result for a function with no waiting job is dropped, and the job id plays no part.\<close>

lemma returnData_no_job:
  assumes "chan s w (rj_FuncName rj) = []"
  obtains s' where "returnData env w rj s = Some s'" "s_conns s' = s_conns s" "s_jobs s' = s_jobs s"
    "chan s' = chan s"
proof -
  obtain job sw where pop: "PopJobFromChannel (rj_FuncName rj) (s_workers s w) = (job, sw)" by fastforce
  note po = PopJobFromChannel_eq [OF pop]
  have "chan (upd_worker w (\<lambda>_. sw) s) v g = chan s v g" for v g
    using assms by (auto simp: po(2))
  then have "chan (upd_worker w (\<lambda>_. sw) s) = chan s" by (intro ext)
  then show thesis
    using pop po(1) assms by (intro that [of "upd_worker w (\<lambda>_. sw) s"]) (simp_all add: returnData_def)
qed

lemma returnData_ignores_JobId: "returnData env w (rj\<lparr>rj_JobId := i\<rparr>) s = returnData env w rj s"
  by (simp add: returnData_def)

subsection \<open>Frames\<close>

lemma worker_req_eq:
  assumes "sw_Connect (s_workers s w) = c"
  shows "worker_req w p (upd_conn c (\<lambda>cn. cn\<lparr>c_DataType := dt, c_DataLen := len32 p\<rparr>) s)
    = ReqDecodePack (server_NewReq\<lparr>rq_DataType := dt, rq_DataLen := len32 p, rq_Data := p\<rparr>)"
  using assms by (simp add: worker_req_def)

lemma len32_pos: "p \<noteq> [] \<Longrightarrow> length p < 2 ^ 32 \<Longrightarrow> len32 p \<noteq> 0"
  by (simp add: len32_0_iff)

text \<open>What \<^verbatim>\<open>DoIO\<close> does with a frame at the front of the input.\<close>

lemma inv_read: "server_inv s \<Longrightarrow> server_inv (upd_conn c (\<lambda>cn. cn\<lparr>c_input := i\<rparr>) s)"
  unfolding server_inv_def
  by (rule inv_upd_conn_same) (use inv_conn [of "{}" s c] in \<open>auto simp: conn_inv_def\<close>)

lemma DoIO_frame:
  assumes "c_Conn (s_conns s c)" "c_input (s_conns s c) = map Byte (frame_bytes f) @ i"
    "server_frame_ok f"
  shows "DoIO env c s = map_option (\<lambda>s. (s, True))
    (frame_read env c f (upd_conn c (\<lambda>cn. cn\<lparr>c_input := i\<rparr>) s))"
proof -
  have "server_ReadFrame (\<not> c_Conn (s_conns s c)) (c_input (s_conns s c)) = (Inr f, i)"
    using assms sf.rd_enc [of f i] by simp
  then show ?thesis
    by (cases "frame_read env c f (upd_conn c (\<lambda>cn. cn\<lparr>c_input := i\<rparr>) s)")
      (simp_all add: DoIO_def Let_def)
qed

lemma stream_sel [simp]:
  "stream (c\<lparr>c_RunClient := x\<rparr>) = stream c" "stream (c\<lparr>c_RunWorker := y\<rparr>) = stream c"
  "stream (c\<lparr>c_ConnType := t\<rparr>) = stream c" "stream (c\<lparr>c_input := i\<rparr>) = stream c"
  "stream (c\<lparr>c_DataType := dt, c_DataLen := dl\<rparr>) = stream c"
  by (simp_all add: stream_def)

lemma getSCClient_eq:
  assumes "getSCClient c s = (r, s')"
  shows "r \<noteq> None" "c_RunClient (s_conns s' c) = r" "c_Id (s_conns s' a) = c_Id (s_conns s a)"
    "stream (s_conns s' a) = stream (s_conns s a)" "chan s' = chan s" "s_Funcs s' = s_Funcs s"
    "s_DispatchPool s' = s_DispatchPool s"
  using assms by (cases "c_RunClient (s_conns s c)"; auto simp: getSCClient_def NewSClient_def Let_def)+

lemma getSCClient_quiet:
  assumes "getSCClient c s = (r, s')"
  shows "quiet c s s'" "c_ConnType (s_conns s' a) = c_ConnType (s_conns s a)" "s_ResultRouter s' = s_ResultRouter s"
  using assms by (cases "c_RunClient (s_conns s c)"; auto simp: getSCClient_def NewSClient_def Let_def quiet_def conn_core_def)+

text \<open>A client's request for a job, well-formed and not empty, is queued for dispatch.\<close>

lemma frame_read_do_job:
  assumes inv: "server_inv s" and c: "c < s_nextConn s"
    and p: "p = do_job_layout pt pht h params" "h \<noteq> []" "params \<noteq> []" "length p < 2 ^ 32"
    and room: "length (dp_jobCh (s_DispatchPool s)) < 1024"
  obtains s' where "frame_read env c (CONN_TYPE_CLIENT, PDT_C_DO_JOB, p) s = Some s'"
    "dp_jobCh (s_DispatchPool s') = dp_jobCh (s_DispatchPool s) @ [\<lparr>dj_handle = h, dj_params = params,
       dj_paramsType = pt, dj_paramsHandleType = pht, dj_clientId = c_Id (s_conns s c), dj_connect = c\<rparr>]"
    "\<And>a. stream (s_conns s' a) = stream (s_conns s a)" "chan s' = chan s" "s_Funcs s' = s_Funcs s"
    "quiet c s s'" "c_ConnType (s_conns s' c) = CONN_TYPE_CLIENT" "s_ResultRouter s' = s_ResultRouter s"
proof -
  have inv0: "server_inv_ex {} s" using inv by (simp add: server_inv_def)
  let ?s0 = "upd_conn c (c_ConnType_update (\<lambda>_. CONN_TYPE_CLIENT)) s"
  obtain r s1 where get: "getSCClient c ?s0 = (r, s1)" by fastforce
  note g = getSCClient_eq [OF get]
  have st: "stream (s_conns s1 a) = stream (s_conns s a)" "c_Id (s_conns s1 c) = c_Id (s_conns s c)" for a
    using g(3,4) by simp_all
  obtain cl where cl: "r = Some cl" "c_RunClient (s_conns s1 c) = Some cl" using g(1,2) by auto
  have "server_inv_ex {} ?s0" using inv0 c by (rule frame_read_nextConn)
  then have "server_inv_ex {} s1" by (rule inv_getSCClient [OF _ _ get]) (simp add: c)
  then have own: "sc_Connect cl = c" "sc_ClientId cl = c_Id (s_conns s c)"
    using inv_client_of [of "{}" s1 c] cl(2) st(2) by (auto simp: client_of_def)
  let ?req = "(sc_Req cl)\<lparr>rq_DataType := PDT_C_DO_JOB, rq_DataLen := len32 p, rq_Data := p\<rparr>"
  have lens: "length h < 2 ^ 32" "length params < 2 ^ 32" "p \<noteq> []"
    using p by (auto simp: do_job_layout_def)
  let ?req' = "?req\<lparr>rq_ParamsType := pt, rq_ParamsHandleType := pht, rq_HandleLen := len32 h,
    rq_Handle := h, rq_ParamsLen := len32 params, rq_Params := params\<rparr>"
  have dec: "ReqDecodePack ?req = Some ?req'"
    using decode_do_job_layout [OF lens(1,2), of ?req pt pht] len32_pos [OF lens(3) p(4)] lens(3)
    by (simp add: ReqDecodePack_def p(1) word_gt_0)
  have nz: "len32 h \<noteq> 0" "len32 params \<noteq> 0" using lens p(2,3) by (simp_all add: len32_0_iff)
  have pools: "DispatchPool_cap (s_DispatchPool s) = 1024"
    using inv_pools [OF inv0] by (simp add: pools_ok_def DispatchPool_cap_def)
  obtain s' where s': "frame_read env c (CONN_TYPE_CLIENT, PDT_C_DO_JOB, p) s = Some s'"
    and eq: "dp_jobCh (s_DispatchPool s') = dp_jobCh (s_DispatchPool s1) @ [client_job (cl\<lparr>sc_Req := ?req'\<rparr>)]"
      "\<And>a. stream (s_conns s' a) = stream (s_conns s1 a)" "chan s' = chan s1" "s_Funcs s' = s_Funcs s1"
      "quiet c s1 s'" "c_ConnType (s_conns s' c) = c_ConnType (s_conns s1 c)" "s_ResultRouter s' = s_ResultRouter s1"
    using get cl(1,2) dec nz p(2,3) pools room
    by (auto simp: frame_read_def upd_client_def RunClientOptimized_def GetReqDataType_def
        doJobAsync_def decode_client_req_def Let_def DispatchPool_Submit_def chan_send_def g(7) quiet_def conn_core_def)
  have q: "quiet c s s'" "c_ConnType (s_conns s1 c) = CONN_TYPE_CLIENT" "s_ResultRouter s1 = s_ResultRouter s"
    using eq(5) getSCClient_quiet [OF get] by (simp_all add: quiet_def conn_core_def)
  show thesis
    by (rule that [OF s']) (use q in \<open>simp_all add: eq st g(5-7) client_job_def own\<close>)
qed

lemma getSWClinet_eq:
  assumes "getSWClinet c s = (r, s')"
  shows "r \<noteq> None" "c_RunWorker (s_conns s' c) = r" "c_Id (s_conns s' a) = c_Id (s_conns s a)"
    "stream (s_conns s' a) = stream (s_conns s a)" "s_Funcs s' = s_Funcs s"
    "s_ResultRouter s' = s_ResultRouter s" "can_write p (s_conns s' a) = can_write p (s_conns s a)"
    "s_Metrics s' = s_Metrics s" "c_Ip (s_conns s' a) = c_Ip (s_conns s a)" "c_Conn (s_conns s' a) = c_Conn (s_conns s a)"
    "c_input (s_conns s' a) = c_input (s_conns s a)" "c_ConnType (s_conns s' a) = c_ConnType (s_conns s a)"
    "worker_name_at c s' = worker_name_at c s" "s_nextConn s' = s_nextConn s"
proof -
  have "r \<noteq> None \<and> c_RunWorker (s_conns s' c) = r \<and> c_Id (s_conns s' a) = c_Id (s_conns s a)
    \<and> stream (s_conns s' a) = stream (s_conns s a) \<and> s_Funcs s' = s_Funcs s
    \<and> s_ResultRouter s' = s_ResultRouter s \<and> can_write p (s_conns s' a) = can_write p (s_conns s a)
    \<and> s_Metrics s' = s_Metrics s \<and> c_Ip (s_conns s' a) = c_Ip (s_conns s a) \<and> c_Conn (s_conns s' a) = c_Conn (s_conns s a)
    \<and> c_input (s_conns s' a) = c_input (s_conns s a) \<and> c_ConnType (s_conns s' a) = c_ConnType (s_conns s a)
    \<and> worker_name_at c s' = worker_name_at c s \<and> s_nextConn s' = s_nextConn s"
  proof (cases "c_RunWorker (s_conns s c)")
    case None
    with assms show ?thesis
      by (simp add: getSWClinet_def NewSWorker_def) (clarsimp simp: can_write_def worker_name_at_def upd_conn_def)
  next
    case (Some w)
    then have "r = Some w" "s' = s" using assms by (simp_all add: getSWClinet_def)
    then show ?thesis using Some by simp
  qed
  then show "r \<noteq> None" "c_RunWorker (s_conns s' c) = r" "c_Id (s_conns s' a) = c_Id (s_conns s a)"
    "stream (s_conns s' a) = stream (s_conns s a)" "s_Funcs s' = s_Funcs s"
    "s_ResultRouter s' = s_ResultRouter s" "can_write p (s_conns s' a) = can_write p (s_conns s a)"
    "s_Metrics s' = s_Metrics s" "c_Ip (s_conns s' a) = c_Ip (s_conns s a)" "c_Conn (s_conns s' a) = c_Conn (s_conns s a)"
    "c_input (s_conns s' a) = c_input (s_conns s a)" "c_ConnType (s_conns s' a) = c_ConnType (s_conns s a)"
    "worker_name_at c s' = worker_name_at c s" "s_nextConn s' = s_nextConn s"
    by blast+
qed

text \<open>What the connection and the worker look like when the frame of a worker is handled.\<close>

definition worker_ready :: "addr \<Rightarrow> addr \<Rightarrow> Server \<Rightarrow> Server \<Rightarrow> bool" where
  "worker_ready c w s s1 \<longleftrightarrow> sw_Connect (s_workers s1 w) = c \<and> c_RunWorker (s_conns s1 c) = Some w
     \<and> sw_WorkerId (s_workers s1 w) = c_Id (s_conns s c) \<and> sw_WorkerName (s_workers s1 w) = worker_name_at c s
     \<and> c_Id (s_conns s1 c) = c_Id (s_conns s c) \<and> c_Ip (s_conns s1 c) = c_Ip (s_conns s c)
     \<and> c_Conn (s_conns s1 c) = c_Conn (s_conns s c) \<and> c_input (s_conns s1 c) = c_input (s_conns s c)
     \<and> c_ConnType (s_conns s1 c) = CONN_TYPE_WORKER \<and> s_Metrics s1 = s_Metrics s
     \<and> s_nextConn s1 = s_nextConn s"

text \<open>A frame of a worker is handled by \<^verbatim>\<open>RunWorkerOptimized\<close> with its type and length set.\<close>

lemma frame_read_worker:
  assumes inv: "server_inv s" and c: "c < s_nextConn s"
  obtains w s1 where "frame_read env c (CONN_TYPE_WORKER, dt, p) s = RunWorkerOptimized env w p s1"
    "server_inv s1" "w < s_nextWorker s1" "sw_Connect (s_workers s1 w) = c"
    "c_RunWorker (s_conns s1 c) = Some w" "s_Funcs s1 = s_Funcs s" "s_ResultRouter s1 = s_ResultRouter s"
    "\<And>a. stream (s_conns s1 a) = stream (s_conns s a)"
    "\<And>q. can_write q (s_conns s1 c) = can_write q (s_conns s c)"
    "worker_req w p s1 = ReqDecodePack (server_NewReq\<lparr>rq_DataType := dt, rq_DataLen := len32 p, rq_Data := p\<rparr>)"
    "\<And>v. c_RunWorker (s_conns s c) = Some v \<Longrightarrow> w = v \<and> quiet c s s1" "worker_ready c w s s1"
proof -
  have inv0: "server_inv_ex {} s" using inv by (simp add: server_inv_def)
  let ?s0 = "upd_conn c (c_ConnType_update (\<lambda>_. CONN_TYPE_WORKER)) s"
  have i0: "server_inv_ex {} ?s0" using inv0 c by (rule frame_read_nextConn)
  have c0: "c < s_nextConn ?s0" using c by simp
  obtain r s1 where get: "getSWClinet c ?s0 = (r, s1)" by fastforce
  note g = getSWClinet_eq [OF get] and gi = inv_getSWClinet [OF i0 c0 get]
  obtain w where w: "r = Some w" using g(1) by auto
  let ?s2 = "upd_conn c (\<lambda>cn. cn\<lparr>c_DataType := dt, c_DataLen := len32 p\<rparr>) s1"
  have sw: "sw_Connect (s_workers s1 w) = c" "w < s_nextWorker s1" using gi(2) [OF w] by simp_all
  have i2: "server_inv ?s2"
    unfolding server_inv_def
    by (rule inv_upd_conn_same) (use gi(1) inv_conn [OF gi(1), of c] in auto)
  have can: "can_write q (s_conns ?s2 c) = can_write q (s_conns s c)" for q
    using g(7) [of q c] by (simp add: can_write_def)
  have st: "stream (s_conns ?s2 a) = stream (s_conns s a)" for a
    using g(4) [of a] by (cases "a = c") simp_all
  have known: "w = v \<and> quiet c s ?s2" if "c_RunWorker (s_conns s c) = Some v" for v
    using that get w by (auto simp: getSWClinet_def quiet_def conn_core_def)
  have nm: "worker_name_at c ?s0 = worker_name_at c s" by (simp add: worker_name_at_def split: option.split)
  have "sw_WorkerId (s_workers s1 w) = c_Id (s_conns s c)"
    using gi(1) sw g(3) [of c] by (auto simp: server_inv_ex_def links_ok_def)
  then have ready: "worker_ready c w s ?s2"
    using w sw(1) g(2,8,13,14) nm g(3) [of c] g(9-12) [of c] by (simp add: worker_ready_def worker_name_at_def)
  show thesis
    by (rule that [of w ?s2])
      (use get w sw i2 g(2,5,6) can st worker_req_eq [OF sw(1)] known ready in \<open>simp_all add: frame_read_def\<close>)
qed

text \<open>A worker that registers a function is the last of the workers of that function, and
  the registration is confirmed.\<close>

lemma GetReqData_full: "GetReqData (r\<lparr>rq_DataType := dt, rq_DataLen := len32 p, rq_Data := p\<rparr>) = p"
  by (simp add: GetReqData_def)

lemma frame_read_add_func:
  assumes inv: "server_inv s" and c: "c < s_nextConn s" and p: "p \<noteq> []" "length p < 2 ^ 32"
    and can: "can_write (header CONN_TYPE_SERVER PDT_OK []) (s_conns s c)"
  obtains w s2 s' where "frame_read env c (CONN_TYPE_WORKER, PDT_W_ADD_FUNC, p) s
      = (if list_all labels_ok (announce_metrics env c p s) then Some s' else None)"
    "worker_ready c w s s2" "s_workers s' = s_workers s2" "conn_idle (s_conns s2 c) (s_conns s' c)"
    "s_nextConn s' = s_nextConn s" "s_Metrics s' = s_Metrics s @ announce_metrics env c p s"
    "workers_of (s_Funcs s') (gostring p) = workers_of (s_Funcs s) (gostring p) @ [w]"
    "stream (s_conns s' c) = stream (s_conns s c) @ header CONN_TYPE_SERVER PDT_OK []"
proof -
  obtain w s1 where rd: "frame_read env c (CONN_TYPE_WORKER, PDT_W_ADD_FUNC, p) s = RunWorkerOptimized env w p s1"
    and sw: "sw_Connect (s_workers s1 w) = c" "c_RunWorker (s_conns s1 c) = Some w" "s_Funcs s1 = s_Funcs s"
    and st: "\<And>a. stream (s_conns s1 a) = stream (s_conns s a)"
    and cw: "\<And>q. can_write q (s_conns s1 c) = can_write q (s_conns s c)"
    and rq: "worker_req w p s1 = ReqDecodePack (server_NewReq\<lparr>rq_DataType := PDT_W_ADD_FUNC,
        rq_DataLen := len32 p, rq_Data := p\<rparr>)"
    and ready: "worker_ready c w s s1"
    by (rule frame_read_worker [OF inv c, of env PDT_W_ADD_FUNC p], rule that) blast+
  let ?req = "server_NewReq\<lparr>rq_DataType := PDT_W_ADD_FUNC, rq_DataLen := len32 p, rq_Data := p\<rparr>"
  have req: "worker_req w p s1 = Some ?req" unfolding rq by (simp add: ReqDecodePack_def)
  let ?hd = "header CONN_TYPE_SERVER PDT_OK []"
  have enc: "ResEncodePack (server_NewRes\<lparr>rs_DataType := PDT_OK\<rparr>)
      = Some (server_NewRes\<lparr>rs_DataType := PDT_OK, rs_DataLen := 12\<rparr>, ?hd)"
    by (subst ResEncodePack_plain) simp_all
  have hd: "?hd \<noteq> []" by (simp add: header_def)
  define s2 where "s2 = s1\<lparr>s_Funcs := snd (AddFunc (Some w) (gostring p) (s_Funcs s1)),
     s_Metrics := s_Metrics s1 @ announce_metrics env c p s\<rparr>"
  have s2: "s_conns s2 = s_conns s1" "s_workers s2 = s_workers s1" "s_nextConn s2 = s_nextConn s"
    "s_Funcs s2 = snd (AddFunc (Some w) (gostring p) (s_Funcs s))" "s_Metrics s2 = s_Metrics s @ announce_metrics env c p s"
    using ready by (simp_all add: s2_def sw worker_ready_def)
  have wr: "write_conn c ?hd s2 = (None, upd_conn c (\<lambda>cn. cn\<lparr>c_pendingBytes := c_pendingBytes cn + int (length ?hd),
      c_writeCh := c_writeCh cn @ [?hd]\<rparr>) s2)"
    using can cw hd by (intro write_conn_stream) (simp_all add: s2)
  have m: "add_metric (Metric ''FuncCount'' [gostring p] 1) (add_metric (Metric ''WorkerFuncCount'' (announce_labels env c p s) 1)
      (s1\<lparr>s_Funcs := snd (AddFunc (Some w) (gostring p) (s_Funcs s1))\<rparr>)) = s2"
    by (simp add: announce_metrics_def add_metric_def s2_def)
  have "addFunction env w ?req s1 = (if list_all labels_ok (announce_metrics env c p s)
      then Some (snd (write_conn c ?hd s2)) else None)"
    using enc p len32_pos [OF p] sw(1) ready m
    by (simp add: addFunction_def Let_def write_res_def GetReqData_full word_gt_0 worker_ready_def inc_metric_def
        announce_labels_def announce_metrics_def del: labels_ok.simps)
  then have "frame_read env c (CONN_TYPE_WORKER, PDT_W_ADD_FUNC, p) s = (if list_all labels_ok (announce_metrics env c p s)
      then Some (snd (write_conn c ?hd s2)) else None)"
    unfolding rd RunWorkerOptimized_def req by (simp add: Let_def)
  then show thesis
    by (rule that [OF _ ready])
      (use p wr sw s2 st ready in \<open>simp_all add: AddFunc_workers stream_def conn_idle_def worker_ready_def\<close>)
qed

lemma DoIO_add_func:
  assumes inv: "server_inv s" and c: "c < s_nextConn s" "c_Conn (s_conns s c)"
    and i: "c_input (s_conns s c) = map Byte (frame_bytes (CONN_TYPE_WORKER, PDT_W_ADD_FUNC, p)) @ i"
    and p: "p \<noteq> []" "length p \<le> maxFrameSize" and can: "can_write (header CONN_TYPE_SERVER PDT_OK []) (s_conns s c)"
  obtains w t s' where "DoIO env c s = (if list_all valid_utf8 (announce_labels env c p s) then Some (s', True) else None)"
    "worker_ready c w (upd_conn c (\<lambda>cn. cn\<lparr>c_input := i\<rparr>) s) t" "s_workers s' = s_workers t"
    "conn_idle (s_conns t c) (s_conns s' c)" "s_nextConn s' = s_nextConn s"
    "s_Metrics s' = s_Metrics s @ announce_metrics env c p s"
    "workers_of (s_Funcs s') (gostring p) = workers_of (s_Funcs s) (gostring p) @ [w]"
    "stream (s_conns s' c) = stream (s_conns s c) @ header CONN_TYPE_SERVER PDT_OK []"
proof -
  let ?s = "upd_conn c (\<lambda>cn. cn\<lparr>c_input := i\<rparr>) s"
  have inv': "server_inv ?s" using inv by (rule inv_read)
  have d: "DoIO env c s = map_option (\<lambda>s. (s, True)) (frame_read env c (CONN_TYPE_WORKER, PDT_W_ADD_FUNC, p) ?s)"
    using c(2) i p(2) by (intro DoIO_frame) (simp_all add: server_frame_ok_def)
  have h: "c < s_nextConn ?s" "length p < 2 ^ 32" "can_write (header CONN_TYPE_SERVER PDT_OK []) (s_conns ?s c)"
    using c(1) p(2) can by (simp_all add: can_write_def)
  have a: "announce_metrics env c p ?s = announce_metrics env c p s"
    by (simp add: announce_metrics_def announce_labels_def worker_name_at_def split: option.split)
  have l: "list_all labels_ok (announce_metrics env c p s) = list_all valid_utf8 (announce_labels env c p s)"
    by (auto simp: announce_metrics_def announce_labels_def)
  obtain w t s' where r: "frame_read env c (CONN_TYPE_WORKER, PDT_W_ADD_FUNC, p) ?s
      = (if list_all labels_ok (announce_metrics env c p ?s) then Some s' else None)"
    "worker_ready c w ?s t" "s_workers s' = s_workers t" "conn_idle (s_conns t c) (s_conns s' c)"
    "s_nextConn s' = s_nextConn ?s" "s_Metrics s' = s_Metrics ?s @ announce_metrics env c p ?s"
    "workers_of (s_Funcs s') (gostring p) = workers_of (s_Funcs ?s) (gostring p) @ [w]"
    "stream (s_conns s' c) = stream (s_conns ?s c) @ header CONN_TYPE_SERVER PDT_OK []"
    by (rule frame_read_add_func [OF inv' h(1) p(1) h(2,3), of env], rule that) blast+
  show thesis by (rule that [OF _ r(2-4)]) (use d r in \<open>simp_all add: a l\<close>)
qed

text \<open>A result of a worker is queued for the router.\<close>

lemma frame_read_return_data:
  assumes inv: "server_inv s" and c: "c < s_nextConn s"
    and p: "p = return_data_layout h params ret jobId" "length p < 2 ^ 32"
    and room: "length (rr_resultCh (s_ResultRouter s)) < 1024"
  obtains w s' dr where "frame_read env c (CONN_TYPE_WORKER, PDT_W_RETURN_DATA, p) s = Some s'"
    "c_RunWorker (s_conns s' c) = Some w" "rr_resultCh (s_ResultRouter s') = rr_resultCh (s_ResultRouter s) @ [dr]"
    "dr_sw dr = w" "dr_jobFunc dr = h" "dr_jobId dr = jobId" "rq_Handle (dr_req dr) = h"
    "rq_HandleLen (dr_req dr) = len32 h" "rq_ParamsLen (dr_req dr) = len32 params"
    "rq_Ret (dr_req dr) = ret" "rq_RetLen (dr_req dr) = len32 ret"
    "\<And>v. c_RunWorker (s_conns s c) = Some v \<Longrightarrow> w = v \<and> quiet c s s'"
proof -
  obtain w s1 where rd: "frame_read env c (CONN_TYPE_WORKER, PDT_W_RETURN_DATA, p) s = RunWorkerOptimized env w p s1"
    and sw: "c_RunWorker (s_conns s1 c) = Some w" "s_ResultRouter s1 = s_ResultRouter s"
    and known: "\<And>v. c_RunWorker (s_conns s c) = Some v \<Longrightarrow> w = v \<and> quiet c s s1"
    and rq: "worker_req w p s1 = ReqDecodePack (server_NewReq\<lparr>rq_DataType := PDT_W_RETURN_DATA,
        rq_DataLen := len32 p, rq_Data := p\<rparr>)"
    by (rule frame_read_worker [OF inv c, of env PDT_W_RETURN_DATA p], rule that) blast+
  let ?req = "server_NewReq\<lparr>rq_DataType := PDT_W_RETURN_DATA, rq_DataLen := len32 p, rq_Data := p\<rparr>"
  let ?req' = "?req\<lparr>rq_HandleLen := len32 h, rq_Handle := h, rq_ParamsLen := len32 params, rq_Params := params,
    rq_RetLen := len32 ret, rq_Ret := ret, rq_JobIdLen := len32 jobId, rq_JobId := jobId\<rparr>"
  have lens: "length h < 2 ^ 32" "length params < 2 ^ 32" "length ret < 2 ^ 32" "length jobId < 2 ^ 32" "p \<noteq> []"
    using p by (auto simp: return_data_layout_def)
  have req: "worker_req w p s1 = Some ?req'"
    unfolding rq
    using decode_return_data_layout [OF lens(1-4), of ?req] len32_pos [OF lens(5) p(2)] lens(5)
    by (simp add: ReqDecodePack_def p(1) word_gt_0)
  have cap: "ResultRouter_cap (s_ResultRouter s) = 1024"
    using inv by (simp add: server_inv_def server_inv_ex_def pools_ok_def ResultRouter_cap_def)
  let ?dr = "\<lparr>dr_sw = w, dr_jobFunc = h, dr_jobId = jobId, dr_req = ?req'\<rparr>"
  let ?s' = "s1\<lparr>s_ResultRouter := (s_ResultRouter s)\<lparr>rr_resultCh := rr_resultCh (s_ResultRouter s) @ [?dr]\<rparr>\<rparr>"
  have "frame_read env c (CONN_TYPE_WORKER, PDT_W_RETURN_DATA, p) s = Some ?s'"
    unfolding rd RunWorkerOptimized_def req
    using room by (simp add: Let_def ResultRouter_Submit_def chan_send_def cap sw)
  then show thesis by (rule that [of ?s' w ?dr]) (use known in \<open>simp_all add: sw quiet_def\<close>)
qed

subsection \<open>Packets that make the server panic\<close>

text \<open>Exactly the payloads whose length words point outside of it.\<close>

lemma frame_read_return_data_panics:
  assumes inv: "server_inv s" and c: "c < s_nextConn s"
    and p: "p \<noteq> []" "length p < 2 ^ 32" and room: "length (rr_resultCh (s_ResultRouter s)) < 1024"
  shows "frame_read env c (CONN_TYPE_WORKER, PDT_W_RETURN_DATA, p) s = None \<longleftrightarrow> \<not> return_data_wf p"
proof -
  obtain w s1 where rd: "frame_read env c (CONN_TYPE_WORKER, PDT_W_RETURN_DATA, p) s = RunWorkerOptimized env w p s1"
    and sw: "s_ResultRouter s1 = s_ResultRouter s"
    and rq: "worker_req w p s1 = ReqDecodePack (server_NewReq\<lparr>rq_DataType := PDT_W_RETURN_DATA,
        rq_DataLen := len32 p, rq_Data := p\<rparr>)"
    by (rule frame_read_worker [OF inv c, of env PDT_W_RETURN_DATA p], rule that) blast+
  have cap: "ResultRouter_cap (s_ResultRouter s) = 1024"
    using inv by (simp add: server_inv_def server_inv_ex_def pools_ok_def ResultRouter_cap_def)
  have none: "worker_req w p s1 = None \<longleftrightarrow> \<not> return_data_wf p"
    unfolding rq ReqDecodePack_None using p len32_pos [OF p] by simp
  show ?thesis
  proof (cases "worker_req w p s1")
    case (Some req)
    then have "rq_DataType req = PDT_W_RETURN_DATA"
      using ReqDecodePack_frame(1) unfolding rq by fastforce
    then show ?thesis
      using Some none room unfolding rd
      by (simp add: RunWorkerOptimized_def Let_def ResultRouter_Submit_def chan_send_def cap sw)
  next
    case None
    then show ?thesis unfolding rd using none by (simp add: RunWorkerOptimized_def)
  qed
qed

lemma frame_read_do_job_panics:
  assumes inv: "server_inv s" and c: "c < s_nextConn s" and p: "p \<noteq> []" "length p < 2 ^ 32"
  shows "frame_read env c (CONN_TYPE_CLIENT, PDT_C_DO_JOB, p) s = None \<longleftrightarrow> \<not> do_job_wf p"
proof -
  let ?s0 = "upd_conn c (c_ConnType_update (\<lambda>_. CONN_TYPE_CLIENT)) s"
  obtain r s1 where get: "getSCClient c ?s0 = (r, s1)" by fastforce
  note g = getSCClient_eq [OF get]
  obtain cl where cl: "r = Some cl" "c_RunClient (s_conns s1 c) = Some cl" using g(1,2) by auto
  let ?req = "(sc_Req cl)\<lparr>rq_DataType := PDT_C_DO_JOB, rq_DataLen := len32 p, rq_Data := p\<rparr>"
  let ?s2 = "upd_conn c (\<lambda>cn. cn\<lparr>c_RunClient := Some (cl\<lparr>sc_Req := ?req\<rparr>)\<rparr>) s1"
  have rd: "frame_read env c (CONN_TYPE_CLIENT, PDT_C_DO_JOB, p) s = doJobAsync c ?s2"
    using get cl by (simp add: frame_read_def upd_client_def RunClientOptimized_def GetReqDataType_def)
  have none: "ReqDecodePack ?req = None \<longleftrightarrow> \<not> do_job_wf p"
    unfolding ReqDecodePack_None using p len32_pos [OF p] by simp
  have reply: "client_reply c dt s' \<noteq> None"
    if "c_RunClient (s_conns s' c) \<noteq> None" "dt \<noteq> PDT_S_GET_DATA" "dt \<noteq> PDT_S_RETURN_DATA" for dt s'
    using that by (auto simp: client_reply_def upd_client_def ResEncodePack_plain)
  show ?thesis
  proof (cases "ReqDecodePack ?req")
    case None
    then show ?thesis unfolding rd using none by (simp add: doJobAsync_def decode_client_req_def)
  next
    case (Some req)
    then show ?thesis
      unfolding rd using none reply
      by (auto simp: doJobAsync_def decode_client_req_def upd_client_def Let_def split: prod.splits bool.splits)
  qed
qed

subsection \<open>A worker that goes away\<close>

lemma CloseAll_worker:
  assumes "c_ConnType (s_conns s c) = CONN_TYPE_WORKER" "c_RunWorker (s_conns s c) = Some w"
    "c_Conn (s_conns s c)"
  obtains s' where "CloseAll c s = Some s'" "c_RunWorker (s_conns s' c) = None" "\<not> c_Conn (s_conns s' c)"
    "c_closed (s_conns s' c)" "s_workers s' = s_workers s"
    "s_Funcs s' = snd (CleanWorkerFunc (wid_of s) (wid_of s w) (s_Funcs s))"
proof -
  let ?s = "upd_conn c close_socket s"
  let ?s' = "upd_conn c (\<lambda>cn. cn\<lparr>c_RunWorker := None\<rparr>) (CloseSelfWorker w ?s)"
  note fr = CloseSelfWorker_frame [of ?s w]
  have "CloseAll c s = Some ?s'"
    using assms by (simp add: CloseAll_def CloseWorkerConnect_def Let_def)
  moreover have "c_closed (close_socket cn)" for cn by (simp add: close_socket_def)
  ultimately show thesis
    using lb_frame_conn(7,8) [OF fr, of c] fr
    by (intro that [of ?s']) (simp_all add: CloseSelfWorker_Funcs lb_frame_def)
qed

lemma DoIO_worker_eof:
  assumes inv: "server_inv s" and c: "c < s_nextConn s" "c_Conn (s_conns s c)" "c_input (s_conns s c) = []"
    and wk: "c_ConnType (s_conns s c) = CONN_TYPE_WORKER" "c_RunWorker (s_conns s c) = Some w"
  obtains s' where "DoIO env c s = Some (s', False)" "c_RunWorker (s_conns s' c) = None"
    "\<not> c_Conn (s_conns s' c)" "c_closed (s_conns s' c)" "wid_of s' = wid_of s"
    "\<And>n. workers_of (s_Funcs s') n = remove_first (\<lambda>v. wid_of s v = c_Id (s_conns s c))
       (remove_first (\<lambda>v. wid_of s v = c_Id (s_conns s c)) (workers_of (s_Funcs s) n))"
proof -
  let ?i = "c_Id (s_conns s c)"
  have fm: "fm_inv (s_Funcs s)" and wid: "wid_of s w = ?i"
    using inv wk(2) c(1) by (auto simp: server_inv_def server_inv_ex_def funcs_ok_def links_ok_def wid_of_def)
  let ?s1 = "upd_conn c (\<lambda>cn. cn\<lparr>c_input := []\<rparr>) s"
  let ?s2 = "add_metric (Metric ''WorkerCloseCount'' [c_Ip (s_conns s c)] 1) ?s1"
  let ?s3 = "?s2\<lparr>s_Funcs := snd (DelWorker (wid_of ?s2) ?i (s_Funcs s))\<rparr>"
  have "read_failed c (IoErr EOF) ?s1 = Some (?s3, False)"
    using wk by (simp add: read_failed_def Let_def)
  moreover obtain s' where s': "CloseAll c ?s3 = Some s'" "c_RunWorker (s_conns s' c) = None"
    "\<not> c_Conn (s_conns s' c)" "c_closed (s_conns s' c)" "s_workers s' = s_workers ?s3"
    "s_Funcs s' = snd (CleanWorkerFunc (wid_of ?s3) (wid_of ?s3 w) (s_Funcs ?s3))"
    by (rule CloseAll_worker [of ?s3 c w]) (use wk c in simp_all)
  ultimately have "DoIO env c s = Some (s', False)"
    using c by (simp add: DoIO_def ReadFrame_at_end Let_def)
  moreover have "workers_of (s_Funcs s') n = remove_first (\<lambda>v. wid_of s v = ?i)
      (remove_first (\<lambda>v. wid_of s v = ?i) (workers_of (s_Funcs s) n))" for n
    by (simp add: s'(6) wid CleanWorkerFunc_workers DelWorker_workers fm inv_intros)
  moreover have "wid_of s' = wid_of s" by (rule ext) (simp add: wid_of_def s'(5))
  ultimately show thesis using that s'(2-4) by blast
qed

end
