(* ===== verification/Client_IO.thy ===== *)
theory Client_IO
  imports Server_IO
begin

section \<open>The client's packets (pkg/client/request.go, pkg/client/response.go)\<close>

text \<open>
  The request of a client for a job, its framing, the unpacking of what the server
  returns, and the table of response handlers keyed by function name. A response handler
  is an opaque value of a type variable; the table is a map, and \<^verbatim>\<open>holder = nil\<close> of a closed
  client is modelled where the client is.
\<close>

subsection \<open>Requests\<close>

record CRequest =
  cq_DataType :: u32
  cq_Data :: bytes
  cq_DataLen :: u32
  cq_Handle :: string
  cq_HandleLen :: u32
  cq_ParamsType :: u32
  cq_ParamsHandleType :: u32
  cq_ParamsLen :: u32
  cq_Params :: bytes
  cq_Ret :: bytes
  cq_RetLen :: u32

definition client_NewReq :: CRequest where
  "client_NewReq = \<lparr>cq_DataType = 0, cq_Data = [], cq_DataLen = 0, cq_Handle = [],
     cq_HandleLen = 0, cq_ParamsType = PARAMS_TYPE_MSGPACK,
     cq_ParamsHandleType = PARAMS_HANDLE_TYPE_ENCODE, cq_ParamsLen = 0, cq_Params = [],
     cq_Ret = [], cq_RetLen = 0\<rparr>"

definition ContentPack :: "u32 \<Rightarrow> string \<Rightarrow> bytes \<Rightarrow> CRequest \<Rightarrow> CRequest option" where
  "ContentPack dataType handle params req = (
     let req = req\<lparr>cq_DataType := dataType, cq_Handle := handle, cq_HandleLen := len32 handle,
                   cq_Params := params, cq_ParamsLen := len32 params\<rparr>;
         req = req\<lparr>cq_DataLen := 4 + 4 + 4 + cq_HandleLen req + 4 + cq_ParamsLen req\<rparr>;
         content = GetBuffer (unat (cq_DataLen req))
     in do {
       content \<leftarrow> PutUint32 content 0 4 (cq_ParamsType req);
       content \<leftarrow> PutUint32 content 4 8 (cq_ParamsHandleType req);
       content \<leftarrow> PutUint32 content 8 12 (cq_HandleLen req);
       let e = 12 + unat (cq_HandleLen req);
       content \<leftarrow> copy_at content 12 e (gobytes (cq_Handle req));
       let s = e; let e = s + 4;
       content \<leftarrow> PutUint32 content s e (cq_ParamsLen req);
       let s = e; let e = s + unat (cq_ParamsLen req);
       content \<leftarrow> copy_at content s e (cq_Params req);
       Some (req\<lparr>cq_Data := content\<rparr>)
     })"

definition client_EncodePack :: "CRequest \<Rightarrow> bytes option" where
  "client_EncodePack req = (let data = GetBuffer (unat (12 + cq_DataLen req)) in do {
     data \<leftarrow> PutUint32 data 0 4 CONN_TYPE_CLIENT;
     data \<leftarrow> PutUint32 data 4 8 (cq_DataType req);
     data \<leftarrow> PutUint32 data 8 12 (cq_DataLen req);
     copy_at data MIN_DATA_SIZE (length data) (cq_Data req)
   })"

subsection \<open>Responses\<close>

record CResponse =
  cr_DataType :: u32
  cr_Data :: bytes
  cr_DataLen :: u32
  cr_Handle :: string
  cr_HandleLen :: u32
  cr_ParamsType :: u32
  cr_ParamsLen :: u32
  cr_Params :: bytes
  cr_Ret :: bytes
  cr_RetLen :: u32

definition client_NewRes :: CResponse where
  "client_NewRes = \<lparr>cr_DataType = 0, cr_Data = [], cr_DataLen = 0, cr_Handle = [],
     cr_HandleLen = 0, cr_ParamsType = 0, cr_ParamsLen = 0, cr_Params = [], cr_Ret = [],
     cr_RetLen = 0\<rparr>"

datatype res_error = RequestError | HaveNoJobDo | HaveRatelimit

definition GetResError :: "CResponse \<Rightarrow> res_error option" where
  "GetResError resp =
     (if cr_DataType resp = PDT_ERROR then Some RequestError
      else if cr_DataType resp = PDT_CANT_DO then Some HaveNoJobDo
      else if cr_DataType resp = PDT_RATELIMIT then Some HaveRatelimit
      else None)"

text \<open>\<^verbatim>\<open>GetResResult\<close>: the result, or the error "data nil" as \<^term>\<open>None\<close>.\<close>

definition GetResResult :: "CResponse \<Rightarrow> bytes option" where
  "GetResResult resp = (if cr_DataType resp = PDT_S_RETURN_DATA then Some (cr_Ret resp) else None)"

definition GetConnType :: "bytes \<Rightarrow> u32 option" where
  "GetConnType data =
     (if length data = 0 then Some 0
      else if length data < 4 then Some 0
      else Uint32 data 0 4)"

datatype client_decode_error = InvalidData1 | InvalidData2 | InvalidData3

definition client_DecodePack :: "bytes \<Rightarrow> (client_decode_error + CResponse) option" where
  "client_DecodePack data = (
     let resLen = length data in
     if resLen < MIN_DATA_SIZE then Some (Inl InvalidData1)
     else do {
       clw \<leftarrow> Uint32 data 8 12;
       let cl = unat clw;
       if resLen < MIN_DATA_SIZE + cl then Some (Inl InvalidData2)
       else do {
         content \<leftarrow> slice data 12 (12 + cl);
         if length content \<noteq> cl then Some (Inl InvalidData3)
         else do {
           dt \<leftarrow> Uint32 data 4 8;
           let resp = client_NewRes\<lparr>cr_DataType := dt, cr_DataLen := word_of_nat cl,
                                    cr_Data := content\<rparr>;
           if dt = PDT_S_RETURN_DATA then do {
             hl \<leftarrow> Uint32 data 12 16;
             pl \<leftarrow> Uint32 data 16 20;
             rl \<leftarrow> Uint32 data 20 24;
             let e = 24 + unat hl;
             h \<leftarrow> slice data 24 e;
             let s = e; let e = s + unat pl;
             p \<leftarrow> slice data s e;
             let s = e; let e = s + unat rl;
             r \<leftarrow> slice data s e;
             Some (Inr (resp\<lparr>cr_HandleLen := hl, cr_ParamsLen := pl, cr_RetLen := rl,
               cr_Handle := gostring h, cr_Params := p, cr_Ret := r\<rparr>))
           }
           else Some (Inr resp)
         }
       }
     })"

subsection \<open>The table of response handlers\<close>

type_synonym 'h RespHandlerMap = "string \<rightharpoonup> 'h"

definition NewResHandlerMap :: "'h RespHandlerMap" where
  "NewResHandlerMap = Map.empty"

definition PutResHandlerMap :: "string \<Rightarrow> 'h \<Rightarrow> 'h RespHandlerMap \<Rightarrow> 'h RespHandlerMap" where
  "PutResHandlerMap key handler rhm = rhm(key \<mapsto> handler)"

definition GetResHandlerMap :: "string \<Rightarrow> 'h RespHandlerMap \<Rightarrow> 'h option" where
  "GetResHandlerMap key rhm = rhm key"

definition DelResHandlerMap :: "string \<Rightarrow> 'h RespHandlerMap \<Rightarrow> 'h RespHandlerMap" where
  "DelResHandlerMap key rhm = rhm(key := None)"

text \<open>What a client should see of a result that the server sends it.\<close>

definition client_view :: "SResponse \<Rightarrow> CResponse" where
  "client_view res = client_NewRes\<lparr>
     cr_DataType := PDT_S_RETURN_DATA, cr_DataLen := len32 (return_data_content res),
     cr_Data := return_data_content res, cr_HandleLen := rs_HandleLen res,
     cr_ParamsLen := rs_ParamsLen res, cr_RetLen := rs_RetLen res,
     cr_Handle := rs_Handle res, cr_Params := rs_Params res, cr_Ret := rs_Ret res\<rparr>"

subsection \<open>Packing\<close>

lemma ContentPack_eq:
  assumes "length handle + length params + 28 < 2 ^ 32"
  shows "ContentPack dataType handle params req = Some (req\<lparr>
    cq_DataType := dataType, cq_Handle := handle, cq_HandleLen := len32 handle,
    cq_Params := params, cq_ParamsLen := len32 params,
    cq_DataLen := len32 (do_job_layout (cq_ParamsType req) (cq_ParamsHandleType req) handle params),
    cq_Data := do_job_layout (cq_ParamsType req) (cq_ParamsHandleType req) handle params\<rparr>)"
proof -
  have total: "unat (16 + len32 handle + len32 params :: u32)
      = 16 + length handle + length params"
    using assms by (simp add: unat_word_ariths unat_of_nat)
  show ?thesis
    unfolding ContentPack_def Let_def
    using assms
    by (simp add: total unat_len32 fill_simps filled_full do_job_layout_def)
qed

lemma client_EncodePack_eq:
  assumes "cq_DataLen req = len32 (cq_Data req)" "length (cq_Data req) + 12 < 2 ^ 32"
  shows "client_EncodePack req =
    Some (header CONN_TYPE_CLIENT (cq_DataType req) (cq_Data req) @ cq_Data req)"
proof -
  have "unat (12 + cq_DataLen req) = 12 + length (cq_Data req)"
    using assms by (simp add: unat_word_ariths unat_of_nat)
  then show ?thesis
    using assms by (simp add: client_EncodePack_def header_def fill_simps filled_full)
qed

subsection \<open>Unpacking\<close>

lemma client_DecodePack_return_data:
  assumes "res_sized res" "rs_DataType res = PDT_S_RETURN_DATA"
  shows "client_DecodePack (packet res) = Some (Inr (client_view res))"
proof -
  let ?h = "rs_Handle res" and ?p = "rs_Params res" and ?r = "rs_Ret res"
  have total: "unat (12 + (len32 ?h + (len32 ?p + len32 ?r)) :: u32)
      = 12 + length ?h + length ?p + length ?r"
    using assms(1) by (simp add: res_sized_def unat_word_ariths unat_of_nat)
  show ?thesis
    using assms
    by (simp add: client_view_def client_DecodePack_def packet_def res_content_def header_def
        Uint32_def slice_def total res_sized_def return_data_content_def Let_def add.assoc)
qed

lemma client_DecodePack_plain:
  assumes "dt \<noteq> PDT_S_RETURN_DATA"
  shows "client_DecodePack (header CONN_TYPE_SERVER dt [])
    = Some (Inr (client_NewRes\<lparr>cr_DataType := dt\<rparr>))"
  using assms
  by (simp add: client_DecodePack_def header_def Uint32_def slice_def Let_def client_NewRes_def)

lemma GetConnType_total: "GetConnType data \<noteq> None"
  by (simp add: GetConnType_def Uint32_def slice_def)

subsection \<open>The handler table as a map\<close>

locale handler_table =
  fixes empty :: "'t"
    and put :: "string \<Rightarrow> 'h \<Rightarrow> 't \<Rightarrow> 't"
    and get :: "string \<Rightarrow> 't \<Rightarrow> 'h option"
    and del :: "string \<Rightarrow> 't \<Rightarrow> 't"
  assumes get_empty: "get k empty = None"
    and get_put: "get k (put k' h t) = (if k = k' then Some h else get k t)"
    and get_del: "get k (del k' t) = (if k = k' then None else get k t)"
begin

lemma put_del_get: "get k (del k (put k h t)) = None"
  by (simp add: get_del)

lemma put_other_get: "k \<noteq> k' \<Longrightarrow> get k (del k' (put k' h t)) = get k t"
  by (simp add: get_del get_put)

end

interpretation rh: handler_table NewResHandlerMap PutResHandlerMap GetResHandlerMap DelResHandlerMap
  by unfold_locales
    (simp_all add: NewResHandlerMap_def PutResHandlerMap_def GetResHandlerMap_def
      DelResHandlerMap_def)

text \<open>Whatever bytes are decoded, the length fields of the response are the lengths of its fields.\<close>

lemma client_DecodePack_lengths:
  assumes "client_DecodePack data = Some (Inr r)"
  shows "unat (cr_HandleLen r) = length (cr_Handle r)" "unat (cr_ParamsLen r) = length (cr_Params r)"
    "unat (cr_RetLen r) = length (cr_Ret r)" "unat (cr_DataLen r) = length (cr_Data r)"
  using assms
  by (auto simp: client_DecodePack_def Let_def client_NewRes_def bind_eq_Some_conv dest!: slice_length split: if_splits)

end
