(* ===== verification/Client_Core.thy ===== *)
theory Client_Core
  imports Client_IO Frame_IO
begin

section \<open>The client (pkg/client/client.go)\<close>

text \<open>
  A client with its two goroutines: the caller of \<^verbatim>\<open>Do\<close> and the read loop \<^verbatim>\<open>ClientRead\<close>, which
  hands each response over the unbuffered channel \<^verbatim>\<open>ResQueue\<close>. The response that the read
  loop is about to hand over is \<open>cl_pending\<close>; while it is there, the read loop is blocked.

  A handler is an opaque value; what the client does with handlers is the list \<open>cl_calls\<close> of
  its calls. \<open>cl_conn\<close> says that the connection is not nil, \<open>cl_input\<close> and \<open>cl_output\<close> are the two
  directions of it. The time-outs and the dialling are arguments: whether the timer fires
  first, and what \<^verbatim>\<open>net.DialTimeout\<close> answers (the input of the new connection, or an error).
\<close>

subsection \<open>Definitions\<close>

datatype client_error = ConnFail | WriteNilConn | WriteFailed | DialFailed

datatype 'h handler_call = CallErr "res_error option" | CallTimeout | CallResp 'h CResponse

record 'h Client =
  cl_net :: string
  cl_Addr :: string
  cl_conn :: bool
  cl_input :: input
  cl_output :: bytes
  cl_Req :: "CRequest option"
  cl_pending :: "CResponse option"
  cl_ResClosed :: bool
  cl_IoTimeOut :: nat
  cl_ErrHandler :: bool
  cl_RespHandlers :: "'h RespHandlerMap option"
  cl_calls :: "'h handler_call list"

definition NewClient :: "nat \<Rightarrow> string \<Rightarrow> string \<Rightarrow> 'h Client" where
  "NewClient timeout network ad = \<lparr>cl_net = network, cl_Addr = ad, cl_conn = False, cl_input = [],
     cl_output = [], cl_Req = None, cl_pending = None, cl_ResClosed = False, cl_IoTimeOut = timeout,
     cl_ErrHandler = False, cl_RespHandlers = Some NewResHandlerMap, cl_calls = []\<rparr>"

definition Client_SetIoTimeOut :: "nat \<Rightarrow> 'h Client \<Rightarrow> 'h Client" where
  "Client_SetIoTimeOut t c = c\<lparr>cl_IoTimeOut := t\<rparr>"

definition ClientConn :: "input option \<Rightarrow> 'h Client \<Rightarrow> client_error option \<times> 'h Client" where
  "ClientConn dial c = (case dial of
     None \<Rightarrow> (Some DialFailed, c\<lparr>cl_conn := False\<rparr>)
   | Some i \<Rightarrow> (None, c\<lparr>cl_conn := True, cl_input := i\<rparr>))"

text \<open>\<^verbatim>\<open>Start\<close>: the error, or the client with its read loop started.\<close>

definition Client_Start :: "input option \<Rightarrow> 'h Client \<Rightarrow> client_error option \<times> 'h Client" where
  "Client_Start dial c = ClientConn dial c"

definition Client_Write :: "write_answer \<Rightarrow> 'h Client \<Rightarrow> (client_error option \<times> 'h Client) option" where
  "Client_Write ans c =
    (if \<not> cl_conn c then Some (Some WriteNilConn, c)
     else do {
       req \<leftarrow> cl_Req c;
       buf \<leftarrow> client_EncodePack req;
       let (out, ok) = write_all ans buf;
       let c = c\<lparr>cl_output := cl_output c @ out\<rparr>;
       Some (if ok then None else Some WriteFailed, c)
     })"

text \<open>\<^verbatim>\<open>Close\<close>: closing \<^verbatim>\<open>ResQueue\<close> while the read loop is handing over a response panics in the
  read loop, and closing it twice panics in the caller.\<close>

definition Client_Close :: "'h Client \<Rightarrow> 'h Client option" where
  "Client_Close c =
    (if cl_conn c then
       if cl_ResClosed c \<or> cl_pending c \<noteq> None \<or> cl_RespHandlers c = None then None
       else Some (c\<lparr>cl_conn := False, cl_ResClosed := True, cl_RespHandlers := None\<rparr>)
     else Some c)"

text \<open>One round of \<^verbatim>\<open>ClientRead\<close>; the flag says whether the loop goes on. Its call of \<^verbatim>\<open>Close\<close> is
  made by the read loop itself, which is not handing over anything then.\<close>

definition ClientRead :: "input option \<Rightarrow> 'h Client \<Rightarrow> ('h Client \<times> bool) option" where
  "ClientRead dial c =
    (if \<not> cl_conn c then Some (c, False)
     else if cl_pending c \<noteq> None then Some (c, True)
     else case client_ReadFrame (\<not> cl_conn c) (cl_input c) of
       (Inl (IoErr (OpError temporary)), i) \<Rightarrow> Some (c\<lparr>cl_input := i\<rparr>, temporary)
     | (Inl err, i) \<Rightarrow> do {
         c \<leftarrow> Client_Close (c\<lparr>cl_input := i\<rparr>);
         case ClientConn dial c of
           (Some e, c) \<Rightarrow> Some (c, False)
         | (None, c) \<Rightarrow> Some (c\<lparr>cl_ResClosed := False\<rparr>, True)
       }
     | (Inr data, i) \<Rightarrow> do {
         r \<leftarrow> client_DecodePack data;
         let c = c\<lparr>cl_input := i\<rparr>;
         case r of
           Inl err \<Rightarrow> Some (c, True)
         | Inr res \<Rightarrow> if cl_ResClosed c then None else Some (c\<lparr>cl_pending := Some res\<rparr>, True)
       })"

definition HandlerResp :: "CResponse option \<Rightarrow> 'h Client \<Rightarrow> 'h Client option" where
  "HandlerResp resp c = (case resp of
     None \<Rightarrow> Some c
   | Some r \<Rightarrow>
       if length (cr_Handle r) = 0 \<or> cr_HandleLen r = 0 then Some c
       else do {
         rhm \<leftarrow> cl_RespHandlers c;
         case GetResHandlerMap (cr_Handle r) rhm of
           None \<Rightarrow> Some c
         | Some handler \<Rightarrow>
             Some (c\<lparr>cl_calls := cl_calls c @ [CallResp handler r],
                     cl_RespHandlers := Some (DelResHandlerMap (cr_Handle r) rhm)\<rparr>)
       })"

definition safeErrHandler :: "'h handler_call \<Rightarrow> 'h Client \<Rightarrow> 'h Client" where
  "safeErrHandler e c = (if cl_ErrHandler c then c\<lparr>cl_calls := cl_calls c @ [e]\<rparr> else c)"

text \<open>\<^verbatim>\<open>ProcessResp\<close>: a response, the closed channel, or the time-out. Without the first two it
  waits until the timer fires.\<close>

definition ProcessResp :: "bool \<Rightarrow> 'h Client \<Rightarrow> 'h Client option" where
  "ProcessResp timerFirst c =
    (if cl_ResClosed c \<and> \<not> timerFirst then Some c
     else case (if timerFirst then None else cl_pending c) of
       None \<Rightarrow> Some (safeErrHandler CallTimeout c)
     | Some res \<Rightarrow>
         let c = c\<lparr>cl_pending := None\<rparr> in
         if cr_DataType res = PDT_ERROR then Some (safeErrHandler (CallErr (GetResError res)) c)
         else if cr_DataType res = PDT_CANT_DO then Some (safeErrHandler (CallErr (GetResError res)) c)
         else if cr_DataType res = PDT_RATELIMIT then Some (safeErrHandler (CallErr (GetResError res)) c)
         else if cr_DataType res = PDT_S_RETURN_DATA then HandlerResp (Some res) c
         else Some c)"

definition SetParamsType :: "u32 \<Rightarrow> 'h Client \<Rightarrow> 'h Client" where
  "SetParamsType pType c =
    (if pType \<noteq> PARAMS_TYPE_MSGPACK \<and> pType \<noteq> PARAMS_TYPE_JSON then c
     else let req = (case cl_Req c of None \<Rightarrow> client_NewReq | Some r \<Rightarrow> r)
          in c\<lparr>cl_Req := Some (req\<lparr>cq_ParamsType := pType\<rparr>)\<rparr>)"

definition SetParamsHandle :: "u32 \<Rightarrow> 'h Client \<Rightarrow> 'h Client" where
  "SetParamsHandle hType c =
    (if hType \<noteq> PARAMS_HANDLE_TYPE_ENCODE \<and> hType \<noteq> PARAMS_HANDLE_TYPE_ORIGINAL then c
     else let req = (case cl_Req c of None \<Rightarrow> client_NewReq | Some r \<Rightarrow> r)
          in c\<lparr>cl_Req := Some (req\<lparr>cq_ParamsHandleType := hType\<rparr>)\<rparr>)"

text \<open>\<^verbatim>\<open>Do\<close> up to and with the write; then \<open>n\<close> rounds of the read loop; then \<^verbatim>\<open>ProcessResp\<close>.\<close>

definition Do_send ::
  "string \<Rightarrow> bytes \<Rightarrow> 'h \<Rightarrow> write_answer \<Rightarrow> 'h Client \<Rightarrow> (client_error option \<times> 'h Client) option" where
  "Do_send funcName params callback ans c =
    (if \<not> cl_conn c then Some (Some ConnFail, c)
     else do {
       rhm \<leftarrow> cl_RespHandlers c;
       let c = c\<lparr>cl_RespHandlers := Some (PutResHandlerMap funcName callback rhm)\<rparr>;
       let req = (case cl_Req c of None \<Rightarrow> client_NewReq | Some r \<Rightarrow> r);
       req \<leftarrow> ContentPack PDT_C_DO_JOB funcName params req;
       Client_Write ans (c\<lparr>cl_Req := Some req\<rparr>)
     })"

fun read_rounds :: "nat \<Rightarrow> (nat \<Rightarrow> input option) \<Rightarrow> 'h Client \<Rightarrow> 'h Client option" where
  "read_rounds 0 dial c = Some c"
| "read_rounds (Suc n) dial c = do {
     (c, goes_on) \<leftarrow> ClientRead (dial n) c;
     if goes_on then read_rounds n dial c else Some c
   }"

definition client_Do ::
  "string \<Rightarrow> bytes \<Rightarrow> 'h \<Rightarrow> write_answer \<Rightarrow> nat \<Rightarrow> (nat \<Rightarrow> input option) \<Rightarrow> bool \<Rightarrow> 'h Client
    \<Rightarrow> (client_error option \<times> 'h Client) option" where
  "client_Do funcName params callback ans n dial timerFirst c = do {
     (err, c) \<leftarrow> Do_send funcName params callback ans c;
     case err of
       Some e \<Rightarrow> Some (Some e, c)
     | None \<Rightarrow> do {
         c \<leftarrow> read_rounds n dial c;
         c \<leftarrow> ProcessResp timerFirst c;
         Some (None, c)
       }
   }"

text \<open>The frame that a request for a job is.\<close>

definition do_job_frame :: "CRequest \<Rightarrow> string \<Rightarrow> bytes \<Rightarrow> bytes" where
  "do_job_frame req f params = frame_bytes (CONN_TYPE_CLIENT, PDT_C_DO_JOB,
     do_job_layout (cq_ParamsType req) (cq_ParamsHandleType req) f params)"

definition cur_req :: "'h Client \<Rightarrow> CRequest" where
  "cur_req c = (case cl_Req c of None \<Rightarrow> client_NewReq | Some r \<Rightarrow> r)"

subsection \<open>Sending a request\<close>

lemma cur_req_sel [simp]: "cur_req (c\<lparr>cl_RespHandlers := x\<rparr>) = cur_req c"
  by (simp add: cur_req_def)

lemma Do_send_ok:
  assumes "cl_conn c" "cl_RespHandlers c = Some rhm" "length f + length params + 28 < 2 ^ 32"
  obtains req' where "Do_send f params cb WroteAll c = Some (None, c\<lparr>
      cl_RespHandlers := Some (PutResHandlerMap f cb rhm), cl_Req := Some req',
      cl_output := cl_output c @ do_job_frame (cur_req c) f params\<rparr>)"
    "cq_ParamsType req' = cq_ParamsType (cur_req c)" "cq_ParamsHandleType req' = cq_ParamsHandleType (cur_req c)"
proof -
  let ?lay = "do_job_layout (cq_ParamsType (cur_req c)) (cq_ParamsHandleType (cur_req c)) f params"
  let ?req = "(cur_req c)\<lparr>cq_DataType := PDT_C_DO_JOB, cq_Handle := f, cq_HandleLen := len32 f,
    cq_Params := params, cq_ParamsLen := len32 params, cq_DataLen := len32 ?lay, cq_Data := ?lay\<rparr>"
  have pack: "ContentPack PDT_C_DO_JOB f params (cur_req c) = Some ?req"
    using ContentPack_eq [OF assms(3)] by simp
  have "length ?lay + 12 < 2 ^ 32" using assms(3) by (simp add: do_job_layout_def)
  then have enc: "client_EncodePack ?req = Some (do_job_frame (cur_req c) f params)"
    by (subst client_EncodePack_eq) (simp_all add: do_job_frame_def frame_bytes_def)
  show thesis
    using assms(1,2) pack enc
    by (intro that [of ?req]) (simp_all add: Do_send_def Client_Write_def Let_def cur_req_def [symmetric])
qed

text \<open>The frame the client writes is one the server's reader accepts.\<close>

lemma do_job_frame_ok:
  assumes "length f + length params + 16 \<le> maxFrameSize"
  shows "server_frame_ok (CONN_TYPE_CLIENT, PDT_C_DO_JOB, do_job_layout pt pht f params)"
  using assms by (simp add: server_frame_ok_def do_job_layout_def)

subsection \<open>Receiving a response\<close>

lemma ClientRead_frame:
  assumes "cl_conn c" "cl_pending c = None" "\<not> cl_ResClosed c" "peer_frame_ok b"
    "cl_input c = map Byte b @ i" "client_DecodePack b = Some (Inr res)"
  shows "ClientRead dial c = Some (c\<lparr>cl_input := i, cl_pending := Some res\<rparr>, True)"
  using assms peer_ReadFrame_enc(1) [OF assms(4), of i]
  by (simp add: ClientRead_def)

lemma ClientRead_blocked:
  "cl_conn c \<Longrightarrow> cl_pending c \<noteq> None \<Longrightarrow> ClientRead dial c = Some (c, True)"
  by (simp add: ClientRead_def)

lemma read_rounds_blocked:
  "cl_conn c \<Longrightarrow> cl_pending c \<noteq> None \<Longrightarrow> read_rounds n dial c = Some c"
  by (induction n) (simp_all add: ClientRead_blocked)

lemma read_rounds_frame:
  assumes "cl_conn c" "cl_pending c = None" "\<not> cl_ResClosed c" "peer_frame_ok b"
    "cl_input c = map Byte b @ i" "client_DecodePack b = Some (Inr res)" "0 < n"
  shows "read_rounds n dial c = Some (c\<lparr>cl_input := i, cl_pending := Some res\<rparr>)"
  using assms by (cases n) (simp_all add: ClientRead_frame read_rounds_blocked)

lemma HandlerResp_call:
  assumes "cl_RespHandlers c = Some rhm" "GetResHandlerMap (cr_Handle r) rhm = Some h"
    "cr_Handle r \<noteq> []" "cr_HandleLen r \<noteq> 0"
  shows "HandlerResp (Some r) c = Some (c\<lparr>cl_calls := cl_calls c @ [CallResp h r],
    cl_RespHandlers := Some (DelResHandlerMap (cr_Handle r) rhm)\<rparr>)"
  using assms by (simp add: HandlerResp_def)

text \<open>A whole call: the request is written, the result is read, and the callback given to this
  call is called with it and forgotten.\<close>

lemma client_Do_result:
  assumes c: "cl_conn c" "cl_pending c = None" "\<not> cl_ResClosed c" "cl_RespHandlers c = Some rhm"
    and f: "f \<noteq> []" "length f + length params + 28 < 2 ^ 32"
    and res: "res_sized res" "rs_DataType res = PDT_S_RETURN_DATA" "rs_Handle res = f"
      "length (res_content res) \<le> maxFrameSize"
    and i: "cl_input c = map Byte (packet res) @ i" and n: "0 < n"
  obtains c' where "client_Do f params cb WroteAll n dial False c = Some (None, c')"
    "cl_calls c' = cl_calls c @ [CallResp cb (client_view res)]"
    "cl_RespHandlers c' = Some (DelResHandlerMap f rhm)"
    "cl_output c' = cl_output c @ do_job_frame (cur_req c) f params"
    "cl_input c' = i" "cl_pending c' = None" "cl_conn c'" "\<not> cl_ResClosed c'"
proof -
  obtain req' where snd: "Do_send f params cb WroteAll c = Some (None, c\<lparr>
      cl_RespHandlers := Some (PutResHandlerMap f cb rhm), cl_Req := Some req',
      cl_output := cl_output c @ do_job_frame (cur_req c) f params\<rparr>)"
    using Do_send_ok [OF c(1,4) f(2)] by metis
  let ?c1 = "c\<lparr>cl_RespHandlers := Some (PutResHandlerMap f cb rhm), cl_Req := Some req',
      cl_output := cl_output c @ do_job_frame (cur_req c) f params\<rparr>"
  let ?c2 = "?c1\<lparr>cl_input := i, cl_pending := Some (client_view res)\<rparr>"
  have rd: "read_rounds n dial ?c1 = Some ?c2"
    using c i n packet_peer_frame_ok [OF res(4)] client_DecodePack_return_data [OF res(1,2)]
    by (intro read_rounds_frame) simp_all
  have v: "cr_Handle (client_view res) = f" "cr_DataType (client_view res) = PDT_S_RETURN_DATA"
    "cr_HandleLen (client_view res) \<noteq> 0"
    using res f(1) by (auto simp: client_view_def res_sized_def)
  let ?c3 = "?c2\<lparr>cl_pending := None, cl_calls := cl_calls c @ [CallResp cb (client_view res)],
     cl_RespHandlers := Some (DelResHandlerMap f (PutResHandlerMap f cb rhm))\<rparr>"
  have h: "HandlerResp (Some (client_view res)) (?c2\<lparr>cl_pending := None\<rparr>) = Some ?c3"
    by (subst HandlerResp_call [where rhm = "PutResHandlerMap f cb rhm" and h = cb])
      (use v f(1) in \<open>simp_all add: rh.get_put\<close>)
  have "ProcessResp False ?c2 = Some ?c3"
    using h v c(3) by (simp add: ProcessResp_def Let_def)
  moreover have "DelResHandlerMap f (PutResHandlerMap f cb rhm) = DelResHandlerMap f rhm"
    by (simp add: DelResHandlerMap_def PutResHandlerMap_def)
  ultimately show thesis
    using snd rd c by (intro that [of ?c3]) (simp_all add: client_Do_def)
qed

text \<open>An error packet of the server reaches the error handler, as the error of its type.\<close>

lemma client_Do_error:
  assumes c: "cl_conn c" "cl_pending c = None" "\<not> cl_ResClosed c" "cl_RespHandlers c = Some rhm"
      "cl_ErrHandler c"
    and f: "length f + length params + 28 < 2 ^ 32"
    and dt: "dt \<in> {PDT_ERROR, PDT_CANT_DO, PDT_RATELIMIT}"
    and i: "cl_input c = map Byte (header CONN_TYPE_SERVER dt []) @ i" and n: "0 < n"
  obtains c' where "client_Do f params cb WroteAll n dial False c = Some (None, c')"
    "cl_calls c' = cl_calls c @ [CallErr (GetResError (client_NewRes\<lparr>cr_DataType := dt\<rparr>))]"
    "cl_RespHandlers c' = Some (PutResHandlerMap f cb rhm)" "cl_pending c' = None" "cl_conn c'" "\<not> cl_ResClosed c'"
proof -
  obtain req' where snd: "Do_send f params cb WroteAll c = Some (None, c\<lparr>
      cl_RespHandlers := Some (PutResHandlerMap f cb rhm), cl_Req := Some req',
      cl_output := cl_output c @ do_job_frame (cur_req c) f params\<rparr>)"
    using Do_send_ok [OF c(1,4) f] by metis
  let ?c1 = "c\<lparr>cl_RespHandlers := Some (PutResHandlerMap f cb rhm), cl_Req := Some req',
      cl_output := cl_output c @ do_job_frame (cur_req c) f params\<rparr>"
  let ?r = "client_NewRes\<lparr>cr_DataType := dt\<rparr>"
  let ?c2 = "?c1\<lparr>cl_input := i, cl_pending := Some ?r\<rparr>"
  have "peer_frame_ok (header CONN_TYPE_SERVER dt [])"
    by (simp add: peer_frame_ok_def header_def)
  moreover have "client_DecodePack (header CONN_TYPE_SERVER dt []) = Some (Inr ?r)"
    using dt by (intro client_DecodePack_plain) auto
  ultimately have rd: "read_rounds n dial ?c1 = Some ?c2"
    using c i n by (intro read_rounds_frame) simp_all
  have "ProcessResp False ?c2 = Some (?c2\<lparr>cl_pending := None, cl_calls := cl_calls c @ [CallErr (GetResError ?r)]\<rparr>)"
    using c dt by (auto simp: ProcessResp_def safeErrHandler_def Let_def)
  then show thesis
    using snd rd c
    by (intro that [of "?c2\<lparr>cl_pending := None, cl_calls := cl_calls c @ [CallErr (GetResError ?r)]\<rparr>"])
      (simp_all add: client_Do_def)
qed

text \<open>Without a response the timer ends the call.\<close>

lemma client_Do_timeout:
  assumes c: "cl_conn c" "cl_pending c = None" "\<not> cl_ResClosed c" "cl_RespHandlers c = Some rhm" "cl_ErrHandler c"
    and f: "length f + length params + 28 < 2 ^ 32"
  obtains c' where "client_Do f params cb WroteAll 0 dial True c = Some (None, c')"
    "cl_calls c' = cl_calls c @ [CallTimeout]" "cl_RespHandlers c' = Some (PutResHandlerMap f cb rhm)"
    "cl_pending c' = None" "cl_conn c'" "\<not> cl_ResClosed c'"
proof -
  obtain req' where "Do_send f params cb WroteAll c = Some (None, c\<lparr>
      cl_RespHandlers := Some (PutResHandlerMap f cb rhm), cl_Req := Some req',
      cl_output := cl_output c @ do_job_frame (cur_req c) f params\<rparr>)" (is "_ = Some (None, ?c1)")
    using Do_send_ok [OF c(1,4) f] by metis
  then show thesis
    using c by (intro that [of "?c1\<lparr>cl_calls := cl_calls c @ [CallTimeout]\<rparr>"])
      (simp_all add: client_Do_def ProcessResp_def safeErrHandler_def)
qed

text \<open>A response is not matched with the call it answers: the response that an earlier call did
  not wait for is handled by the next one, whose own callback stays registered.\<close>

lemma client_Do_stale:
  assumes c: "cl_conn c" "\<not> cl_ResClosed c" "cl_RespHandlers c = Some rhm"
    and old: "cl_pending c = Some r" "cr_DataType r = PDT_S_RETURN_DATA" "cr_Handle r = g" "cr_HandleLen r \<noteq> 0"
      "g \<noteq> []" "g \<noteq> f" "rhm g = Some cb_old"
    and f: "length f + length params + 28 < 2 ^ 32"
  obtains c' where "client_Do f params cb WroteAll n dial False c = Some (None, c')"
    "cl_calls c' = cl_calls c @ [CallResp cb_old r]" "cl_RespHandlers c' = Some (rhm(f \<mapsto> cb, g := None))"
proof -
  obtain req' where snd: "Do_send f params cb WroteAll c = Some (None, c\<lparr>
      cl_RespHandlers := Some (PutResHandlerMap f cb rhm), cl_Req := Some req',
      cl_output := cl_output c @ do_job_frame (cur_req c) f params\<rparr>)"
    using Do_send_ok [OF c(1,3) f] by metis
  let ?c1 = "c\<lparr>cl_RespHandlers := Some (PutResHandlerMap f cb rhm), cl_Req := Some req',
      cl_output := cl_output c @ do_job_frame (cur_req c) f params\<rparr>"
  have rd: "read_rounds n dial ?c1 = Some ?c1" using c old by (intro read_rounds_blocked) simp_all
  let ?c2 = "?c1\<lparr>cl_pending := None, cl_calls := cl_calls c @ [CallResp cb_old r],
    cl_RespHandlers := Some (rhm(f \<mapsto> cb, g := None))\<rparr>"
  have "ProcessResp False ?c1 = Some ?c2"
    using c old
    by (simp add: ProcessResp_def HandlerResp_def Let_def GetResHandlerMap_def PutResHandlerMap_def
        DelResHandlerMap_def)
  then show thesis using snd rd by (intro that [of ?c2]) (simp_all add: client_Do_def)
qed

text \<open>Closing, and the reconnection of the read loop after the server went away.\<close>

lemma Client_Close_once:
  assumes "Client_Close c = Some c'" shows "Client_Close c' = Some c'" "\<not> cl_conn c'"
  using assms by (auto simp: Client_Close_def split: if_splits)

lemma ClientRead_reconnect:
  assumes "cl_conn c" "cl_pending c = None" "\<not> cl_ResClosed c" "cl_RespHandlers c \<noteq> None" "cl_input c = []"
  shows "ClientRead (Some i) c = Some (c\<lparr>cl_input := i, cl_RespHandlers := None\<rparr>, True)"
  using assms by (simp add: ClientRead_def ReadFrame_at_end Client_Close_def ClientConn_def)

lemma Do_after_reconnect_panics:
  assumes "cl_conn c" "cl_RespHandlers c = None"
  shows "client_Do f params cb ans n dial t c = None"
  using assms by (simp add: client_Do_def Do_send_def)

end
