(* ===== verification/Worker_IO.thy ===== *)
theory Worker_IO
  imports Server_IO
begin

section \<open>The worker's packets (pkg/worker/request.go, pkg/worker/response.go)\<close>

text \<open>
  The requests a worker sends to the server, each packing function with the fields it
  writes, the framing of a request and the unpacking of what the server sends. The
  parsers of \<^verbatim>\<open>msgpack\<close> and \<^verbatim>\<open>encoding/json\<close> that turn the parameters into a map are
  parameters of the model: functions from bytes to an optional map (\<^term>\<open>None\<close> for an
  error), of a map type that is a type variable. The tracing fields of the response
  (\<^verbatim>\<open>Sw8\<close>, \<^verbatim>\<open>TraceEntryCtx\<close>) are left out.
\<close>

subsection \<open>Requests\<close>

record WRequest =
  wq_DataType :: u32
  wq_Data :: bytes
  wq_DataLen :: u32
  wq_Handle :: string
  wq_HandleLen :: u32
  wq_ParamsType :: u32
  wq_ParamsLen :: u32
  wq_Params :: bytes
  wq_JobId :: string
  wq_JobIdLen :: u32
  wq_Ret :: bytes
  wq_RetLen :: u32

definition worker_NewReq :: WRequest where
  "worker_NewReq = \<lparr>wq_DataType = 0, wq_Data = [], wq_DataLen = 0, wq_Handle = [],
     wq_HandleLen = 0, wq_ParamsType = 0, wq_ParamsLen = 0, wq_Params = [], wq_JobId = [],
     wq_JobIdLen = 0, wq_Ret = [], wq_RetLen = 0\<rparr>"

text \<open>The packing functions without panics; each also returns the content, which is the
  new \<^verbatim>\<open>Data\<close>.\<close>

definition HeartBeatPack :: "WRequest \<Rightarrow> WRequest" where
  "HeartBeatPack req = req\<lparr>wq_DataType := PDT_W_HEARTBEAT_PING,
     wq_DataLen := len32 ''PING'', wq_Data := gobytes ''PING''\<rparr>"

definition worker_SetWorkerName_pack :: "string \<Rightarrow> WRequest \<Rightarrow> WRequest" where
  "worker_SetWorkerName_pack workerName req = req\<lparr>wq_DataType := PDT_W_SET_NAME,
     wq_DataLen := len32 workerName, wq_Data := gobytes workerName\<rparr>"

definition AddFunctionPack :: "string \<Rightarrow> WRequest \<Rightarrow> WRequest" where
  "AddFunctionPack funcName req = req\<lparr>wq_DataType := PDT_W_ADD_FUNC,
     wq_DataLen := len32 funcName, wq_Data := gobytes funcName\<rparr>"

definition DelFunctionPack :: "string \<Rightarrow> WRequest \<Rightarrow> WRequest" where
  "DelFunctionPack funcName req = req\<lparr>wq_DataType := PDT_W_DEL_FUNC,
     wq_DataLen := len32 funcName, wq_Data := gobytes funcName\<rparr>"

definition GrabDataPack :: "WRequest \<Rightarrow> WRequest" where
  "GrabDataPack req = req\<lparr>wq_DataType := PDT_W_GRAB_JOB, wq_DataLen := 0, wq_Data := []\<rparr>"

definition WakeupPack :: "WRequest \<Rightarrow> WRequest" where
  "WakeupPack req = req\<lparr>wq_DataType := PDT_WAKEUP, wq_DataLen := 0, wq_Data := []\<rparr>"

definition LimitExceedPack :: "WRequest \<Rightarrow> WRequest" where
  "LimitExceedPack req = req\<lparr>wq_DataType := PDT_RATELIMIT, wq_DataLen := 0, wq_Data := []\<rparr>"

definition RetPack :: "bytes \<Rightarrow> WRequest \<Rightarrow> WRequest option" where
  "RetPack ret req = (
     let req = req\<lparr>wq_Ret := ret, wq_RetLen := len32 ret, wq_DataType := PDT_W_RETURN_DATA\<rparr>;
         req = req\<lparr>wq_DataLen := 4 + wq_HandleLen req + 4 + wq_ParamsLen req + 4
                    + wq_RetLen req + 4 + wq_JobIdLen req\<rparr>;
         content = GetBuffer (unat (wq_DataLen req))
     in do {
       content \<leftarrow> PutUint32 content 0 4 (wq_HandleLen req);
       let e = unat (4 + wq_HandleLen req);
       content \<leftarrow> copy_at content 4 e (gobytes (wq_Handle req));
       let s = e; let e = s + 4;
       content \<leftarrow> PutUint32 content s e (wq_ParamsLen req);
       let s = e; let e = s + unat (wq_ParamsLen req);
       content \<leftarrow> copy_at content s e (wq_Params req);
       let s = e; let e = s + 4;
       content \<leftarrow> PutUint32 content s e (wq_RetLen req);
       let s = e; let e = s + unat (wq_RetLen req);
       content \<leftarrow> copy_at content s e (wq_Ret req);
       let s = e; let e = s + 4;
       content \<leftarrow> PutUint32 content s e (wq_JobIdLen req);
       let s = e; let e = s + unat (wq_JobIdLen req);
       content \<leftarrow> copy_at content s e (gobytes (wq_JobId req));
       Some (req\<lparr>wq_Data := content\<rparr>)
     })"

definition worker_EncodePack :: "WRequest \<Rightarrow> bytes option" where
  "worker_EncodePack req = (let data = GetBuffer (unat (12 + wq_DataLen req)) in do {
     data \<leftarrow> PutUint32 data 0 4 CONN_TYPE_WORKER;
     data \<leftarrow> PutUint32 data 4 8 (wq_DataType req);
     data \<leftarrow> PutUint32 data 8 12 (wq_DataLen req);
     copy_at data MIN_DATA_SIZE (length data) (wq_Data req)
   })"

subsection \<open>Responses\<close>

record 'm WResponse =
  wr_DataType :: u32
  wr_Data :: bytes
  wr_DataLen :: u32
  wr_Handle :: string
  wr_HandleLen :: u32
  wr_ParamsType :: u32
  wr_ParamsHandleType :: u32
  wr_ParamsLen :: u32
  wr_Params :: bytes
  wr_ParamsMap :: "'m option"
  wr_JobId :: string
  wr_JobIdLen :: u32
  wr_Ret :: bytes
  wr_RetLen :: u32

definition worker_NewRes :: "'m WResponse" where
  "worker_NewRes = \<lparr>wr_DataType = 0, wr_Data = [], wr_DataLen = 0, wr_Handle = [],
     wr_HandleLen = 0, wr_ParamsType = PARAMS_TYPE_MSGPACK, wr_ParamsHandleType = 0,
     wr_ParamsLen = 0, wr_Params = [], wr_ParamsMap = None, wr_JobId = [], wr_JobIdLen = 0,
     wr_Ret = [], wr_RetLen = 0\<rparr>"

text \<open>\<^verbatim>\<open>ParseParams\<close> with \<^verbatim>\<open>utils.MsgpackParamsMap\<close> and \<^verbatim>\<open>utils.JsonParamsMap\<close>, which return
  nil when the parser fails.\<close>

definition ParseParams ::
  "(bytes \<Rightarrow> 'm option) \<Rightarrow> (bytes \<Rightarrow> 'm option) \<Rightarrow> bytes \<Rightarrow> 'm WResponse \<Rightarrow> 'm WResponse" where
  "ParseParams msgpack json params resp = (
     let resp = resp\<lparr>wr_Params := params\<rparr> in
     if wr_ParamsType resp = PARAMS_TYPE_MSGPACK then resp\<lparr>wr_ParamsMap := msgpack params\<rparr>
     else if wr_ParamsType resp = PARAMS_TYPE_JSON then resp\<lparr>wr_ParamsMap := json params\<rparr>
     else resp)"

definition GetParams :: "'m WResponse \<Rightarrow> bytes" where
  "GetParams resp = (if wr_ParamsLen resp = 0 then [] else wr_Params resp)"

definition GetParamsMap :: "'m WResponse \<Rightarrow> 'm option" where
  "GetParamsMap resp = (if wr_ParamsLen resp = 0 then None else wr_ParamsMap resp)"

text \<open>\<^verbatim>\<open>DecodePack\<close>: an error value for a packet shorter than its header announces, a panic
  for lengths inside the content that leave the packet.\<close>

datatype decode_error = InvalidData

definition worker_DecodePack ::
  "(bytes \<Rightarrow> 'm option) \<Rightarrow> (bytes \<Rightarrow> 'm option) \<Rightarrow> bytes \<Rightarrow> (decode_error + 'm WResponse) option"
where
  "worker_DecodePack msgpack json data = (
     let resLen = length data in
     if resLen < MIN_DATA_SIZE then Some (Inl InvalidData)
     else do {
       clw \<leftarrow> Uint32 data 8 12;
       let cl = unat clw;
       if resLen < MIN_DATA_SIZE + cl then Some (Inl InvalidData)
       else do {
         content \<leftarrow> slice data 12 (12 + cl);
         if length content \<noteq> cl then Some (Inl InvalidData)
         else do {
           dt \<leftarrow> Uint32 data 4 8;
           let resp = worker_NewRes\<lparr>wr_DataType := dt, wr_DataLen := word_of_nat cl,
                                    wr_Data := content\<rparr>;
           if dt = PDT_S_GET_DATA then do {
             pt \<leftarrow> Uint32 data 12 16;
             pht \<leftarrow> Uint32 data 16 20;
             hl \<leftarrow> Uint32 data 20 24;
             pl \<leftarrow> Uint32 data 24 28;
             jl \<leftarrow> Uint32 data 28 32;
             let e = 32 + unat hl;
             h \<leftarrow> slice data 32 e;
             let s = e; let e = s + unat pl;
             p \<leftarrow> slice data s e;
             let s = e; let e = s + unat jl;
             j \<leftarrow> slice data s e;
             let resp = ParseParams msgpack json p
               (resp\<lparr>wr_ParamsType := pt, wr_ParamsHandleType := pht, wr_HandleLen := hl,
                     wr_ParamsLen := pl, wr_JobIdLen := jl, wr_Handle := gostring h\<rparr>);
             Some (Inr (resp\<lparr>wr_JobId := gostring j\<rparr>))
           }
           else Some (Inr resp)
         }
       }
     })"

text \<open>A request that is about to be packed with \<^verbatim>\<open>RetPack\<close>: the lengths are the lengths of
  the fields, and the packet fits.\<close>

definition ret_sized :: "bytes \<Rightarrow> WRequest \<Rightarrow> bool" where
  "ret_sized ret req \<longleftrightarrow>
     unat (wq_HandleLen req) = length (wq_Handle req) \<and>
     unat (wq_ParamsLen req) = length (wq_Params req) \<and>
     unat (wq_JobIdLen req) = length (wq_JobId req) \<and>
     length (wq_Handle req) + length (wq_Params req) + length (wq_JobId req) + length ret
       + 28 < 2 ^ 32"

text \<open>A request ready to be framed.\<close>

definition req_framed :: "WRequest \<Rightarrow> bool" where
  "req_framed req \<longleftrightarrow> wq_DataLen req = len32 (wq_Data req) \<and> length (wq_Data req) + 12 < 2 ^ 32"

text \<open>What a worker should see of a job that the server sends it.\<close>

definition worker_view ::
  "(bytes \<Rightarrow> 'm option) \<Rightarrow> (bytes \<Rightarrow> 'm option) \<Rightarrow> SResponse \<Rightarrow> 'm WResponse" where
  "worker_view msgpack json res =
     (ParseParams msgpack json (rs_Params res) (worker_NewRes\<lparr>
       wr_DataType := PDT_S_GET_DATA, wr_DataLen := len32 (get_data_content res),
       wr_Data := get_data_content res, wr_ParamsType := rs_ParamsType res,
       wr_ParamsHandleType := rs_ParamsHandleType res, wr_HandleLen := rs_HandleLen res,
       wr_ParamsLen := rs_ParamsLen res, wr_JobIdLen := rs_JobIdLen res,
       wr_Handle := rs_Handle res\<rparr>))\<lparr>wr_JobId := rs_JobId res\<rparr>"

subsection \<open>Packing\<close>

lemmas pack_defs = HeartBeatPack_def worker_SetWorkerName_pack_def AddFunctionPack_def
  DelFunctionPack_def GrabDataPack_def WakeupPack_def LimitExceedPack_def

lemma RetPack_eq:
  assumes "ret_sized ret req"
  shows "RetPack ret req = Some (req\<lparr>wq_Ret := ret, wq_RetLen := len32 ret,
     wq_DataType := PDT_W_RETURN_DATA,
     wq_DataLen := len32 (return_data_layout (wq_Handle req) (wq_Params req) ret (wq_JobId req)),
     wq_Data := return_data_layout (wq_Handle req) (wq_Params req) ret (wq_JobId req)\<rparr>)"
proof -
  let ?h = "wq_Handle req" and ?p = "wq_Params req" and ?j = "wq_JobId req"
  have bound: "length ?h + length ?p + length ?j + length ret + 28 < 2 ^ 32"
    using assms by (simp add: ret_sized_def)
  have lw: "wq_HandleLen req = len32 ?h" "wq_ParamsLen req = len32 ?p"
    "wq_JobIdLen req = len32 ?j"
    using assms by (simp_all add: ret_sized_def len32_unat)
  have lens: "unat (4 + len32 ?h :: u32) = 4 + length ?h"
    "unat (16 + (len32 ?h + (len32 ?p + len32 ret)) + len32 ?j :: u32)
      = 16 + length ?h + length ?p + length ret + length ?j"
    using bound by (simp_all add: unat_word_ariths unat_of_nat)
  show ?thesis
    unfolding RetPack_def Let_def
    using bound
    by (simp add: lw lens unat_len32 fill_simps filled_full return_data_layout_def)
qed

lemma RetPack_framed:
  assumes "ret_sized ret req" "RetPack ret req = Some req'"
  shows "req_framed req'"
  using assms by (auto simp: RetPack_eq req_framed_def ret_sized_def return_data_layout_def)

lemma worker_EncodePack_eq:
  assumes "req_framed req"
  shows "worker_EncodePack req =
    Some (header CONN_TYPE_WORKER (wq_DataType req) (wq_Data req) @ wq_Data req)"
proof -
  have "unat (12 + wq_DataLen req) = 12 + length (wq_Data req)"
    using assms by (simp add: req_framed_def unat_word_ariths unat_of_nat)
  then show ?thesis
    using assms
    by (simp add: worker_EncodePack_def req_framed_def header_def fill_simps filled_full)
qed

subsection \<open>Unpacking\<close>

lemma worker_DecodePack_get_data:
  assumes "res_sized res" "rs_DataType res = PDT_S_GET_DATA"
  shows "worker_DecodePack msgpack json (packet res) = Some (Inr (worker_view msgpack json res))"
proof -
  let ?h = "rs_Handle res" and ?p = "rs_Params res" and ?j = "rs_JobId res"
  have total: "unat (20 + (len32 ?h + (len32 ?p + len32 ?j)) :: u32)
      = 20 + length ?h + length ?p + length ?j"
    using assms(1) by (simp add: res_sized_def unat_word_ariths unat_of_nat)
  show ?thesis
    using assms
    by (simp add: worker_view_def worker_DecodePack_def packet_def res_content_def header_def
        Uint32_def slice_def total res_sized_def get_data_content_def Let_def add.assoc)
qed

text \<open>A packet without content is passed on as it is, and the length check of the header
  makes the decoder return an error value on a packet that is cut short.\<close>

lemma worker_DecodePack_plain:
  assumes "dt \<noteq> PDT_S_GET_DATA"
  shows "worker_DecodePack msgpack json (header CONN_TYPE_SERVER dt [])
    = Some (Inr (worker_NewRes\<lparr>wr_DataType := dt\<rparr>))"
  using assms
  by (simp add: worker_DecodePack_def header_def Uint32_def slice_def Let_def worker_NewRes_def)

lemma worker_DecodePack_short:
  assumes "length data < 12"
  shows "worker_DecodePack msgpack json data = Some (Inl InvalidData)"
  using assms by (simp add: worker_DecodePack_def)

text \<open>Whatever bytes are decoded, the length fields of the response are the lengths of its fields.\<close>

lemma worker_DecodePack_lengths:
  assumes "worker_DecodePack msgpack json data = Some (Inr r)"
  shows "unat (wr_HandleLen r) = length (wr_Handle r)" "unat (wr_ParamsLen r) = length (wr_Params r)"
    "unat (wr_JobIdLen r) = length (wr_JobId r)" "unat (wr_DataLen r) = length (wr_Data r)"
  using assms
  by (auto simp: worker_DecodePack_def Let_def worker_NewRes_def ParseParams_def bind_eq_Some_conv dest!: slice_length split: if_splits)

end
