(* ===== verification/Worker_Core.thy ===== *)
theory Worker_Core
  imports Worker_IO Frame_IO Go_Chan
begin

section \<open>The worker and its agents (pkg/worker/worker.go, pkg/worker/agent.go)\<close>

text \<open>
  A worker has one agent per server; an agent has a connection, one request object that all
  packets are built in, and a read loop. Agents are addressed by their position. A response
  on its way to the worker carries the position of its agent (the field \<^verbatim>\<open>Agent\<close>).

  A job function is a value of the function table: from a response to the result, or
  \<^term>\<open>None\<close> for an error. The map of functions is an association list, in the order in
  which the map is ranged over. Tracing is left out. Dialling answers with the input of
  the new connection or an error; a write answers as in \<^const>\<open>write_all\<close>, per agent.

  \<^verbatim>\<open>DoFunction\<close> starts a goroutine that runs the function, writes the fields of the agent's
  request without holding its lock, and starts another one that packs and writes under the
  lock. The two parts are two operations here, since other goroutines may run in between.
\<close>

subsection \<open>Agents\<close>

record Agent =
  ag_net :: string
  ag_addr :: string
  ag_conn :: bool
  ag_input :: input
  ag_output :: bytes
  ag_sockClosed :: bool
  ag_Req :: WRequest
  ag_cancelled :: bool
  ag_lastTime :: int

definition NewAgent :: "int \<Rightarrow> string \<Rightarrow> string \<Rightarrow> Agent" where
  "NewAgent now network ad = \<lparr>ag_net = network, ag_addr = ad, ag_conn = False, ag_input = [],
     ag_output = [], ag_sockClosed = False, ag_Req = worker_NewReq, ag_cancelled = False,
     ag_lastTime = now\<rparr>"

datatype agent_error = AgentDialErr | AgentConnNil | AgentWriteErr

definition Agent_Connect :: "input option \<Rightarrow> Agent \<Rightarrow> agent_error option \<times> Agent" where
  "Agent_Connect dial a = (case dial of
     None \<Rightarrow> (Some AgentDialErr, a\<lparr>ag_conn := False\<rparr>)
   | Some i \<Rightarrow> (None, a\<lparr>ag_conn := True, ag_input := i, ag_output := [], ag_sockClosed := False\<rparr>))"

definition Agent_ReConnect :: "int \<Rightarrow> input option \<Rightarrow> Agent \<Rightarrow> agent_error option \<times> Agent" where
  "Agent_ReConnect now dial a = (case dial of
     None \<Rightarrow> (Some AgentDialErr, a)
   | Some i \<Rightarrow> (None, a\<lparr>ag_conn := True, ag_input := i, ag_output := [], ag_sockClosed := False,
                       ag_lastTime := now\<rparr>))"

text \<open>\<^verbatim>\<open>Write\<close>; its result is ignored by every caller but kept here.\<close>

definition Agent_Write :: "write_answer \<Rightarrow> Agent \<Rightarrow> (agent_error option \<times> Agent) option" where
  "Agent_Write ans a = do {
     buf \<leftarrow> worker_EncodePack (ag_Req a);
     if \<not> ag_conn a then Some (Some AgentConnNil, a)
     else
       let (out, ok) = write_all ans buf
       in Some (if ok then None else Some AgentWriteErr, a\<lparr>ag_output := ag_output a @ out\<rparr>)
   }"

text \<open>Packing into the agent's request and writing it.\<close>

definition Agent_send :: "(WRequest \<Rightarrow> WRequest) \<Rightarrow> write_answer \<Rightarrow> Agent \<Rightarrow> Agent option" where
  "Agent_send pack ans a = map_option snd (Agent_Write ans (a\<lparr>ag_Req := pack (ag_Req a)\<rparr>))"

definition DelOldFuncMsg :: "string \<Rightarrow> write_answer \<Rightarrow> Agent \<Rightarrow> Agent option" where
  "DelOldFuncMsg funcName = Agent_send (DelFunctionPack funcName)"

definition ReAddFuncMsg :: "string \<Rightarrow> write_answer \<Rightarrow> Agent \<Rightarrow> Agent option" where
  "ReAddFuncMsg funcName = Agent_send (AddFunctionPack funcName)"

definition ReSetWorkerName :: "string \<Rightarrow> write_answer \<Rightarrow> Agent \<Rightarrow> Agent option" where
  "ReSetWorkerName workerName = Agent_send (worker_SetWorkerName_pack workerName)"

definition HeartBeatPing :: "write_answer \<Rightarrow> Agent \<Rightarrow> Agent option" where
  "HeartBeatPing = Agent_send HeartBeatPack"

definition Grab :: "write_answer \<Rightarrow> Agent \<Rightarrow> Agent option" where
  "Grab = Agent_send GrabDataPack"

definition Wakeup :: "write_answer \<Rightarrow> Agent \<Rightarrow> Agent option" where
  "Wakeup = Agent_send WakeupPack"

definition LimitExceed :: "write_answer \<Rightarrow> Agent \<Rightarrow> Agent option" where
  "LimitExceed = Agent_send LimitExceedPack"

definition Agent_Close :: "Agent \<Rightarrow> Agent" where
  "Agent_Close a = (if ag_conn a then a\<lparr>ag_sockClosed := True, ag_conn := False, ag_cancelled := True\<rparr> else a)"

text \<open>One round of \<^verbatim>\<open>Work\<close>: the agent, the response it has for the worker, and whether the loop
  goes on. A \<^verbatim>\<open>break\<close> leaves the \<^verbatim>\<open>select\<close>, not the loop. After an error of another kind the
  data is nil and decoding it fails.\<close>

definition Agent_Work ::
  "(bytes \<Rightarrow> 'm option) \<Rightarrow> (bytes \<Rightarrow> 'm option) \<Rightarrow> Agent \<Rightarrow> (Agent \<times> 'm WResponse option \<times> bool) option" where
  "Agent_Work msgpack json a =
    (if ag_cancelled a then Some (a, None, False)
     else case agent_ReadFrame (\<not> ag_conn a) (ag_input a) of
       (Inl (IoErr (OpError temporary)), i) \<Rightarrow> Some (a\<lparr>ag_input := i\<rparr>, None, True)
     | (Inl (IoErr EOF), i) \<Rightarrow> Some (a\<lparr>ag_input := i\<rparr>, None, True)
     | (r, i) \<Rightarrow> do {
         let data = (case r of Inl _ \<Rightarrow> [] | Inr d \<Rightarrow> d);
         d \<leftarrow> worker_DecodePack msgpack json data;
         Some (a\<lparr>ag_input := i\<rparr>, (case d of Inl _ \<Rightarrow> None | Inr resp \<Rightarrow> Some resp), True)
       })"

subsection \<open>The worker\<close>

type_synonym 'm JobFunc = "'m WResponse \<Rightarrow> bytes option"

record 'm Function =
  fn_Func :: "'m JobFunc"
  fn_FuncName :: string

definition NewFunction :: "'m JobFunc \<Rightarrow> string \<Rightarrow> 'm Function" where
  "NewFunction jf fname = \<lparr>fn_Func = jf, fn_FuncName = fname\<rparr>"

record 'm Worker =
  w_WorkerId :: string
  w_WorkerName :: string
  w_Agents :: "Agent list"
  w_Funcs :: "(string \<times> 'm Function) list"
  w_Resps :: "(nat \<times> 'm WResponse) list"
  w_RespsClosed :: bool
  w_ready :: bool
  w_running :: bool

definition NewWorker :: "'m Worker" where
  "NewWorker = \<lparr>w_WorkerId = [], w_WorkerName = [], w_Agents = [], w_Funcs = [], w_Resps = [],
     w_RespsClosed = False, w_ready = False, w_running = False\<rparr>"

text \<open>The argument \<open>gid\<close> is what \<^verbatim>\<open>utils.GetId\<close> returns.\<close>

definition Worker_SetWorkerId :: "string \<Rightarrow> string \<Rightarrow> 'm Worker \<Rightarrow> 'm Worker" where
  "Worker_SetWorkerId gid wid w = w\<lparr>w_WorkerId := (if length wid = 0 then gid else wid)\<rparr>"

definition Worker_SetWorkerName :: "string \<Rightarrow> string \<Rightarrow> 'm Worker \<Rightarrow> 'm Worker" where
  "Worker_SetWorkerName gid wname w = w\<lparr>w_WorkerName := (if length wname = 0 then gid else wname)\<rparr>"

definition GetWorkerKey :: "string \<Rightarrow> 'm Worker \<Rightarrow> string" where
  "GetWorkerKey gid w = (
     let key = w_WorkerName w;
         key = (if key = [] then w_WorkerId w else key)
     in if key = [] then gid else key)"

definition AddServer :: "int \<Rightarrow> string \<Rightarrow> string \<Rightarrow> 'm Worker \<Rightarrow> 'm Worker" where
  "AddServer now network ad w = w\<lparr>w_Agents := w_Agents w @ [NewAgent now network ad]\<rparr>"

text \<open>What \<^verbatim>\<open>Register\<close> puts into etcd: the key and the map that is encoded as the value.\<close>

definition Worker_Register :: "string \<Rightarrow> string \<Rightarrow> 'm Worker \<Rightarrow> string \<times> (string \<rightharpoonup> string list)" where
  "Worker_Register baseKey gid w = (
     let nmidAddrs = map ag_addr (w_Agents w)
     in (baseKey @ GetWorkerKey gid w,
         fold (\<lambda>(_, val) m. m(fn_FuncName val \<mapsto> nmidAddrs)) (w_Funcs w) Map.empty))"

text \<open>\<^verbatim>\<open>MsgBroadcast\<close>, agent after agent.\<close>

definition broadcast_pack :: "string \<Rightarrow> u32 \<Rightarrow> WRequest \<Rightarrow> WRequest" where
  "broadcast_pack name flag =
    (if flag = PDT_W_SET_NAME then worker_SetWorkerName_pack name
     else if flag = PDT_W_ADD_FUNC then AddFunctionPack name
     else if flag = PDT_W_DEL_FUNC then DelFunctionPack name
     else AddFunctionPack name)"

fun broadcast_agents :: "string \<Rightarrow> u32 \<Rightarrow> (nat \<Rightarrow> write_answer) \<Rightarrow> nat \<Rightarrow> Agent list \<Rightarrow> Agent list option" where
  "broadcast_agents name flag ans i [] = Some []"
| "broadcast_agents name flag ans i (a # as) = do {
     a \<leftarrow> Agent_send (broadcast_pack name flag) (ans i) a;
     as \<leftarrow> broadcast_agents name flag ans (Suc i) as;
     Some (a # as)
   }"

definition MsgBroadcast :: "string \<Rightarrow> u32 \<Rightarrow> (nat \<Rightarrow> write_answer) \<Rightarrow> 'm Worker \<Rightarrow> 'm Worker option" where
  "MsgBroadcast name flag ans w = do {
     as \<leftarrow> broadcast_agents name flag ans 0 (w_Agents w);
     Some (w\<lparr>w_Agents := as\<rparr>)
   }"

fun broadcast_funcs :: "u32 \<Rightarrow> (nat \<Rightarrow> write_answer) \<Rightarrow> string list \<Rightarrow> 'm Worker \<Rightarrow> 'm Worker option" where
  "broadcast_funcs flag ans [] w = Some w"
| "broadcast_funcs flag ans (f # fs) w = do {
     w \<leftarrow> MsgBroadcast f flag ans w;
     broadcast_funcs flag ans fs w
   }"

datatype worker_error = FunctionExists | FunctionNotExist | NoFuncs | NotFound | FuncNameError
  | ParamsError | NoAgents | NoFunctions | AgentErr agent_error

text \<open>\<^verbatim>\<open>AddFunction\<close> and \<^verbatim>\<open>DelFunction\<close>; the broadcast goroutine runs at once.\<close>

definition Worker_AddFunction ::
  "string \<Rightarrow> 'm JobFunc \<Rightarrow> (nat \<Rightarrow> write_answer) \<Rightarrow> 'm Worker \<Rightarrow> (worker_error option \<times> 'm Worker) option" where
  "Worker_AddFunction funcName jobFunc ans w =
    (if map_of (w_Funcs w) funcName \<noteq> None then Some (Some FunctionExists, w)
     else
       let w = w\<lparr>w_Funcs := w_Funcs w @ [(funcName, NewFunction jobFunc funcName)]\<rparr>
       in if w_running w then do { w \<leftarrow> MsgBroadcast funcName PDT_W_ADD_FUNC ans w; Some (None, w) }
          else Some (None, w))"

definition Worker_DelFunction ::
  "string \<Rightarrow> (nat \<Rightarrow> write_answer) \<Rightarrow> 'm Worker \<Rightarrow> (worker_error option \<times> 'm Worker) option" where
  "Worker_DelFunction funcName ans w =
    (if map_of (w_Funcs w) funcName = None then Some (Some FunctionNotExist, w)
     else
       let w = w\<lparr>w_Funcs := filter (\<lambda>(k, _). k \<noteq> funcName) (w_Funcs w)\<rparr>
       in if w_running w then do { w \<leftarrow> MsgBroadcast funcName PDT_W_DEL_FUNC ans w; Some (None, w) }
          else Some (None, w))"

definition GetFunction :: "string \<Rightarrow> 'm Worker \<Rightarrow> worker_error + 'm Function" where
  "GetFunction funcName w =
    (if length (w_Funcs w) = 0 then Inl NoFuncs
     else case map_of (w_Funcs w) funcName of
       None \<Rightarrow> Inl NotFound
     | Some f \<Rightarrow> if fn_FuncName f \<noteq> funcName then Inl NotFound else Inr f)"

text \<open>\<^verbatim>\<open>DoFunction\<close> up to the start of its goroutine: an error, nothing, or the function to run.\<close>

definition DoFunction :: "'m WResponse \<Rightarrow> 'm Worker \<Rightarrow> worker_error + 'm Function option" where
  "DoFunction resp w =
    (if wr_DataType resp = PDT_S_GET_DATA then
       case GetFunction (wr_Handle resp) w of
         Inl e \<Rightarrow> Inl e
       | Inr function \<Rightarrow>
           if fn_FuncName function \<noteq> wr_Handle resp then Inl FuncNameError
           else if wr_ParamsLen resp = 0 then Inl ParamsError
           else Inr (Some function)
     else Inr None)"

text \<open>The goroutine: the fields of the request, then the packet.\<close>

definition set_result :: "'m WResponse \<Rightarrow> Agent \<Rightarrow> Agent" where
  "set_result resp a = a\<lparr>ag_Req := (ag_Req a)\<lparr>wq_HandleLen := wr_HandleLen resp,
     wq_Handle := wr_Handle resp, wq_ParamsLen := wr_ParamsLen resp, wq_Params := wr_Params resp,
     wq_JobIdLen := wr_JobIdLen resp, wq_JobId := wr_JobId resp\<rparr>\<rparr>"

definition write_result :: "bytes \<Rightarrow> write_answer \<Rightarrow> Agent \<Rightarrow> Agent option" where
  "write_result ret ans a = do {
     req \<leftarrow> RetPack ret (ag_Req a);
     map_option snd (Agent_Write ans (a\<lparr>ag_Req := req\<rparr>))
   }"

definition upd_agent :: "nat \<Rightarrow> Agent \<Rightarrow> 'm Worker \<Rightarrow> 'm Worker" where
  "upd_agent i a w = w\<lparr>w_Agents := (w_Agents w)[i := a]\<rparr>"

text \<open>\<^verbatim>\<open>handleResponse\<close> with its goroutines run to the end without interruption.\<close>

definition handleResponse :: "int \<Rightarrow> write_answer \<Rightarrow> nat \<times> 'm WResponse \<Rightarrow> 'm Worker \<Rightarrow> 'm Worker option" where
  "handleResponse now ans r w = (case r of (i, resp) \<Rightarrow>
     let a = w_Agents w ! i in
     if wr_DataType resp = PDT_TOSLEEP then do { a \<leftarrow> Wakeup ans a; Some (upd_agent i a w) }
     else if wr_DataType resp = PDT_S_GET_DATA then
       (case DoFunction resp w of
          Inl e \<Rightarrow> Some w
        | Inr None \<Rightarrow> Some w
        | Inr (Some f) \<Rightarrow>
            (case fn_Func f resp of
               None \<Rightarrow> Some w
             | Some ret \<Rightarrow> do { a \<leftarrow> write_result ret ans (set_result resp a); Some (upd_agent i a w) }))
     else if wr_DataType resp = PDT_NO_JOB then do { a \<leftarrow> Grab ans a; Some (upd_agent i a w) }
     else if wr_DataType resp = PDT_S_HEARTBEAT_PONG then Some (upd_agent i (a\<lparr>ag_lastTime := now\<rparr>) w)
     else if wr_DataType resp = PDT_WAKEUPED then Some w
     else do { a \<leftarrow> Grab ans a; Some (upd_agent i a w) })"

fun connect_agents :: "(nat \<Rightarrow> input option) \<Rightarrow> nat \<Rightarrow> Agent list \<Rightarrow> agent_error option \<times> Agent list" where
  "connect_agents dial i [] = (None, [])"
| "connect_agents dial i (a # as) =
    (case Agent_Connect (dial i) a of
       (Some e, a) \<Rightarrow> (Some e, a # as)
     | (None, a) \<Rightarrow> (let (e, as) = connect_agents dial (Suc i) as in (e, a # as)))"

definition WorkerReady ::
  "(nat \<Rightarrow> input option) \<Rightarrow> (nat \<Rightarrow> write_answer) \<Rightarrow> 'm Worker \<Rightarrow> (worker_error option \<times> 'm Worker) option" where
  "WorkerReady dial ans w =
    (if length (w_Agents w) = 0 then Some (Some NoAgents, w)
     else if length (w_Funcs w) = 0 then Some (Some NoFunctions, w)
     else case connect_agents dial 0 (w_Agents w) of
       (Some e, as) \<Rightarrow> Some (Some (AgentErr e), w\<lparr>w_Agents := as\<rparr>)
     | (None, as) \<Rightarrow> do {
         w \<leftarrow> MsgBroadcast (w_WorkerName w) PDT_W_SET_NAME ans (w\<lparr>w_Agents := as\<rparr>);
         w \<leftarrow> broadcast_funcs PDT_W_ADD_FUNC ans (map fst (w_Funcs w)) w;
         Some (None, w\<lparr>w_ready := True\<rparr>)
       })"

text \<open>\<^verbatim>\<open>WorkerClose\<close>, without the stop signal to the other goroutines.\<close>

definition WorkerClose :: "(nat \<Rightarrow> write_answer) \<Rightarrow> 'm Worker \<Rightarrow> 'm Worker option" where
  "WorkerClose ans w =
    (if w_running w then do {
       w \<leftarrow> broadcast_funcs PDT_W_DEL_FUNC ans (map fst (w_Funcs w)) w;
       if w_RespsClosed w then None
       else Some (w\<lparr>w_Agents := map Agent_Close (w_Agents w), w_running := False, w_RespsClosed := True\<rparr>)
     } else Some w)"

fun send_all :: "(string \<Rightarrow> write_answer \<Rightarrow> Agent \<Rightarrow> Agent option) \<Rightarrow> write_answer \<Rightarrow> string list \<Rightarrow> Agent \<Rightarrow> Agent option" where
  "send_all send ans [] a = Some a"
| "send_all send ans (f # fs) a = do { a \<leftarrow> send f ans a; send_all send ans fs a }"

text \<open>\<open>old\<close> and \<open>ans\<close> are what the old and the new connection answer to a write.\<close>

definition WorkerReConnect ::
  "int \<Rightarrow> write_answer \<Rightarrow> input option \<Rightarrow> write_answer \<Rightarrow> nat \<Rightarrow> 'm Worker \<Rightarrow> 'm Worker option" where
  "WorkerReConnect now old dial ans i w = do {
     let fs = map fst (w_Funcs w);
     a \<leftarrow> send_all DelOldFuncMsg old fs (w_Agents w ! i);
     let a = (if ag_conn a then a\<lparr>ag_sockClosed := True\<rparr> else a);
     let (_, a) = Agent_ReConnect now dial a;
     a \<leftarrow> ReSetWorkerName (w_WorkerName w) ans a;
     a \<leftarrow> send_all ReAddFuncMsg ans fs a;
     Some (upd_agent i a w)
   }"

text \<open>The frames of a worker.\<close>

definition name_frame :: "u32 \<Rightarrow> string \<Rightarrow> bytes" where
  "name_frame dt s = frame_bytes (CONN_TYPE_WORKER, dt, gobytes s)"

definition result_frame :: "string \<Rightarrow> bytes \<Rightarrow> bytes \<Rightarrow> string \<Rightarrow> bytes" where
  "result_frame handle params ret jobId =
     frame_bytes (CONN_TYPE_WORKER, PDT_W_RETURN_DATA, return_data_layout handle params ret jobId)"

definition wfuncs_ok :: "'m Worker \<Rightarrow> bool" where
  "wfuncs_ok w \<longleftrightarrow> distinct (map fst (w_Funcs w)) \<and> (\<forall>(k, f) \<in> set (w_Funcs w). fn_FuncName f = k)"

text \<open>The length words of a response are the lengths of its fields, and the result fits.\<close>

definition resp_sized :: "bytes \<Rightarrow> 'm WResponse \<Rightarrow> bool" where
  "resp_sized ret r \<longleftrightarrow> unat (wr_HandleLen r) = length (wr_Handle r)
     \<and> unat (wr_ParamsLen r) = length (wr_Params r) \<and> unat (wr_JobIdLen r) = length (wr_JobId r)
     \<and> length (wr_Handle r) + length (wr_Params r) + length (wr_JobId r) + length ret + 28 < 2 ^ 32"

text \<open>A broadcast appends one frame to the output of every connected agent and changes nothing
  else that can be seen.\<close>

definition agents_got :: "bytes \<Rightarrow> Agent list \<Rightarrow> Agent list \<Rightarrow> bool" where
  "agents_got b as as' \<longleftrightarrow> length as' = length as
     \<and> (\<forall>i < length as. ag_output (as' ! i) = ag_output (as ! i) @ b \<and> ag_conn (as' ! i)
          \<and> ag_addr (as' ! i) = ag_addr (as ! i) \<and> ag_input (as' ! i) = ag_input (as ! i))"

subsection \<open>Sending packets\<close>

lemma Agent_send_ok:
  assumes "ag_conn a" "req_framed (pack (ag_Req a))"
  shows "Agent_send pack WroteAll a = Some (a\<lparr>ag_Req := pack (ag_Req a), ag_output := ag_output a
     @ frame_bytes (CONN_TYPE_WORKER, wq_DataType (pack (ag_Req a)), wq_Data (pack (ag_Req a)))\<rparr>)"
  using assms by (simp add: Agent_send_def Agent_Write_def worker_EncodePack_eq frame_bytes_def)

lemma broadcast_pack_framed:
  assumes "length s + 12 < 2 ^ 32"
  shows "req_framed (broadcast_pack s flag req)" "wq_Data (broadcast_pack s flag req) = gobytes s"
    "flag \<in> {PDT_W_SET_NAME, PDT_W_ADD_FUNC, PDT_W_DEL_FUNC} \<Longrightarrow>
       wq_DataType (broadcast_pack s flag req) = flag"
  using assms by (auto simp: broadcast_pack_def pack_defs req_framed_def)

lemma broadcast_agents_ok:
  assumes "\<forall>a \<in> set as. ag_conn a" "length s + 12 < 2 ^ 32"
    "flag \<in> {PDT_W_SET_NAME, PDT_W_ADD_FUNC, PDT_W_DEL_FUNC}"
  obtains as' where "broadcast_agents s flag (\<lambda>_. WroteAll) k as = Some as'"
    "agents_got (name_frame flag s) as as'"
proof -
  have "\<exists>as'. broadcast_agents s flag (\<lambda>_. WroteAll) k as = Some as' \<and> agents_got (name_frame flag s) as as'"
    using assms(1)
  proof (induction as arbitrary: k)
    case (Cons a as)
    let ?a = "a\<lparr>ag_Req := broadcast_pack s flag (ag_Req a), ag_output := ag_output a @ name_frame flag s\<rparr>"
    have a: "Agent_send (broadcast_pack s flag) WroteAll a = Some ?a"
      using Cons.prems broadcast_pack_framed [OF assms(2)] assms(3)
      by (subst Agent_send_ok) (simp_all add: name_frame_def)
    obtain as' where "broadcast_agents s flag (\<lambda>_. WroteAll) (Suc k) as = Some as'"
      "agents_got (name_frame flag s) as as'"
      using Cons by fastforce
    then show ?case
      using a Cons.prems
      by (auto simp: agents_got_def nth_Cons split: nat.splits)
  qed (simp add: agents_got_def)
  then show thesis using that by blast
qed

lemma agents_got_trans:
  "agents_got b as as' \<Longrightarrow> agents_got c as' as'' \<Longrightarrow> agents_got (b @ c) as as''"
  by (simp add: agents_got_def)

lemma agents_got_conn: "agents_got b as as' \<Longrightarrow> \<forall>a \<in> set as'. ag_conn a"
  by (auto simp: agents_got_def in_set_conv_nth)

lemma MsgBroadcast_ok:
  assumes "\<forall>a \<in> set (w_Agents w). ag_conn a" "length s + 12 < 2 ^ 32"
    "flag \<in> {PDT_W_SET_NAME, PDT_W_ADD_FUNC, PDT_W_DEL_FUNC}"
  obtains as' where "MsgBroadcast s flag (\<lambda>_. WroteAll) w = Some (w\<lparr>w_Agents := as'\<rparr>)"
    "agents_got (name_frame flag s) (w_Agents w) as'"
proof -
  obtain as' where "broadcast_agents s flag (\<lambda>_. WroteAll) 0 (w_Agents w) = Some as'"
    "agents_got (name_frame flag s) (w_Agents w) as'"
    using assms by (rule broadcast_agents_ok)
  then show thesis by (intro that [of as']) (simp_all add: MsgBroadcast_def)
qed

lemma broadcast_funcs_ok:
  assumes "\<forall>a \<in> set (w_Agents w). ag_conn a" "\<forall>f \<in> set fs. length f + 12 < 2 ^ 32"
    "flag \<in> {PDT_W_SET_NAME, PDT_W_ADD_FUNC, PDT_W_DEL_FUNC}"
  shows "\<exists>as'. broadcast_funcs flag (\<lambda>_. WroteAll) fs w = Some (w\<lparr>w_Agents := as'\<rparr>)
    \<and> agents_got (concat (map (name_frame flag) fs)) (w_Agents w) as'"
  using assms(1,2)
proof (induction fs arbitrary: w)
  case Nil
  then show ?case by (auto simp: agents_got_def intro!: exI [of _ "w_Agents w"])
next
  case (Cons f fs)
  obtain as1 where b: "MsgBroadcast f flag (\<lambda>_. WroteAll) w = Some (w\<lparr>w_Agents := as1\<rparr>)"
    "agents_got (name_frame flag f) (w_Agents w) as1"
    by (rule MsgBroadcast_ok [of w f flag]) (use Cons.prems assms(3) in auto)
  obtain as2 where "broadcast_funcs flag (\<lambda>_. WroteAll) fs (w\<lparr>w_Agents := as1\<rparr>)
      = Some ((w\<lparr>w_Agents := as1\<rparr>)\<lparr>w_Agents := as2\<rparr>)"
    "agents_got (concat (map (name_frame flag) fs)) as1 as2"
    using Cons.IH [of "w\<lparr>w_Agents := as1\<rparr>"] Cons.prems agents_got_conn [OF b(2)] by auto
  then show ?case using b by (auto intro: agents_got_trans)
qed

text \<open>A worker that gets ready announces its name and then every function, to every server.\<close>

lemma connect_agents_ok:
  assumes "\<forall>k. \<exists>x. dial k = Some x"
  shows "\<exists>as'. connect_agents dial i as = (None, as') \<and> length as' = length as
    \<and> (\<forall>k < length as. ag_conn (as' ! k) \<and> ag_output (as' ! k) = [] \<and> ag_addr (as' ! k) = ag_addr (as ! k)
        \<and> dial (i + k) = Some (ag_input (as' ! k)))"
proof (induction as arbitrary: i)
  case (Cons a as)
  obtain x where x: "dial i = Some x" using assms by blast
  obtain as' where "connect_agents dial (Suc i) as = (None, as')" "length as' = length as"
    "\<forall>k < length as. ag_conn (as' ! k) \<and> ag_output (as' ! k) = [] \<and> ag_addr (as' ! k) = ag_addr (as ! k)
        \<and> dial (Suc i + k) = Some (ag_input (as' ! k))"
    using Cons.IH by blast
  then show ?case
    using x by (auto simp: Agent_Connect_def nth_Cons split: nat.splits)
qed simp

lemma WorkerReady_ok:
  assumes w: "w_Agents w \<noteq> []" "w_Funcs w \<noteq> []" "\<forall>k. \<exists>x. dial k = Some x"
    and small: "length (w_WorkerName w) + 12 < 2 ^ 32" "\<forall>f \<in> fst ` set (w_Funcs w). length f + 12 < 2 ^ 32"
  obtains w' where "WorkerReady dial (\<lambda>_. WroteAll) w = Some (None, w')" "w_ready w'"
    "length (w_Agents w') = length (w_Agents w)" "w_Funcs w' = w_Funcs w"
    "\<And>i. i < length (w_Agents w) \<Longrightarrow> ag_conn (w_Agents w' ! i) \<and>
       ag_output (w_Agents w' ! i) = name_frame PDT_W_SET_NAME (w_WorkerName w)
         @ concat (map (name_frame PDT_W_ADD_FUNC) (map fst (w_Funcs w)))"
proof -
  obtain as where as: "connect_agents dial 0 (w_Agents w) = (None, as)" "length as = length (w_Agents w)"
    "\<forall>k < length (w_Agents w). ag_conn (as ! k) \<and> ag_output (as ! k) = []"
    using connect_agents_ok [OF w(3), of 0 "w_Agents w"] by blast
  let ?w1 = "w\<lparr>w_Agents := as\<rparr>"
  obtain as1 where b1: "MsgBroadcast (w_WorkerName w) PDT_W_SET_NAME (\<lambda>_. WroteAll) ?w1 = Some (?w1\<lparr>w_Agents := as1\<rparr>)"
    "agents_got (name_frame PDT_W_SET_NAME (w_WorkerName w)) as as1"
    by (rule MsgBroadcast_ok [of ?w1 "w_WorkerName w" PDT_W_SET_NAME])
      (use as small in \<open>auto simp: in_set_conv_nth\<close>)
  let ?w2 = "w\<lparr>w_Agents := as1\<rparr>" and ?fs = "map fst (w_Funcs w)"
  obtain as2 where b2: "broadcast_funcs PDT_W_ADD_FUNC (\<lambda>_. WroteAll) ?fs ?w2 = Some (?w2\<lparr>w_Agents := as2\<rparr>)"
    "agents_got (concat (map (name_frame PDT_W_ADD_FUNC) ?fs)) as1 as2"
    using broadcast_funcs_ok [of ?w2 ?fs PDT_W_ADD_FUNC] agents_got_conn [OF b1(2)] small(2) by auto
  note got = agents_got_trans [OF b1(2) b2(2)]
  show thesis
    by (rule that [of "w\<lparr>w_Agents := as2, w_ready := True\<rparr>"])
      (use w as b1(1) b2(1) got in \<open>auto simp: WorkerReady_def agents_got_def\<close>)
qed

subsection \<open>Doing a job\<close>

lemma set_result_sel [simp]:
  "ag_conn (set_result r a) = ag_conn a" "ag_output (set_result r a) = ag_output a"
  by (simp_all add: set_result_def)

lemma write_result_ok:
  assumes "ag_conn a" "ret_sized ret (ag_Req a)"
  obtains a' where "write_result ret WroteAll a = Some a'" "ag_conn a'"
    "ag_output a' = ag_output a @ result_frame (wq_Handle (ag_Req a)) (wq_Params (ag_Req a)) ret (wq_JobId (ag_Req a))"
    "wq_Handle (ag_Req a') = wq_Handle (ag_Req a)" "wq_Params (ag_Req a') = wq_Params (ag_Req a)"
    "wq_JobId (ag_Req a') = wq_JobId (ag_Req a)" "wq_HandleLen (ag_Req a') = wq_HandleLen (ag_Req a)"
    "wq_ParamsLen (ag_Req a') = wq_ParamsLen (ag_Req a)" "wq_JobIdLen (ag_Req a') = wq_JobIdLen (ag_Req a)"
proof -
  let ?lay = "return_data_layout (wq_Handle (ag_Req a)) (wq_Params (ag_Req a)) ret (wq_JobId (ag_Req a))"
  let ?req = "(ag_Req a)\<lparr>wq_Ret := ret, wq_RetLen := len32 ret, wq_DataType := PDT_W_RETURN_DATA,
     wq_DataLen := len32 ?lay, wq_Data := ?lay\<rparr>"
  have pack: "RetPack ret (ag_Req a) = Some ?req" using RetPack_eq [OF assms(2)] .
  then have "req_framed ?req" using assms(2) by (intro RetPack_framed)
  then have "worker_EncodePack ?req = Some (result_frame (wq_Handle (ag_Req a)) (wq_Params (ag_Req a)) ret (wq_JobId (ag_Req a)))"
    by (simp add: worker_EncodePack_eq result_frame_def frame_bytes_def)
  then show thesis
    using assms(1) pack
    by (intro that [of "a\<lparr>ag_Req := ?req, ag_output := ag_output a @ result_frame (wq_Handle (ag_Req a))
        (wq_Params (ag_Req a)) ret (wq_JobId (ag_Req a))\<rparr>"])
      (simp_all add: write_result_def Agent_Write_def)
qed

lemma set_result_sized: "resp_sized ret r \<Longrightarrow> ret_sized ret (ag_Req (set_result r a))"
  by (simp add: resp_sized_def ret_sized_def set_result_def)

text \<open>A job for a function the worker has: the function's result is returned with the handle,
  the parameters and the id of the job.\<close>

lemma handleResponse_job:
  assumes "wr_DataType resp = PDT_S_GET_DATA" "GetFunction (wr_Handle resp) w = Inr f"
    "wr_ParamsLen resp \<noteq> 0" "fn_Func f resp = Some ret" "resp_sized ret resp"
    and i: "i < length (w_Agents w)" "ag_conn (w_Agents w ! i)"
  obtains w' where "handleResponse now WroteAll (i, resp) w = Some w'"
    "ag_output (w_Agents w' ! i) = ag_output (w_Agents w ! i)
       @ result_frame (wr_Handle resp) (wr_Params resp) ret (wr_JobId resp)"
    "\<And>j. j \<noteq> i \<Longrightarrow> w_Agents w' ! j = w_Agents w ! j"
proof -
  let ?a = "set_result resp (w_Agents w ! i)"
  have name: "fn_FuncName f = wr_Handle resp"
    using assms(2) by (auto simp: GetFunction_def split: option.splits if_splits)
  obtain a' where a': "write_result ret WroteAll ?a = Some a'"
    "ag_output a' = ag_output ?a @ result_frame (wq_Handle (ag_Req ?a)) (wq_Params (ag_Req ?a)) ret (wq_JobId (ag_Req ?a))"
    by (rule write_result_ok [of ?a ret]) (use i set_result_sized [OF assms(5)] in simp_all)
  then have "handleResponse now WroteAll (i, resp) w = Some (upd_agent i a' w)"
    using assms(1-4) name by (simp add: handleResponse_def DoFunction_def)
  then show thesis
    by (rule that) (use a'(2) i in \<open>simp_all add: upd_agent_def set_result_def\<close>)
qed

text \<open>Two jobs of one agent whose goroutines interleave: both results are returned under the
  identity of the job that wrote the request fields last.\<close>

lemma interleaved_results:
  assumes "ag_conn a" "resp_sized ret1 r2" "resp_sized ret2 r2"
  obtains a1 a2 where "write_result ret1 WroteAll (set_result r2 (set_result r1 a)) = Some a1"
    "write_result ret2 WroteAll a1 = Some a2"
    "ag_output a2 = ag_output a @ result_frame (wr_Handle r2) (wr_Params r2) ret1 (wr_JobId r2)
       @ result_frame (wr_Handle r2) (wr_Params r2) ret2 (wr_JobId r2)"
proof -
  let ?a = "set_result r2 (set_result r1 a)"
  have req: "wq_Handle (ag_Req ?a) = wr_Handle r2" "wq_Params (ag_Req ?a) = wr_Params r2"
    "wq_JobId (ag_Req ?a) = wr_JobId r2" "wq_HandleLen (ag_Req ?a) = wr_HandleLen r2"
    "wq_ParamsLen (ag_Req ?a) = wr_ParamsLen r2" "wq_JobIdLen (ag_Req ?a) = wr_JobIdLen r2"
    by (simp_all add: set_result_def)
  obtain a1 where a1: "write_result ret1 WroteAll ?a = Some a1" "ag_conn a1"
    "ag_output a1 = ag_output ?a @ result_frame (wr_Handle r2) (wr_Params r2) ret1 (wr_JobId r2)"
    "wq_Handle (ag_Req a1) = wr_Handle r2" "wq_Params (ag_Req a1) = wr_Params r2"
    "wq_JobId (ag_Req a1) = wr_JobId r2" "wq_HandleLen (ag_Req a1) = wr_HandleLen r2"
    "wq_ParamsLen (ag_Req a1) = wr_ParamsLen r2" "wq_JobIdLen (ag_Req a1) = wr_JobIdLen r2"
    by (rule write_result_ok [of ?a ret1]) (use assms set_result_sized [OF assms(2)] req in simp_all)
  have "ret_sized ret2 (ag_Req a1)" using assms(3) a1(4-9) by (simp add: ret_sized_def resp_sized_def)
  then obtain a2 where "write_result ret2 WroteAll a1 = Some a2"
    "ag_output a2 = ag_output a1 @ result_frame (wr_Handle r2) (wr_Params r2) ret2 (wr_JobId r2)"
    by (rule write_result_ok [OF a1(2)]) (use a1(4-6) in simp)
  with a1(1,3) show thesis using that by simp
qed

subsection \<open>The read loop\<close>

lemma Agent_Work_frame:
  assumes "\<not> ag_cancelled a" "ag_conn a" "ag_input a = map Byte b @ i" "peer_frame_ok b"
    "worker_DecodePack msgpack json b = Some (Inr resp)"
  shows "Agent_Work msgpack json a = Some (a\<lparr>ag_input := i\<rparr>, Some resp, True)"
  using assms peer_ReadFrame_enc(2) [OF assms(4), of i] by (simp add: Agent_Work_def)

text \<open>At the end of the input the loop goes on without having changed anything, for ever.\<close>

lemma Agent_Work_eof:
  assumes "\<not> ag_cancelled a" "ag_conn a" "ag_input a = []"
  shows "Agent_Work msgpack json a = Some (a, None, True)"
  using assms by (simp add: Agent_Work_def ReadFrame_at_end)

subsection \<open>The function table\<close>

lemma NewFunction_name [simp]: "fn_FuncName (NewFunction jf f) = f"
  by (simp add: NewFunction_def)

lemma wfuncs_ok_New: "wfuncs_ok NewWorker"
  by (simp add: wfuncs_ok_def NewWorker_def)

lemma Worker_AddFunction_ok:
  assumes "wfuncs_ok w" "Worker_AddFunction f jf ans w = Some (e, w')"
  shows "wfuncs_ok w'" and "e = None \<Longrightarrow> GetFunction f w' = Inr (NewFunction jf f)"
    and "g \<noteq> f \<Longrightarrow> w_Funcs w \<noteq> [] \<Longrightarrow> GetFunction g w' = GetFunction g w"
proof -
  have keep: "w_Funcs w'' = w_Funcs v" if "MsgBroadcast n fl ans v = Some w''" for n fl v w''
    using that by (auto simp: MsgBroadcast_def bind_eq_Some_conv)
  have cases: "e \<noteq> None \<and> w' = w \<or> e = None \<and> map_of (w_Funcs w) f = None
      \<and> w_Funcs w' = w_Funcs w @ [(f, NewFunction jf f)]"
    using assms(2) by (auto simp: Worker_AddFunction_def Let_def bind_eq_Some_conv dest!: keep split: if_splits)
  then show "wfuncs_ok w'"
    using assms(1) by (auto simp: wfuncs_ok_def NewFunction_def map_of_eq_None_iff)
  have mo: "map_of (w_Funcs w @ [(f, NewFunction jf f)]) k
      = (if map_of (w_Funcs w) f = None \<and> k = f then Some (NewFunction jf f) else map_of (w_Funcs w) k)" for k
    by (auto simp: map_add_def split: option.splits)
  show "e = None \<Longrightarrow> GetFunction f w' = Inr (NewFunction jf f)"
    "g \<noteq> f \<Longrightarrow> w_Funcs w \<noteq> [] \<Longrightarrow> GetFunction g w' = GetFunction g w"
    using cases by (auto simp: GetFunction_def mo simp del: map_of_append)
qed

lemma Worker_DelFunction_ok:
  assumes "wfuncs_ok w" "Worker_DelFunction f ans w = Some (e, w')"
  shows "wfuncs_ok w'" and "e = None \<Longrightarrow> map_of (w_Funcs w') f = None"
    and "g \<noteq> f \<Longrightarrow> map_of (w_Funcs w') g = map_of (w_Funcs w) g"
proof -
  have keep: "w_Funcs w'' = w_Funcs v" if "MsgBroadcast n fl ans v = Some w''" for n fl v w''
    using that by (auto simp: MsgBroadcast_def bind_eq_Some_conv)
  have cases: "e \<noteq> None \<and> w' = w \<or> e = None \<and> w_Funcs w' = filter (\<lambda>(k, _). k \<noteq> f) (w_Funcs w)"
    using assms(2) by (auto simp: Worker_DelFunction_def Let_def bind_eq_Some_conv dest!: keep split: if_splits)
  have "map_of (filter (\<lambda>(k, _). k \<noteq> f) xs) g = (if g = f then None else map_of xs g)" for xs :: "(string \<times> 'a Function) list" and g
    by (induction xs) auto
  then show "e = None \<Longrightarrow> map_of (w_Funcs w') f = None" "g \<noteq> f \<Longrightarrow> map_of (w_Funcs w') g = map_of (w_Funcs w) g"
    using cases by auto
  show "wfuncs_ok w'"
    using cases assms(1) by (auto simp: wfuncs_ok_def distinct_map_filter)
qed

end
