(* ===== verification/Call_Path.thy ===== *)
theory Call_Path
  imports Server_Jobs Client_Core Worker_Core
begin

section \<open>The path of a call\<close>

text \<open>
  A call goes from the client to the dispatch pool of the server (\<^verbatim>\<open>Client.Do\<close>, \<^verbatim>\<open>DoIO\<close>), to the worker
  (\<^verbatim>\<open>DispatchPool.worker\<close>), through the function of the worker (\<^verbatim>\<open>Agent.Work\<close>, \<^verbatim>\<open>handleResponse\<close>), back to the
  result router (\<^verbatim>\<open>DoIO\<close>), to the connection of the client (\<^verbatim>\<open>ResultRouter.worker\<close>) and to the handler
  that waits in the client. One lemma for each leg, and their composition.
\<close>

text \<open>Bytes arrive at a connection of the server.\<close>

definition arrive :: "addr \<Rightarrow> bytes \<Rightarrow> Server \<Rightarrow> Server" where
  "arrive c b s = upd_conn c (\<lambda>cn. cn\<lparr>c_input := c_input cn @ map Byte b\<rparr>) s"

text \<open>The request that a client's call leaves in the dispatch pool.\<close>

definition call_dj :: "'h Client \<Rightarrow> string \<Rightarrow> bytes \<Rightarrow> addr \<Rightarrow> Server \<Rightarrow> dispatchJob" where
  "call_dj cl f params c s = \<lparr>dj_handle = f, dj_params = params, dj_paramsType = cq_ParamsType (cur_req cl),
     dj_paramsHandleType = cq_ParamsHandleType (cur_req cl), dj_clientId = c_Id (s_conns s c), dj_connect = c\<rparr>"

text \<open>A worker process whose agent \<open>k\<close> is connected, has read everything, and whose function \<open>f\<close> returns
  \<open>ret\<close> for these parameters of this job.\<close>

definition serves :: "(bytes \<Rightarrow> 'm option) \<Rightarrow> (bytes \<Rightarrow> 'm option) \<Rightarrow> nat \<Rightarrow> JobData \<Rightarrow> bytes \<Rightarrow> 'm Worker \<Rightarrow> bool" where
  "serves msgpack json k jb ret w \<longleftrightarrow> k < length (w_Agents w) \<and> ag_conn (w_Agents w ! k) \<and> \<not> ag_cancelled (w_Agents w ! k)
     \<and> (\<exists>fn. GetFunction (jd_FuncName jb) w = Inr fn \<and> fn_Func fn (worker_view msgpack json (job_packet jb)) = Some ret)"

text \<open>A client that is connected and waits for nothing.\<close>

definition client_ready :: "'h Client \<Rightarrow> bool" where
  "client_ready cl \<longleftrightarrow> cl_conn cl \<and> cl_pending cl = None \<and> \<not> cl_ResClosed cl \<and> cl_RespHandlers cl \<noteq> None"

text \<open>A server with nothing on its way, a client on connection \<open>c\<close>, and one worker \<open>w\<close> for the function,
  on another connection; there is room on both, and the name of the worker and the function, which label the
  server's counters, are UTF-8.\<close>

definition ready_for :: "string \<Rightarrow> addr \<Rightarrow> addr \<Rightarrow> Server \<Rightarrow> bool" where
  "ready_for f c w s \<longleftrightarrow> server_inv s \<and> c < s_nextConn s \<and> sw_Connect (s_workers s w) < s_nextConn s
     \<and> c \<noteq> sw_Connect (s_workers s w) \<and> workers_of (s_Funcs s) f = [w] \<and> alive s w \<and> chan s w f = []
     \<and> c_RunWorker (s_conns s (sw_Connect (s_workers s w))) = Some w
     \<and> valid_utf8 (sw_WorkerName (s_workers s w)) \<and> valid_utf8 f
     \<and> dp_jobCh (s_DispatchPool s) = [] \<and> rr_resultCh (s_ResultRouter s) = []
     \<and> (\<forall>a \<in> {c, sw_Connect (s_workers s w)}. c_Conn (s_conns s a) \<and> c_input (s_conns s a) = [])"

subsection \<open>From the client to the dispatch pool\<close>

lemma request_leg:
  assumes "cl_conn cl" "cl_RespHandlers cl = Some rhm" "f \<noteq> []" "params \<noteq> []"
    and "length f + length params + 16 \<le> maxFrameSize"
    and "server_inv s" "c < s_nextConn s" "c_Conn (s_conns s c)"
    and "length (dp_jobCh (s_DispatchPool s)) < 1024"
    and "c_input (s_conns s c) = map Byte (do_job_frame (cur_req cl) f params) @ i"
  obtains cl' s' where "Do_send f params cb WroteAll cl = Some (None, cl')"
    "cl_output cl' = cl_output cl @ do_job_frame (cur_req cl) f params"
    "DoIO env c s = Some (s', True)"
    "dp_jobCh (s_DispatchPool s') = dp_jobCh (s_DispatchPool s) @ [call_dj cl f params c s]"
    "quiet c s s'" "c_ConnType (s_conns s' c) = CONN_TYPE_CLIENT" "s_ResultRouter s' = s_ResultRouter s"
proof -
  let ?p = "do_job_layout (cq_ParamsType (cur_req cl)) (cq_ParamsHandleType (cur_req cl)) f params"
  let ?s = "upd_conn c (\<lambda>cn. cn\<lparr>c_input := i\<rparr>) s"
  have len: "length f + length params + 28 < 2 ^ 32" "length ?p < 2 ^ 32"
    using assms(5) by (simp_all add: do_job_layout_def)
  obtain req' where cl: "Do_send f params cb WroteAll cl = Some (None, cl\<lparr>
      cl_RespHandlers := Some (PutResHandlerMap f cb rhm), cl_Req := Some req',
      cl_output := cl_output cl @ do_job_frame (cur_req cl) f params\<rparr>)"
    by (rule Do_send_ok [OF assms(1,2) len(1)])
  have i: "server_inv ?s" using assms(6) by (rule inv_read)
  have d: "DoIO env c s = map_option (\<lambda>s. (s, True)) (frame_read env c (CONN_TYPE_CLIENT, PDT_C_DO_JOB, ?p) ?s)"
    using assms(5,8,10) by (intro DoIO_frame do_job_frame_ok) (simp_all add: do_job_frame_def)
  have c: "c < s_nextConn ?s" "length (dp_jobCh (s_DispatchPool ?s)) < 1024" using assms(7,9) by simp_all
  obtain s' where s': "frame_read env c (CONN_TYPE_CLIENT, PDT_C_DO_JOB, ?p) ?s = Some s'"
    "dp_jobCh (s_DispatchPool s') = dp_jobCh (s_DispatchPool ?s) @ [\<lparr>dj_handle = f, dj_params = params,
       dj_paramsType = cq_ParamsType (cur_req cl), dj_paramsHandleType = cq_ParamsHandleType (cur_req cl),
       dj_clientId = c_Id (s_conns ?s c), dj_connect = c\<rparr>]"
    "quiet c ?s s'" "c_ConnType (s_conns s' c) = CONN_TYPE_CLIENT" "s_ResultRouter s' = s_ResultRouter ?s"
    by (rule frame_read_do_job [OF i c(1) refl assms(3,4) len(2) c(2)], rule that) blast+
  show thesis
    by (rule that [OF cl, of s']) (use s' in \<open>simp_all add: d call_dj_def quiet_def conn_core_def\<close>)
qed

subsection \<open>From the dispatch pool to the worker\<close>

lemma dispatch_leg:
  assumes "server_inv s" "dp_jobCh (s_DispatchPool s) = d # ds"
    and s0: "s0 = s\<lparr>s_DispatchPool := (s_DispatchPool s)\<lparr>dp_jobCh := ds\<rparr>\<rparr>"
    and "GetBestWorker env (dj_handle d) s0 = Some (Some w, s1)"
    and "jb = make_job env d (wid_of s w)" "job_small jb []"
    and "length (chan s w (dj_handle d)) < 1024"
    and "can_write (packet (job_packet jb)) (s_conns s (sw_Connect (s_workers s w)))"
  obtains s' where "DispatchPool_worker env s
        = inc_metric (Metric ''requestCount'' [sw_WorkerName (s_workers s w), dj_handle d] 1) s'"
    "stream (s_conns s' (sw_Connect (s_workers s w)))
        = stream (s_conns s (sw_Connect (s_workers s w))) @ packet (job_packet jb)"
    "\<And>c. c \<noteq> sw_Connect (s_workers s w) \<Longrightarrow> stream (s_conns s' c) = stream (s_conns s c)"
    "\<And>v g. chan s' v g = (if v = w \<and> g = dj_handle d then chan s w g @ [s_nextJob s] else chan s v g)"
    "dispatched jb (s_nextJob s) (sw_Connect (s_workers s w)) s s'"
proof -
  have take: "DispatchPool_take (s_DispatchPool s) = (Some d, (s_DispatchPool s)\<lparr>dp_jobCh := ds\<rparr>)"
    using assms(2) by (simp add: DispatchPool_take_def chan_recv_def)
  have i: "server_inv s0"
    using assms(1,2) inv_pools [of "{}" s] unfolding server_inv_def s0
    by (intro inv_DispatchPool) (auto simp: pools_ok_def)
  have d: "dj_ok s0 d"
    using assms(1,2) unfolding server_inv_def server_inv_ex_def pools_ok_def s0 dj_ok_def by simp
  have w: "wid_of s0 w = wid_of s w" "s_workers s0 = s_workers s" "s_conns s0 = s_conns s" "chan s0 = chan s"
      "s_nextJob s0 = s_nextJob s" "s_ResultRouter s0 = s_ResultRouter s" "s_nextConn s0 = s_nextConn s"
    by (simp_all add: s0 wid_of_def)
  have h: "jb = make_job env d (wid_of s0 w)" "job_small jb []" "length (chan s0 w (dj_handle d)) < 1024"
    "can_write (packet (job_packet jb)) (s_conns s0 (sw_Connect (s_workers s0 w)))"
    using assms(5-8) w by simp_all
  obtain s' where s': "run_dispatched env d s0 = inc_metric (Metric ''requestCount'' [sw_WorkerName (s_workers s0 w), dj_handle d] 1) s'"
    "stream (s_conns s' (sw_Connect (s_workers s0 w)))
       = stream (s_conns s0 (sw_Connect (s_workers s0 w))) @ packet (job_packet jb)"
    "\<And>c. c \<noteq> sw_Connect (s_workers s0 w) \<Longrightarrow> stream (s_conns s' c) = stream (s_conns s0 c)"
    "\<And>v g. chan s' v g = (if v = w \<and> g = dj_handle d then chan s0 w g @ [s_nextJob s0] else chan s0 v g)"
    "dispatched jb (s_nextJob s0) (sw_Connect (s_workers s0 w)) s0 s'"
    by (rule run_dispatched_counts [OF i d assms(4) h], rule that) blast+
  show thesis
    by (rule that [of s']) (use s' take in \<open>simp_all add: w DispatchPool_worker_def s0 dispatched_def\<close>)
qed

subsection \<open>Through the function of the worker\<close>

lemma worker_view_job:
  assumes "job_small jb ret" "jd_Params jb \<noteq> []"
  shows "wr_DataType (worker_view msgpack json (job_packet jb)) = PDT_S_GET_DATA"
    "wr_Handle (worker_view msgpack json (job_packet jb)) = jd_FuncName jb"
    "wr_Params (worker_view msgpack json (job_packet jb)) = jd_Params jb"
    "wr_JobId (worker_view msgpack json (job_packet jb)) = jd_JobId jb"
    "resp_sized ret (worker_view msgpack json (job_packet jb))"
    "wr_ParamsLen (worker_view msgpack json (job_packet jb)) \<noteq> 0"
  using assms
  by (simp_all add: worker_view_def ParseParams_def job_packet_def resp_sized_def job_small_def unat_len32 len32_0_iff Let_def)

lemma job_leg:
  assumes "job_small jb ret" "jd_FuncName jb \<noteq> []" "jd_Params jb \<noteq> []"
    and "length (packet (job_packet jb)) \<le> maxFrameSize"
    and "resp = worker_view msgpack json (job_packet jb)"
    and "k < length (w_Agents w)" "ag_conn (w_Agents w ! k)" "\<not> ag_cancelled (w_Agents w ! k)"
    and "ag_input (w_Agents w ! k) = map Byte (packet (job_packet jb)) @ i"
    and "GetFunction (jd_FuncName jb) w = Inr fn" "fn_Func fn resp = Some ret"
  obtains a w' where "Agent_Work msgpack json (w_Agents w ! k) = Some (a, Some resp, True)"
    "handleResponse now WroteAll (k, resp) (upd_agent k a w) = Some w'"
    "ag_output (w_Agents w' ! k) = ag_output (w_Agents w ! k)
        @ result_frame (jd_FuncName jb) (jd_Params jb) ret (jd_JobId jb)"
proof -
  let ?a = "(w_Agents w ! k)\<lparr>ag_input := i\<rparr>"
  have sz: "res_sized (job_packet jb)" using assms(1) by (intro job_packet_sized) (simp add: job_small_def)
  have ok: "peer_frame_ok (packet (job_packet jb))"
    using assms(4) by (intro packet_peer_frame_ok) (simp add: packet_def)
  have dec: "worker_DecodePack msgpack json (packet (job_packet jb)) = Some (Inr resp)"
    unfolding assms(5) by (rule worker_DecodePack_get_data [OF sz]) (simp add: job_packet_def)
  have r: "wr_DataType resp = PDT_S_GET_DATA" "wr_Handle resp = jd_FuncName jb" "wr_Params resp = jd_Params jb"
    "wr_JobId resp = jd_JobId jb" "resp_sized ret resp" "wr_ParamsLen resp \<noteq> 0"
    using worker_view_job [of jb ret msgpack json] assms(1,3,5) by auto
  have w: "Agent_Work msgpack json (w_Agents w ! k) = Some (?a, Some resp, True)"
    using assms(8,7,9) ok dec by (rule Agent_Work_frame)
  have g: "GetFunction (wr_Handle resp) (upd_agent k ?a w) = Inr fn"
    using assms(10) r(2) by (auto simp: GetFunction_def upd_agent_def split: if_splits)
  obtain w' where "handleResponse now WroteAll (k, resp) (upd_agent k ?a w) = Some w'"
    "ag_output (w_Agents w' ! k) = ag_output (w_Agents (upd_agent k ?a w) ! k)
       @ result_frame (wr_Handle resp) (wr_Params resp) ret (wr_JobId resp)"
    by (rule handleResponse_job [OF r(1) g r(6) assms(11) r(5), of k now])
       (use assms(6,7) in \<open>simp_all add: upd_agent_def\<close>)
  then show thesis by (intro that [OF w]) (use assms(6) r(2-4) in \<open>auto simp: upd_agent_def\<close>)
qed

subsection \<open>From the worker to the result router\<close>

lemma result_leg:
  assumes "server_inv s" "c < s_nextConn s" "c_Conn (s_conns s c)"
    and "c_input (s_conns s c) = map Byte (result_frame f params ret jobId) @ i"
    and "length f + length params + length ret + length jobId + 16 \<le> maxFrameSize"
    and "length (rr_resultCh (s_ResultRouter s)) < 1024"
  obtains w s' dr where "DoIO env c s = Some (s', True)" "c_RunWorker (s_conns s' c) = Some w"
    "rr_resultCh (s_ResultRouter s') = rr_resultCh (s_ResultRouter s) @ [dr]"
    "dr_sw dr = w" "dr_jobFunc dr = f" "dr_jobId dr = jobId" "rq_Handle (dr_req dr) = f" "rq_HandleLen (dr_req dr) = len32 f"
    "rq_ParamsLen (dr_req dr) = len32 params" "rq_Ret (dr_req dr) = ret" "rq_RetLen (dr_req dr) = len32 ret"
    "\<And>v. c_RunWorker (s_conns s c) = Some v \<Longrightarrow> w = v \<and> quiet c s s'"
proof -
  let ?p = "return_data_layout f params ret jobId"
  let ?s = "upd_conn c (\<lambda>cn. cn\<lparr>c_input := i\<rparr>) s"
  have len: "length ?p \<le> maxFrameSize" using assms(5) by (simp add: return_data_layout_def)
  have i: "server_inv ?s" using assms(1) by (rule inv_read)
  have d: "DoIO env c s = map_option (\<lambda>s. (s, True)) (frame_read env c (CONN_TYPE_WORKER, PDT_W_RETURN_DATA, ?p) ?s)"
    using len assms(3,4) by (intro DoIO_frame) (simp_all add: result_frame_def server_frame_ok_def)
  have c: "c < s_nextConn ?s" "length ?p < 2 ^ 32" "length (rr_resultCh (s_ResultRouter ?s)) < 1024"
    using assms(2,6) len by simp_all
  obtain w s' dr where r: "frame_read env c (CONN_TYPE_WORKER, PDT_W_RETURN_DATA, ?p) ?s = Some s'"
    "c_RunWorker (s_conns s' c) = Some w" "rr_resultCh (s_ResultRouter s') = rr_resultCh (s_ResultRouter ?s) @ [dr]"
    "dr_sw dr = w" "dr_jobFunc dr = f" "dr_jobId dr = jobId" "rq_Handle (dr_req dr) = f"
    "rq_HandleLen (dr_req dr) = len32 f" "rq_ParamsLen (dr_req dr) = len32 params"
    "rq_Ret (dr_req dr) = ret" "rq_RetLen (dr_req dr) = len32 ret"
    "\<And>v. c_RunWorker (s_conns ?s c) = Some v \<Longrightarrow> w = v \<and> quiet c ?s s'"
    by (rule frame_read_return_data [OF i c(1) refl c(2,3), of env], rule that) blast+
  have q: "w = v \<and> quiet c s s'" if "c_RunWorker (s_conns s c) = Some v" for v
    using r(12) [of v] that by (simp add: quiet_def conn_core_def)
  show thesis by (rule that [of s' w dr]) (use r(1-11) q in \<open>simp_all add: d\<close>)
qed

subsection \<open>From the result router to the connection of the client\<close>

lemma route_leg:
  assumes "server_inv s" "rr_resultCh (s_ResultRouter s) = dr # drs" "chan s (dr_sw dr) f = j # js" "jb = s_jobs s j"
    and "jd_Client jb = Some c" "c_ConnType (s_conns s c) = CONN_TYPE_CLIENT"
    and "dr_jobFunc dr = f" "result_for jb ret (dr_req dr)" "job_small jb ret"
    and "can_write (packet (result_packet jb ret)) (s_conns s c)"
    and "valid_utf8 (sw_WorkerName (s_workers s (dr_sw dr)))" "valid_utf8 f"
  obtains s' where "ResultRouter_worker env s = Some s'"
    "stream (s_conns s' c) = stream (s_conns s c) @ packet (result_packet jb ret)"
    "\<And>c'. c' \<noteq> c \<Longrightarrow> s_conns s' c' = s_conns s c'"
    "\<And>v g. chan s' v g = (if v = dr_sw dr \<and> g = f then js else chan s v g)"
    "jd_status (s_jobs s' j) = JOB_STATUS_DONE"
proof -
  let ?s = "s\<lparr>s_ResultRouter := (s_ResultRouter s)\<lparr>rr_resultCh := drs\<rparr>\<rparr>"
  have take: "ResultRouter_take (s_ResultRouter s) = (Some dr, (s_ResultRouter s)\<lparr>rr_resultCh := drs\<rparr>)"
    using assms(2) by (simp add: ResultRouter_take_def chan_recv_def)
  have i: "server_inv ?s"
    using assms(1,2) inv_pools [of "{}" s] unfolding server_inv_def
    by (intro inv_ResultRouter) (auto simp: pools_ok_def)
  let ?rj = "\<lparr>rj_JobId = dr_jobId dr, rj_FuncName = dr_jobFunc dr, rj_Request = dr_req dr\<rparr>"
  have ch: "chan ?s = chan s" by (simp add: chan_def fun_eq_iff)
  have h: "chan ?s (dr_sw dr) f = j # js" "jb = s_jobs ?s j" "jd_Client jb = Some c"
    "c_ConnType (s_conns ?s c) = CONN_TYPE_CLIENT" "rj_FuncName ?rj = f" "result_for jb ret (rj_Request ?rj)" "job_small jb ret"
    "can_write (packet (result_packet jb ret)) (s_conns ?s c)"
    "valid_utf8 (sw_WorkerName (s_workers ?s (dr_sw dr)))" "valid_utf8 f"
    using assms by (simp_all add: ch)
  show thesis
    by (rule returnData_answers [OF i h, of env], rule that) (simp_all add: ResultRouter_worker_def take ch)
qed

subsection \<open>From the connection of the client to the handler\<close>

lemma caller_leg:
  assumes "cl_conn cl" "cl_pending cl = None" "\<not> cl_ResClosed cl" "cl_RespHandlers cl = Some rhm"
    and "f \<noteq> []" "length f + length params + 28 < 2 ^ 32"
    and "jd_FuncName jb = f" "job_small jb ret" "length (packet (result_packet jb ret)) \<le> maxFrameSize"
    and "cl_input cl = map Byte (packet (result_packet jb ret)) @ i" "0 < n"
  obtains cl' r where "client_Do f params cb WroteAll n dial False cl = Some (None, cl')"
    "cl_calls cl' = cl_calls cl @ [CallResp cb r]" "cr_Ret r = ret" "cr_Handle r = f"
    "cl_RespHandlers cl' = Some (DelResHandlerMap f rhm)" "cl_input cl' = i"
proof -
  have c: "length (res_content (result_packet jb ret)) \<le> maxFrameSize" "rs_Handle (result_packet jb ret) = f"
    "rs_DataType (result_packet jb ret) = PDT_S_RETURN_DATA"
    using assms(7,9) by (simp_all add: packet_def result_packet_def job_packet_def)
  have v: "cr_Ret (client_view (result_packet jb ret)) = ret" "cr_Handle (client_view (result_packet jb ret)) = f"
    by (simp_all add: client_view_def result_packet_def job_packet_def assms(7))
  show thesis
    by (rule client_Do_result [OF assms(1-6) result_packet_sized [OF assms(8)] c(3,2,1) assms(10,11), of cb dial])
      (use that v in blast)
qed

subsection \<open>The whole call\<close>

lemma arrive_inv: "server_inv s \<Longrightarrow> server_inv (arrive c b s)"
  unfolding arrive_def by (rule server_step_inv [OF server_step.arrive])

lemma arrive_sel [simp]:
  "s_conns (arrive c b s) a = (if a = c then (s_conns s c)\<lparr>c_input := c_input (s_conns s c) @ map Byte b\<rparr> else s_conns s a)"
  "s_workers (arrive c b s) = s_workers s" "s_jobs (arrive c b s) = s_jobs s" "s_Funcs (arrive c b s) = s_Funcs s"
  "s_nextConn (arrive c b s) = s_nextConn s" "s_nextJob (arrive c b s) = s_nextJob s" "chan (arrive c b s) = chan s"
  "s_DispatchPool (arrive c b s) = s_DispatchPool s" "s_ResultRouter (arrive c b s) = s_ResultRouter s"
  "wid_of (arrive c b s) = wid_of s" "s_nextWorker (arrive c b s) = s_nextWorker s"
  by (simp_all add: arrive_def)

lemma can_write_input [simp]: "can_write p (cn\<lparr>c_input := i\<rparr>) = can_write p cn"
  by (simp add: can_write_def)

text \<open>The server's half: from the request of the client to the packet for the worker.\<close>

lemma call_to_worker:
  assumes r: "ready_for f c w s" and cl: "client_ready cl" and f: "f \<noteq> []" "params \<noteq> []"
    and len: "length f + length params + 16 \<le> maxFrameSize"
    and jb: "jb = make_job env (call_dj cl f params c s) (wid_of s w)" and small: "job_small jb []"
    and can: "can_write (packet (job_packet jb)) (s_conns s (sw_Connect (s_workers s w)))"
  obtains cl' s1 s2 where "Do_send f params cb WroteAll cl = Some (None, cl')"
    "cl_output cl' = cl_output cl @ do_job_frame (cur_req cl) f params"
    "DoIO env c (arrive c (do_job_frame (cur_req cl) f params) s) = Some (s1, True)"
    "DispatchPool_worker env s1 = Some s2" "server_inv s2"
    "stream (s_conns s2 (sw_Connect (s_workers s w))) = stream (s_conns s (sw_Connect (s_workers s w))) @ packet (job_packet jb)"
    "stream (s_conns s2 c) = stream (s_conns s c)" "chan s2 w f = [s_nextJob s]"
    "c_ConnType (s_conns s2 c) = CONN_TYPE_CLIENT" "\<And>p. can_write p (s_conns s2 c) = can_write p (s_conns s c)"
    "dispatched jb (s_nextJob s) (sw_Connect (s_workers s w)) s1 s2" "quiet c s s1" "s_ResultRouter s1 = s_ResultRouter s"
proof -
  let ?cw = "sw_Connect (s_workers s w)" and ?s = "arrive c (do_job_frame (cur_req cl) f params) s"
  obtain rhm where rhm: "cl_RespHandlers cl = Some rhm" using cl by (auto simp: client_ready_def)
  have hs: "server_inv ?s" "c < s_nextConn ?s" "c_Conn (s_conns ?s c)" "length (dp_jobCh (s_DispatchPool ?s)) < 1024"
    "c_input (s_conns ?s c) = map Byte (do_job_frame (cur_req cl) f params) @ []"
    using r by (auto simp: ready_for_def intro: arrive_inv)
  obtain cl' s1 where a: "Do_send f params cb WroteAll cl = Some (None, cl')"
    "cl_output cl' = cl_output cl @ do_job_frame (cur_req cl) f params" "DoIO env c ?s = Some (s1, True)"
    "dp_jobCh (s_DispatchPool s1) = dp_jobCh (s_DispatchPool ?s) @ [call_dj cl f params c ?s]"
    "quiet c ?s s1" "c_ConnType (s_conns s1 c) = CONN_TYPE_CLIENT" "s_ResultRouter s1 = s_ResultRouter ?s"
    by (rule request_leg [OF _ rhm f len hs]) (use cl client_ready_def in blast)+
  have q: "quiet c s s1" using a(5) by (auto simp: quiet_def conn_core_def)
  note e = quiet_eq [OF q]
  have i1: "server_inv s1" by (rule server_step_inv [OF server_step.io [OF hs(2) a(3)] hs(1)])
  have dj: "dp_jobCh (s_DispatchPool s1) = [call_dj cl f params c s]"
    using a(4) r by (simp add: ready_for_def call_dj_def)
  let ?s0 = "s1\<lparr>s_DispatchPool := (s_DispatchPool s1)\<lparr>dp_jobCh := []\<rparr>\<rparr>"
  have i0: "server_inv ?s0"
    using i1 inv_pools [of "{}" s1] unfolding server_inv_def by (intro inv_DispatchPool) (auto simp: pools_ok_def)
  have h: "dj_handle (call_dj cl f params c s) = f" by (simp add: call_dj_def)
  have al: "alive ?s0 w" using r e(8) [of w] by (simp add: ready_for_def alive_def)
  have only: "workers_of (s_Funcs ?s0) f = [w]" using r e(5) by (simp add: ready_for_def)
  obtain s' where best: "GetBestWorker env (dj_handle (call_dj cl f params c s)) ?s0 = Some (Some w, s')"
    unfolding h by (rule GetBestWorker_only [OF i0 only al])
  obtain s2' where b': "DispatchPool_worker env s1 = inc_metric (Metric ''requestCount''
        [sw_WorkerName (s_workers s1 w), dj_handle (call_dj cl f params c s)] 1) s2'"
    "stream (s_conns s2' (sw_Connect (s_workers s1 w))) = stream (s_conns s1 (sw_Connect (s_workers s1 w))) @ packet (job_packet jb)"
    "\<And>a. a \<noteq> sw_Connect (s_workers s1 w) \<Longrightarrow> stream (s_conns s2' a) = stream (s_conns s1 a)"
    "\<And>v g. chan s2' v g = (if v = w \<and> g = f then chan s1 w g @ [s_nextJob s1] else chan s1 v g)"
    "dispatched jb (s_nextJob s1) (sw_Connect (s_workers s1 w)) s1 s2'"
    by (rule dispatch_leg [OF i1 dj refl best], unfold h)
      (use jb small can r that in \<open>auto simp: e h ready_for_def\<close>)
  have "valid_utf8 (sw_WorkerName (s_workers s w))" "valid_utf8 f" using r by (simp_all add: ready_for_def)
  then obtain s2 where b: "DispatchPool_worker env s1 = Some s2"
    "stream (s_conns s2 (sw_Connect (s_workers s1 w))) = stream (s_conns s1 (sw_Connect (s_workers s1 w))) @ packet (job_packet jb)"
    "\<And>a. a \<noteq> sw_Connect (s_workers s1 w) \<Longrightarrow> stream (s_conns s2 a) = stream (s_conns s1 a)"
    "\<And>v g. chan s2 v g = (if v = w \<and> g = f then chan s1 w g @ [s_nextJob s1] else chan s1 v g)"
    "dispatched jb (s_nextJob s1) (sw_Connect (s_workers s1 w)) s1 s2"
    using b' e(1) h that by (simp add: inc_metric_def dispatched_def)
  have i2: "server_inv s2" by (rule server_step_inv [OF server_step.dispatch [OF b(1)] i1])
  show thesis
    by (rule that [OF a(1-3) b(1) i2])
      (use b(2-5) r q a(6,7) in \<open>auto simp: e ready_for_def dispatched_def conn_idle_def\<close>)
qed

text \<open>The other half: from the result of the worker to the packet for the client. \<open>s1\<close> and \<open>s2\<close> are the
  states before and after the job was sent.\<close>

lemma call_to_client:
  assumes r: "ready_for f c w s" and q: "quiet c s s1" "s_ResultRouter s1 = s_ResultRouter s" and i2: "server_inv s2"
    and d: "dispatched jb (s_nextJob s) (sw_Connect (s_workers s w)) s1 s2"
    and ch: "chan s2 w f = [s_nextJob s]" and ct: "c_ConnType (s_conns s2 c) = CONN_TYPE_CLIENT"
    and jb: "jd_FuncName jb = f" "jd_Client jb = Some c" and small: "job_small jb ret"
    and len: "length f + length (jd_Params jb) + length ret + length (jd_JobId jb) + 16 \<le> maxFrameSize"
    and can: "can_write (packet (result_packet jb ret)) (s_conns s2 c)"
  obtains s3 s4 where
    "DoIO env (sw_Connect (s_workers s w)) (arrive (sw_Connect (s_workers s w)) (result_frame f (jd_Params jb) ret (jd_JobId jb)) s2)
       = Some (s3, True)"
    "ResultRouter_worker env s3 = Some s4"
    "stream (s_conns s4 c) = stream (s_conns s2 c) @ packet (result_packet jb ret)" "chan s4 w f = []"
    "jd_status (s_jobs s4 (s_nextJob s)) = JOB_STATUS_DONE"
proof -
  let ?cw = "sw_Connect (s_workers s w)"
  let ?s = "arrive ?cw (result_frame f (jd_Params jb) ret (jd_JobId jb)) s2"
  note e = quiet_eq [OF q(1)]
  obtain x where x: "s_jobs s2 (s_nextJob s) = jb\<lparr>jd_status := JOB_STATUS_DOING, jd_Response := Some x\<rparr>"
    using d by (auto simp: dispatched_def)
  have ne: "c \<noteq> ?cw" and cw: "c_Conn (s_conns s2 ?cw)" "c_input (s_conns s2 ?cw) = []" "c_RunWorker (s_conns s2 ?cw) = Some w"
      "?cw < s_nextConn s2" "rr_resultCh (s_ResultRouter s2) = []"
    using r d q(2) e(3) e(9,10,13) [of ?cw] by (auto simp: ready_for_def dispatched_def conn_idle_def)
  have h: "server_inv ?s" "?cw < s_nextConn ?s" "c_Conn (s_conns ?s ?cw)"
    "c_input (s_conns ?s ?cw) = map Byte (result_frame f (jd_Params jb) ret (jd_JobId jb)) @ []"
    "length f + length (jd_Params jb) + length ret + length (jd_JobId jb) + 16 \<le> maxFrameSize"
    "length (rr_resultCh (s_ResultRouter ?s)) < 1024"
    using i2 cw len by (auto intro: arrive_inv)
  obtain v s3 dr where a: "DoIO env ?cw ?s = Some (s3, True)" "c_RunWorker (s_conns s3 ?cw) = Some v"
    "rr_resultCh (s_ResultRouter s3) = rr_resultCh (s_ResultRouter ?s) @ [dr]"
    "dr_sw dr = v" "dr_jobFunc dr = f" "dr_jobId dr = jd_JobId jb" "rq_Handle (dr_req dr) = f" "rq_HandleLen (dr_req dr) = len32 f"
    "rq_ParamsLen (dr_req dr) = len32 (jd_Params jb)" "rq_Ret (dr_req dr) = ret" "rq_RetLen (dr_req dr) = len32 ret"
    "\<And>u. c_RunWorker (s_conns ?s ?cw) = Some u \<Longrightarrow> v = u \<and> quiet ?cw ?s s3"
    by (rule result_leg [OF h, of env], rule that) blast+
  have v: "v = w" and q3: "quiet ?cw ?s s3" using a(12) [of w] cw(3) by simp_all
  note e3 = quiet_eq [OF q3]
  have nm: "sw_WorkerName (s_workers s3 w) = sw_WorkerName (s_workers s w)"
    using e3(1) d e(1) by (simp add: dispatched_def)
  have i3: "server_inv s3" by (rule server_step_inv [OF server_step.io [OF h(2) a(1)] h(1)])
  let ?jb = "s_jobs s2 (s_nextJob s)"
  have pk: "packet (result_packet ?jb ret) = packet (result_packet jb ret)" "job_small ?jb ret = job_small jb ret"
    by (simp_all add: x result_packet_def job_packet_def job_small_def)
  obtain s4 where b: "ResultRouter_worker env s3 = Some s4"
    "stream (s_conns s4 c) = stream (s_conns s3 c) @ packet (result_packet ?jb ret)"
    "\<And>v g. chan s4 v g = (if v = dr_sw dr \<and> g = f then [] else chan s3 v g)"
    "jd_status (s_jobs s4 (s_nextJob s)) = JOB_STATUS_DONE"
  proof (rule route_leg [of s3 dr "[]" f "s_nextJob s" "[]" ?jb c ret env])
    show "rr_resultCh (s_ResultRouter s3) = [dr]" using a(3) cw(5) by simp
    show "result_for ?jb ret (dr_req dr)" using a jb by (simp add: result_for_def x)
  qed (use i3 a(4,5) v ch e3 ne ct jb small can pk x that nm r in \<open>auto simp: pk ready_for_def\<close>)
  show thesis
    by (rule that [OF a(1) b(1)]) (use b e3 ne v a(4) pk in auto)
qed

lemma call_path:
  assumes r: "ready_for f c w s" and cl: "client_ready cl" and f: "f \<noteq> []" "params \<noteq> []"
    and jb: "jb = make_job env (call_dj cl f params c s) (wid_of s w)" and wk: "serves msgpack json k jb ret wk"
    and len: "length f + length params + length ret + length (e_uuid env) + 64 \<le> maxFrameSize"
    and can: "can_write (packet (job_packet jb)) (s_conns s (sw_Connect (s_workers s w)))"
      "can_write (packet (result_packet jb ret)) (s_conns s c)"
  shows "\<exists>cl1 s1 s2 a resp wk' s3 s4 cl2 res. Do_send f params cb WroteAll cl = Some (None, cl1)
    \<and> (\<exists>req. cl_output cl1 = cl_output cl @ req \<and> DoIO env c (arrive c req s) = Some (s1, True))
    \<and> DispatchPool_worker env s1 = Some s2
    \<and> (\<exists>job. stream (s_conns s2 (sw_Connect (s_workers s w))) = stream (s_conns s (sw_Connect (s_workers s w))) @ job
        \<and> Agent_Work msgpack json ((w_Agents wk ! k)\<lparr>ag_input := map Byte job\<rparr>) = Some (a, Some resp, True))
    \<and> handleResponse now WroteAll (k, resp) (upd_agent k a wk) = Some wk'
    \<and> (\<exists>out. ag_output (w_Agents wk' ! k) = ag_output (w_Agents wk ! k) @ out
        \<and> DoIO env (sw_Connect (s_workers s w)) (arrive (sw_Connect (s_workers s w)) out s2) = Some (s3, True))
    \<and> ResultRouter_worker env s3 = Some s4
    \<and> (\<exists>ans. stream (s_conns s4 c) = stream (s_conns s c) @ ans
        \<and> client_Do f params cb WroteAll 1 dial False (cl\<lparr>cl_input := map Byte ans\<rparr>) = Some (None, cl2))
    \<and> cl_calls cl2 = cl_calls cl @ [CallResp cb res] \<and> cr_Ret res = ret"
proof -
  let ?cw = "sw_Connect (s_workers s w)"
  have j: "jd_FuncName jb = f" "jd_Params jb = params" "jd_JobId jb = e_uuid env" "jd_Client jb = Some c"
    by (simp_all add: jb make_job_def call_dj_def NewJobData_def)
  have sz: "job_small jb ret" "job_small jb []" "length f + length params + 16 \<le> maxFrameSize"
      "length f + length params + 28 < 2 ^ 32"
      "length (packet (job_packet jb)) \<le> maxFrameSize" "length (packet (result_packet jb ret)) \<le> maxFrameSize"
      "length f + length (jd_Params jb) + length ret + length (jd_JobId jb) + 16 \<le> maxFrameSize"
    using len j by (simp_all add: job_small_def packet_def job_packet_def result_packet_def res_content_def
        get_data_content_def return_data_content_def server_NewRes_def)
  obtain cl1 s1 s2 where a: "Do_send f params cb WroteAll cl = Some (None, cl1)"
    "cl_output cl1 = cl_output cl @ do_job_frame (cur_req cl) f params"
    "DoIO env c (arrive c (do_job_frame (cur_req cl) f params) s) = Some (s1, True)"
    "DispatchPool_worker env s1 = Some s2" "server_inv s2"
    "stream (s_conns s2 ?cw) = stream (s_conns s ?cw) @ packet (job_packet jb)"
    "stream (s_conns s2 c) = stream (s_conns s c)" "chan s2 w f = [s_nextJob s]"
    "c_ConnType (s_conns s2 c) = CONN_TYPE_CLIENT" "\<And>p. can_write p (s_conns s2 c) = can_write p (s_conns s c)"
    "dispatched jb (s_nextJob s) ?cw s1 s2" "quiet c s s1" "s_ResultRouter s1 = s_ResultRouter s"
    by (rule call_to_worker [OF r cl f sz(3) jb sz(2) can(1)], rule that) blast+
  let ?resp = "worker_view msgpack json (job_packet jb)"
  let ?wk = "upd_agent k ((w_Agents wk ! k)\<lparr>ag_input := map Byte (packet (job_packet jb))\<rparr>) wk"
  obtain fn where k: "k < length (w_Agents wk)" "ag_conn (w_Agents wk ! k)" "\<not> ag_cancelled (w_Agents wk ! k)"
    and fn: "GetFunction f wk = Inr fn" "fn_Func fn ?resp = Some ret"
    using wk j by (auto simp: serves_def)
  have g: "GetFunction (jd_FuncName jb) ?wk = Inr fn"
    using fn(1) j by (auto simp: GetFunction_def upd_agent_def split: if_splits)
  have u: "upd_agent k b ?wk = upd_agent k b wk" "w_Agents ?wk ! k = (w_Agents wk ! k)\<lparr>ag_input := map Byte (packet (job_packet jb))\<rparr>"
    "length (w_Agents ?wk) = length (w_Agents wk)" for b
    using k(1) by (simp_all add: upd_agent_def)
  have hw: "jd_FuncName jb \<noteq> []" "jd_Params jb \<noteq> []" "k < length (w_Agents ?wk)" "ag_conn (w_Agents ?wk ! k)"
    "\<not> ag_cancelled (w_Agents ?wk ! k)" "ag_input (w_Agents ?wk ! k) = map Byte (packet (job_packet jb)) @ []"
    unfolding u using f j k by simp_all
  obtain b wk' where b: "Agent_Work msgpack json (w_Agents ?wk ! k) = Some (b, Some ?resp, True)"
    "handleResponse now WroteAll (k, ?resp) (upd_agent k b ?wk) = Some wk'"
    "ag_output (w_Agents wk' ! k) = ag_output (w_Agents ?wk ! k) @ result_frame (jd_FuncName jb) (jd_Params jb) ret (jd_JobId jb)"
    by (rule job_leg [OF sz(1) hw(1,2) sz(5) refl hw(3-6) g fn(2), of now])
  have b': "Agent_Work msgpack json ((w_Agents wk ! k)\<lparr>ag_input := map Byte (packet (job_packet jb))\<rparr>) = Some (b, Some ?resp, True)"
    "handleResponse now WroteAll (k, ?resp) (upd_agent k b wk) = Some wk'"
    "ag_output (w_Agents wk' ! k) = ag_output (w_Agents wk ! k) @ result_frame f (jd_Params jb) ret (jd_JobId jb)"
    using b unfolding u j by simp_all
  have can2: "can_write (packet (result_packet jb ret)) (s_conns s2 c)" using a(10) can(2) by simp
  obtain s3 s4 where e: "DoIO env ?cw (arrive ?cw (result_frame f (jd_Params jb) ret (jd_JobId jb)) s2) = Some (s3, True)"
    "ResultRouter_worker env s3 = Some s4" "stream (s_conns s4 c) = stream (s_conns s2 c) @ packet (result_packet jb ret)"
    by (rule call_to_client [OF r a(12,13,5,11,8,9) j(1,4) sz(1,7) can2])
  let ?cl = "cl\<lparr>cl_input := map Byte (packet (result_packet jb ret))\<rparr>"
  obtain rhm where rhm: "cl_RespHandlers ?cl = Some rhm" using cl by (auto simp: client_ready_def)
  obtain cl2 res where d: "client_Do f params cb WroteAll 1 dial False ?cl = Some (None, cl2)"
    "cl_calls cl2 = cl_calls ?cl @ [CallResp cb res]" "cr_Ret res = ret"
    by (rule caller_leg [OF _ _ _ rhm f(1) sz(4) j(1) sz(1,6), where i = "[]" and n = 1 and cb = cb and dial = dial])
      (use cl in \<open>simp_all add: client_ready_def\<close>)
  have st: "stream (s_conns s4 c) = stream (s_conns s c) @ packet (result_packet jb ret)" using e(3) a(7) by simp
  have calls: "cl_calls cl2 = cl_calls cl @ [CallResp cb res]" using d(2) by simp
  show ?thesis
    using a(1,2,3,4,6) b' e(1,2) st d(1,3) calls by blast
qed

end
