(* ===== verification/Conn_Pools.thy ===== *)
theory Conn_Pools
  imports Direct Client_Core Go_Chan
begin

section \<open>Connection pools (pkg/client, pkg/direct: pool_client.go)\<close>

text \<open>
  The two pools of connections. Both keep a counter of the connections they have created and
  a buffered channel of the idle ones, and both lend a connection to a call. A connection is
  an address; the pool of clients has the clients in a store, the direct pool has for each
  address whether its \<^verbatim>\<open>conn\<close> is not nil and whether the socket is open.

  A receive from the empty channel waits: an operation that may wait returns \<open>Waits\<close> then, and
  \<open>Spins\<close> when it is polling (or out of fuel), since whether it ever goes on depends on others.

  The contract of both is the locale \<open>lending_pool\<close>: the counter is the number of idle plus
  lent connections and never exceeds the size; so the channel is never full when a connection
  comes back.
\<close>

subsection \<open>The pool of clients\<close>


record 'h PoolClient =
  pc_network :: string
  pc_addr :: string
  pc_timeout :: nat
  pc_poolSize :: int
  pc_clients :: "addr list"
  pc_closed :: bool
  pc_created :: int
  pc_store :: "addr \<Rightarrow> 'h Client"
  pc_next :: addr

definition NewPoolClient :: "nat \<Rightarrow> string \<Rightarrow> string \<Rightarrow> int \<Rightarrow> 'h PoolClient" where
  "NewPoolClient timeout network ad poolSize = \<lparr>pc_network = network, pc_addr = ad, pc_timeout = timeout,
     pc_poolSize = (if poolSize \<le> 0 then 32 else poolSize), pc_clients = [], pc_closed = False,
     pc_created = 0, pc_store = (\<lambda>_. NewClient timeout network ad), pc_next = 0\<rparr>"

definition PoolClient_SetIoTimeOut :: "nat \<Rightarrow> 'h PoolClient \<Rightarrow> 'h PoolClient" where
  "PoolClient_SetIoTimeOut t pc = pc\<lparr>pc_timeout := t\<rparr>"

definition pc_alive :: "'h PoolClient \<Rightarrow> addr \<Rightarrow> bool" where
  "pc_alive pc a = cl_conn (pc_store pc a)"

definition set_client :: "addr \<Rightarrow> 'h Client \<Rightarrow> 'h PoolClient \<Rightarrow> 'h PoolClient" where
  "set_client a c pc = pc\<lparr>pc_store := (pc_store pc)(a := c)\<rparr>"

text \<open>The first phase of \<^verbatim>\<open>getOrCreate\<close>: a new client, if there is room and dialling succeeds.\<close>

definition create_client :: "nat \<Rightarrow> input option \<Rightarrow> 'h PoolClient \<Rightarrow> addr option \<times> 'h PoolClient" where
  "create_client timeout dial pc =
    (if pc_created pc < pc_poolSize pc then
       let pc = pc\<lparr>pc_created := pc_created pc + 1\<rparr>
       in case Client_Start dial (Client_SetIoTimeOut (pc_timeout pc) (NewClient timeout (pc_network pc) (pc_addr pc))) of
            (None, c) \<Rightarrow> (Some (pc_next pc), (set_client (pc_next pc) c pc)\<lparr>pc_next := Suc (pc_next pc)\<rparr>)
          | (Some e, _) \<Rightarrow> (None, pc\<lparr>pc_created := pc_created pc - 1\<rparr>)
     else (None, pc))"

definition forget_client :: "'h PoolClient \<Rightarrow> 'h PoolClient" where
  "forget_client pc = (if pc_created pc > 0 then pc\<lparr>pc_created := pc_created pc - 1\<rparr> else pc)"

definition take_client :: "'h PoolClient \<Rightarrow> addr option \<times> 'h PoolClient" where
  "take_client pc = (case pc_clients pc of [] \<Rightarrow> (None, pc) | c # cs \<Rightarrow> (Some c, pc\<lparr>pc_clients := cs\<rparr>))"

text \<open>\<^verbatim>\<open>getOrCreate\<close> with its recursion; \<open>dial n\<close> is what the dialling of the attempt with fuel
  \<open>n\<close> left answers. A closed empty channel yields nil at once. Closing a client whose
  connection is nil, or the nil client, does nothing.\<close>

fun getOrCreate :: "nat \<Rightarrow> nat \<Rightarrow> (nat \<Rightarrow> input option) \<Rightarrow> 'h PoolClient \<Rightarrow> addr waiting \<times> 'h PoolClient" where
  "getOrCreate timeout 0 dial pc = (Spins, pc)"
| "getOrCreate timeout (Suc n) dial pc =
    (case create_client timeout (dial n) pc of
       (Some c, pc) \<Rightarrow> (Got c, pc)
     | (None, pc) \<Rightarrow>
         (case take_client pc of
            (None, pc) \<Rightarrow> if pc_closed pc then getOrCreate timeout n dial (forget_client pc) else (Waits, pc)
          | (Some c, pc) \<Rightarrow>
              if pc_alive pc c then (Got c, pc)
              else getOrCreate timeout n dial (forget_client pc)))"

text \<open>\<^verbatim>\<open>put\<close>; a send on the closed channel panics.\<close>

definition PoolClient_put :: "addr option \<Rightarrow> 'h PoolClient \<Rightarrow> 'h PoolClient option" where
  "PoolClient_put c pc = (case c of
     None \<Rightarrow> Some pc
   | Some a \<Rightarrow>
       if \<not> pc_alive pc a then Some (forget_client pc)
       else if pc_closed pc then None
       else case chan_send (nat (pc_poolSize pc)) a (pc_clients pc) of
         (True, q) \<Rightarrow> Some (pc\<lparr>pc_clients := q\<rparr>)
       | (False, _) \<Rightarrow> do {
           cl \<leftarrow> Client_Close (pc_store pc a);
           Some (forget_client (set_client a cl pc))
         })"

fun close_clients :: "addr list \<Rightarrow> 'h PoolClient \<Rightarrow> 'h PoolClient option" where
  "close_clients [] pc = Some pc"
| "close_clients (a # as) pc = do {
     cl \<leftarrow> Client_Close (pc_store pc a);
     close_clients as (set_client a cl pc)
   }"

definition PoolClient_Close :: "'h PoolClient \<Rightarrow> 'h PoolClient option" where
  "PoolClient_Close pc = (if pc_closed pc then None
     else close_clients (pc_clients pc) (pc\<lparr>pc_closed := True, pc_clients := []\<rparr>))"

definition PoolClient_Stats :: "'h PoolClient \<Rightarrow> int \<times> nat" where
  "PoolClient_Stats pc = (pc_created pc, length (pc_clients pc))"

text \<open>\<^verbatim>\<open>Do\<close> borrows a client, calls its \<^verbatim>\<open>Do\<close> and returns it.\<close>

definition PoolClient_Do ::
  "nat \<Rightarrow> nat \<Rightarrow> (nat \<Rightarrow> input option) \<Rightarrow> string \<Rightarrow> bytes \<Rightarrow> 'h \<Rightarrow> write_answer \<Rightarrow> nat \<Rightarrow> (nat \<Rightarrow> input option) \<Rightarrow> bool
    \<Rightarrow> 'h PoolClient \<Rightarrow> (client_error option waiting \<times> 'h PoolClient) option" where
  "PoolClient_Do timeout fuel dial funcName params callback ans n redial timerFirst pc =
    (case getOrCreate timeout fuel dial pc of
       (Got c, pc) \<Rightarrow> do {
         (err, cl) \<leftarrow> client_Do funcName params callback ans n redial timerFirst (pc_store pc c);
         pc \<leftarrow> PoolClient_put (Some c) (set_client c cl pc);
         Some (Got err, pc)
       }
     | (Waits, pc) \<Rightarrow> Some (Waits, pc)
     | (Spins, pc) \<Rightarrow> Some (Spins, pc))"

subsection \<open>The pool of direct connections\<close>

record DirectPool =
  dpl_PoolSize :: int
  dpl_conns :: "addr list"
  dpl_closed :: bool
  dpl_created :: int
  dpl_dialErr :: bool
  dpl_alive :: "addr \<Rightarrow> bool"
  dpl_open :: "addr \<Rightarrow> bool"
  dpl_next :: addr

definition direct_NewPoolClient :: "int \<Rightarrow> DirectPool" where
  "direct_NewPoolClient poolSize = \<lparr>dpl_PoolSize = (if poolSize \<le> 0 then 32 else poolSize),
     dpl_conns = [], dpl_closed = False, dpl_created = 0, dpl_dialErr = False,
     dpl_alive = (\<lambda>_. False), dpl_open = (\<lambda>_. False), dpl_next = 0\<rparr>"

definition direct_dial :: "bool \<Rightarrow> DirectPool \<Rightarrow> (direct_error + addr) \<times> DirectPool" where
  "direct_dial dialOk c =
    (if dpl_dialErr c then (Inl DirectDialErr, c)
     else if dpl_created c \<ge> dpl_PoolSize c then (Inl DirectPoolFull, c)
     else if \<not> dialOk then (Inl DirectDialErr, c\<lparr>dpl_dialErr := True\<rparr>)
     else (Inr (dpl_next c), c\<lparr>dpl_created := dpl_created c + 1,
            dpl_alive := (dpl_alive c)(dpl_next c := True),
            dpl_open := (dpl_open c)(dpl_next c := True), dpl_next := Suc (dpl_next c)\<rparr>))"

text \<open>The waiting loop of \<^verbatim>\<open>getConn\<close>: dead connections are dropped; an empty channel is polled
  again and again. The channel that was closed yields nil, whose dereference panics.\<close>

fun getConn_loop :: "(addr \<Rightarrow> bool) \<Rightarrow> addr list \<Rightarrow> int \<Rightarrow> addr option \<times> addr list \<times> int" where
  "getConn_loop alive [] created = (None, [], created)"
| "getConn_loop alive (pc # q) created =
    (if alive pc then (Some pc, q, created) else getConn_loop alive q (created - 1))"

definition getConn :: "bool \<Rightarrow> DirectPool \<Rightarrow> (addr waiting \<times> DirectPool) option" where
  "getConn dialOk c = (case direct_dial dialOk c of
     (Inr pc, c) \<Rightarrow> Some (Got pc, c)
   | (Inl _, c) \<Rightarrow>
       (case getConn_loop (dpl_alive c) (dpl_conns c) (dpl_created c) of
          (Some pc, q, n) \<Rightarrow> Some (Got pc, c\<lparr>dpl_conns := q, dpl_created := n\<rparr>)
        | (None, q, n) \<Rightarrow>
            if dpl_closed c then None else Some (Spins, c\<lparr>dpl_conns := q, dpl_created := n\<rparr>)))"

definition putConn :: "addr option \<Rightarrow> DirectPool \<Rightarrow> DirectPool option" where
  "putConn pc c = (case pc of
     None \<Rightarrow> Some c
   | Some a \<Rightarrow>
       if \<not> dpl_alive c a then Some c
       else if dpl_closed c then None
       else case chan_send (nat (dpl_PoolSize c)) a (dpl_conns c) of
         (True, q) \<Rightarrow> Some (c\<lparr>dpl_conns := q\<rparr>)
       | (False, _) \<Rightarrow> Some (c\<lparr>dpl_open := (dpl_open c)(a := False)\<rparr>))"

text \<open>A failure during a call: the connection is closed and no longer counted.\<close>

definition drop_conn :: "addr \<Rightarrow> DirectPool \<Rightarrow> DirectPool" where
  "drop_conn a c = c\<lparr>dpl_alive := (dpl_alive c)(a := False), dpl_open := (dpl_open c)(a := False),
     dpl_created := dpl_created c - 1\<rparr>"

text \<open>\<^verbatim>\<open>Call\<close> on the borrowed connection with the given input; the transport is the one of the
  plain client.\<close>

definition PoolClient_Call ::
  "bool \<Rightarrow> write_answer \<Rightarrow> input \<Rightarrow> string \<Rightarrow> bytes \<Rightarrow> DirectPool
    \<Rightarrow> (((direct_error + bytes) \<times> bytes) waiting \<times> DirectPool) option" where
  "PoolClient_Call dialOk ans i service payload c = do {
     (r, c) \<leftarrow> getConn dialOk c;
     case r of
       Waits \<Rightarrow> Some (Waits, c)
     | Spins \<Rightarrow> Some (Spins, c)
     | Got pc \<Rightarrow>
         if \<not> dpl_alive c pc then Some (Got (Inl DirectConnNil, []), c)
         else do {
           body \<leftarrow> PackCall service payload;
           req \<leftarrow> PackFrame ConnTypeDirectClient DTCall body;
           let (out, ok) = write_all ans req;
           if \<not> ok then Some (Got (Inl DirectWriteErr, out), drop_conn pc c)
           else case read_reply i of
             (Inl e, _) \<Rightarrow> Some (Got (Inl e, out), drop_conn pc c)
           | (Inr content, _) \<Rightarrow> do {
               c \<leftarrow> putConn (Some pc) c;
               r \<leftarrow> UnpackReply content;
               case r of
                 Inl e \<Rightarrow> Some (Got (Inl (DirectUnpackErr e), out), c)
               | Inr reply \<Rightarrow>
                   if reply_Status reply \<noteq> 0
                   then Some (Got (Inl (DirectRemote (gostring (reply_Data reply))), out), c)
                   else Some (Got (Inr (reply_Data reply), out), c)
             }
         }
   }"

definition direct_pool_Close :: "DirectPool \<Rightarrow> DirectPool option" where
  "direct_pool_Close c = (if dpl_closed c then None
     else Some (c\<lparr>dpl_closed := True, dpl_conns := [], dpl_created := 0,
                  dpl_open := (\<lambda>a. dpl_open c a \<and> (a \<notin> set (dpl_conns c) \<or> \<not> dpl_alive c a))\<rparr>))"

definition direct_pool_Stats :: "DirectPool \<Rightarrow> int \<times> nat" where
  "direct_pool_Stats c = (dpl_created c, length (dpl_conns c))"

subsection \<open>Lending\<close>

text \<open>The book-keeping of a pool of which \<open>lent\<close> connections are lent out.\<close>

definition accounted :: "int \<Rightarrow> int \<Rightarrow> addr list \<Rightarrow> nat \<Rightarrow> bool" where
  "accounted limit created idle lent \<longleftrightarrow> created = int (length idle) + int lent \<and> created \<le> limit"

definition take_conn :: "DirectPool \<Rightarrow> addr option \<times> DirectPool" where
  "take_conn c = (case dpl_conns c of [] \<Rightarrow> (None, c) | a # q \<Rightarrow> (Some a, c\<lparr>dpl_conns := q\<rparr>))"

definition pc_books :: "'h PoolClient \<Rightarrow> nat \<Rightarrow> bool" where
  "pc_books pc lent \<longleftrightarrow> accounted (pc_poolSize pc) (pc_created pc) (pc_clients pc) lent"

definition dpl_books :: "DirectPool \<Rightarrow> nat \<Rightarrow> bool" where
  "dpl_books c lent \<longleftrightarrow> accounted (dpl_PoolSize c) (dpl_created c) (dpl_conns c) lent"

locale lending_pool =
  fixes limit :: "'p \<Rightarrow> int"
    and created :: "'p \<Rightarrow> int"
    and idle :: "'p \<Rightarrow> addr list"
    and shut :: "'p \<Rightarrow> bool"
    and live :: "'p \<Rightarrow> addr \<Rightarrow> bool"
    and create :: "'d \<Rightarrow> 'p \<Rightarrow> addr option \<times> 'p"
    and borrow :: "'p \<Rightarrow> addr option \<times> 'p"
    and give :: "addr \<Rightarrow> 'p \<Rightarrow> 'p option"
    and lose :: "addr \<Rightarrow> 'p \<Rightarrow> 'p"
  assumes create_some: "create d p = (Some a, p') \<Longrightarrow> created p < limit p \<and> limit p' = limit p
      \<and> idle p' = idle p \<and> created p' = created p + 1 \<and> shut p' = shut p \<and> live p' a"
    and create_none: "create d p = (None, p') \<Longrightarrow> limit p' = limit p
      \<and> idle p' = idle p \<and> created p' = created p \<and> shut p' = shut p"
    and borrow_some: "borrow p = (Some a, p') \<Longrightarrow> limit p' = limit p \<and> created p' = created p
      \<and> shut p' = shut p \<and> idle p = a # idle p'"
    and borrow_none: "borrow p = (None, p') \<Longrightarrow> p' = p \<and> idle p = []"
    and give_room: "\<not> shut p \<Longrightarrow> live p a \<Longrightarrow> int (length (idle p)) < limit p \<Longrightarrow>
      \<exists>p'. give a p = Some p' \<and> limit p' = limit p \<and> created p' = created p \<and> shut p' = shut p
        \<and> idle p' = idle p @ [a]"
    and lose_one: "created p > 0 \<Longrightarrow> limit (lose a p) = limit p \<and> created (lose a p) = created p - 1
      \<and> shut (lose a p) = shut p \<and> idle (lose a p) = idle p"
begin

lemma create_books:
  assumes "accounted (limit p) (created p) (idle p) n" "create d p = (r, p')"
  shows "accounted (limit p') (created p') (idle p') (case r of None \<Rightarrow> n | Some _ \<Rightarrow> Suc n)"
  using assms create_some [of d p] create_none [of d p] by (cases r) (auto simp: accounted_def)

lemma borrow_books:
  assumes "accounted (limit p) (created p) (idle p) n" "borrow p = (r, p')"
  shows "accounted (limit p') (created p') (idle p') (case r of None \<Rightarrow> n | Some _ \<Rightarrow> Suc n)"
  using assms borrow_some [of p] borrow_none [of p] by (cases r) (auto simp: accounted_def)

text \<open>A lent connection always finds room when it comes back.\<close>

lemma give_books:
  assumes "accounted (limit p) (created p) (idle p) (Suc n)" "\<not> shut p" "live p a"
  shows "\<exists>p'. give a p = Some p' \<and> accounted (limit p') (created p') (idle p') n \<and> \<not> shut p' \<and> idle p' = idle p @ [a]"
  using assms give_room [of p a] by (fastforce simp: accounted_def)

lemma lose_books:
  assumes "accounted (limit p) (created p) (idle p) (Suc n)"
  shows "accounted (limit (lose a p)) (created (lose a p)) (idle (lose a p)) n"
  using assms lose_one [of p a] by (auto simp: accounted_def)

end

interpretation cpool: lending_pool pc_poolSize pc_created pc_clients pc_closed pc_alive
  "create_client timeout" take_client "\<lambda>a. PoolClient_put (Some a)" "\<lambda>a. forget_client"
  for timeout
  by unfold_locales
    (auto simp: create_client_def Client_Start_def ClientConn_def set_client_def pc_alive_def take_client_def
      PoolClient_put_def forget_client_def chan_send_def Let_def split: if_splits option.splits list.splits)

interpretation dpool: lending_pool dpl_PoolSize dpl_created dpl_conns dpl_closed dpl_alive
  "\<lambda>d p. (case direct_dial d p of (Inr a, p') \<Rightarrow> (Some a, p') | (Inl e, p') \<Rightarrow> (None, p'))"
  take_conn "\<lambda>a. putConn (Some a)" drop_conn
  by unfold_locales
    (auto simp: direct_dial_def take_conn_def putConn_def drop_conn_def chan_send_def
      split: if_splits option.splits list.splits sum.splits)

subsection \<open>The pool of clients keeps its books\<close>

lemma pc_books_store [simp]: "pc_books (set_client a c pc) n = pc_books pc n"
  "pc_closed (set_client a c pc) = pc_closed pc" "pc_clients (set_client a c pc) = pc_clients pc"
  by (simp_all add: pc_books_def set_client_def)

lemma forget_client_closed [simp]: "pc_closed (forget_client pc) = pc_closed pc"
  "pc_clients (forget_client pc) = pc_clients pc"
  by (simp_all add: forget_client_def)

lemma create_client_cases:
  assumes "pc_books pc n" "\<not> pc_closed pc" "create_client timeout d pc = (r, pc')"
  shows "\<not> pc_closed pc'" "pc_clients pc' = pc_clients pc"
    "pc_books pc' (case r of None \<Rightarrow> n | Some _ \<Rightarrow> Suc n)" "r = Some a \<Longrightarrow> pc_alive pc' a"
proof -
  show "\<not> pc_closed pc'" "pc_clients pc' = pc_clients pc"
    using cpool.create_some [of timeout d pc _ pc'] cpool.create_none [of timeout d pc pc'] assms(2,3) by (cases r; simp)+
  show "pc_books pc' (case r of None \<Rightarrow> n | Some _ \<Rightarrow> Suc n)"
    using cpool.create_books [OF _ assms(3)] assms(1) unfolding pc_books_def by blast
  show "r = Some a \<Longrightarrow> pc_alive pc' a"
    using cpool.create_some [of timeout d pc a pc'] assms(3) by simp
qed

lemma take_client_cases:
  assumes "pc_books pc n" "\<not> pc_closed pc" "take_client pc = (r, pc')"
  shows "\<not> pc_closed pc'" "r = None \<longleftrightarrow> pc_clients pc = []" "r = None \<Longrightarrow> pc' = pc"
    "pc_books pc' (case r of None \<Rightarrow> n | Some _ \<Rightarrow> Suc n)" "length (pc_clients pc') = length (pc_clients pc) - 1"
proof -
  show "\<not> pc_closed pc'" "r = None \<longleftrightarrow> pc_clients pc = []" "r = None \<Longrightarrow> pc' = pc"
    "length (pc_clients pc') = length (pc_clients pc) - 1"
    using assms(2,3) by (auto simp: take_client_def split: list.splits)
  show "pc_books pc' (case r of None \<Rightarrow> n | Some _ \<Rightarrow> Suc n)"
    using cpool.borrow_books [OF _ assms(3)] assms(1) unfolding pc_books_def by blast
qed

lemma forget_client_books: "pc_books pc (Suc n) \<Longrightarrow> pc_books (forget_client pc) n"
  using cpool.lose_books [of pc n] by (simp add: pc_books_def)

text \<open>A borrowed client is connected and counted; with enough fuel for the idle clients the
  recursion ends, and it waits only if every idle client turned out dead.\<close>

lemma getOrCreate_books:
  assumes "pc_books pc n" "\<not> pc_closed pc" "getOrCreate timeout k dial pc = (r, pc')"
  shows "\<not> pc_closed pc' \<and> (case r of Got c \<Rightarrow> pc_alive pc' c \<and> pc_books pc' (Suc n) | _ \<Rightarrow> pc_books pc' n)"
  using assms
proof (induction k arbitrary: pc)
  case (Suc k)
  obtain c1 p1 where 1: "create_client timeout (dial k) pc = (c1, p1)" by fastforce
  obtain c2 p2 where 2: "take_client p1 = (c2, p2)" by fastforce
  note a = create_client_cases [OF Suc.prems(1,2) 1]
  show ?case
  proof (cases c1)
    case (Some x)
    then show ?thesis using Suc.prems(3) 1 a by auto
  next
    case None
    then have b: "pc_books p1 n" using a(3) by simp
    note t = take_client_cases [OF b a(1) 2]
    show ?thesis
    proof (cases c2)
      case None
      then show ?thesis using Suc.prems(3) 1 2 \<open>c1 = None\<close> a(1) t by auto
    next
      case (Some x)
      then have "pc_books p2 (Suc n)" using t(4) by simp
      then show ?thesis
        using Suc.prems(3) Some 1 2 \<open>c1 = None\<close> t(1) Suc.IH [of "forget_client p2"] forget_client_books
        by (auto split: if_splits)
    qed
  qed
qed simp

lemma getOrCreate_no_spin:
  assumes "pc_books pc n" "\<not> pc_closed pc" "length (pc_clients pc) < k"
  shows "fst (getOrCreate timeout k dial pc) \<noteq> Spins"
  using assms
proof (induction k arbitrary: pc)
  case (Suc k)
  obtain c1 p1 where 1: "create_client timeout (dial k) pc = (c1, p1)" by fastforce
  obtain c2 p2 where 2: "take_client p1 = (c2, p2)" by fastforce
  note a = create_client_cases [OF Suc.prems(1,2) 1]
  show ?case
  proof (cases c1)
    case None
    then have b: "pc_books p1 n" using a(3) by simp
    note t = take_client_cases [OF b a(1) 2]
    show ?thesis
    proof (cases c2)
      case None
      then show ?thesis using 1 2 \<open>c1 = None\<close> a(1) t by auto
    next
      case (Some x)
      then have "pc_books p2 (Suc n)" "length (pc_clients p2) < k" using t a(2) Suc.prems(3) by (auto simp: neq_Nil_conv)
      then show ?thesis
        using Some 1 2 \<open>c1 = None\<close> t(1) Suc.IH [of "forget_client p2"] forget_client_books by auto
    qed
  qed (use 1 in simp)
qed simp

lemma PoolClient_put_books:
  assumes "pc_books pc (Suc n)" "\<not> pc_closed pc"
  shows "\<exists>pc'. PoolClient_put (Some a) pc = Some pc' \<and> pc_books pc' n \<and> \<not> pc_closed pc'"
  using assms cpool.give_books [of pc n a] forget_client_books [of pc n]
  by (cases "pc_alive pc a") (auto simp: pc_books_def PoolClient_put_def)

text \<open>A call leaves the books as they were, whether its connection survives or not.\<close>

lemma PoolClient_Do_books:
  assumes "pc_books pc n" "\<not> pc_closed pc"
    "PoolClient_Do timeout k dial f params cb ans m redial tf pc = Some (r, pc')"
  shows "pc_books pc' n \<and> \<not> pc_closed pc'"
proof -
  obtain g p1 where g: "getOrCreate timeout k dial pc = (g, p1)" by fastforce
  note b = getOrCreate_books [OF assms(1,2) g]
  show ?thesis
  proof (cases g)
    case (Got c)
    then have "pc_books p1 (Suc n)" "\<not> pc_closed p1" using b by auto
    then have "\<exists>p'. PoolClient_put (Some c) (set_client c cl p1) = Some p' \<and> pc_books p' n \<and> \<not> pc_closed p'" for cl
      by (intro PoolClient_put_books) simp_all
    then have put: "PoolClient_put (Some c) (set_client c cl p1) = Some p' \<Longrightarrow> pc_books p' n \<and> \<not> pc_closed p'" for cl p'
      by (metis option.sel)
    from assms(3) g Got obtain cl where "PoolClient_put (Some c) (set_client c cl p1) = Some pc'"
      by (auto simp: PoolClient_Do_def bind_eq_Some_conv)
    then show ?thesis by (rule put)
  qed (use assms(3) g b in \<open>auto simp: PoolClient_Do_def\<close>)
qed

text \<open>If dialling fails and no client is idle, the call waits instead of returning an error.\<close>

lemma getOrCreate_waits:
  assumes "pc_clients pc = []" "\<not> pc_closed pc" "dial k = None"
  shows "getOrCreate timeout (Suc k) dial pc = (Waits, pc)"
  using assms by (simp add: create_client_def take_client_def Client_Start_def ClientConn_def Let_def)

subsection \<open>The pool of direct connections keeps its books\<close>

lemma direct_dial_cases:
  assumes "direct_dial d c = (r, c')"
  shows "dpl_conns c' = dpl_conns c" "dpl_closed c' = dpl_closed c"
    "dpl_books c n \<Longrightarrow> dpl_books c' (case r of Inl _ \<Rightarrow> n | Inr _ \<Rightarrow> Suc n)" "r = Inr a \<Longrightarrow> dpl_alive c' a"
  using assms
  by (auto simp: direct_dial_def dpl_books_def accounted_def split: if_splits)

lemma getConn_loop_books:
  assumes "getConn_loop alive q k = (r, q', k')" "accounted s k q n"
  shows "accounted s k' q' (case r of None \<Rightarrow> n | Some _ \<Rightarrow> Suc n) \<and> (\<forall>a. r = Some a \<longrightarrow> alive a)"
  using assms
proof (induction alive q k rule: getConn_loop.induct)
  case (2 alive a q k)
  then show ?case by (auto simp: accounted_def split: if_splits)
qed auto

lemma getConn_books:
  assumes "dpl_books c n" "\<not> dpl_closed c"
  shows "\<exists>r c'. getConn d c = Some (r, c') \<and> \<not> dpl_closed c'
    \<and> (case r of Got a \<Rightarrow> dpl_alive c' a \<and> dpl_books c' (Suc n) | _ \<Rightarrow> dpl_books c' n)"
proof -
  obtain r c1 where d: "direct_dial d c = (r, c1)" by fastforce
  note a = direct_dial_cases [OF d]
  show ?thesis
  proof (cases r)
    case (Inr x)
    then show ?thesis using assms d a by (auto simp: getConn_def)
  next
    case (Inl e)
    obtain r2 q k where l: "getConn_loop (dpl_alive c1) (dpl_conns c1) (dpl_created c1) = (r2, q, k)"
      using prod_cases3 by blast
    have "dpl_books c1 n" using a(3) assms(1) Inl by fastforce
    with getConn_loop_books [OF l] show ?thesis
      using assms d a l Inl by (cases r2) (auto simp: getConn_def dpl_books_def)
  qed
qed

lemma putConn_books:
  assumes "dpl_books c (Suc n)" "\<not> dpl_closed c" "dpl_alive c a"
  shows "\<exists>c'. putConn (Some a) c = Some c' \<and> dpl_books c' n \<and> \<not> dpl_closed c' \<and> dpl_conns c' = dpl_conns c @ [a]"
  using assms dpool.give_books [of c n a] by (simp add: dpl_books_def)

lemma drop_conn_books: "dpl_books c (Suc n) \<Longrightarrow> dpl_books (drop_conn a c) n"
  using dpool.lose_books [of c n a] by (simp add: dpl_books_def)

text \<open>A call of the direct pool never panics while the pool is open, and leaves the books as
  they were: a connection that failed is closed and not counted, a good one is idle again.\<close>

lemma PoolClient_Call_books:
  assumes "dpl_books c n" "\<not> dpl_closed c"
  shows "\<exists>r c'. PoolClient_Call d ans i service payload c = Some (r, c') \<and> dpl_books c' n \<and> \<not> dpl_closed c'"
proof -
  from getConn_books [OF assms, of d] obtain r c1 where g: "getConn d c = Some (r, c1)" "\<not> dpl_closed c1"
    "case r of Got a \<Rightarrow> dpl_alive c1 a \<and> dpl_books c1 (Suc n) | _ \<Rightarrow> dpl_books c1 n" by blast
  show ?thesis
  proof (cases r)
    case (Got a)
    with g have b: "dpl_alive c1 a" "dpl_books c1 (Suc n)" by auto
    obtain out ok where w: "write_all ans (direct_frame ConnTypeDirectClient (DTCall, call_layout service payload)) = (out, ok)"
      by fastforce
    obtain rr i' where rd: "read_reply i = (rr, i')" by fastforce
    obtain c2 where p: "putConn (Some a) c1 = Some c2" "dpl_books c2 n" "\<not> dpl_closed c2"
      using putConn_books [OF b(2) g(2) b(1)] by blast
    have dr: "dpl_books (drop_conn a c1) n" "\<not> dpl_closed (drop_conn a c1)"
      using drop_conn_books [OF b(2)] g(2) by (simp_all add: drop_conn_def)
    show ?thesis
    proof (cases rr)
      case (Inl e)
      then show ?thesis
        using g Got b w rd dr by (auto simp: PoolClient_Call_def PackCall_eq PackFrame_eq Let_def)
    next
      case (Inr x)
      obtain y where y: "UnpackReply x = Some y" using UnpackReply_total [of x] by auto
      then show ?thesis
        using g Got b w rd dr p Inr
        by (cases y; cases ok) (auto simp: PoolClient_Call_def PackCall_eq PackFrame_eq Let_def)
    qed
  qed (use g in \<open>auto simp: PoolClient_Call_def\<close>)
qed

text \<open>The dialling error is sticky: after one failed dial the pool never dials again, and a call
  that finds no idle connection polls forever, whatever the network answers.\<close>

lemma getConn_after_dial_error:
  assumes "dpl_dialErr c" "dpl_conns c = []" "\<not> dpl_closed c"
  shows "getConn d c = Some (Spins, c)"
  using assms by (simp add: getConn_def direct_dial_def)

lemma getConn_first_dial_error:
  assumes "dpl_conns c = []" "\<not> dpl_closed c" "dpl_created c < dpl_PoolSize c" "\<not> dpl_dialErr c"
  shows "getConn False c = Some (Spins, c\<lparr>dpl_dialErr := True\<rparr>)"
  using assms by (simp add: getConn_def direct_dial_def)

end
