(* ===== verification/Job_List.thy ===== *)
theory Job_List
  imports Model_Const Prelude
begin

section \<open>The linked list of jobs (pkg/server/job.go)\<close>

text \<open>
  The doubly linked list of jobs, which links the jobs themselves by their fields \<^verbatim>\<open>Prev\<close> and
  \<^verbatim>\<open>Next\<close>. The jobs live in a heap, a function from addresses to jobs; nil is \<^const>\<open>None\<close>. What the
  list means is the predicate \<open>jobs_are\<close>: the chain from \<^verbatim>\<open>Head\<close> is the given list of addresses,
  linked in both directions, and \<^verbatim>\<open>Size\<close> is its length.

  The search for the tail and the two searches for an identifier may run forever on a cyclic
  chain; they are partial functions whose value is \<^const>\<open>None\<close> then, and on a list they are
  proved to return. A nil dereference is the inner \<^const>\<open>None\<close>.

  \<^verbatim>\<open>PushList\<close>, \<^verbatim>\<open>PopList\<close> and \<^verbatim>\<open>GetListJob\<close> implement a queue with search. The two deletions do not
  keep the list: the theorems say what they do instead.
\<close>

subsection \<open>Jobs and lists\<close>

record Job =
  j_JobId :: string
  j_ClientId :: string
  j_WorkerId :: string
  j_status :: u32
  j_FuncName :: string
  j_ParamsType :: u32
  j_Params :: bytes
  j_RetData :: bytes
  j_Prev :: "addr option"
  j_Next :: "addr option"

type_synonym job_heap = "addr \<Rightarrow> Job"

record JobList =
  jl_Head :: "addr option"
  jl_Size :: u32

text \<open>\<^verbatim>\<open>utils.GetJobId\<close> reads the clock; the identifier it makes is an argument.\<close>

definition NewJob :: "string \<Rightarrow> Job" where
  "NewJob jobId = \<lparr>j_JobId = jobId, j_ClientId = '''', j_WorkerId = '''', j_status = JOB_STATUS_INIT,
     j_FuncName = '''', j_ParamsType = 0, j_Params = [], j_RetData = [], j_Prev = None, j_Next = None\<rparr>"

definition NewJobList :: JobList where
  "NewJobList = \<lparr>jl_Head = None, jl_Size = 0\<rparr>"

definition SetJobClient :: "string \<Rightarrow> Job \<Rightarrow> Job" where
  "SetJobClient i j = j\<lparr>j_ClientId := i\<rparr>"

definition SetJobWorker :: "string \<Rightarrow> Job \<Rightarrow> Job" where
  "SetJobWorker i j = j\<lparr>j_WorkerId := i\<rparr>"

definition set_Prev :: "addr \<Rightarrow> addr option \<Rightarrow> job_heap \<Rightarrow> job_heap" where
  "set_Prev a p h = h(a := (h a)\<lparr>j_Prev := p\<rparr>)"

definition set_Next :: "addr \<Rightarrow> addr option \<Rightarrow> job_heap \<Rightarrow> job_heap" where
  "set_Next a p h = h(a := (h a)\<lparr>j_Next := p\<rparr>)"

subsection \<open>Pushing and popping\<close>

partial_function (option) find_tail :: "job_heap \<Rightarrow> addr \<Rightarrow> addr option" where
  "find_tail h tmpNext = (case j_Next (h tmpNext) of None \<Rightarrow> Some tmpNext | Some n \<Rightarrow> find_tail h n)"

definition PushList :: "addr option \<Rightarrow> job_heap \<Rightarrow> JobList \<Rightarrow> (bool \<times> job_heap \<times> JobList) option" where
  "PushList job h jl = (case job of
     None \<Rightarrow> Some (False, h, jl)
   | Some a \<Rightarrow> do {
       (h, jl) \<leftarrow>
         (case jl_Head jl of
            None \<Rightarrow> Some (set_Next a None (set_Prev a None h), jl\<lparr>jl_Head := Some a\<rparr>)
          | Some tmpHead \<Rightarrow>
              if jl_Size jl = 0 then Some (set_Next a None (set_Prev a None h), jl\<lparr>jl_Head := Some a\<rparr>)
              else (case j_Next (h tmpHead) of
                 None \<Rightarrow> Some (set_Next tmpHead (Some a) (set_Prev a (Some tmpHead) (set_Next a None h)), jl)
               | Some n \<Rightarrow> do {
                   tmpNext \<leftarrow> find_tail h n;
                   Some (set_Next tmpNext (Some a) (set_Prev a (Some tmpNext) (set_Next a None h)), jl)
                 }));
       Some (True, h, jl\<lparr>jl_Size := jl_Size jl + 1\<rparr>)
     })"

definition PopList :: "job_heap \<Rightarrow> JobList \<Rightarrow> addr option \<times> job_heap \<times> JobList" where
  "PopList h jl = (case jl_Head jl of
     None \<Rightarrow> (None, h, jl)
   | Some job \<Rightarrow>
       if jl_Size jl = 0 then (None, h, jl)
       else let pop = (\<lambda>h jl. (Some job, set_Next job None (set_Prev job None h), jl\<lparr>jl_Size := jl_Size jl - 1\<rparr>))
            in if jl_Size jl > 1 then
                 (case j_Next (h job) of
                    None \<Rightarrow> (None, h, jl)
                  | Some nextJob \<Rightarrow>
                      if j_Prev (h job) \<noteq> None then (None, h, jl)
                      else pop (set_Prev nextJob None h) (jl\<lparr>jl_Head := Some nextJob\<rparr>))
               else pop h jl)"

subsection \<open>Searching and deleting\<close>

partial_function (option) GetListJob_loop :: "job_heap \<Rightarrow> u32 \<Rightarrow> string \<Rightarrow> addr option \<Rightarrow> u32 \<Rightarrow> addr option option" where
  "GetListJob_loop h siz jobId job i = (case job of
     None \<Rightarrow> Some None
   | Some a \<Rightarrow>
       if siz < i then Some None
       else if j_JobId (h a) = jobId then Some (Some a)
       else GetListJob_loop h siz jobId (j_Next (h a)) (i + 1))"

definition GetListJob :: "string \<Rightarrow> job_heap \<Rightarrow> JobList \<Rightarrow> addr option option" where
  "GetListJob jobId h jl =
    (if jl_Size jl = 0 \<or> jl_Head jl = None then Some None
     else GetListJob_loop h (jl_Size jl) jobId (jl_Head jl) 0)"

text \<open>The heap after the loop, or the inner \<^const>\<open>None\<close> when \<^verbatim>\<open>prevJob\<close> or \<^verbatim>\<open>nextJob\<close> is nil.\<close>

partial_function (option) DeListJob_loop :: "job_heap \<Rightarrow> u32 \<Rightarrow> string \<Rightarrow> addr option \<Rightarrow> u32 \<Rightarrow> job_heap option option" where
  "DeListJob_loop h siz jobId job i = (case job of
     None \<Rightarrow> Some (Some h)
   | Some a \<Rightarrow>
       if siz < i then Some (Some h)
       else if j_JobId (h a) = jobId then
         Some (case (j_Prev (h a), j_Next (h a)) of
           (Some prevJob, Some nextJob) \<Rightarrow> Some (set_Prev nextJob (Some prevJob) (set_Next prevJob (Some nextJob) h))
         | _ \<Rightarrow> None)
       else DeListJob_loop h siz jobId (j_Next (h a)) (i + 1))"

definition DeListJob :: "string \<Rightarrow> job_heap \<Rightarrow> JobList \<Rightarrow> (bool \<times> job_heap) option option" where
  "DeListJob jobId h jl =
    (if jl_Size jl = 0 \<or> jl_Head jl = None then Some (Some (False, h))
     else map_option (map_option (\<lambda>h. (True, h))) (DeListJob_loop h (jl_Size jl) jobId (jl_Head jl) 0))"

text \<open>\<^verbatim>\<open>DelListStatsJob\<close> makes at most \<^verbatim>\<open>Size\<close> rounds.\<close>

definition unlink :: "addr \<Rightarrow> job_heap \<Rightarrow> job_heap" where
  "unlink a h = (let prevJob = j_Prev (h a); nextJob = j_Next (h a);
     h = (case prevJob of None \<Rightarrow> h | Some p \<Rightarrow> set_Next p nextJob h)
     in case nextJob of None \<Rightarrow> h | Some n \<Rightarrow> set_Prev n prevJob h)"

fun DelListStatsJob_loop :: "nat \<Rightarrow> u32 \<Rightarrow> u32 \<Rightarrow> addr option \<Rightarrow> job_heap \<Rightarrow> nat \<Rightarrow> job_heap \<times> nat" where
  "DelListStatsJob_loop 0 siz status job h delNum = (h, delNum)"
| "DelListStatsJob_loop (Suc n) siz status None h delNum = (h, delNum)"
| "DelListStatsJob_loop (Suc n) siz status (Some a) h delNum =
    (if j_status (h a) = status
     then let h' = (if siz > 1 then unlink a h else h)
          in DelListStatsJob_loop n siz status (j_Next (h' a)) h' (delNum + 1)
     else DelListStatsJob_loop n siz status (j_Next (h a)) h delNum)"

definition DelListStatsJob :: "u32 \<Rightarrow> job_heap \<Rightarrow> JobList \<Rightarrow> nat \<times> job_heap \<times> JobList" where
  "DelListStatsJob status h jl =
    (if jl_Size jl = 0 \<or> jl_Head jl = None then (0, h, jl)
     else let (h, delNum) = DelListStatsJob_loop (unat (jl_Size jl)) (jl_Size jl) status (jl_Head jl) h 0
          in (delNum, h, jl\<lparr>jl_Size := jl_Size jl - of_nat delNum\<rparr>))"

subsection \<open>Chains\<close>

text \<open>The chain from \<open>p\<close>, whose first job has the predecessor \<open>pr\<close>; \<open>l\<close> and \<open>n\<close> are its last job
  (or \<open>pr\<close>) and what follows it.\<close>

fun dseg :: "job_heap \<Rightarrow> addr option \<Rightarrow> addr option \<Rightarrow> addr list \<Rightarrow> addr option \<Rightarrow> addr option \<Rightarrow> bool" where
  "dseg h pr p [] l n \<longleftrightarrow> pr = l \<and> p = n"
| "dseg h pr p (x # xs) l n \<longleftrightarrow> p = Some x \<and> j_Prev (h x) = pr \<and> dseg h (Some x) (j_Next (h x)) xs l n"

text \<open>After the last job has been popped, \<^verbatim>\<open>Head\<close> still points to it.\<close>

definition jobs_are :: "job_heap \<Rightarrow> JobList \<Rightarrow> addr list \<Rightarrow> bool" where
  "jobs_are h jl xs \<longleftrightarrow> length xs < 2 ^ 32 \<and> jl_Size jl = len32 xs \<and> distinct xs
     \<and> (xs \<noteq> [] \<longrightarrow> dseg h None (jl_Head jl) xs (Some (last xs)) None)"

text \<open>The jobs apart from their links.\<close>

definition job_data :: "job_heap \<Rightarrow> addr \<Rightarrow> Job" where
  "job_data h a = (h a)\<lparr>j_Prev := None, j_Next := None\<rparr>"

lemma set_sel [simp]:
  "j_Next (set_Prev a p h b) = j_Next (h b)" "j_Prev (set_Next a p h b) = j_Prev (h b)"
  "j_Prev (set_Prev a p h b) = (if b = a then p else j_Prev (h b))"
  "j_Next (set_Next a p h b) = (if b = a then p else j_Next (h b))"
  "j_JobId (set_Prev a p h b) = j_JobId (h b)" "j_JobId (set_Next a p h b) = j_JobId (h b)"
  "j_status (set_Prev a p h b) = j_status (h b)" "j_status (set_Next a p h b) = j_status (h b)"
  "job_data (set_Prev a p h) = job_data h" "job_data (set_Next a p h) = job_data h"
  by (auto simp: set_Prev_def set_Next_def job_data_def)

lemma dseg_append:
  "dseg h pr p (xs @ ys) l n \<longleftrightarrow> (\<exists>m q. dseg h pr p xs m q \<and> dseg h m q ys l n)"
  by (induction xs arbitrary: pr p) auto

lemma dseg_frame:
  assumes "\<And>x. x \<in> set xs \<Longrightarrow> j_Prev (h' x) = j_Prev (h x) \<and> j_Next (h' x) = j_Next (h x)"
  shows "dseg h' pr p xs l n = dseg h pr p xs l n"
  using assms by (induction xs arbitrary: pr p) auto

lemma dseg_last: "dseg h pr p xs l n \<Longrightarrow> xs \<noteq> [] \<Longrightarrow> l = Some (last xs)"
  by (induction xs arbitrary: pr p) (auto split: if_splits)

lemma find_tail_last:
  "dseg h pr (Some x) (x # xs) l None \<Longrightarrow> find_tail h x = Some (last (x # xs))"
proof (induction xs arbitrary: x pr)
  case Nil
  then show ?case by (simp add: find_tail.simps)
next
  case (Cons y ys)
  then show ?case by (subst find_tail.simps) auto
qed

text \<open>A job at the end.\<close>

lemma dseg_snoc:
  assumes "dseg h None p (xs @ [t]) l None" "distinct (xs @ [t])" "a \<notin> set (xs @ [t])"
  shows "dseg (set_Next t (Some a) (set_Prev a (Some t) (set_Next a None h))) None p (xs @ [t] @ [a]) (Some a) None"
proof -
  let ?h = "set_Next t (Some a) (set_Prev a (Some t) (set_Next a None h))"
  from assms(1) obtain m q where s: "dseg h None p xs m q" "dseg h m q [t] l None" by (auto simp: dseg_append)
  have "dseg ?h None p xs m q" using s(1) assms(2,3) by (subst dseg_frame [of _ _ h]) auto
  moreover have "dseg ?h m q ([t] @ [a]) (Some a) None" using s(2) assms(3) by auto
  ultimately show ?thesis by (auto simp: dseg_append simp del: append_Cons)
qed

text \<open>A job with a predecessor taken out of the chain.\<close>

lemma dseg_unlink:
  assumes "dseg h None p (ks @ k # a # xs) l None" "distinct (ks @ k # a # xs)"
  shows "dseg (unlink a h) None p (ks @ k # xs) (Some (last (k # xs))) None" "j_Next (unlink a h a) = j_Next (h a)"
proof -
  from assms(1) obtain m where s: "dseg h None p ks m (Some k)" "j_Prev (h k) = m" "j_Next (h k) = Some a"
    "j_Prev (h a) = Some k" "dseg h (Some a) (j_Next (h a)) xs l None" by (auto simp: dseg_append)
  have 1: "dseg (unlink a h) None p ks m (Some k)"
    using s(1,4,5) assms(2)
    by (subst dseg_frame [of _ _ h]) (cases xs; auto simp: unlink_def Let_def split: option.splits)+
  show "j_Next (unlink a h a) = j_Next (h a)"
    using s(4,5) assms(2) by (auto simp: unlink_def Let_def split: option.splits)
  have "dseg (unlink a h) m (Some k) (k # xs) (Some (last (k # xs))) None"
  proof (cases xs)
    case Nil
    then show ?thesis using s assms(2) by (auto simp: unlink_def)
  next
    case (Cons y ys)
    have "dseg (unlink a h) (Some y) (j_Next (h y)) ys l None = dseg h (Some y) (j_Next (h y)) ys l None"
      using s(4,5) assms(2) Cons by (intro dseg_frame) (auto simp: unlink_def)
    then show ?thesis using s assms(2) Cons dseg_last [OF s(5)] by (auto simp: unlink_def)
  qed
  with 1 show "dseg (unlink a h) None p (ks @ k # xs) (Some (last (k # xs))) None"
    by (auto simp: dseg_append)
qed

lemma unat_Suc_below:
  assumes "unat i < unat (s :: u32)"
  shows "unat (i + 1 :: u32) = unat i + 1"
proof -
  have "unat s < 2 ^ 32" using unsigned_less [of s, where 'a = nat] by simp
  then show ?thesis using assms unat_plus32 [of i 1] by simp
qed

subsection \<open>The list is a queue with search\<close>

lemma jobs_are_new [simp]: "jobs_are h NewJobList []"
  by (simp add: jobs_are_def NewJobList_def)

lemma jobs_are_Size:
  assumes "jobs_are h jl xs"
  shows "jl_Size jl = 0 \<longleftrightarrow> xs = []" "jl_Size jl > 1 \<longleftrightarrow> length xs > 1" "unat (jl_Size jl) = length xs"
proof -
  have u: "unat (jl_Size jl) = length xs" using assms by (simp add: jobs_are_def unat_len32)
  then show "unat (jl_Size jl) = length xs" .
  show "jl_Size jl = 0 \<longleftrightarrow> xs = []" using u by (metis length_0_conv unat_eq_zero)
  show "jl_Size jl > 1 \<longleftrightarrow> length xs > 1" using u by (simp add: word_less_nat_alt)
qed

lemma jobs_are_Cons:
  assumes "jobs_are h jl (x # xs)"
  shows "jl_Head jl = Some x" "j_Prev (h x) = None" "dseg h (Some x) (j_Next (h x)) xs (Some (last (x # xs))) None"
    "dseg h None (Some x) (x # xs) (Some (last (x # xs))) None" "distinct (x # xs)"
  using assms by (auto simp: jobs_are_def)

lemma PushList_are:
  assumes "jobs_are h jl xs" "a \<notin> set xs" "length xs + 1 < 2 ^ 32"
  shows "\<exists>h' jl'. PushList (Some a) h jl = Some (True, h', jl') \<and> jobs_are h' jl' (xs @ [a]) \<and> job_data h' = job_data h"
proof (cases xs)
  case Nil
  then have "jl_Size jl = 0" using jobs_are_Size [OF assms(1)] by simp
  then show ?thesis by (cases "jl_Head jl") (simp_all add: PushList_def jobs_are_def Nil)
next
  case (Cons x ys)
  note c = jobs_are_Cons [OF assms(1) [unfolded Cons]]
  define t where "t = last (x # ys)"
  let ?h = "set_Next t (Some a) (set_Prev a (Some t) (set_Next a None h))"
  obtain zs where zs: "x # ys = zs @ [t]" unfolding t_def by (metis append_butlast_last_id list.distinct(1))
  have d: "dseg ?h None (Some x) (xs @ [a]) (Some a) None"
  proof -
    have "dseg h None (Some x) (zs @ [t]) (Some t) None" "distinct (zs @ [t])" "a \<notin> set (zs @ [t])"
      using c(4,5) assms(2) unfolding Cons t_def [symmetric] zs by simp_all
    from dseg_snoc [OF this] show ?thesis using zs unfolding Cons by (metis append_assoc)
  qed
  have ne: "jl_Size jl \<noteq> 0" using jobs_are_Size [OF assms(1)] Cons by simp
  have "PushList (Some a) h jl = Some (True, ?h, jl\<lparr>jl_Size := jl_Size jl + 1\<rparr>)"
  proof (cases ys)
    case Nil
    then show ?thesis using c(1,3) ne by (simp add: PushList_def t_def)
  next
    case (Cons y w)
    then have nx: "j_Next (h x) = Some y" using c(3) by simp
    have "find_tail h y = Some (last (y # w))"
      using c(3) Cons nx by (intro find_tail_last [of h "Some x" y w "Some (last (x # ys))"]) simp
    then show ?thesis using c(1) nx ne Cons by (simp add: PushList_def t_def)
  qed
  moreover have "jobs_are ?h (jl\<lparr>jl_Size := jl_Size jl + 1\<rparr>) (xs @ [a])"
    using assms d c(1) by (simp add: jobs_are_def)
  ultimately show ?thesis by auto
qed

lemma PopList_empty: "jobs_are h jl [] \<Longrightarrow> PopList h jl = (None, h, jl)"
  using jobs_are_Size [of h jl "[]"] by (auto simp: PopList_def split: option.splits)

lemma PopList_are:
  assumes "jobs_are h jl (x # xs)"
  shows "\<exists>h' jl'. PopList h jl = (Some x, h', jl') \<and> jobs_are h' jl' xs \<and> job_data h' = job_data h"
proof -
  note c = jobs_are_Cons [OF assms] and z = jobs_are_Size [OF assms]
  have len: "length xs < 2 ^ 32" "jl_Size jl = 1 + len32 xs" using assms by (auto simp: jobs_are_def)
  show ?thesis
  proof (cases xs)
    case Nil
    then show ?thesis using c z len by (simp add: PopList_def jobs_are_def Let_def)
  next
    case (Cons y ys)
    then have nx: "j_Next (h x) = Some y" using c(3) by simp
    let ?h = "set_Next x None (set_Prev x None (set_Prev y None h))"
    have "dseg ?h (Some y) (j_Next (h y)) ys (Some (last (x # xs))) None"
      using c(3,5) Cons by (subst dseg_frame [of _ _ h]) auto
    then have "jobs_are ?h (jl\<lparr>jl_Head := Some y, jl_Size := jl_Size jl - 1\<rparr>) xs"
      using len c(5) Cons by (auto simp: jobs_are_def)
    then show ?thesis using c(1,2) nx z Cons by (auto simp: PopList_def Let_def)
  qed
qed

lemma GetListJob_loop_eq:
  assumes "dseg h pr p xs l None" "unat i + length xs \<le> unat siz"
  shows "GetListJob_loop h siz jobId p i = Some (find (\<lambda>a. j_JobId (h a) = jobId) xs)"
  using assms
proof (induction xs arbitrary: pr p i)
  case Nil
  then show ?case by (simp add: GetListJob_loop.simps)
next
  case (Cons x xs)
  have s: "unat (i + 1) = unat i + 1"
    using Cons.prems(2) by (intro unat_Suc_below [where s = siz]) simp
  have "\<not> siz < i" using Cons.prems(2) by (simp add: word_less_nat_alt)
  then show ?case
    using Cons.prems Cons.IH [of "Some x" "j_Next (h x)" "i + 1"] s
    by (subst GetListJob_loop.simps) auto
qed

lemma GetListJob_are:
  assumes "jobs_are h jl xs"
  shows "GetListJob jobId h jl = Some (find (\<lambda>a. j_JobId (h a) = jobId) xs)"
proof (cases xs)
  case Nil
  then show ?thesis using jobs_are_Size [OF assms] by (simp add: GetListJob_def)
next
  case (Cons x ys)
  note c = jobs_are_Cons [OF assms [unfolded Cons]]
  show ?thesis
    using GetListJob_loop_eq [OF c(4), of 0 "jl_Size jl" jobId] jobs_are_Size [OF assms] c(1) Cons
    by (simp add: GetListJob_def)
qed

subsection \<open>What the deletions do\<close>

text \<open>Deleting the first or the last job panics.\<close>

lemma DeListJob_loop_last:
  assumes "dseg h pr p (xs @ [a]) l None" "unat i + length xs < unat siz"
    "\<forall>x \<in> set xs. j_JobId (h x) \<noteq> jobId" "j_JobId (h a) = jobId"
  shows "DeListJob_loop h siz jobId p i = Some None"
  using assms
proof (induction xs arbitrary: pr p i)
  case Nil
  then show ?case
    by (subst DeListJob_loop.simps) (auto simp: word_less_nat_alt split: option.splits)
next
  case (Cons x xs)
  have s: "unat (i + 1) = unat i + 1"
    using Cons.prems(2) by (intro unat_Suc_below [where s = siz]) simp
  have "\<not> siz < i" using Cons.prems(2) by (simp add: word_less_nat_alt)
  then show ?case
    using Cons.prems Cons.IH [of "Some x" "j_Next (h x)" "i + 1"] s
    by (subst DeListJob_loop.simps) auto
qed

lemma DeListJob_last_panics:
  assumes "jobs_are h jl (xs @ [a])" "\<forall>x \<in> set xs. j_JobId (h x) \<noteq> jobId" "j_JobId (h a) = jobId"
  shows "DeListJob jobId h jl = Some None"
proof -
  note z = jobs_are_Size [OF assms(1)]
  have d: "dseg h None (jl_Head jl) (xs @ [a]) (Some a) None" using assms(1) by (simp add: jobs_are_def)
  then have "jl_Head jl \<noteq> None" by (cases xs) auto
  then show ?thesis
    using DeListJob_loop_last [OF d, of 0 "jl_Size jl" jobId] assms(2,3) z by (simp add: DeListJob_def)
qed

lemma DeListJob_head_panics:
  assumes "jobs_are h jl (x # xs)" "j_JobId (h x) = jobId"
  shows "DeListJob jobId h jl = Some None"
  using assms jobs_are_Cons [OF assms(1)] jobs_are_Size [OF assms(1)]
  by (simp add: DeListJob_def DeListJob_loop.simps split: option.splits)

text \<open>Deleting by status counts every job with the status; when the first job is kept, the
  list is the filtered list afterwards.\<close>

lemma unlink_status [simp]: "j_status (unlink a h b) = j_status (h b)" "job_data (unlink a h) = job_data h"
  by (simp_all add: unlink_def Let_def split: option.splits)

lemma DelListStatsJob_loop_eq:
  assumes "dseg h None p (ks @ k # xs) l None" "distinct (ks @ k # xs)" "siz > 1" "length xs \<le> m"
    "\<forall>x. st x = j_status (h x)"
  shows "\<exists>h'. DelListStatsJob_loop m siz status (j_Next (h k)) h n
       = (h', n + length (filter (\<lambda>x. st x = status) xs)) \<and> job_data h' = job_data h
     \<and> dseg h' None p (ks @ k # filter (\<lambda>x. st x \<noteq> status) xs) (Some (last (k # filter (\<lambda>x. st x \<noteq> status) xs))) None"
  using assms
proof (induction xs arbitrary: ks k l m h n)
  case Nil
  then have "j_Next (h k) = None" by (auto simp: dseg_append)
  moreover have "l = Some k" using Nil.prems(1) dseg_last by fastforce
  ultimately show ?case using Nil.prems(1) by (cases m) auto
next
  case (Cons x xs)
  then obtain m' where m: "m = Suc m'" "length xs \<le> m'" by (cases m) auto
  have nx: "j_Next (h k) = Some x" using Cons.prems(1) by (auto simp: dseg_append)
  show ?case
  proof (cases "st x = status")
    case True
    note u = dseg_unlink [OF Cons.prems(1,2)]
    have "j_Next (unlink x h k) = j_Next (h x)"
      using u(1) Cons.prems(1) nx by (cases xs) (auto simp: dseg_append)
    then show ?thesis
      using Cons.IH [of "unlink x h" ks k _ m' "Suc n"] u Cons.prems m nx True
      by (auto simp: Let_def simp del: append_Cons)
  next
    case False
    have "dseg h None p ((ks @ [k]) @ x # xs) l None" using Cons.prems(1) by simp
    then show ?thesis
      using Cons.IH [of h "ks @ [k]" x l m' n] Cons.prems m nx False by auto
  qed
qed

lemma DelListStatsJob_are:
  assumes "jobs_are h jl (x # xs)" "j_status (h x) \<noteq> status"
  shows "\<exists>h' jl'. DelListStatsJob status h jl = (length (filter (\<lambda>a. j_status (h a) = status) (x # xs)), h', jl')
    \<and> jobs_are h' jl' (filter (\<lambda>a. j_status (h a) \<noteq> status) (x # xs)) \<and> job_data h' = job_data h"
proof -
  note c = jobs_are_Cons [OF assms(1)] and z = jobs_are_Size [OF assms(1)]
  let ?del = "filter (\<lambda>a. j_status (h a) = status) xs" and ?keep = "filter (\<lambda>a. j_status (h a) \<noteq> status) xs"
  have sum: "length ?del + length ?keep = length xs" by (rule sum_length_filter_compl)
  have len: "length xs < 2 ^ 32" "jl_Size jl = 1 + len32 xs" using assms(1) by (auto simp: jobs_are_def)
  have siz: "jl_Size jl - of_nat (length ?del) = len32 (x # ?keep)"
    using len(2) arg_cong [OF sum, of "of_nat :: nat \<Rightarrow> u32"] by (simp add: algebra_simps)
  have loop: "\<exists>h'. DelListStatsJob_loop (unat (jl_Size jl)) (jl_Size jl) status (Some x) h 0 = (h', length ?del)
      \<and> job_data h' = job_data h \<and> dseg h' None (Some x) (x # ?keep) (Some (last (x # ?keep))) None"
  proof (cases xs)
    case Nil
    then show ?thesis using c z assms(2) by (simp add: numeral_eq_Suc)
  next
    case (Cons y ys)
    then show ?thesis
      using DelListStatsJob_loop_eq [of h "Some x" "[]" x xs _ "jl_Size jl" "length xs" "\<lambda>a. j_status (h a)" status 0]
        c z assms(2) by auto
  qed
  then obtain h' where h': "DelListStatsJob_loop (unat (jl_Size jl)) (jl_Size jl) status (Some x) h 0 = (h', length ?del)"
    "job_data h' = job_data h" "dseg h' None (Some x) (x # ?keep) (Some (last (x # ?keep))) None" by blast
  have "jobs_are h' (jl\<lparr>jl_Size := jl_Size jl - of_nat (length ?del)\<rparr>) (x # ?keep)"
    using h'(3) siz c(1,5) sum assms(1) by (auto simp: jobs_are_def)
  then show ?thesis using h' c(1) z assms(2) by (simp add: DelListStatsJob_def)
qed

text \<open>When the first job has the status, \<^verbatim>\<open>Head\<close> still points to it: the next \<^verbatim>\<open>PopList\<close> does not
  return a job that was kept.\<close>

lemma DelListStatsJob_head:
  assumes "jobs_are h jl (x # xs)"
  shows "jl_Head (snd (snd (DelListStatsJob status h jl))) = Some x"
  using jobs_are_Cons [OF assms] by (auto simp: DelListStatsJob_def split: prod.splits)

lemma PopList_head: "fst (PopList h jl) = None \<or> fst (PopList h jl) = jl_Head jl"
  by (auto simp: PopList_def Let_def split: option.splits)

end
