(* ===== verification/Scenario.thy ===== *)
theory Scenario
  imports Call_Path Direct Conn_Pools Job_List
begin

section \<open>A run of the system\<close>

text \<open>
  A concrete run, on which the theorems of the root theory are instantiated: a worker
  registers the function \<^verbatim>\<open>f\<close>, a client asks for it, the job is sent, the result comes back.
\<close>

definition demo_env :: Env where
  "demo_env = \<lparr>e_rand = (\<lambda>_. 0), e_pick = (\<lambda>_. None), e_uuid = ''j1'', e_now = 7, e_timeStr = ''t''\<rparr>"

definition demo_list :: IpList where
  "demo_list = \<lparr>il_Enable = False, il_List = (\<lambda>_. False), il_ListMask = []\<rparr>"

definition demo_cfg :: SConfig where
  "demo_cfg = \<lparr>cfg_WhiteList = demo_list, cfg_BlackList = demo_list, cfg_contains = (\<lambda>_ _. None), cfg_zone = (\<lambda>_. [])\<rparr>"

text \<open>The worker on connection 0 has registered; the client is on connection 1.\<close>

definition demo_idle :: Server where
  "demo_idle = NewServer\<lparr>
     s_conns := (s_conns NewServer)
       (0 := (NewConnect_obj ''c1'' ''a:1'' ''a'' ''1'' [])\<lparr>c_ConnType := CONN_TYPE_WORKER, c_RunWorker := Some 0\<rparr>,
        1 := (NewConnect_obj ''c2'' ''b:1'' ''b'' ''1'' [])\<lparr>c_ConnType := CONN_TYPE_CLIENT\<rparr>),
     s_workers := (s_workers NewServer)(0 := \<lparr>sw_WorkerId = ''c1'', sw_WorkerName = ''w'', sw_Connect = 0, sw_Weight = 0,
       sw_Jobs = Map.empty, sw_JobChannels = Map.empty, sw_Results = [], sw_Sleep = False\<rparr>),
     s_nextConn := 2, s_nextWorker := 1, s_Funcs := snd (AddFunc (Some 0) ''f'' NewFuncMap)\<rparr>"

text \<open>The client's request, in the dispatch pool, and the job made of it.\<close>

definition demo_dj :: dispatchJob where
  "demo_dj = \<lparr>dj_handle = ''f'', dj_params = [1, 2], dj_paramsType = 0, dj_paramsHandleType = 0,
     dj_clientId = ''c2'', dj_connect = 1\<rparr>"

definition demo_asked :: Server where
  "demo_asked = demo_idle\<lparr>s_DispatchPool := (s_DispatchPool demo_idle)\<lparr>dp_jobCh := [demo_dj]\<rparr>\<rparr>"

definition demo_job :: JobData where
  "demo_job = (make_job demo_env demo_dj ''c1'')\<lparr>jd_status := JOB_STATUS_DOING,
     jd_Response := Some (job_packet (make_job demo_env demo_dj ''c1''))\<rparr>"

text \<open>The job is sent and waits in the channel of its function.\<close>

definition demo_sent :: Server where
  "demo_sent = demo_idle\<lparr>
     s_workers := (s_workers demo_idle)(0 := (s_workers demo_idle 0)\<lparr>sw_JobChannels := [''f'' \<mapsto> [0]]\<rparr>),
     s_jobs := (s_jobs demo_idle)(0 := demo_job), s_nextJob := 1\<rparr>"

text \<open>The result of the job, in the result router.\<close>

definition demo_req :: SRequest where
  "demo_req = server_NewReq\<lparr>rq_Handle := ''f'', rq_HandleLen := 1, rq_ParamsLen := 2, rq_Ret := [9], rq_RetLen := 1\<rparr>"

definition demo_returned :: Server where
  "demo_returned = demo_sent\<lparr>s_ResultRouter := (s_ResultRouter demo_sent)\<lparr>rr_resultCh :=
     [\<lparr>dr_sw = 0, dr_jobFunc = ''f'', dr_jobId = ''j1'', dr_req = demo_req\<rparr>]\<rparr>\<rparr>"

text \<open>The client, connected, and the worker with the packet of the job in its input.\<close>

definition demo_client :: "unit Client" where
  "demo_client = (NewClient 30 ''tcp'' ''s:1'')\<lparr>cl_conn := True\<rparr>"

definition demo_worker :: "unit Worker" where
  "demo_worker = NewWorker\<lparr>w_Agents := [(NewAgent 0 ''tcp'' ''s:1'')\<lparr>ag_conn := True,
       ag_input := map Byte (packet (job_packet demo_job))\<rparr>],
     w_Funcs := [(''f'', NewFunction (\<lambda>_. Some [9]) ''f'')]\<rparr>"

lemmas demo_defs = demo_idle_def demo_dj_def demo_asked_def demo_job_def demo_sent_def demo_req_def
  demo_returned_def demo_env_def

lemma demo_workers: "workers_of (s_Funcs demo_idle) n = (if n = ''f'' then [0] else [])"
  by (simp add: demo_idle_def AddFunc_workers) (simp add: workers_of_def fm_Load_def NewFuncMap_def)

lemma demo_funcs: "fm_inv (s_Funcs demo_idle)" "fm_hash (s_Funcs demo_idle)"
proof -
  have "fm_hash NewFuncMap" by (simp add: fm_hash_def fm_Load_def NewFuncMap_def)
  then show "fm_inv (s_Funcs demo_idle)" "fm_hash (s_Funcs demo_idle)"
    by (simp_all add: demo_idle_def AddFunc_inv NewFuncMap_inv AddFunc_hash)
qed

lemma demo_idle_sel [simp]:
  "s_nextConn demo_idle = 2" "s_nextWorker demo_idle = 1" "s_nextJob demo_idle = 0"
  "s_DispatchPool demo_idle = GetDispatchPool" "s_ResultRouter demo_idle = GetResultRouter"
  "sw_JobChannels (s_workers demo_idle w) = Map.empty" "sw_Connect (s_workers demo_idle w) = 0"
  "sw_WorkerId (s_workers demo_idle 0) = ''c1''"
  by (simp_all add: demo_idle_def NewServer_def)

lemma demo_names [simp]: "sw_WorkerName (s_workers demo_idle 0) = ''w''" "sw_WorkerName (s_workers demo_asked 0) = ''w''"
  "sw_WorkerName (s_workers demo_sent 0) = ''w''"
  by (simp_all add: demo_idle_def demo_asked_def demo_sent_def)

lemma demo_conn_sel:
  "s_conns demo_idle 0 = (NewConnect_obj ''c1'' ''a:1'' ''a'' ''1'' [])\<lparr>c_ConnType := CONN_TYPE_WORKER, c_RunWorker := Some 0\<rparr>"
  "s_conns demo_idle (Suc 0) = (NewConnect_obj ''c2'' ''b:1'' ''b'' ''1'' [])\<lparr>c_ConnType := CONN_TYPE_CLIENT\<rparr>"
  "c \<noteq> 0 \<Longrightarrow> c \<noteq> Suc 0 \<Longrightarrow> s_conns demo_idle c = NewConnect_obj [] [] [] [] []"
  by (simp_all add: demo_idle_def NewServer_def)

lemma demo_pools: "dp_workers GetDispatchPool = 512" "rr_workers GetResultRouter = 256"
  "dp_jobCh GetDispatchPool = []" "rr_resultCh GetResultRouter = []"
  by (simp_all add: GetDispatchPool_def NewDispatchPool_def GetResultRouter_def NewResultRouter_def)

lemma demo_conn_cases:
  "P (s_conns demo_idle 0) \<Longrightarrow> P (s_conns demo_idle 1) \<Longrightarrow> P (NewConnect_obj [] [] [] [] []) \<Longrightarrow> P (s_conns demo_idle c)"
  by (cases "c = 0"; cases "c = 1") (simp_all add: demo_conn_sel)

lemma demo_conns: "conn_inv (s_conns demo_idle c)" "c < 2 \<Longrightarrow> c_Id (s_conns demo_idle c) \<noteq> []"
  "c_RunClient (s_conns demo_idle c) = None" "c_RunWorker (s_conns demo_idle c) = (if c = 0 then Some 0 else None)"
proof -
  show "conn_inv (s_conns demo_idle c)"
    by (rule demo_conn_cases [of conn_inv]) (simp_all add: demo_conn_sel NewConnect_obj_def conn_inv_def)
  show "c_RunClient (s_conns demo_idle c) = None"
    by (rule demo_conn_cases) (simp_all add: demo_conn_sel NewConnect_obj_def)
  show "c < 2 \<Longrightarrow> c_Id (s_conns demo_idle c) \<noteq> []"
    by (cases "c = 0"; cases "c = 1") (auto simp: demo_conn_sel NewConnect_obj_def)
  show "c_RunWorker (s_conns demo_idle c) = (if c = 0 then Some 0 else None)"
    by (cases "c = 0"; cases "c = 1") (auto simp: demo_conn_sel NewConnect_obj_def)
qed

lemma demo_idle_inv: "server_inv demo_idle"
  using demo_funcs demo_conns
  by (auto simp: server_inv_def inv_parts demo_workers demo_pools demo_conn_sel NewConnect_obj_def)

lemma demo_asked_inv: "server_inv demo_asked"
  using demo_funcs demo_conns
  by (auto simp: server_inv_def inv_parts demo_workers demo_pools demo_asked_def demo_dj_def demo_conn_sel NewConnect_obj_def)

lemma demo_job_sent: "job_sent ''c1'' ''f'' demo_job" "job_fit ''c1'' ''f'' demo_job"
  "jd_Client demo_job = Some 1" "jd_ClientId demo_job = ''c2''" "job_small demo_job [9]"
  by (simp_all add: job_sent_def job_fit_def demo_job_def make_job_def demo_dj_def demo_env_def NewJobData_def
      job_resp_def job_packet_def job_small_def)

lemma demo_sent_inv: "server_inv demo_sent"
  using demo_funcs demo_conns demo_job_sent
  by (auto simp: server_inv_def inv_parts demo_workers demo_pools demo_sent_def demo_conn_sel NewConnect_obj_def split: if_splits)

lemma demo_returned_inv: "server_inv demo_returned"
proof -
  have "conns_ok demo_sent" "funcs_ok demo_sent" "links_ok demo_sent" "chans_ok {} demo_sent" "pools_ok demo_sent"
    using demo_sent_inv by (simp_all add: server_inv_def server_inv_ex_def)
  moreover have "s_nextWorker demo_sent = 1" by (simp add: demo_sent_def)
  ultimately show ?thesis
    unfolding server_inv_def server_inv_ex_def demo_returned_def conns_ok_def funcs_ok_def links_ok_def chans_ok_def pools_ok_def
      dj_ok_def job_client_def
    by (simp add: chan_def)
qed

lemma demo_Load: "\<exists>f. fm_Load ''f'' (s_Funcs demo_idle) = Some f \<and> f_Workers f = [0] \<and> f_WorkerNum f = 1
    \<and> f_LoadBlanceType f = LOADBLANCE_HASH"
  by (simp add: demo_idle_def AddFunc_def NewFuncMap_def GetFunc_def fm_Load_def fm_Store_def Let_def)

lemma demo_best:
  assumes "s_Funcs t = s_Funcs demo_idle" "s_workers t = s_workers demo_idle" "c_RunWorker (s_conns t 0) = Some 0"
  shows "GetBestWorker demo_env ''f'' t = Some (Some 0, t)"
proof -
  obtain f where f: "fm_Load ''f'' (s_Funcs t) = Some f" "f_Workers f = [0]" "f_WorkerNum f = 1"
    "f_LoadBlanceType f = LOADBLANCE_HASH"
    using demo_Load assms(1) by auto
  then show ?thesis
    using assms(2,3)
    by (simp add: GetBestWorker_def workers_of_def choose_worker_def hashfunc_def demo_env_def)
qed

lemma demo_facts:
  "dj_handle demo_dj = ''f''" "dp_jobCh (s_DispatchPool demo_asked) = [demo_dj]" "wid_of demo_asked 0 = ''c1''"
  "job_small (make_job demo_env demo_dj ''c1'') []" "chan demo_asked w g = []" "chan demo_sent 0 ''f'' = [0]"
  "s_workers demo_asked = s_workers demo_idle" "s_conns demo_asked = s_conns demo_idle" "s_conns demo_sent = s_conns demo_idle"
  "s_Funcs demo_asked = s_Funcs demo_idle" "s_jobs demo_sent 0 = demo_job" "s_nextJob demo_asked = 0" "stream (s_conns demo_idle c) = []"
proof -
  show "stream (s_conns demo_idle c) = []"
    by (cases "c = 0"; cases "c = 1") (simp_all add: demo_conn_sel stream_def NewConnect_obj_def)
qed (simp_all add: demo_dj_def demo_asked_def demo_sent_def wid_of_def chan_def job_small_def make_job_def
      demo_env_def NewJobData_def)

lemma demo_can_write: "length p \<le> 4 * 1024 * 1024 \<Longrightarrow> can_write p (s_conns demo_idle c)"
  by (cases "c = 0"; cases "c = 1") (simp_all add: demo_conn_sel can_write_def NewConnect_obj_def)

lemma demo_packets: "length (packet (job_packet (make_job demo_env demo_dj ''c1''))) = 37"
  "length (packet (result_packet demo_job [9])) = 28"
  by (simp_all add: packet_def job_packet_def result_packet_def res_content_def get_data_content_def
      return_data_content_def make_job_def demo_dj_def demo_env_def NewJobData_def demo_job_def server_NewRes_def)

lemma demo_client_facts: "cl_conn demo_client" "cl_RespHandlers demo_client = Some NewResHandlerMap"
  "cl_output demo_client = []" "cl_calls demo_client = []" "cl_pending demo_client = None" "\<not> cl_ResClosed demo_client"
  by (simp_all add: demo_client_def NewClient_def)

lemma demo_job_sel: "jd_FuncName demo_job = ''f''" "jd_Params demo_job = [1, 2]" "jd_JobId demo_job = ''j1''"
  "length (packet (job_packet demo_job)) = 37"
  by (simp_all add: packet_def job_packet_def res_content_def get_data_content_def
      make_job_def demo_dj_def demo_env_def NewJobData_def demo_job_def server_NewRes_def)

lemma demo_worker_facts: "GetFunction ''f'' demo_worker = Inr (NewFunction (\<lambda>_. Some [9]) ''f'')"
  "length (w_Agents demo_worker) = 1" "ag_conn (w_Agents demo_worker ! 0)" "\<not> ag_cancelled (w_Agents demo_worker ! 0)"
  "ag_input (w_Agents demo_worker ! 0) = map Byte (packet (job_packet demo_job))" "ag_output (w_Agents demo_worker ! 0) = []"
  by (simp_all add: GetFunction_def demo_worker_def NewFunction_def NewAgent_def)

end
