(* ===== verification/Go_Strconv.thy ===== *)
theory Go_Strconv
  imports Prelude
begin

section \<open>Decimal numbers\<close>

text \<open>
  \<^verbatim>\<open>ParseInt\<close>, \<^verbatim>\<open>Atoi\<close> and \<^verbatim>\<open>FormatInt\<close> of \<^verbatim>\<open>strconv\<close>, for base 10 and 64 bits, with their limits: the
  registry clients and the HTTP gateway read numbers from strings. Signed 64-bit integers are
  integers, wrapped by \<open>i64\<close> where the code computes with them.
\<close>

subsection \<open>Definitions\<close>

definition i64 :: "int \<Rightarrow> int" where
  "i64 x = (x + 2 ^ 63) mod 2 ^ 64 - 2 ^ 63"

definition is_digit :: "char \<Rightarrow> bool" where
  "is_digit c \<longleftrightarrow> 48 \<le> (of_char c :: nat) \<and> (of_char c :: nat) \<le> 57"

text \<open>The loop of \<^verbatim>\<open>ParseUint\<close>: it stops at the first digit that leaves 64 bits.\<close>

fun parse_uint :: "nat \<Rightarrow> string \<Rightarrow> nat option" where
  "parse_uint n [] = Some n"
| "parse_uint n (c # cs) =
    (if is_digit c then
       let n1 = n * 10 + (of_char c - 48)
       in if n1 > 2 ^ 64 - 1 then Some (2 ^ 64 - 1) else parse_uint n1 cs
     else None)"

definition parse_abs :: "string \<Rightarrow> nat option" where
  "parse_abs s = (if s = [] then None else parse_uint 0 s)"

text \<open>The value that \<^verbatim>\<open>ParseInt\<close> returns, also beside an error: 0 for a bad syntax, the nearest
  value when it is out of range.\<close>

definition ParseInt :: "string \<Rightarrow> int" where
  "ParseInt s = (case s of
     [] \<Rightarrow> 0
   | c # cs \<Rightarrow>
       if c = CHR ''-'' then (case parse_abs cs of None \<Rightarrow> 0 | Some n \<Rightarrow> - int (min n (2 ^ 63)))
       else (case parse_abs (if c = CHR ''+'' then cs else s) of None \<Rightarrow> 0 | Some n \<Rightarrow> int (min n (2 ^ 63 - 1))))"

text \<open>\<^verbatim>\<open>Atoi\<close> reports an error for a bad syntax and for a value out of range.\<close>

definition Atoi :: "string \<Rightarrow> int option" where
  "Atoi s = (case s of
     [] \<Rightarrow> None
   | c # cs \<Rightarrow> (case parse_abs (if c = CHR ''-'' \<or> c = CHR ''+'' then cs else s) of
       None \<Rightarrow> None
     | Some n \<Rightarrow>
         let v = (if c = CHR ''-'' then - int n else int n)
         in if - (2 ^ 63) \<le> v \<and> v < 2 ^ 63 then Some v else None))"

fun digits :: "nat \<Rightarrow> string" where
  "digits n = (if n < 10 then [char_of (48 + n)] else digits (n div 10) @ [char_of (48 + n mod 10)])"

declare digits.simps [simp del]

definition FormatInt :: "int \<Rightarrow> string" where
  "FormatInt n = (if n < 0 then CHR ''-'' # digits (nat (- n)) else digits (nat n))"

subsection \<open>Round trips\<close>

lemma i64_id: "- (2 ^ 63) \<le> x \<Longrightarrow> x < 2 ^ 63 \<Longrightarrow> i64 x = x"
  by (simp add: i64_def)

lemma i64_range: "- (2 ^ 63) \<le> i64 x \<and> i64 x < 2 ^ 63"
  using pos_mod_bound [of "2 ^ 64" "x + 2 ^ 63"] pos_mod_sign [of "2 ^ 64" "x + 2 ^ 63"] by (simp add: i64_def)

lemma digit_char:
  assumes "d < 10"
  shows "(of_char (char_of (48 + d) :: char) :: nat) = 48 + d"
  using assms by (simp add: of_char_of take_bit_eq_mod)

lemma parse_uint_digits:
  "n < 2 ^ 64 \<Longrightarrow> parse_uint 0 (digits n @ cs) = parse_uint n cs"
proof (induction n arbitrary: cs rule: digits.induct)
  case (1 n)
  show ?case
  proof (cases "n < 10")
    case True
    then show ?thesis by (subst digits.simps) (simp add: is_digit_def digit_char)
  next
    case False
    have m: "n mod 10 < 10" "n mod 10 \<le> 9" "n div 10 * 10 + n mod 10 = n"
      using mod_less_divisor [of 10 n] by (simp_all add: less_Suc_eq_le [symmetric])
    have "parse_uint 0 (digits n @ cs) = parse_uint (n div 10) (char_of (48 + n mod 10) # cs)"
      using 1 False by (subst digits.simps) simp
    also have "\<dots> = parse_uint n cs"
      using 1(2) m by (simp add: is_digit_def digit_char del: div_mult_mod_eq)
    finally show ?thesis .
  qed
qed

lemma digits_Cons: "\<exists>d ds. digits n = d # ds \<and> is_digit d"
proof (induction n rule: digits.induct)
  case (1 n)
  then show ?case
    by (cases "n < 10") (subst digits.simps, auto simp: is_digit_def digit_char)+
qed

lemma parse_abs_digits: "k < 2 ^ 64 \<Longrightarrow> parse_abs (digits k) = Some k"
  using parse_uint_digits [of k "[]"] digits_Cons [of k] by (auto simp: parse_abs_def)

lemma digits_hd:
  obtains d ds where "digits k = d # ds" "d \<noteq> CHR ''-''" "d \<noteq> CHR ''+''"
proof -
  obtain d ds where d: "digits k = d # ds" "is_digit d" using digits_Cons by blast
  then have "d \<noteq> CHR ''-''" "d \<noteq> CHR ''+''" by (auto simp: is_digit_def)
  with d(1) show thesis by (rule that)
qed

lemma ParseInt_FormatInt:
  assumes "- (2 ^ 63) \<le> n" "n < 2 ^ 63"
  shows "ParseInt (FormatInt n) = n"
  using assms parse_abs_digits [of "nat n"] parse_abs_digits [of "nat (- n)"]
  by (cases rule: digits_hd [of "nat n"]) (auto simp: FormatInt_def ParseInt_def min_def)

lemma Atoi_FormatInt:
  assumes "- (2 ^ 63) \<le> n" "n < 2 ^ 63"
  shows "Atoi (FormatInt n) = Some n"
  using assms parse_abs_digits [of "nat n"] parse_abs_digits [of "nat (- n)"]
  by (cases rule: digits_hd [of "nat n"]) (auto simp: FormatInt_def Atoi_def Let_def)

end
