(* ===== verification/Registry.thy ===== *)
theory Registry
  imports Go_Strconv "HOL-Library.Signed_Division"
begin

section \<open>Instances and the zone scheduler (pkg/registry/registry.go)\<close>

text \<open>
  What the two registry clients share: the instances of a service, grouped by zones, and
  \<^verbatim>\<open>UseScheduler\<close>, which weights the instances of the zones that a scheduler names.

  Instances are shared pointers; they live in a store. A Go map is an association list, whose
  order stands for the order of iteration, which the language leaves open. The metadata of an
  instance is a map that may be nil: reading a nil map finds nothing, writing to it panics.
  The weights are signed 64-bit integers that wrap around; the division truncates and panics
  on zero.
\<close>

subsection \<open>Data\<close>

record Instance =
  in_ServiceId :: string
  in_InFlowAddr :: string
  in_OutFlowAddr :: string
  in_Region :: string
  in_Zone :: string
  in_Env :: string
  in_Hostname :: string
  in_Addrs :: "string list"
  in_Version :: string
  in_LastTs :: int
  in_Metadata :: "(string \<rightharpoonup> string) option"
  in_Status :: int

record Zone =
  z_Src :: string
  z_Dst :: "(string \<times> int) list"

record InstancesInfo =
  ii_Instances :: "(string \<times> addr list) list"
  ii_LastTs :: int
  ii_Scheduler :: "Zone list"

record RConfig =
  rc_Nodes :: "string list"
  rc_Region :: string
  rc_Zone :: string
  rc_Env :: string
  rc_Host :: string

record ReturnWatch =
  rw_WType :: int
  rw_WKey :: string

text \<open>What a registry service answers to a request over HTTP: nothing, or a code and data. Which codes
  mean success, not found and not modified is up to the package of the codes.\<close>

record Ecode =
  ec_ok :: "int \<Rightarrow> bool"
  ec_nothing_found :: "int \<Rightarrow> bool"
  ec_not_modified :: "int \<Rightarrow> bool"

datatype 'a http_answer = NoAnswer | Answer int 'a

type_synonym form = "(string \<times> string list) list"

definition MetaWeight :: string where "MetaWeight = ''weight''"

subsection \<open>The scheduler\<close>

definition weight_of :: "Instance \<Rightarrow> int" where
  "weight_of i = (
     let w = ParseInt (case in_Metadata i of None \<Rightarrow> '''' | Some m \<Rightarrow> (case m MetaWeight of None \<Rightarrow> '''' | Some v \<Rightarrow> v))
     in if w \<le> 0 then 10 else w)"

fun total_weight :: "(addr \<Rightarrow> Instance) \<Rightarrow> addr list \<Rightarrow> int \<Rightarrow> int" where
  "total_weight h [] t = t"
| "total_weight h (a # as) t = total_weight h as (i64 (t + weight_of (h a)))"

text \<open>The first loop: instances, their total weights, and the weights and names of the zones.\<close>

fun collect_dst ::
  "(addr \<Rightarrow> Instance) \<Rightarrow> InstancesInfo \<Rightarrow> (string \<times> int) list \<Rightarrow> addr list \<times> int list \<times> int list \<times> string list
    \<Rightarrow> addr list \<times> int list \<times> int list \<times> string list" where
  "collect_dst h ii [] acc = acc"
| "collect_dst h ii ((zone, schWeight) # dst) (inss, ori, weights, zones) =
    collect_dst h ii dst
      (case map_of (ii_Instances ii) zone of
         None \<Rightarrow> (inss, ori, weights @ [schWeight], zones @ [zone])
       | Some zins \<Rightarrow> (inss @ zins, ori @ [total_weight h zins 0], weights @ [schWeight], zones @ [zone]))"

fun collect ::
  "(addr \<Rightarrow> Instance) \<Rightarrow> InstancesInfo \<Rightarrow> string \<Rightarrow> Zone list \<Rightarrow> addr list \<times> int list \<times> int list \<times> string list
    \<Rightarrow> addr list \<times> int list \<times> int list \<times> string list" where
  "collect h ii zone [] acc = acc"
| "collect h ii zone (sch # schs) acc =
    collect h ii zone schs (if z_Src sch = zone then collect_dst h ii (z_Dst sch) acc else acc)"

fun common_multiple :: "int list \<Rightarrow> int \<Rightarrow> int" where
  "common_multiple [] m = m"
| "common_multiple (w # ws) m = common_multiple ws (i64 (m * w))"

text \<open>\<^verbatim>\<open>scheduler.weights[i] * comMulti / oriWeights[i]\<close> for every zone.\<close>

fun fix_weights :: "int \<Rightarrow> int list \<Rightarrow> string list \<Rightarrow> int list \<Rightarrow> (string \<rightharpoonup> int) \<Rightarrow> (string \<rightharpoonup> int) option" where
  "fix_weights com ori [] weights m = Some m"
| "fix_weights com (o1 # ori) (zone # zones) (w # weights) m =
    (if o1 = 0 then None else fix_weights com ori zones weights (m(zone \<mapsto> i64 (i64 (w * com) sdiv o1))))"
| "fix_weights com _ (zone # zones) _ m = None"

fun reweight :: "(string \<rightharpoonup> int) \<Rightarrow> addr list \<Rightarrow> (addr \<Rightarrow> Instance) \<Rightarrow> (addr \<Rightarrow> Instance) option" where
  "reweight fix [] h = Some h"
| "reweight fix (a # as) h = (
     let w = weight_of (h a);
         w = (case fix (in_Zone (h a)) of None \<Rightarrow> w | Some f \<Rightarrow> i64 (w * f))
     in case in_Metadata (h a) of
          None \<Rightarrow> None
        | Some m \<Rightarrow> reweight fix as (h(a := (h a)\<lparr>in_Metadata := Some (m(MetaWeight \<mapsto> FormatInt w))\<rparr>)))"

definition UseScheduler :: "string \<Rightarrow> (addr \<Rightarrow> Instance) \<Rightarrow> InstancesInfo \<Rightarrow> (addr list \<times> (addr \<Rightarrow> Instance)) option" where
  "UseScheduler zone h ii = (
     case collect h ii zone (ii_Scheduler ii) ([], [], [], []) of (inss, ori, weights, zones) \<Rightarrow>
       if inss = [] then
         (case map_of (ii_Instances ii) zone of
            Some zins \<Rightarrow> Some (zins, h)
          | None \<Rightarrow> Some (concat (map snd (ii_Instances ii)), h))
       else do {
         fix \<leftarrow> fix_weights (common_multiple ori 1) ori zones weights Map.empty;
         h \<leftarrow> reweight fix inss h;
         Some (inss, h)
       })"

subsection \<open>The contract of a registration\<close>

text \<open>The interface \<^verbatim>\<open>Registry\<close> of the package: \<open>register ins a s\<close> registers an instance, \<open>a\<close> being what the
  environment answers; \<open>names\<close> are the registered services. A service is registered at most once, and a
  registration that failed leaves no trace in the names. The outcomes of a sequence of
  registrations:\<close>

fun registers :: "('i \<Rightarrow> 'a \<Rightarrow> 's \<Rightarrow> ('e option \<times> 's) option) \<Rightarrow> ('i \<times> 'a) list \<Rightarrow> 's \<Rightarrow> ('i list \<times> 's) option" where
  "registers reg [] s = Some ([], s)"
| "registers reg ((i, a) # xs) s = do {
     (e, s) \<leftarrow> reg i a s;
     (acc, s) \<leftarrow> registers reg xs s;
     Some (if e = None then i # acc else acc, s)
   }"

text \<open>The first loop in closed form.\<close>

definition dst_of :: "string \<Rightarrow> Zone list \<Rightarrow> (string \<times> int) list" where
  "dst_of zone schs = concat (map z_Dst (filter (\<lambda>sch. z_Src sch = zone) schs))"

definition dst_lists :: "InstancesInfo \<Rightarrow> (string \<times> int) list \<Rightarrow> addr list list" where
  "dst_lists ii dst = List.map_filter (\<lambda>d. map_of (ii_Instances ii) (fst d)) dst"

text \<open>An instance without its weight: the scheduler changes nothing else.\<close>

definition unweighted :: "Instance \<Rightarrow> Instance" where
  "unweighted i = i\<lparr>in_Metadata := map_option (\<lambda>m. m(MetaWeight := None)) (in_Metadata i)\<rparr>"

text \<open>Without overflow, the weights of the instances of a zone add up to the weight that the schedule
  gives the zone, times a factor that is the same for all zones.\<close>

definition wsum :: "(addr \<Rightarrow> Instance) \<Rightarrow> addr list \<Rightarrow> int" where
  "wsum h as = sum_list (map (\<lambda>a. weight_of (h a)) as)"

definition new_weight :: "(string \<rightharpoonup> int) \<Rightarrow> Instance \<Rightarrow> int" where
  "new_weight fix i = (case fix (in_Zone i) of None \<Rightarrow> weight_of i | Some f \<Rightarrow> i64 (weight_of i * f))"

text \<open>A schedule that can be carried out: every zone it names has instances, listed once and under
  their zone, with metadata, and the products stay below \<open>2 ^ 63\<close>.\<close>

definition schedulable :: "(addr \<Rightarrow> Instance) \<Rightarrow> InstancesInfo \<Rightarrow> (string \<times> int) list \<Rightarrow> bool" where
  "schedulable h ii dst \<longleftrightarrow> distinct (map fst dst) \<and> distinct (concat (dst_lists ii dst))
     \<and> (\<forall>(z, w) \<in> set dst. 1 \<le> w \<and> w * prod_list (map (wsum h) (dst_lists ii dst)) < 2 ^ 63
         \<and> (case map_of (ii_Instances ii) z of None \<Rightarrow> False | Some as \<Rightarrow>
              as \<noteq> [] \<and> (\<forall>a \<in> set as. in_Zone (h a) = z \<and> in_Metadata (h a) \<noteq> None)))"

definition zone_ins :: "InstancesInfo \<Rightarrow> string \<Rightarrow> addr list" where
  "zone_ins ii z = the (map_of (ii_Instances ii) z)"

definition factor :: "(addr \<Rightarrow> Instance) \<Rightarrow> InstancesInfo \<Rightarrow> (string \<times> int) list \<Rightarrow> int" where
  "factor h ii dst = prod_list (map (wsum h) (dst_lists ii dst))"

definition scheduled :: "(addr \<Rightarrow> Instance) \<Rightarrow> InstancesInfo \<Rightarrow> (string \<times> int) list \<Rightarrow> (string \<times> int \<times> int) list" where
  "scheduled h ii dst = map (\<lambda>d. (fst d, snd d, wsum h (zone_ins ii (fst d)))) dst"

text \<open>The two laws of the interface.\<close>

locale registration =
  fixes reg :: "'i \<Rightarrow> 'a \<Rightarrow> 's \<Rightarrow> ('e option \<times> 's) option" and sid :: "'i \<Rightarrow> string"
    and names :: "'s \<Rightarrow> string set" and duplicate :: 'e and inv :: "'s \<Rightarrow> bool"
  assumes again: "sid i \<in> names s \<Longrightarrow> reg i a s = Some (Some duplicate, s)"
    and fresh: "inv s \<Longrightarrow> sid i \<notin> names s \<Longrightarrow> \<exists>e s'. reg i a s = Some (e, s') \<and> inv s' \<and> e \<noteq> Some duplicate
      \<and> names s' = (if e = None then insert (sid i) (names s) else names s)"
begin

lemma total: "inv s \<Longrightarrow> \<exists>e s'. reg i a s = Some (e, s') \<and> inv s'"
  using again [of i s a] fresh [of s i a] by blast

lemma registers_total: "inv s \<Longrightarrow> \<exists>acc s'. registers reg xs s = Some (acc, s') \<and> inv s'"
proof (induction xs arbitrary: s)
  case (Cons x xs)
  then show ?case using total [of s "fst x" "snd x"] by (cases x) fastforce
qed simp

lemma duplicate_iff:
  assumes "inv s" "reg i a s = Some (e, s')"
  shows "e = Some duplicate \<longleftrightarrow> sid i \<in> names s"
  using assms again [of i s a] fresh [of s i a] by auto

lemma registers_names:
  assumes "inv s" "registers reg xs s = Some (acc, s')"
  shows "distinct (map sid acc) \<and> sid ` set acc \<inter> names s = {} \<and> names s' = names s \<union> sid ` set acc"
  using assms
proof (induction xs arbitrary: s acc)
  case (Cons x xs)
  obtain i a where x: "x = (i, a)" by (cases x)
  from Cons.prems obtain e s1 acc1 where r: "reg i a s = Some (e, s1)" "registers reg xs s1 = Some (acc1, s')"
    "acc = (if e = None then i # acc1 else acc1)"
    by (auto simp: x bind_eq_Some_conv)
  have "inv s1" using total [OF Cons.prems(1), of i a] r(1) by simp
  note IH = Cons.IH [OF this r(2)]
  have "names s1 = (if e = None then insert (sid i) (names s) else names s)" "e = None \<Longrightarrow> sid i \<notin> names s"
    using again [of i s a] fresh [OF Cons.prems(1), of i a] r(1) by (cases "sid i \<in> names s"; simp)+
  then show ?case using IH r(3) by (auto split: if_splits)
qed simp

end

text \<open>A client whose other steps keep the registered names: what is registered stays so.\<close>

locale registration_life = registration +
  fixes stepr :: "'s \<Rightarrow> 's \<Rightarrow> bool"
  assumes step_names: "inv s \<Longrightarrow> stepr s s' \<Longrightarrow> inv s' \<and> names s \<subseteq> names s'"
begin

lemma steps_names: "stepr\<^sup>*\<^sup>* s s' \<Longrightarrow> inv s \<Longrightarrow> inv s' \<and> names s \<subseteq> names s'"
  by (induction rule: rtranclp_induct) (use step_names in blast)+

lemma never_again:
  assumes "inv s" "reg i a s = Some (None, s1)" "stepr\<^sup>*\<^sup>* s1 s2"
  shows "reg i b s2 = Some (Some duplicate, s2)"
proof -
  have "sid i \<notin> names s" using duplicate_iff [OF assms(1,2)] again [of i s a] assms(2) by auto
  then have "inv s1" "sid i \<in> names s1" using fresh [OF assms(1), of i a] assms(2) by auto
  then show ?thesis using steps_names [OF assms(3)] by (blast intro: again)
qed

end

subsection \<open>What the scheduler does\<close>

text \<open>Without a schedule for the zone, the instances of the zone, or all of them, unchanged.\<close>

lemma collect_none:
  "\<forall>sch \<in> set schs. z_Src sch \<noteq> zone \<Longrightarrow> collect h ii zone schs acc = acc"
  by (induction schs arbitrary: acc) auto

lemma UseScheduler_plain:
  assumes "\<forall>sch \<in> set (ii_Scheduler ii). z_Src sch \<noteq> zone"
  shows "UseScheduler zone h ii = Some (case map_of (ii_Instances ii) zone of
    Some zins \<Rightarrow> zins | None \<Rightarrow> concat (map snd (ii_Instances ii)), h)"
  using collect_none [OF assms] by (auto simp: UseScheduler_def split: option.splits)

lemma collect_dst_eq:
  "collect_dst h ii dst (inss, ori, ws, zs) =
    (inss @ concat (dst_lists ii dst), ori @ map (\<lambda>l. total_weight h l 0) (dst_lists ii dst),
     ws @ map snd dst, zs @ map fst dst)"
  by (induction dst arbitrary: inss ori ws zs)
    (auto simp: dst_lists_def List.map_filter_simps split: option.splits)

lemma collect_eq:
  "collect h ii zone schs (inss, ori, ws, zs) =
    (inss @ concat (dst_lists ii (dst_of zone schs)),
     ori @ map (\<lambda>l. total_weight h l 0) (dst_lists ii (dst_of zone schs)),
     ws @ map snd (dst_of zone schs), zs @ map fst (dst_of zone schs))"
  by (induction schs arbitrary: inss ori ws zs)
    (auto simp: dst_of_def collect_dst_eq dst_lists_def List.map_filter_def)

lemma fix_weights_short:
  "length ori < length zones \<Longrightarrow> fix_weights com ori zones ws m = None"
  by (induction com ori zones ws m rule: fix_weights.induct) auto

lemma length_dst_lists:
  "length (dst_lists ii dst) = length (filter (\<lambda>d. map_of (ii_Instances ii) (fst d) \<noteq> None) dst)"
  by (induction dst) (auto simp: dst_lists_def List.map_filter_simps)

text \<open>A schedule that names a zone without instances panics, as soon as another zone has some:
  the weights are indexed by the zones that were found.\<close>

lemma UseScheduler_missing_zone:
  assumes "concat (dst_lists ii (dst_of zone (ii_Scheduler ii))) \<noteq> []"
    and "d \<in> set (dst_of zone (ii_Scheduler ii))" "map_of (ii_Instances ii) (fst d) = None"
  shows "UseScheduler zone h ii = None"
proof -
  let ?dst = "dst_of zone (ii_Scheduler ii)"
  have "length (filter (\<lambda>d. map_of (ii_Instances ii) (fst d) \<noteq> None) ?dst) < length ?dst"
    using assms(2,3) by (intro length_filter_less) auto
  then have "length (map (\<lambda>l. total_weight h l 0) (dst_lists ii ?dst)) < length (map fst ?dst)"
    by (simp add: length_dst_lists)
  from fix_weights_short [OF this] show ?thesis
    using assms(1) by (simp add: UseScheduler_def collect_eq del: concat_eq_Nil_conv)
qed

lemma reweight_frame:
  "reweight fix as h = Some h' \<Longrightarrow> (\<forall>a. unweighted (h' a) = unweighted (h a)) \<and> (\<forall>a. a \<notin> set as \<longrightarrow> h' a = h a)"
proof (induction as arbitrary: h)
  case (Cons a as)
  from Cons.prems obtain m w where m: "in_Metadata (h a) = Some m"
    "reweight fix as (h(a := (h a)\<lparr>in_Metadata := Some (m(MetaWeight \<mapsto> w))\<rparr>)) = Some h'"
    by (auto simp: Let_def split: option.splits)
  have "unweighted ((h a)\<lparr>in_Metadata := Some (m(MetaWeight \<mapsto> w))\<rparr>) = unweighted (h a)"
    using m(1) by (simp add: unweighted_def)
  then show ?case using Cons.IH [OF m(2)] by auto
qed simp

lemma UseScheduler_frame:
  assumes "UseScheduler zone h ii = Some (inss, h')"
  shows "\<forall>a. unweighted (h' a) = unweighted (h a)" "\<forall>a. a \<notin> set inss \<longrightarrow> h' a = h a"
    "concat (dst_lists ii (dst_of zone (ii_Scheduler ii))) \<noteq> [] \<Longrightarrow>
       inss = concat (dst_lists ii (dst_of zone (ii_Scheduler ii)))"
  using assms reweight_frame
  by (auto simp: UseScheduler_def collect_eq bind_eq_Some_conv simp del: concat_eq_Nil_conv
      split: option.splits if_splits)

subsection \<open>The shares of the zones\<close>

lemma wsum_simps [simp]: "wsum h [] = 0" "wsum h (a # as) = weight_of (h a) + wsum h as"
  by (simp_all add: wsum_def)

lemma weight_of_pos: "1 \<le> weight_of i"
  by (simp add: weight_of_def Let_def)

lemma wsum_nonneg: "0 \<le> wsum h as"
proof (induction as)
  case (Cons a as)
  then show ?case using weight_of_pos [of "h a"] by simp
qed simp

lemma wsum_pos: "as \<noteq> [] \<Longrightarrow> 1 \<le> wsum h as"
  using weight_of_pos [of "h (hd as)"] wsum_nonneg [of h "tl as"] by (cases as) auto

lemma weight_le_wsum: "a \<in> set as \<Longrightarrow> weight_of (h a) \<le> wsum h as"
proof (induction as)
  case (Cons b as)
  then show ?case using weight_of_pos [of "h b"] wsum_nonneg [of h as] by auto
qed simp

lemma total_weight_exact:
  "0 \<le> t \<Longrightarrow> t + wsum h as < 2 ^ 63 \<Longrightarrow> total_weight h as t = t + wsum h as"
proof (induction as arbitrary: t)
  case (Cons a as)
  have "t + weight_of (h a) < 2 ^ 63" "0 \<le> t + weight_of (h a)"
    using Cons.prems weight_of_pos [of "h a"] wsum_nonneg [of h as] by simp_all
  then show ?case using Cons by (simp add: i64_id algebra_simps)
qed simp

lemma prod_list_pos: "\<forall>w \<in> set ws. (1 :: int) \<le> w \<Longrightarrow> 1 \<le> prod_list ws"
proof (induction ws)
  case (Cons w ws)
  then show ?case using mult_mono [of 1 w 1 "prod_list ws"] by simp
qed simp

lemma le_prod_list: "\<forall>w \<in> set ws. (1 :: int) \<le> w \<Longrightarrow> w \<in> set ws \<Longrightarrow> w \<le> prod_list ws"
proof (induction ws)
  case (Cons v ws)
  have "1 \<le> v" "1 \<le> prod_list ws" using Cons.prems prod_list_pos [of ws] by auto
  then show ?case
    using Cons mult_mono [of 1 v w "prod_list ws"] mult_mono [of v v 1 "prod_list ws"] by auto
qed simp

lemma dvd_prod_list: "w \<in> set ws \<Longrightarrow> (w :: int) dvd prod_list ws"
  by (induction ws) auto

lemma common_multiple_exact:
  "\<forall>w \<in> set ws. 1 \<le> w \<Longrightarrow> 1 \<le> m \<Longrightarrow> m * prod_list ws < 2 ^ 63 \<Longrightarrow> common_multiple ws m = m * prod_list ws"
proof (induction ws arbitrary: m)
  case (Cons w ws)
  have p: "1 \<le> prod_list ws" using Cons.prems by (intro prod_list_pos) simp
  have w: "1 \<le> m * w" using Cons.prems mult_mono [of 1 m 1 w] by simp
  have "m * w \<le> m * w * prod_list ws" using mult_mono [of "m * w" "m * w" 1 "prod_list ws"] w p by simp
  also have "\<dots> = m * prod_list (w # ws)" by (simp add: ac_simps)
  finally have "m * w < 2 ^ 63" using Cons.prems(3) by linarith
  then have "i64 (m * w) = m * w" using w by (intro i64_id) simp_all
  then show ?case using Cons w by (simp add: ac_simps)
qed simp

text \<open>One entry per zone: its name, its scheduled weight, and its total weight.\<close>

lemma fix_weights_exact:
  "distinct (map fst zs) \<Longrightarrow> \<forall>x \<in> set zs. snd (snd x) \<noteq> 0 \<Longrightarrow>
   fix_weights com (map (\<lambda>x. snd (snd x)) zs) (map fst zs) (map (\<lambda>x. fst (snd x)) zs) m
     = Some (\<lambda>z. case map_of zs z of None \<Rightarrow> m z | Some (w, t) \<Rightarrow> Some (i64 (i64 (w * com) sdiv t)))"
proof (induction zs arbitrary: m)
  case (Cons x zs)
  obtain z w t where x: "x = (z, w, t)" by (cases x) auto
  have "map_of zs z = None" using Cons.prems x by (simp add: map_of_eq_None_iff image_iff)
  then show ?case using Cons x by (auto simp: fun_eq_iff split: option.splits)
qed simp

lemma reweight_Cons:
  "in_Metadata (h a) = Some m \<Longrightarrow> reweight fix (a # as) h
    = reweight fix as (h(a := (h a)\<lparr>in_Metadata := Some (m(MetaWeight \<mapsto> FormatInt (new_weight fix (h a))))\<rparr>))"
  by (simp add: new_weight_def Let_def)

lemma reweight_exact:
  "distinct as \<Longrightarrow> \<forall>a \<in> set as. in_Metadata (h a) \<noteq> None \<Longrightarrow>
   \<exists>h'. reweight fix as h = Some h' \<and>
     (\<forall>a \<in> set as. \<exists>m. in_Metadata (h' a) = Some m \<and> m MetaWeight = Some (FormatInt (new_weight fix (h a))))"
proof (induction as arbitrary: h)
  case (Cons a as)
  then obtain m where m: "in_Metadata (h a) = Some m" by auto
  define g where "g = h(a := (h a)\<lparr>in_Metadata := Some (m(MetaWeight \<mapsto> FormatInt (new_weight fix (h a))))\<rparr>)"
  have same: "g b = h b" if "b \<in> set as" for b using that Cons.prems by (auto simp: g_def)
  obtain h' where h': "reweight fix as g = Some h'" "\<forall>b \<in> set as. \<exists>m. in_Metadata (h' b) = Some m \<and>
     m MetaWeight = Some (FormatInt (new_weight fix (h b)))"
    using Cons.IH [of g] Cons.prems same by auto
  have "h' a = g a" using reweight_frame [OF h'(1)] Cons.prems by auto
  then have "\<exists>m. in_Metadata (h' a) = Some m \<and> m MetaWeight = Some (FormatInt (new_weight fix (h a)))"
    by (simp add: g_def)
  then show ?case using h' reweight_Cons [of h a m "fix" "as"] m by (simp add: g_def)
qed simp

lemma weight_of_formatted:
  assumes "in_Metadata i = Some m" "m MetaWeight = Some (FormatInt w)" "1 \<le> w" "w < 2 ^ 63"
  shows "weight_of i = w"
  using assms ParseInt_FormatInt [of w] by (simp add: weight_of_def)


lemma dst_lists_total:
  assumes "\<forall>d \<in> set dst. map_of (ii_Instances ii) (fst d) \<noteq> None"
  shows "dst_lists ii dst = map (\<lambda>d. the (map_of (ii_Instances ii) (fst d))) dst"
  using assms by (induction dst) (auto simp: dst_lists_def List.map_filter_simps)

lemma new_weight_exact:
  assumes w: "fix (in_Zone i) = Some (i64 (i64 (w * com) sdiv t))" "1 \<le> w" "1 \<le> com" "w * com < 2 ^ 63"
    and t: "1 \<le> t" "t dvd com" "weight_of i \<le> t"
  shows "new_weight fix i = weight_of i * (w * com div t)" "1 \<le> new_weight fix i" "new_weight fix i < 2 ^ 63"
proof -
  obtain k where k: "com = t * k" using t(2) by blast
  have k1: "1 \<le> k" using k w(3) t(1) by (metis int_one_le_iff_zero_less mult_pos_pos zero_less_mult_pos)
  have wc: "1 \<le> w * com" using mult_mono [of 1 w 1 com] w by simp
  have q: "w * com div t = w * k" using k t(1) by (simp add: ac_simps)
  have qq: "w * com sdiv t = w * k"
    using q wc t(1) by (simp add: signed_divide_int_def)
  have 1: "1 \<le> w * k" using mult_mono [of 1 w 1 k] w k1 by simp
  have 2: "weight_of i * (w * k) \<le> w * com"
    using mult_right_mono [OF t(3), of "w * k"] 1 k by (simp add: ac_simps)
  have 3: "1 \<le> weight_of i * (w * k)" using mult_mono [of 1 "weight_of i" 1 "w * k"] weight_of_pos [of i] 1 by simp
  have 4: "w * k \<le> weight_of i * (w * k)" using mult_right_mono [of 1 "weight_of i" "w * k"] weight_of_pos [of i] 1 by simp
  have "i64 (i64 (w * com) sdiv t) = w * k" "i64 (weight_of i * (w * k)) = weight_of i * (w * k)"
    using 1 2 3 4 w(4) wc by (simp_all add: i64_id qq)
  then show "new_weight fix i = weight_of i * (w * com div t)" "1 \<le> new_weight fix i" "new_weight fix i < 2 ^ 63"
    using w(1,4) 2 3 q by (simp_all add: new_weight_def)
qed

lemma schedulable_lists:
  "schedulable h ii dst \<Longrightarrow> dst_lists ii dst = map (\<lambda>d. zone_ins ii (fst d)) dst"
  using dst_lists_total [of dst ii] by (fastforce simp: schedulable_def zone_ins_def split: option.splits)

lemma schedulable_zone:
  assumes "schedulable h ii dst" "(z, w) \<in> set dst"
  shows "1 \<le> w" "w * factor h ii dst < 2 ^ 63" "zone_ins ii z \<noteq> []"
    "a \<in> set (zone_ins ii z) \<Longrightarrow> in_Zone (h a) = z \<and> in_Metadata (h a) \<noteq> None"
    "zone_ins ii z \<in> set (dst_lists ii dst)"
  using assms schedulable_lists [OF assms(1)]
  by (force simp: schedulable_def factor_def zone_ins_def split: option.splits)+

lemma schedulable_pos:
  "schedulable h ii dst \<Longrightarrow> \<forall>w \<in> set (map (wsum h) (dst_lists ii dst)). 1 \<le> w"
  by (auto simp: schedulable_lists intro!: wsum_pos dest: schedulable_zone(3))

lemma factor_bounds:
  assumes "schedulable h ii dst" "dst \<noteq> []"
  shows "1 \<le> factor h ii dst" "factor h ii dst < 2 ^ 63"
proof -
  show 1: "1 \<le> factor h ii dst" using prod_list_pos [OF schedulable_pos [OF assms(1)]] by (simp add: factor_def)
  obtain y v where v: "(y, v) \<in> set dst" using assms(2) by (cases dst) auto
  show "factor h ii dst < 2 ^ 63"
    using schedulable_zone(1,2) [OF assms(1) v] 1 mult_right_mono [of 1 v "factor h ii dst"] by linarith
qed

lemma scheduled_weights:
  assumes ok: "schedulable h ii dst" "dst \<noteq> []"
  shows "map (\<lambda>l. total_weight h l 0) (dst_lists ii dst) = map (\<lambda>x. snd (snd x)) (scheduled h ii dst)"
    and "common_multiple (map (\<lambda>x. snd (snd x)) (scheduled h ii dst)) 1 = factor h ii dst"
    and "fix_weights com (map (\<lambda>x. snd (snd x)) (scheduled h ii dst)) (map fst dst) (map snd dst) Map.empty
      = Some (\<lambda>z. case map_of (scheduled h ii dst) z of None \<Rightarrow> None | Some (w, t) \<Rightarrow> Some (i64 (i64 (w * com) sdiv t)))"
proof -
  note pos = schedulable_pos [OF ok(1)] and lists = schedulable_lists [OF ok(1)] and b = factor_bounds [OF ok]
  have "total_weight h as 0 = wsum h as" if "as \<in> set (dst_lists ii dst)" for as
    using le_prod_list [OF pos, of "wsum h as"] that b by (simp add: total_weight_exact factor_def)
  then show "map (\<lambda>l. total_weight h l 0) (dst_lists ii dst) = map (\<lambda>x. snd (snd x)) (scheduled h ii dst)"
    by (simp add: lists scheduled_def)
  have "map (\<lambda>x. snd (snd x)) (scheduled h ii dst) = map (wsum h) (dst_lists ii dst)"
    by (simp add: lists scheduled_def)
  then show "common_multiple (map (\<lambda>x. snd (snd x)) (scheduled h ii dst)) 1 = factor h ii dst"
    using common_multiple_exact [OF pos, of 1] b by (simp add: factor_def)
  have "distinct (map fst (scheduled h ii dst))" "\<forall>x \<in> set (scheduled h ii dst). snd (snd x) \<noteq> 0"
    using ok pos by (auto simp: schedulable_def scheduled_def comp_def lists)
  from fix_weights_exact [OF this, of com Map.empty]
  show "fix_weights com (map (\<lambda>x. snd (snd x)) (scheduled h ii dst)) (map fst dst) (map snd dst) Map.empty
      = Some (\<lambda>z. case map_of (scheduled h ii dst) z of None \<Rightarrow> None | Some (w, t) \<Rightarrow> Some (i64 (i64 (w * com) sdiv t)))"
    by (simp add: scheduled_def comp_def)
qed

lemma wsum_scale:
  "\<forall>a \<in> set as. weight_of (h' a) = weight_of (h a) * k \<Longrightarrow> wsum h' as = wsum h as * k"
  by (induction as) (auto simp: algebra_simps)

lemma UseScheduler_shares:
  assumes ok: "schedulable h ii dst" "dst \<noteq> []" and dst: "dst = dst_of zone (ii_Scheduler ii)"
  shows "\<exists>h'. UseScheduler zone h ii = Some (concat (dst_lists ii dst), h')
    \<and> (\<forall>(z, w) \<in> set dst. wsum h' (zone_ins ii z) = w * factor h ii dst)"
proof -
  let ?com = "factor h ii dst"
  define ws where "ws = (\<lambda>z. case map_of (scheduled h ii dst) z of None \<Rightarrow> None
     | Some (w, t) \<Rightarrow> Some (i64 (i64 (w * ?com) sdiv t)))"
  have ne: "concat (dst_lists ii dst) \<noteq> []"
    using ok schedulable_zone(3,5) [OF ok(1)] by (cases dst) fastforce+
  have "\<forall>a \<in> set (concat (dst_lists ii dst)). in_Metadata (h a) \<noteq> None"
    using schedulable_zone(4) [OF ok(1)] by (fastforce simp: schedulable_lists [OF ok(1)])
  then obtain h' where h': "reweight ws (concat (dst_lists ii dst)) h = Some h'"
    "\<forall>a \<in> set (concat (dst_lists ii dst)). \<exists>m. in_Metadata (h' a) = Some m \<and> m MetaWeight = Some (FormatInt (new_weight ws (h a)))"
    using reweight_exact [of "concat (dst_lists ii dst)" h ws] ok by (auto simp: schedulable_def)
  have "wsum h' (zone_ins ii z) = w * ?com" if zw: "(z, w) \<in> set dst" for z w
  proof -
    note z = schedulable_zone [OF ok(1) zw]
    let ?t = "wsum h (zone_ins ii z)"
    have "map_of (scheduled h ii dst) z = Some (w, ?t)"
      using ok(1) zw by (auto simp: scheduled_def schedulable_def comp_def intro!: map_of_is_SomeI image_eqI [of _ _ "(z, w)"])
    then have wsz: "ws z = Some (i64 (i64 (w * ?com) sdiv ?t))" by (simp add: ws_def)
    have t: "1 \<le> ?t" "?t dvd ?com" using z(3,5) by (auto simp: factor_def intro: wsum_pos dvd_prod_list)
    have "weight_of (h' a) = weight_of (h a) * (w * ?com div ?t)" if a: "a \<in> set (zone_ins ii z)" for a
    proof -
      have "ws (in_Zone (h a)) = Some (i64 (i64 (w * ?com) sdiv ?t))" using z(4) [OF a] wsz by simp
      note n = new_weight_exact [of ws "h a" w ?com ?t, OF this z(1) factor_bounds(1) [OF ok] z(2) t weight_le_wsum [OF a, of h]]
      obtain m where "in_Metadata (h' a) = Some m" "m MetaWeight = Some (FormatInt (new_weight ws (h a)))"
        using h'(2) a z(5) by auto
      from weight_of_formatted [OF this n(2,3)] show ?thesis using n(1) by simp
    qed
    then have "wsum h' (zone_ins ii z) = ?t * (w * ?com div ?t)" by (intro wsum_scale) blast
    then show ?thesis using t(2) by (simp add: dvd_mult)
  qed
  then show ?thesis
    using scheduled_weights [OF ok] h'(1) ne dst
    by (auto simp: UseScheduler_def collect_eq ws_def simp del: concat_eq_Nil_conv)
qed

end
