(* ===== verification/Discovery.thy ===== *)
theory Discovery
  imports Registry "HOL-Library.Multiset" "HOL-Library.Sublist"
begin

section \<open>The client of the discovery service (pkg/registry/discovery)\<close>

text \<open>
  The state of the client: its configuration, the nodes of the service with the index of the
  current one, the watched applications with their resolvers, and the registered services.
  Requests go out over HTTP; the model records them (node, path, form values) and takes the
  answer of the service as an argument: no answer, or its code and data. The codes belong to
  the ecode package; which of them mean success, not found and not modified is an argument, as
  are the draws of the random generator, the environment, \<^verbatim>\<open>url.Parse\<close> and \<^verbatim>\<open>json.Marshal\<close>.

  A resolver has a channel of capacity one; \<open>rs_event\<close> says whether an event waits in it.
  \<^verbatim>\<open>serverproc\<close> is modelled by the rounds of its loop. The lemmas: an invariant of all steps,
  under which no step panics; registration; fail-over; what a poll makes visible.
\<close>

subsection \<open>State\<close>

datatype disc_error = ErrDuplication | ErrHttp | ErrCode int | ErrServer

record Resolve =
  rs_id :: string
  rs_event :: bool

record appInfo =
  ap_resolver :: "addr list"
  ap_zoneIns :: "InstancesInfo option"
  ap_lastTs :: int

record Discovery =
  d_c :: RConfig
  d_done :: bool
  d_node :: "string list option"
  d_nodeIdx :: "64 word"
  d_apps :: "(string \<times> appInfo) list"
  d_registry :: "string list"
  d_lastHost :: string
  d_ctx :: bool
  d_cancelPolls :: bool
  d_pollsCancelled :: bool
  d_retry :: nat
  d_once :: bool
  d_resolvers :: "addr \<Rightarrow> Resolve"
  d_nextResolver :: addr
  d_requests :: "(string \<times> string \<times> form) list"

text \<open>\<^verbatim>\<open>fixConfig\<close>; \<open>getenv\<close> and \<open>hostname\<close> are what the operating system answers.\<close>

definition fixConfig :: "(string \<Rightarrow> string) \<Rightarrow> string \<Rightarrow> RConfig \<Rightarrow> RConfig option" where
  "fixConfig getenv hostname c =
    (if length (rc_Nodes c) = 0 then None
     else Some (c\<lparr>rc_Region := (if rc_Region c = '''' then getenv ''REGION'' else rc_Region c),
                  rc_Zone := (if rc_Zone c = '''' then getenv ''ZONE'' else rc_Zone c),
                  rc_Env := (if rc_Env c = '''' then getenv ''DEPLOY_ENV'' else rc_Env c),
                  rc_Host := (if rc_Host c = '''' then hostname else rc_Host c)\<rparr>))"

definition Reload :: "(string \<Rightarrow> string) \<Rightarrow> string \<Rightarrow> RConfig \<Rightarrow> Discovery \<Rightarrow> Discovery option" where
  "Reload getenv hostname c d = do { c \<leftarrow> fixConfig getenv hostname c; Some (d\<lparr>d_c := c\<rparr>) }"

definition disc_Close :: "Discovery \<Rightarrow> Discovery" where
  "disc_Close d = d\<lparr>d_done := True\<rparr>"

subsection \<open>Nodes\<close>

text \<open>\<^verbatim>\<open>rand.Intn\<close> panics on 0; the draw \<open>r\<close> is taken modulo its argument.\<close>

definition pickNode :: "nat \<Rightarrow> Discovery \<Rightarrow> string option" where
  "pickNode r d = (case d_node d of
     Some (n # ns) \<Rightarrow> Some ((n # ns) ! (unat (d_nodeIdx d) mod length (n # ns)))
   | _ \<Rightarrow> if rc_Nodes (d_c d) = [] then None else Some (rc_Nodes (d_c d) ! (r mod length (rc_Nodes (d_c d)))))"

definition switchNode :: "Discovery \<Rightarrow> Discovery" where
  "switchNode d = d\<lparr>d_nodeIdx := d_nodeIdx d + 1\<rparr>"

definition tryAppendSeedNodes :: "Discovery \<Rightarrow> Discovery" where
  "tryAppendSeedNodes d = (case d_node d of
     None \<Rightarrow> d
   | Some nodes \<Rightarrow>
       let new = filter (\<lambda>n. n \<notin> set nodes) (rc_Nodes (d_c d))
       in if new \<noteq> [] then d\<lparr>d_node := Some (nodes @ new)\<rparr> else d)"

definition swap_at :: "nat \<Rightarrow> nat \<Rightarrow> 'a list \<Rightarrow> 'a list" where
  "swap_at i j xs = xs[i := xs ! j, j := xs ! i]"

fun shuffle_loop :: "(nat \<Rightarrow> nat) \<Rightarrow> nat \<Rightarrow> 'a list \<Rightarrow> 'a list" where
  "shuffle_loop r 0 xs = xs"
| "shuffle_loop r (Suc i) xs = shuffle_loop r i (swap_at (Suc i) (r (Suc i) mod (Suc i + 1)) xs)"

definition shuffle :: "(nat \<Rightarrow> nat) \<Rightarrow> 'a list \<Rightarrow> 'a list" where
  "shuffle r xs = shuffle_loop r (length xs - 1) xs"

text \<open>\<^verbatim>\<open>newSelf\<close>; \<open>host\<close> is the host that \<^verbatim>\<open>url.Parse\<close> finds.\<close>

definition newSelf ::
  "(string \<Rightarrow> string option) \<Rightarrow> (nat \<Rightarrow> nat) \<Rightarrow> (addr \<Rightarrow> Instance) \<Rightarrow> (string \<times> addr list) list \<Rightarrow> Discovery \<Rightarrow> Discovery" where
  "newSelf host r h zones d = (case map_of zones (rc_Zone (d_c d)) of
     None \<Rightarrow> d
   | Some ins \<Rightarrow>
       let nodes = List.map_filter host (concat (map (\<lambda>i. in_Addrs (h i)) ins));
           olds = length (filter (\<lambda>n. case d_node d of None \<Rightarrow> False | Some node \<Rightarrow> n \<in> set node) nodes)
       in if length nodes = olds then d else d\<lparr>d_node := Some (shuffle r nodes)\<rparr>)"

subsection \<open>Resolvers\<close>

definition upd_app :: "string \<Rightarrow> (appInfo \<Rightarrow> appInfo) \<Rightarrow> Discovery \<Rightarrow> Discovery" where
  "upd_app k f d = d\<lparr>d_apps := map (\<lambda>(k', v). if k' = k then (k', f v) else (k', v)) (d_apps d)\<rparr>"

definition set_event :: "addr \<Rightarrow> Discovery \<Rightarrow> Discovery" where
  "set_event a d = d\<lparr>d_resolvers := (d_resolvers d)(a := (d_resolvers d a)\<lparr>rs_event := True\<rparr>)\<rparr>"

definition Build :: "string \<Rightarrow> Discovery \<Rightarrow> addr \<times> Discovery" where
  "Build appid d = (
     let a = d_nextResolver d;
         d = d\<lparr>d_resolvers := (d_resolvers d)(a := \<lparr>rs_id = appid, rs_event = False\<rparr>), d_nextResolver := Suc a\<rparr>
     in case map_of (d_apps d) appid of
          Some app \<Rightarrow>
            (a, (set_event a (upd_app appid (\<lambda>v. v\<lparr>ap_resolver := ap_resolver v @ [a]\<rparr>) d))\<lparr>d_once := True\<rparr>)
        | None \<Rightarrow>
            (a, d\<lparr>d_apps := d_apps d @ [(appid, \<lparr>ap_resolver = [a], ap_zoneIns = None, ap_lastTs = 0\<rparr>)],
                  d_pollsCancelled := d_pollsCancelled d \<or> d_cancelPolls d, d_once := True\<rparr>))"

text \<open>Receiving from the channel of the resolver.\<close>

definition Watch_recv :: "addr \<Rightarrow> Discovery \<Rightarrow> bool \<times> Discovery" where
  "Watch_recv a d = (rs_event (d_resolvers d a),
     d\<lparr>d_resolvers := (d_resolvers d)(a := (d_resolvers d a)\<lparr>rs_event := False\<rparr>)\<rparr>)"

definition Fetch :: "addr \<Rightarrow> Discovery \<Rightarrow> InstancesInfo option" where
  "Fetch a d = (case map_of (d_apps d) (rs_id (d_resolvers d a)) of None \<Rightarrow> None | Some app \<Rightarrow> ap_zoneIns app)"

definition Resolve_Close :: "addr \<Rightarrow> Discovery \<Rightarrow> Discovery" where
  "Resolve_Close a d =
    upd_app (rs_id (d_resolvers d a)) (\<lambda>v. v\<lparr>ap_resolver := filter (\<lambda>b. b \<noteq> a) (ap_resolver v)\<rparr>) d"

definition IsIgnored :: "string \<Rightarrow> bool" where
  "IsIgnored appid \<longleftrightarrow> appid = ''nmid.registry.infra.discovery'' \<or> prefix ''ignore.app'' appid"

definition GetAppList :: "Discovery \<Rightarrow> string list" where
  "GetAppList d = filter (\<lambda>k. \<not> IsIgnored k) (map fst (d_apps d))"

subsection \<open>Requests\<close>

definition newParams :: "RConfig \<Rightarrow> form" where
  "newParams c = [(''region'', [rc_Region c]), (''zone'', [rc_Zone c]), (''env'', [rc_Env c]), (''hostname'', [rc_Host c])]"

text \<open>The common part of the requests that answer a code: the node, the request, the answer.
  A request that fails moves on to the next node.\<close>

definition post :: "Ecode \<Rightarrow> nat \<Rightarrow> string \<Rightarrow> form \<Rightarrow> unit http_answer \<Rightarrow> Discovery \<Rightarrow> (disc_error option \<times> Discovery) option" where
  "post ec r path params ans d = do {
     node \<leftarrow> pickNode r d;
     let d = d\<lparr>d_requests := d_requests d @ [(node, path, params)]\<rparr>;
     Some (case ans of
       NoAnswer \<Rightarrow> (Some ErrHttp, switchNode d)
     | Answer code _ \<Rightarrow> (if ec_ok ec code then None else Some (ErrCode code), d))
   }"

definition register_params :: "((string \<rightharpoonup> string) \<Rightarrow> string) \<Rightarrow> Instance \<Rightarrow> RConfig \<Rightarrow> form" where
  "register_params marshal ins c = newParams c @ [(''appid'', [in_ServiceId ins])]
     @ (if in_Addrs ins = [] then [] else [(''addrs'', in_Addrs ins)])
     @ [(''version'', [in_Version ins]), (''status'', [''1'']),
        (''metadata'', [case in_Metadata ins of None \<Rightarrow> '''' | Some m \<Rightarrow> marshal m])]"

definition disc_register ::
  "Ecode \<Rightarrow> ((string \<rightharpoonup> string) \<Rightarrow> string) \<Rightarrow> nat \<Rightarrow> Instance \<Rightarrow> unit http_answer \<Rightarrow> Discovery \<Rightarrow> (disc_error option \<times> Discovery) option" where
  "disc_register ec marshal r ins ans d = post ec r ''register'' (register_params marshal ins (d_c d)) ans d"

definition disc_renew :: "Ecode \<Rightarrow> nat \<Rightarrow> Instance \<Rightarrow> unit http_answer \<Rightarrow> Discovery \<Rightarrow> (disc_error option \<times> Discovery) option" where
  "disc_renew ec r ins ans d = post ec r ''renew'' (newParams (d_c d) @ [(''appid'', [in_ServiceId ins])]) ans d"

definition disc_cancel :: "Ecode \<Rightarrow> nat \<Rightarrow> Instance \<Rightarrow> unit http_answer \<Rightarrow> Discovery \<Rightarrow> (disc_error option \<times> Discovery) option" where
  "disc_cancel ec r ins ans d = post ec r ''cancel'' (newParams (d_c d) @ [(''appid'', [in_ServiceId ins])]) ans d"

definition disc_set ::
  "Ecode \<Rightarrow> ((string \<rightharpoonup> string) \<Rightarrow> string) \<Rightarrow> nat \<Rightarrow> Instance \<Rightarrow> unit http_answer \<Rightarrow> Discovery \<Rightarrow> (disc_error option \<times> Discovery) option" where
  "disc_set ec marshal r ins ans d = post ec r ''set'' (newParams (d_c d)
     @ [(''appid'', [in_ServiceId ins]), (''version'', [in_Version ins]), (''status'', [''1''])]
     @ (case in_Metadata ins of None \<Rightarrow> [] | Some m \<Rightarrow> [(''metadata'', [marshal m])])) ans d"

subsection \<open>Registration\<close>

definition Register ::
  "Ecode \<Rightarrow> ((string \<rightharpoonup> string) \<Rightarrow> string) \<Rightarrow> nat \<Rightarrow> Instance \<Rightarrow> unit http_answer \<Rightarrow> Discovery \<Rightarrow> (disc_error option \<times> Discovery) option" where
  "Register ec marshal r ins ans d =
    (if in_ServiceId ins \<in> set (d_registry d) then Some (Some ErrDuplication, d)
     else do {
       (err, d) \<leftarrow> disc_register ec marshal r ins ans (d\<lparr>d_registry := d_registry d @ [in_ServiceId ins]\<rparr>);
       Some (err, if err = None then d else d\<lparr>d_registry := filter (\<lambda>s. s \<noteq> in_ServiceId ins) (d_registry d)\<rparr>)
     })"

text \<open>The goroutine of a registration: a tick of the ticker, and the end of its context.\<close>

definition Register_tick ::
  "Ecode \<Rightarrow> ((string \<rightharpoonup> string) \<Rightarrow> string) \<Rightarrow> nat \<Rightarrow> Instance \<Rightarrow> unit http_answer \<Rightarrow> unit http_answer \<Rightarrow> Discovery \<Rightarrow> Discovery option" where
  "Register_tick ec marshal r ins ans ans' d = do {
     (err, d) \<leftarrow> disc_renew ec r ins ans d;
     case err of
       Some (ErrCode code) \<Rightarrow>
         if ec_nothing_found ec code then map_option snd (disc_register ec marshal r ins ans' d) else Some d
     | _ \<Rightarrow> Some d
   }"

definition Register_done :: "Ecode \<Rightarrow> nat \<Rightarrow> Instance \<Rightarrow> unit http_answer \<Rightarrow> Discovery \<Rightarrow> Discovery option" where
  "Register_done ec r ins ans d = map_option snd (disc_cancel ec r ins ans d)"

subsection \<open>Polling\<close>

text \<open>The form of a poll, and \<^verbatim>\<open>polls\<close>: an error, or the applications that changed.\<close>

definition poll_params :: "Discovery \<Rightarrow> form" where
  "poll_params d = [(''env'', [rc_Env (d_c d)]), (''hostname'', [rc_Host (d_c d)]), (''appid'', map fst (d_apps d)),
     (''latest_timestamp'', map (\<lambda>(_, v). FormatInt (ap_lastTs v)) (d_apps d))]"

definition polls ::
  "Ecode \<Rightarrow> nat \<Rightarrow> (string \<times> InstancesInfo option) list http_answer \<Rightarrow> Discovery
    \<Rightarrow> ((disc_error + (string \<times> InstancesInfo) list) \<times> Discovery) option" where
  "polls ec r ans d = do {
     host \<leftarrow> pickNode r d;
     let d = (if host \<noteq> d_lastHost d
              then d\<lparr>d_lastHost := host, d_apps := map (\<lambda>(k, v). (k, v\<lparr>ap_lastTs := 0\<rparr>)) (d_apps d)\<rparr> else d);
     if d_apps d = [] then Some (Inr [], d)
     else do {
       let d = d\<lparr>d_requests := d_requests d @ [(host, ''polls'', poll_params d)]\<rparr>;
       Some (case ans of
         NoAnswer \<Rightarrow> (Inl ErrHttp, d)
       | Answer code data \<Rightarrow>
           if \<not> ec_ok ec code then (if ec_not_modified ec code then Inr [] else Inl (ErrCode code), d)
           else if \<exists>x \<in> set data. case snd x of None \<Rightarrow> True | Some v \<Rightarrow> ii_LastTs v = 0 then (Inl ErrServer, d)
           else (Inr (List.map_filter (\<lambda>(k, v). map_option (Pair k) v) data), d))
     }
   }"

definition live_zones :: "InstancesInfo \<Rightarrow> InstancesInfo" where
  "live_zones v = v\<lparr>ii_Instances := filter (\<lambda>(_, ins). ins \<noteq> []) (ii_Instances v)\<rparr>"

fun send_events :: "addr list \<Rightarrow> Discovery \<Rightarrow> Discovery" where
  "send_events [] d = d"
| "send_events (a # as) d = send_events as (set_event a d)"

definition broadcast_one :: "string \<times> InstancesInfo \<Rightarrow> Discovery \<Rightarrow> Discovery" where
  "broadcast_one x d = (case x of (appID, v) \<Rightarrow>
     if concat (map snd (ii_Instances v)) = [] then d
     else case map_of (d_apps d) appID of
       None \<Rightarrow> d
     | Some app \<Rightarrow>
         send_events (ap_resolver app)
           (upd_app appID (\<lambda>w. w\<lparr>ap_lastTs := ii_LastTs v, ap_zoneIns := Some (live_zones v)\<rparr>) d))"

definition disc_broadcast :: "(string \<times> InstancesInfo) list \<Rightarrow> Discovery \<Rightarrow> Discovery" where
  "disc_broadcast apps d = fold broadcast_one apps d"

text \<open>One round of \<^verbatim>\<open>serverproc\<close>; the flag says whether the loop goes on. \<open>tick\<close>: the \<^verbatim>\<open>select\<close> takes
  the case of the ticker. The variable \<^verbatim>\<open>ctx\<close> of the loop is \<open>d_ctx\<close> (is it non-nil) and
  \<open>d_pollsCancelled\<close>; it is also cancelled with the whole client. A poll whose context is
  cancelled has no answer.\<close>

definition poll_ctx :: "Discovery \<Rightarrow> Discovery" where
  "poll_ctx d = (if \<not> d_ctx d then d\<lparr>d_ctx := True, d_cancelPolls := True, d_pollsCancelled := False\<rparr> else d)"

definition poll_failed :: "bool \<Rightarrow> Discovery \<Rightarrow> Discovery" where
  "poll_failed cancelled d = (
     let d = switchNode d
     in if cancelled then d\<lparr>d_ctx := False\<rparr>
        else let nodes = (case d_node d of None \<Rightarrow> [] | Some ns \<Rightarrow> ns);
                 d = (if d_retry d \<ge> length nodes then (tryAppendSeedNodes d)\<lparr>d_retry := 0\<rparr> else d)
             in d\<lparr>d_retry := d_retry d + 1\<rparr>)"

definition serverproc ::
  "Ecode \<Rightarrow> nat \<Rightarrow> bool \<Rightarrow> (string \<times> InstancesInfo option) list http_answer \<Rightarrow> Discovery \<Rightarrow> (Discovery \<times> bool) option" where
  "serverproc ec r tick ans d = (
     let d = poll_ctx d; cancelled = (d_pollsCancelled d \<or> d_done d)
     in if d_done d \<and> \<not> tick then Some (d, False)
        else do {
          (res, d) \<leftarrow> polls ec r (if cancelled then NoAnswer else ans) (if tick then switchNode d else d);
          Some (case res of
            Inl err \<Rightarrow> poll_failed cancelled d
          | Inr apps \<Rightarrow> disc_broadcast apps (d\<lparr>d_retry := 0\<rparr>), True)
        })"

subsection \<open>The client as a whole\<close>

text \<open>\<^verbatim>\<open>NewRegistry\<close> up to the wait for its resolver; what follows the wait is a round of \<^verbatim>\<open>selfproc\<close>.
  The wait ends when an event is there; until then the round changes nothing.\<close>

definition disc_NewRegistry :: "(string \<Rightarrow> string) \<Rightarrow> string \<Rightarrow> RConfig \<Rightarrow> (addr \<times> Discovery) option" where
  "disc_NewRegistry getenv hostname c = do {
     c \<leftarrow> fixConfig getenv hostname c;
     Some (Build ''nmid.registry.infra.discovery''
       \<lparr>d_c = c, d_done = False, d_node = None, d_nodeIdx = 0, d_apps = [], d_registry = [],
        d_lastHost = '''', d_ctx = False, d_cancelPolls = False, d_pollsCancelled = False, d_retry = 0,
        d_once = False, d_resolvers = (\<lambda>_. \<lparr>rs_id = '''', rs_event = False\<rparr>), d_nextResolver = 0,
        d_requests = []\<rparr>)
   }"

definition selfproc ::
  "(string \<Rightarrow> string option) \<Rightarrow> (nat \<Rightarrow> nat) \<Rightarrow> (addr \<Rightarrow> Instance) \<Rightarrow> addr \<Rightarrow> Discovery \<Rightarrow> Discovery" where
  "selfproc host r h a d = (case Watch_recv a d of
     (False, d) \<Rightarrow> d
   | (True, d) \<Rightarrow> (case Fetch a d of None \<Rightarrow> d | Some zones \<Rightarrow> newSelf host r h (ii_Instances zones) d))"

inductive disc_step :: "Discovery \<Rightarrow> Discovery \<Rightarrow> bool" where
  build: "Build appid d = (a, d') \<Longrightarrow> disc_step d d'"
| recv: "Watch_recv a d = (b, d') \<Longrightarrow> disc_step d d'"
| close: "disc_step d (Resolve_Close a d)"
| reload: "Reload getenv hostname c d = Some d' \<Longrightarrow> disc_step d d'"
| close_all: "disc_step d (disc_Close d)"
| register: "Register ec marshal r ins ans d = Some (e, d') \<Longrightarrow> disc_step d d'"
| tick: "Register_tick ec marshal r ins ans ans' d = Some d' \<Longrightarrow> disc_step d d'"
| finish: "Register_done ec r ins ans d = Some d' \<Longrightarrow> disc_step d d'"
| set: "disc_set ec marshal r ins ans d = Some (e, d') \<Longrightarrow> disc_step d d'"
| poll: "serverproc ec r t data d = Some (d', b) \<Longrightarrow> disc_step d d'"
| self: "disc_step d (selfproc host rs h a d)"

inductive disc_reachable :: "Discovery \<Rightarrow> bool" where
  start: "disc_NewRegistry getenv hostname c = Some (a, d) \<Longrightarrow> disc_reachable d"
| step: "disc_reachable d \<Longrightarrow> disc_step d d' \<Longrightarrow> disc_reachable d'"

definition app_ok :: "addr \<Rightarrow> (addr \<Rightarrow> Resolve) \<Rightarrow> string \<Rightarrow> appInfo \<Rightarrow> bool" where
  "app_ok n rs k v \<longleftrightarrow> distinct (ap_resolver v) \<and> (\<forall>a. a \<in> set (ap_resolver v) \<longrightarrow> a < n \<and> rs_id (rs a) = k)"

definition disc_inv :: "Discovery \<Rightarrow> bool" where
  "disc_inv d \<longleftrightarrow> rc_Nodes (d_c d) \<noteq> [] \<and> d_node d \<noteq> Some [] \<and> distinct (map fst (d_apps d))
     \<and> (\<forall>k v. (k, v) \<in> set (d_apps d) \<longrightarrow> app_ok (d_nextResolver d) (d_resolvers d) k v)"

text \<open>Rounds of the poll loop that get no answer.\<close>

primrec silent_rounds :: "Ecode \<Rightarrow> nat \<Rightarrow> nat \<Rightarrow> Discovery \<Rightarrow> Discovery option" where
  "silent_rounds ec r 0 d = Some d"
| "silent_rounds ec r (Suc n) d = do { (d, _) \<leftarrow> serverproc ec r False NoAnswer d; silent_rounds ec r n d }"

definition polling :: "string list \<Rightarrow> Discovery \<Rightarrow> bool" where
  "polling ns d \<longleftrightarrow> ns \<noteq> [] \<and> d_node d = Some ns \<and> d_apps d \<noteq> [] \<and> \<not> d_done d \<and> (d_ctx d \<longrightarrow> \<not> d_pollsCancelled d)"

subsection \<open>The invariant\<close>

lemma disc_inv_frame [simp]:
  "disc_inv (d\<lparr>d_requests := q\<rparr>) = disc_inv d" "disc_inv (d\<lparr>d_registry := g\<rparr>) = disc_inv d"
  "disc_inv (d\<lparr>d_nodeIdx := i\<rparr>) = disc_inv d" "disc_inv (d\<lparr>d_done := b\<rparr>) = disc_inv d"
  "disc_inv (d\<lparr>d_lastHost := l\<rparr>) = disc_inv d" "disc_inv (d\<lparr>d_ctx := b\<rparr>) = disc_inv d"
  "disc_inv (d\<lparr>d_cancelPolls := b\<rparr>) = disc_inv d" "disc_inv (d\<lparr>d_pollsCancelled := b\<rparr>) = disc_inv d"
  "disc_inv (d\<lparr>d_retry := n\<rparr>) = disc_inv d" "disc_inv (d\<lparr>d_once := b\<rparr>) = disc_inv d"
  "disc_inv (switchNode d) = disc_inv d"
  by (simp_all add: disc_inv_def switchNode_def)

lemma upd_app_frame [simp]:
  "d_resolvers (upd_app k f d) = d_resolvers d" "d_nextResolver (upd_app k f d) = d_nextResolver d"
  "d_c (upd_app k f d) = d_c d" "d_node (upd_app k f d) = d_node d" "d_nodeIdx (upd_app k f d) = d_nodeIdx d"
  "map fst (d_apps (upd_app k f d)) = map fst (d_apps d)" "d_registry (upd_app k f d) = d_registry d"
  by (auto simp: upd_app_def)

lemma map_of_upd_app:
  "map_of (d_apps (upd_app k f d)) k' = (if k' = k then map_option f (map_of (d_apps d) k) else map_of (d_apps d) k')"
proof -
  have "map_of (map (\<lambda>(k', v). if k' = k then (k', f v) else (k', v)) xs) k'
    = (if k' = k then map_option f (map_of xs k) else map_of xs k')" for xs :: "(string \<times> appInfo) list"
    by (induction xs) auto
  then show ?thesis by (simp add: upd_app_def)
qed

lemma disc_inv_upd_app:
  assumes "disc_inv d" "\<And>v. (k, v) \<in> set (d_apps d) \<Longrightarrow> app_ok (d_nextResolver d) (d_resolvers d) k v
    \<Longrightarrow> app_ok (d_nextResolver d) (d_resolvers d) k (f v)"
  shows "disc_inv (upd_app k f d)"
proof -
  have "(k', v) \<in> set (d_apps (upd_app k f d)) \<Longrightarrow>
      (k' \<noteq> k \<and> (k', v) \<in> set (d_apps d)) \<or> (k' = k \<and> (\<exists>w. v = f w \<and> (k, w) \<in> set (d_apps d)))" for k' v
    by (auto simp: upd_app_def split: if_splits)
  then show ?thesis using assms unfolding disc_inv_def upd_app_frame by blast
qed

lemma set_event_frame [simp]:
  "d_apps (set_event a d) = d_apps d" "d_nextResolver (set_event a d) = d_nextResolver d"
  "d_c (set_event a d) = d_c d" "d_node (set_event a d) = d_node d" "d_registry (set_event a d) = d_registry d"
  "rs_id (d_resolvers (set_event a d) b) = rs_id (d_resolvers d b)"
  "rs_event (d_resolvers (set_event a d) b) = (b = a \<or> rs_event (d_resolvers d b))"
  "disc_inv (set_event a d) = disc_inv d"
  by (auto simp: set_event_def disc_inv_def app_ok_def)

lemma disc_inv_Build: "disc_inv d \<Longrightarrow> Build appid d = (a, d') \<Longrightarrow> disc_inv d'"
proof -
  assume i: "disc_inv d" and b: "Build appid d = (a, d')"
  define d1 where "d1 = d\<lparr>d_resolvers := (d_resolvers d)(d_nextResolver d := \<lparr>rs_id = appid, rs_event = False\<rparr>),
    d_nextResolver := Suc (d_nextResolver d)\<rparr>"
  have "app_ok n rs k v \<Longrightarrow> app_ok (Suc n) (rs(n := x)) k v" for n rs x k v
    by (auto simp: app_ok_def less_Suc_eq)
  then have i1: "disc_inv d1" using i by (simp add: disc_inv_def d1_def)
  have new: "d_nextResolver d \<notin> set (ap_resolver v)" if "(k, v) \<in> set (d_apps d1)" for k v
    using i that by (auto simp: disc_inv_def d1_def app_ok_def)
  show "disc_inv d'"
  proof (cases "map_of (d_apps d) appid")
    case None
    then have "appid \<notin> fst ` set (d_apps d)" by (simp add: map_of_eq_None_iff)
    moreover have "app_ok (d_nextResolver d1) (d_resolvers d1) appid
        \<lparr>ap_resolver = [d_nextResolver d], ap_zoneIns = None, ap_lastTs = 0\<rparr>"
      by (simp add: app_ok_def d1_def)
    ultimately show ?thesis using b None i1 by (auto simp: Build_def Let_def disc_inv_def d1_def)
  next
    case (Some app)
    have "disc_inv (upd_app appid (\<lambda>v. v\<lparr>ap_resolver := ap_resolver v @ [d_nextResolver d]\<rparr>) d1)"
      using i1 new by (intro disc_inv_upd_app) (auto simp: app_ok_def d1_def)
    then show ?thesis using b Some by (auto simp: Build_def Let_def d1_def)
  qed
qed

lemma disc_inv_recv: "disc_inv d \<Longrightarrow> Watch_recv a d = (b, d') \<Longrightarrow> disc_inv d'"
  by (auto simp: Watch_recv_def disc_inv_def app_ok_def)

lemma disc_inv_Resolve_Close: "disc_inv d \<Longrightarrow> disc_inv (Resolve_Close a d)"
  unfolding Resolve_Close_def by (rule disc_inv_upd_app) (auto simp: app_ok_def)

lemma disc_inv_Reload: "disc_inv d \<Longrightarrow> Reload getenv hostname c d = Some d' \<Longrightarrow> disc_inv d'"
  by (auto simp: Reload_def fixConfig_def disc_inv_def bind_eq_Some_conv split: if_splits)

lemma pickNode_total: "disc_inv d \<Longrightarrow> \<exists>n. pickNode r d = Some n"
  by (auto simp: pickNode_def disc_inv_def split: option.splits list.splits)

lemma post_total:
  assumes "disc_inv d"
  shows "\<exists>e d'. post ec r path params ans d = Some (e, d') \<and> disc_inv d' \<and> d_registry d' = d_registry d
    \<and> e \<noteq> Some ErrDuplication"
proof -
  obtain n where "pickNode r d = Some n" using pickNode_total [OF assms] by blast
  then show ?thesis using assms by (cases ans) (auto simp: post_def Let_def switchNode_def)
qed

lemmas requests = disc_register_def disc_renew_def disc_cancel_def disc_set_def

lemma tryAppendSeedNodes_inv: "disc_inv d \<Longrightarrow> disc_inv (tryAppendSeedNodes d)"
  by (auto simp: tryAppendSeedNodes_def disc_inv_def Let_def split: option.splits)

lemma length_swap_at [simp]: "length (swap_at i j xs) = length xs"
  by (simp add: swap_at_def)

lemma mset_shuffle_loop: "n < length xs \<Longrightarrow> mset (shuffle_loop r n xs) = mset xs"
proof (induction n arbitrary: xs)
  case (Suc n)
  let ?j = "r (Suc n) mod (Suc n + 1)"
  have "?j < Suc n + 1" by (rule mod_less_divisor) simp
  then have j: "?j < length xs" using Suc.prems by linarith
  have "mset (swap_at (Suc n) ?j xs) = mset xs"
    using Suc.prems j by (simp add: swap_at_def mset_swap)
  then show ?case using Suc by simp
qed simp

lemma mset_shuffle [simp]: "mset (shuffle r xs) = mset xs"
  by (cases xs) (auto simp: shuffle_def mset_shuffle_loop)

lemma newSelf_inv: "disc_inv d \<Longrightarrow> disc_inv (newSelf host r h zones d)"
proof -
  assume i: "disc_inv d"
  have "shuffle r nodes = [] \<longleftrightarrow> nodes = []" for nodes :: "string list"
    using mset_shuffle [of r nodes] by (metis mset_zero_iff)
  then show ?thesis using i by (auto simp: newSelf_def disc_inv_def Let_def split: option.splits)
qed

lemma send_events_frame [simp]:
  "d_apps (send_events as d) = d_apps d" "disc_inv (send_events as d) = disc_inv d"
  "d_registry (send_events as d) = d_registry d"
  "rs_id (d_resolvers (send_events as d) b) = rs_id (d_resolvers d b)"
  "rs_event (d_resolvers (send_events as d) b) = (b \<in> set as \<or> rs_event (d_resolvers d b))"
  by (induction "as" arbitrary: d) auto

lemma broadcast_one_inv: "disc_inv d \<Longrightarrow> disc_inv (broadcast_one x d)"
proof -
  assume i: "disc_inv d"
  have "disc_inv (upd_app k (\<lambda>w. w\<lparr>ap_lastTs := t, ap_zoneIns := z\<rparr>) d)" for k t z
    using i by (intro disc_inv_upd_app) (auto simp: app_ok_def)
  then show ?thesis using i by (auto simp: broadcast_one_def split: prod.splits option.splits)
qed

lemma disc_broadcast_inv: "disc_inv d \<Longrightarrow> disc_inv (disc_broadcast apps d)"
  unfolding disc_broadcast_def by (induction apps arbitrary: d) (auto intro: broadcast_one_inv)

lemma broadcast_registry: "d_registry (disc_broadcast apps d) = d_registry d"
proof -
  have "d_registry (broadcast_one x d) = d_registry d" for x d
    by (auto simp: broadcast_one_def split: prod.splits option.splits)
  then show ?thesis unfolding disc_broadcast_def by (induction apps arbitrary: d) simp_all
qed

lemma poll_registry [simp]:
  "d_registry (poll_ctx d) = d_registry d" "d_registry (switchNode d) = d_registry d"
  "d_registry (tryAppendSeedNodes d) = d_registry d"
  by (simp_all add: poll_ctx_def switchNode_def tryAppendSeedNodes_def Let_def split: option.splits)

lemma poll_failed_registry [simp]: "d_registry (poll_failed c d) = d_registry d"
  by (simp add: poll_failed_def Let_def)

lemma post_registry: "post ec r path params ans d = Some (e, d') \<Longrightarrow> d_registry d' = d_registry d"
  by (cases ans) (auto simp: post_def Let_def bind_eq_Some_conv)

lemma post_inv: "post ec r path params ans d = Some (e, d') \<Longrightarrow> disc_inv d \<Longrightarrow> disc_inv d'"
  using post_total [of d ec r path params ans] by simp

lemma polls_total:
  assumes "disc_inv d"
  shows "\<exists>res d'. polls ec r ans d = Some (res, d') \<and> disc_inv d' \<and> d_registry d' = d_registry d"
proof -
  obtain host where h: "pickNode r d = Some host" using pickNode_total [OF assms] by blast
  let ?d = "if host \<noteq> d_lastHost d
    then d\<lparr>d_lastHost := host, d_apps := map (\<lambda>(k, v). (k, v\<lparr>ap_lastTs := 0\<rparr>)) (d_apps d)\<rparr> else d"
  have "fst \<circ> (\<lambda>(k, v). (k, v\<lparr>ap_lastTs := 0\<rparr>)) = (fst :: string \<times> appInfo \<Rightarrow> string)"
    by (auto simp: fun_eq_iff)
  then have i: "disc_inv ?d"
    using assms by (auto simp: disc_inv_def app_ok_def)
  show ?thesis
  proof (cases "d_apps ?d = []")
    case True
    then have "polls ec r ans d = Some (Inr [], ?d)" using h by (simp add: polls_def Let_def)
    with i show ?thesis by auto
  next
    case False
    let ?d' = "?d\<lparr>d_requests := d_requests ?d @ [(host, ''polls'', poll_params ?d)]\<rparr>"
    have "\<exists>res. polls ec r ans d = Some (res, ?d')"
      using h False by (cases ans) (simp_all add: polls_def Let_def split: if_splits)
    moreover have "disc_inv ?d' \<and> d_registry ?d' = d_registry d" using i by simp
    ultimately show ?thesis by blast
  qed
qed

lemma poll_ctx_inv [simp]: "disc_inv (poll_ctx d) = disc_inv d"
  by (simp add: poll_ctx_def)

lemma poll_failed_inv: "disc_inv d \<Longrightarrow> disc_inv (poll_failed cancelled d)"
  by (simp add: poll_failed_def Let_def tryAppendSeedNodes_inv)

lemma serverproc_total:
  assumes "disc_inv d"
  shows "\<exists>d' b. serverproc ec r t ans d = Some (d', b) \<and> disc_inv d' \<and> d_registry d' = d_registry d"
proof (cases "d_done (poll_ctx d) \<and> \<not> t")
  case True
  then have "serverproc ec r t ans d = Some (poll_ctx d, False)" by (simp add: serverproc_def)
  then show ?thesis using assms by auto
next
  case False
  define c where "c = (d_pollsCancelled (poll_ctx d) \<or> d_done (poll_ctx d))"
  obtain res d3 where p: "polls ec r (if c then NoAnswer else ans) (if t then switchNode (poll_ctx d) else poll_ctx d) = Some (res, d3)"
    "disc_inv d3" "d_registry d3 = d_registry d"
    using polls_total [of "if t then switchNode (poll_ctx d) else poll_ctx d"] assms
    by (metis disc_inv_frame(11) poll_ctx_inv poll_registry(1,2))
  have "serverproc ec r t ans d = Some (case res of Inl err \<Rightarrow> poll_failed c d3
      | Inr apps \<Rightarrow> disc_broadcast apps (d3\<lparr>d_retry := 0\<rparr>), True)"
    using p(1) False by (simp only: serverproc_def Let_def c_def [symmetric] if_False) simp
  then show ?thesis using p(2,3) by (auto simp: poll_failed_inv disc_broadcast_inv broadcast_registry split: sum.splits)
qed

lemma Register_total:
  assumes "disc_inv d" "in_ServiceId ins \<notin> set (d_registry d)"
  shows "\<exists>e d'. Register ec marshal r ins ans d = Some (e, d') \<and> disc_inv d' \<and> e \<noteq> Some ErrDuplication
     \<and> set (d_registry d') = (if e = None then insert (in_ServiceId ins) (set (d_registry d)) else set (d_registry d))"
proof -
  let ?d = "d\<lparr>d_registry := d_registry d @ [in_ServiceId ins]\<rparr>"
  obtain e d' where "post ec r ''register'' (register_params marshal ins (d_c d)) ans ?d = Some (e, d')"
    "disc_inv d'" "d_registry d' = d_registry ?d" "e \<noteq> Some ErrDuplication"
    using post_total [of ?d ec r "''register''" "register_params marshal ins (d_c d)" ans] assms(1) by auto
  then show ?thesis using assms(2) by (auto simp: Register_def requests)
qed

interpretation disc: registration "\<lambda>ins (r, ans). Register ec marshal r ins ans" in_ServiceId
  "\<lambda>d. set (d_registry d)" ErrDuplication disc_inv for ec marshal
proof (unfold_locales, goal_cases)
  case (1 i s a)
  then show ?case by (simp add: Register_def split: prod.split)
next
  case (2 s i a)
  then show ?case by (cases a) (simp only: prod.case, rule Register_total)
qed

lemma Register_tick_total:
  assumes "disc_inv d"
  shows "\<exists>d'. Register_tick ec marshal r ins ans ans' d = Some d' \<and> disc_inv d' \<and> d_registry d' = d_registry d"
proof -
  obtain e d1 where p: "disc_renew ec r ins ans d = Some (e, d1)" "disc_inv d1" "d_registry d1 = d_registry d"
    using post_total [OF assms] unfolding requests by blast
  obtain e2 d2 where q: "disc_register ec marshal r ins ans' d1 = Some (e2, d2)" "disc_inv d2" "d_registry d2 = d_registry d1"
    using post_total [OF p(2)] unfolding requests by blast
  show ?thesis using p q by (auto simp: Register_tick_def split: option.splits disc_error.splits)
qed

lemma Register_done_total:
  assumes "disc_inv d"
  shows "\<exists>d'. Register_done ec r ins ans d = Some d' \<and> disc_inv d' \<and> d_registry d' = d_registry d"
  using post_total [OF assms, of ec r "''cancel''" _ ans] by (fastforce simp: Register_done_def requests)

lemma selfproc_inv: "disc_inv d \<Longrightarrow> disc_inv (selfproc host r h a d)"
  using disc_inv_recv [of d a] by (fastforce simp: selfproc_def intro: newSelf_inv split: prod.splits bool.splits option.splits)

lemma disc_step_inv: "disc_step d d' \<Longrightarrow> disc_inv d \<Longrightarrow> disc_inv d'"
proof (induction rule: disc_step.induct)
  case (register ec marshal r ins ans d e d')
  then show ?case using disc.total [where s = d and i = ins and a = "(r, ans)" and ec = ec and marshal = marshal] by simp
next
  case (tick ec marshal r ins ans ans' d d')
  then show ?case using Register_tick_total [of d ec marshal r ins ans ans'] by simp
next
  case (finish ec r ins ans d d')
  then show ?case using Register_done_total [of d ec r ins ans] by simp
next
  case (set ec marshal r ins ans d e d')
  then show ?case unfolding requests by (auto intro: post_inv)
next
  case (poll ec r t data d d' b)
  then show ?case using serverproc_total [of d ec r t data] by simp
qed (auto simp: disc_Close_def intro: disc_inv_Build disc_inv_recv disc_inv_Resolve_Close disc_inv_Reload selfproc_inv)

lemma fixConfig_Nodes: "fixConfig getenv hostname c = Some c' \<Longrightarrow> rc_Nodes c' = rc_Nodes c \<and> rc_Nodes c \<noteq> []"
  by (auto simp: fixConfig_def split: if_splits)

lemma disc_inv_NewRegistry:
  assumes "disc_NewRegistry getenv hostname c = Some (a, d)"
  shows "disc_inv d"
proof -
  obtain c' where c: "fixConfig getenv hostname c = Some c'"
    using assms by (auto simp: disc_NewRegistry_def bind_eq_Some_conv)
  note b = assms [unfolded disc_NewRegistry_def c, simplified]
  show ?thesis by (rule disc_inv_Build [OF _ b]) (use fixConfig_Nodes [OF c] in \<open>simp add: disc_inv_def\<close>)
qed

lemma disc_reachable_inv: "disc_reachable d \<Longrightarrow> disc_inv d"
  by (induction rule: disc_reachable.induct) (auto intro: disc_inv_NewRegistry disc_step_inv)

text \<open>No step takes a name out of the registry, not even the end of a registration.\<close>

lemma disc_step_registry: "disc_step d d' \<Longrightarrow> disc_inv d \<Longrightarrow> set (d_registry d) \<subseteq> set (d_registry d')"
proof (induction rule: disc_step.induct)
  case (register ec marshal r ins ans d e d')
  then show ?case
    using Register_total [of d ins ec marshal r ans] by (cases "in_ServiceId ins \<in> set (d_registry d)") (auto simp: Register_def)
next
  case (tick ec marshal r ins ans ans' d d')
  then show ?case using Register_tick_total [of d ec marshal r ins ans ans'] by simp
next
  case (finish ec r ins ans d d')
  then show ?case using Register_done_total [of d ec r ins ans] by simp
next
  case (set ec marshal r ins ans d e d')
  then show ?case unfolding requests by (auto dest: post_registry)
next
  case (poll ec r t data d d' b)
  then show ?case using serverproc_total [of d ec r t data] by simp
next
  case (build appid d a d')
  then show ?case by (auto simp: Build_def Let_def split: option.splits)
next
  case (self d host rs h a)
  then show ?case
    by (auto simp: selfproc_def newSelf_def Watch_recv_def Let_def split: bool.splits option.splits)
qed (auto simp: Watch_recv_def Resolve_Close_def Reload_def disc_Close_def bind_eq_Some_conv)

interpretation disc_life: registration_life "\<lambda>ins (r, ans). Register ec marshal r ins ans" in_ServiceId
  "\<lambda>d. set (d_registry d)" ErrDuplication disc_inv disc_step for ec marshal
  by unfold_locales (blast intro: disc_step_inv dest: disc_step_registry)

subsection \<open>What a poll makes visible\<close>

lemma map_of_broadcast_other:
  "fst x \<noteq> k \<Longrightarrow> map_of (d_apps (broadcast_one x d)) k = map_of (d_apps d) k"
  by (auto simp: broadcast_one_def map_of_upd_app split: prod.splits option.splits)

lemma ap_resolver_broadcast:
  "map_option ap_resolver (map_of (d_apps (broadcast_one x d)) k) = map_option ap_resolver (map_of (d_apps d) k)"
  by (cases "map_of (d_apps d) k") (auto simp: broadcast_one_def map_of_upd_app split: prod.splits option.splits)

lemma rs_id_broadcast: "rs_id (d_resolvers (broadcast_one x d) a) = rs_id (d_resolvers d a)"
  by (auto simp: broadcast_one_def split: prod.splits option.splits)

lemma rs_event_broadcast: "rs_event (d_resolvers d a) \<Longrightarrow> rs_event (d_resolvers (broadcast_one x d) a)"
  by (auto simp: broadcast_one_def split: prod.splits option.splits)

lemma broadcast_rest:
  assumes "k \<notin> fst ` set xs"
  shows "map_of (d_apps (fold broadcast_one xs d)) k = map_of (d_apps d) k
    \<and> rs_id (d_resolvers (fold broadcast_one xs d) a) = rs_id (d_resolvers d a)
    \<and> (rs_event (d_resolvers d a) \<longrightarrow> rs_event (d_resolvers (fold broadcast_one xs d) a))"
  using assms
proof (induction xs arbitrary: d)
  case (Cons x xs)
  then show ?case using map_of_broadcast_other [of x k d] by (auto simp: rs_id_broadcast rs_event_broadcast)
qed simp

lemma broadcast_visible:
  assumes "distinct (map fst apps)" "(k, v) \<in> set apps" "concat (map snd (ii_Instances v)) \<noteq> []"
    and "map_of (d_apps d) k = Some app" "a \<in> set (ap_resolver app)" "rs_id (d_resolvers d a) = k"
  shows "Fetch a (disc_broadcast apps d) = Some (live_zones v) \<and> rs_event (d_resolvers (disc_broadcast apps d) a)"
  using assms
proof (induction apps arbitrary: d app)
  case (Cons x xs)
  show ?case
  proof (cases "x = (k, v)")
    case True
    let ?d = "broadcast_one x d"
    have "k \<notin> fst ` set xs" using Cons.prems(1) True by (simp add: image_iff)
    note rest = broadcast_rest [OF this, of ?d a]
    have "map_of (d_apps ?d) k = Some (app\<lparr>ap_lastTs := ii_LastTs v, ap_zoneIns := Some (live_zones v)\<rparr>)"
      "rs_id (d_resolvers ?d a) = k" "rs_event (d_resolvers ?d a)"
      using Cons.prems(3-6) True by (auto simp: broadcast_one_def map_of_upd_app simp del: concat_eq_Nil_conv)
    then show ?thesis using rest by (simp add: disc_broadcast_def Fetch_def)
  next
    case False
    then have kv: "(k, v) \<in> set xs" using Cons.prems(2) by auto
    obtain app' where "map_of (d_apps (broadcast_one x d)) k = Some app'" "ap_resolver app' = ap_resolver app"
      using ap_resolver_broadcast [of x d k] Cons.prems(4) by auto
    then show ?thesis
      using Cons.IH [of "broadcast_one x d" app'] Cons.prems kv by (simp add: disc_broadcast_def rs_id_broadcast)
  qed
qed simp

text \<open>A poll that is answered, before the broadcast: the resolvers are what they were.\<close>

lemma polls_answered:
  assumes "disc_inv d" "d_apps d \<noteq> []" "ec_ok ec code" "\<forall>x \<in> set data. ii_LastTs (snd x) \<noteq> 0"
  shows "\<exists>d'. polls ec r (Answer code (map (\<lambda>(k, v). (k, Some v)) data)) d = Some (Inr data, d')
    \<and> d_resolvers d' = d_resolvers d
    \<and> (\<forall>k. map_option ap_resolver (map_of (d_apps d') k) = map_option ap_resolver (map_of (d_apps d) k))"
proof -
  obtain host where h: "pickNode r d = Some host" using pickNode_total [OF assms(1)] by blast
  have m: "map_option ap_resolver (map_of (map (\<lambda>(k, v). (k, v\<lparr>ap_lastTs := 0\<rparr>)) xs) k) = map_option ap_resolver (map_of xs k)"
    for xs :: "(string \<times> appInfo) list" and k
    by (induction xs) auto
  have f: "List.map_filter (\<lambda>(k, v). map_option (Pair k) v) (map (\<lambda>(k, v). (k, Some v)) xs) = xs"
    for xs :: "(string \<times> InstancesInfo) list"
    by (induction xs) (auto simp: List.map_filter_simps)
  have "\<not> (\<exists>x \<in> set (map (\<lambda>(k, v). (k, Some v)) data). case snd x of None \<Rightarrow> True | Some v \<Rightarrow> ii_LastTs v = 0)"
    using assms(4) by (auto split: prod.splits)
  then show ?thesis using h assms(2,3) by (auto simp: polls_def Let_def f m)
qed

lemma poll_visible:
  assumes "disc_inv d" "\<not> d_done d" "d_ctx d \<longrightarrow> \<not> d_pollsCancelled d"
    and "map_of (d_apps d) k = Some app" "a \<in> set (ap_resolver app)"
    and "ec_ok ec code" "\<forall>x \<in> set data. ii_LastTs (snd x) \<noteq> 0" "distinct (map fst data)"
    and "(k, v) \<in> set data" "concat (map snd (ii_Instances v)) \<noteq> []"
  shows "\<exists>d'. serverproc ec r t (Answer code (map (\<lambda>(k, v). (k, Some v)) data)) d = Some (d', True)
    \<and> Fetch a d' = Some (live_zones v) \<and> fst (Watch_recv a d')"
proof -
  define d1 where "d1 = (if t then switchNode (poll_ctx d) else poll_ctx d)"
  have f: "d_apps d1 = d_apps d" "d_resolvers d1 = d_resolvers d" "disc_inv d1"
    using assms(1) by (auto simp: d1_def poll_ctx_def switchNode_def)
  have c: "\<not> d_done (poll_ctx d)" "\<not> d_pollsCancelled (poll_ctx d)" using assms(2,3) by (auto simp: poll_ctx_def)
  have "d_apps d1 \<noteq> []" using assms(4) f by auto
  from polls_answered [OF f(3) this assms(6,7), of r] obtain d2 where
    p: "polls ec r (Answer code (map (\<lambda>(k, v). (k, Some v)) data)) d1 = Some (Inr data, d2)"
    "d_resolvers d2 = d_resolvers d"
    "map_option ap_resolver (map_of (d_apps d2) k) = Some (ap_resolver app)"
    using f assms(4) by (metis (no_types, lifting) option.map(2))
  have "rs_id (d_resolvers d a) = k"
    using assms(1) map_of_SomeD [OF assms(4)] assms(5) by (auto simp: disc_inv_def app_ok_def)
  moreover obtain app' where "map_of (d_apps d2) k = Some app'" "ap_resolver app' = ap_resolver app"
    using p(3) by auto
  ultimately have "Fetch a (disc_broadcast data (d2\<lparr>d_retry := 0\<rparr>)) = Some (live_zones v)
      \<and> rs_event (d_resolvers (disc_broadcast data (d2\<lparr>d_retry := 0\<rparr>)) a)"
    using assms(5,8-10) p(2) by (intro broadcast_visible [where app = app' and k = k]) auto
  moreover have "serverproc ec r t (Answer code (map (\<lambda>(k, v). (k, Some v)) data)) d
      = Some (disc_broadcast data (d2\<lparr>d_retry := 0\<rparr>), True)"
    using p(1) c by (simp add: serverproc_def d1_def)
  ultimately show ?thesis by (simp add: Watch_recv_def)
qed

subsection \<open>Fail-over\<close>

lemma silent_round:
  assumes "polling ns d"
  shows "\<exists>d'. serverproc ec r False NoAnswer d = Some (d', True)
    \<and> map fst (d_requests d') = map fst (d_requests d) @ [ns ! (unat (d_nodeIdx d) mod length ns)]
    \<and> d_nodeIdx d' = d_nodeIdx d + 1 \<and> d_c d' = d_c d
    \<and> polling (if d_retry d < length ns then ns else ns @ filter (\<lambda>n. n \<notin> set ns) (rc_Nodes (d_c d))) d'
    \<and> d_retry d' = (if d_retry d < length ns then d_retry d else 0) + 1"
proof -
  obtain n ns' where ns: "ns = n # ns'" "d_node d = Some (n # ns')"
    using assms by (cases ns) (auto simp: polling_def)
  have "pickNode r (poll_ctx d) = Some (ns ! (unat (d_nodeIdx d) mod length ns))"
    using ns by (auto simp: pickNode_def poll_ctx_def)
  then show ?thesis
    using assms ns by (auto simp: serverproc_def polls_def Let_def polling_def poll_failed_def poll_ctx_def switchNode_def
        tryAppendSeedNodes_def)
qed

lemma failover:
  assumes "polling ns d" "d_retry d + m \<le> length ns" "unat (d_nodeIdx d) + m < 2 ^ 64"
  shows "\<exists>d'. silent_rounds ec r m d = Some d' \<and> polling ns d' \<and> d_retry d' = d_retry d + m \<and> d_c d' = d_c d
    \<and> map fst (d_requests d') = map fst (d_requests d) @ map (\<lambda>i. ns ! ((unat (d_nodeIdx d) + i) mod length ns)) [0..<m]
    \<and> unat (d_nodeIdx d') = unat (d_nodeIdx d) + m"
  using assms
proof (induction m arbitrary: d)
  case (Suc m)
  obtain d1 where d1: "serverproc ec r False NoAnswer d = Some (d1, True)"
    "map fst (d_requests d1) = map fst (d_requests d) @ [ns ! (unat (d_nodeIdx d) mod length ns)]"
    "d_nodeIdx d1 = d_nodeIdx d + 1" "polling ns d1" "d_retry d1 = d_retry d + 1" "d_c d1 = d_c d"
    using silent_round [OF Suc.prems(1), of ec r] Suc.prems(2) by auto
  have u: "unat (d_nodeIdx d1) = unat (d_nodeIdx d) + 1"
    using Suc.prems(3) d1(3) by (simp add: unat_word_ariths)
  have "[0..<Suc m] = 0 # map Suc [0..<m]" by (simp add: upt_conv_Cons map_Suc_upt)
  then show ?case using Suc.IH [OF d1(4)] Suc.prems d1 u by (auto simp: comp_def)
qed simp

lemma rotation: "(n :: nat) \<noteq> 0 \<Longrightarrow> (\<lambda>i. (k + i) mod n) ` {0..<n} = {0..<n}"
proof -
  assume n: "n \<noteq> 0"
  have "\<exists>i < n. j = (k + i) mod n" if "j < n" for j
  proof (intro exI conjI)
    let ?i = "(j + (n - k mod n)) mod n"
    show "?i < n" using n by simp
    have "k mod n < n" using n by simp
    have "(k + ?i) mod n = (k mod n + (j + (n - k mod n))) mod n" by (metis mod_add_left_eq mod_add_right_eq)
    also have "k mod n + (j + (n - k mod n)) = j + n" using \<open>k mod n < n\<close> by simp
    finally show "j = (k + ?i) mod n" using that by simp
  qed
  then show ?thesis using n by (fastforce simp: image_iff)
qed

lemma failover_all:
  assumes "polling ns d" "d_retry d = 0" "unat (d_nodeIdx d) + length ns < 2 ^ 64"
  shows "\<exists>d1 qs d2. silent_rounds ec r (length ns) d = Some d1 \<and> map fst (d_requests d1) = map fst (d_requests d) @ qs
    \<and> set qs = set ns \<and> length qs = length ns
    \<and> serverproc ec r False NoAnswer d1 = Some (d2, True)
    \<and> (\<exists>ms. d_node d2 = Some ms \<and> set ms = set ns \<union> set (rc_Nodes (d_c d)))"
proof -
  obtain d1 where d1: "silent_rounds ec r (length ns) d = Some d1" "polling ns d1" "d_retry d1 = length ns" "d_c d1 = d_c d"
    "map fst (d_requests d1) = map fst (d_requests d) @ map (\<lambda>i. ns ! ((unat (d_nodeIdx d) + i) mod length ns)) [0..<length ns]"
    using failover [OF assms(1), of "length ns"] assms(2,3) by auto
  have ne: "length ns \<noteq> 0" using assms(1) by (simp add: polling_def)
  have "set (map (\<lambda>i. ns ! ((unat (d_nodeIdx d) + i) mod length ns)) [0..<length ns])
      = (!) ns ` (\<lambda>i. (unat (d_nodeIdx d) + i) mod length ns) ` {0..<length ns}"
    by (simp add: image_image)
  also have "\<dots> = set ns" unfolding rotation [OF ne] by (simp add: nth_image)
  finally have "set (map (\<lambda>i. ns ! ((unat (d_nodeIdx d) + i) mod length ns)) [0..<length ns]) = set ns" .
  moreover obtain d2 where "serverproc ec r False NoAnswer d1 = Some (d2, True)"
    "polling (ns @ filter (\<lambda>n. n \<notin> set ns) (rc_Nodes (d_c d))) d2"
    using silent_round [OF d1(2), of ec r] d1(3,4) by auto
  moreover from this(2) have "\<exists>ms. d_node d2 = Some ms \<and> set ms = set ns \<union> set (rc_Nodes (d_c d))"
    by (auto simp: polling_def)
  ultimately show ?thesis using d1(1,5) by (metis length_map length_upt minus_nat.diff_0)
qed

end
