(* ===== verification/Nmidr.thy ===== *)
theory Nmidr
  imports Registry Go_Chan
begin

section \<open>The client of the nmid registry (pkg/registry/nmidr)\<close>

text \<open>
  The second registry client. It has the same shape as the client of the discovery service, but
  picks a random node for every request and has no poll loop: a resolver asks for changes
  (\<^verbatim>\<open>Watch\<close>) and for the instances (\<^verbatim>\<open>Fetch\<close>) itself.

  The channel of a resolver has capacity one and is shared by the copies of the resolver, so
  channels have addresses; \<open>n_events\<close> says which of them hold an event. The map \<^verbatim>\<open>services\<close> may be
  nil, which is \<^const>\<open>None\<close>: reading from it finds nothing, writing to it panics.

  The lemmas: registration meets the contract of \<open>registration_life\<close>; what a renewal sends; and two
  facts about resolvers, that none can be built, and that \<^verbatim>\<open>Fetch\<close> returns no instances.
\<close>

subsection \<open>State\<close>

datatype nmidr_error = NDuplicate | NHttp | NCode int

record NResolve =
  nr_sid :: string
  nr_event :: addr

record serviceInfo =
  si_resolver :: "string \<rightharpoonup> NResolve"
  si_instances :: "InstancesInfo option"
  si_lastTs :: int

record Nmidr =
  n_conf :: RConfig
  n_done :: bool
  n_once :: bool
  n_services :: "(string \<rightharpoonup> serviceInfo) option"
  n_registry :: "string list"
  n_events :: "addr \<Rightarrow> bool"
  n_nextEvent :: addr
  n_requests :: "(string \<times> string \<times> form) list"

definition nmidr_NewRegistry :: "RConfig \<Rightarrow> Nmidr" where
  "nmidr_NewRegistry conf = \<lparr>n_conf = conf, n_done = False, n_once = False, n_services = None, n_registry = [],
     n_events = (\<lambda>_. False), n_nextEvent = 0, n_requests = []\<rparr>"

definition nmidr_Close :: "Nmidr \<Rightarrow> Nmidr" where
  "nmidr_Close n = n\<lparr>n_done := True\<rparr>"

definition service_of :: "Nmidr \<Rightarrow> string \<Rightarrow> serviceInfo option" where
  "service_of n sid = (case n_services n of None \<Rightarrow> None | Some m \<Rightarrow> m sid)"

subsection \<open>Requests\<close>

text \<open>\<^verbatim>\<open>rand.Intn\<close> panics on 0; the draw \<open>r\<close> is taken modulo its argument.\<close>

definition pickMasterNode :: "nat \<Rightarrow> Nmidr \<Rightarrow> string option" where
  "pickMasterNode r n = (let nodes = rc_Nodes (n_conf n) in
     if nodes = [] then None else Some (nodes ! (r mod length nodes)))"

definition nmidr_newParams :: "RConfig \<Rightarrow> form" where
  "nmidr_newParams c = [(''region'', [rc_Region c]), (''zone'', [rc_Zone c]), (''env'', [rc_Env c]), (''hostname'', [rc_Host c])]"

text \<open>What the five requests have in common: the node, the request, and the code of the answer.\<close>

definition nmidr_post ::
  "Ecode \<Rightarrow> nat \<Rightarrow> string \<Rightarrow> form \<Rightarrow> 'a http_answer \<Rightarrow> Nmidr \<Rightarrow> ((nmidr_error + 'a) \<times> Nmidr) option" where
  "nmidr_post ec r path params ans n = do {
     node \<leftarrow> pickMasterNode r n;
     let n = n\<lparr>n_requests := n_requests n @ [(node, path, params)]\<rparr>;
     Some (case ans of
       NoAnswer \<Rightarrow> Inl NHttp
     | Answer code data \<Rightarrow> (if ec_ok ec code then Inr data else Inl (NCode code)), n)
   }"

definition flow_params :: "Instance \<Rightarrow> form" where
  "flow_params ins = [(''inflow_addr'', [in_InFlowAddr ins]), (''outflow_addr'', [in_OutFlowAddr ins]),
     (''service_id'', [in_ServiceId ins])]"

definition doRegister ::
  "Ecode \<Rightarrow> ((string \<rightharpoonup> string) \<Rightarrow> string) \<Rightarrow> nat \<Rightarrow> Instance \<Rightarrow> unit http_answer \<Rightarrow> Nmidr \<Rightarrow> ((nmidr_error + unit) \<times> Nmidr) option" where
  "doRegister ec marshal r ins ans n = nmidr_post ec r ''register'' (nmidr_newParams (n_conf n) @ flow_params ins
     @ (if in_Addrs ins = [] then [] else [(''addrs'', in_Addrs ins)])
     @ [(''version'', [in_Version ins]),
        (''metadata'', [case in_Metadata ins of None \<Rightarrow> '''' | Some m \<Rightarrow> marshal m]),
        (''status'', [if in_Status ins = 0 then ''1'' else FormatInt (in_Status ins)])]) ans n"

definition doRenew :: "Ecode \<Rightarrow> nat \<Rightarrow> Instance \<Rightarrow> unit http_answer \<Rightarrow> Nmidr \<Rightarrow> ((nmidr_error + unit) \<times> Nmidr) option" where
  "doRenew ec r ins ans n = nmidr_post ec r ''renew'' (nmidr_newParams (n_conf n) @ flow_params ins) ans n"

definition doLogOff :: "Ecode \<Rightarrow> nat \<Rightarrow> Instance \<Rightarrow> unit http_answer \<Rightarrow> Nmidr \<Rightarrow> ((nmidr_error + unit) \<times> Nmidr) option" where
  "doLogOff ec r ins ans n = nmidr_post ec r ''logoff'' (nmidr_newParams (n_conf n) @ flow_params ins) ans n"

definition doFetchAll ::
  "Ecode \<Rightarrow> nat \<Rightarrow> string \<Rightarrow> (string \<times> InstancesInfo option) list http_answer \<Rightarrow> Nmidr
    \<Rightarrow> ((nmidr_error + (string \<times> InstancesInfo option) list) \<times> Nmidr) option" where
  "doFetchAll ec r sid ans n = nmidr_post ec r ''fetch/all'' (nmidr_newParams (n_conf n) @ [(''service_id'', [sid])]) ans n"

definition doWatch ::
  "Ecode \<Rightarrow> nat \<Rightarrow> string \<Rightarrow> ReturnWatch http_answer \<Rightarrow> Nmidr \<Rightarrow> ((nmidr_error + ReturnWatch) \<times> Nmidr) option" where
  "doWatch ec r sid ans n = nmidr_post ec r ''watch'' (nmidr_newParams (n_conf n) @ [(''service_id'', [sid])]) ans n"

subsection \<open>Registration\<close>

definition nmidr_Register ::
  "Ecode \<Rightarrow> ((string \<rightharpoonup> string) \<Rightarrow> string) \<Rightarrow> nat \<Rightarrow> Instance \<Rightarrow> unit http_answer \<Rightarrow> Nmidr \<Rightarrow> (nmidr_error option \<times> Nmidr) option" where
  "nmidr_Register ec marshal r ins ans n =
    (if in_ServiceId ins \<in> set (n_registry n) then Some (Some NDuplicate, n)
     else do {
       (res, n) \<leftarrow> doRegister ec marshal r ins ans (n\<lparr>n_registry := n_registry n @ [in_ServiceId ins]\<rparr>);
       Some (case res of
         Inl err \<Rightarrow> (Some err, n\<lparr>n_registry := filter (\<lambda>s. s \<noteq> in_ServiceId ins) (n_registry n)\<rparr>)
       | Inr _ \<Rightarrow> (None, n))
     })"

text \<open>The goroutine of a registration: a tick of the ticker, and the end of its context.\<close>

definition nmidr_tick ::
  "Ecode \<Rightarrow> ((string \<rightharpoonup> string) \<Rightarrow> string) \<Rightarrow> nat \<Rightarrow> nat \<Rightarrow> Instance \<Rightarrow> unit http_answer \<Rightarrow> unit http_answer \<Rightarrow> Nmidr \<Rightarrow> Nmidr option" where
  "nmidr_tick ec marshal r r' ins ans ans' n = do {
     (res, n) \<leftarrow> doRenew ec r ins ans n;
     case res of
       Inl (NCode code) \<Rightarrow> if ec_nothing_found ec code then map_option snd (doRegister ec marshal r' ins ans' n) else Some n
     | _ \<Rightarrow> Some n
   }"

definition nmidr_done :: "Ecode \<Rightarrow> nat \<Rightarrow> Instance \<Rightarrow> unit http_answer \<Rightarrow> Nmidr \<Rightarrow> Nmidr option" where
  "nmidr_done ec r ins ans n = map_option snd (doLogOff ec r ins ans n)"

subsection \<open>Resolvers\<close>

definition nmidr_Build :: "string \<Rightarrow> Nmidr \<Rightarrow> (NResolve \<times> Nmidr) option" where
  "nmidr_Build serviceId n = (
     let r = \<lparr>nr_sid = serviceId, nr_event = n_nextEvent n\<rparr>;
         n = n\<lparr>n_events := (n_events n)(n_nextEvent n := False), n_nextEvent := Suc (n_nextEvent n)\<rparr>;
         service = (case service_of n serviceId of
           None \<Rightarrow> \<lparr>si_resolver = Map.empty, si_instances = None, si_lastTs = 0\<rparr> | Some service \<Rightarrow> service);
         ok = (service_of n serviceId \<noteq> None)
     in case n_services n of
          None \<Rightarrow> None
        | Some m \<Rightarrow> Some (r, n\<lparr>n_services := Some (m(serviceId \<mapsto> service\<lparr>si_resolver := (si_resolver service)(serviceId \<mapsto> r)\<rparr>)),
            n_events := (if ok then (n_events n)(nr_event r := True) else n_events n), n_once := True\<rparr>))"

text \<open>\<^verbatim>\<open>Fetch\<close> waits for an event; the pair it returns; and the new state.\<close>

definition nmidr_Fetch ::
  "Ecode \<Rightarrow> nat \<Rightarrow> (string \<times> InstancesInfo option) list http_answer \<Rightarrow> NResolve \<Rightarrow> Nmidr
    \<Rightarrow> ((InstancesInfo option \<times> bool) waiting \<times> Nmidr) option" where
  "nmidr_Fetch ec r ans rs n =
    (if \<not> n_events n (nr_event rs) then Some (Waits, n)
     else do {
       (res, n) \<leftarrow> doFetchAll ec r (nr_sid rs) ans (n\<lparr>n_events := (n_events n)(nr_event rs := False)\<rparr>);
       case res of
         Inl err \<Rightarrow> Some (Got (None, False), n)
       | Inr insInfo \<Rightarrow> do {
           let info = \<lparr>ii_Instances = [], ii_LastTs = 0, ii_Scheduler = []\<rparr>;
           n \<leftarrow> (case map_of insInfo (nr_sid rs) of
             None \<Rightarrow> Some n
           | Some found \<Rightarrow> (case service_of n (nr_sid rs) of
               None \<Rightarrow> Some n
             | Some service \<Rightarrow> (case found of
                 None \<Rightarrow> None
               | Some f \<Rightarrow> Some (n\<lparr>n_services := map_option (\<lambda>m. m(nr_sid rs \<mapsto>
                   service\<lparr>si_lastTs := ii_LastTs f, si_instances := Some f\<rparr>)) (n_services n)\<rparr>))));
           Some (Got (Some info, True), n)
         }
     })"

text \<open>\<^verbatim>\<open>Watch\<close> waits when the channel is full; it returns the channel.\<close>

definition nmidr_Watch ::
  "Ecode \<Rightarrow> nat \<Rightarrow> ReturnWatch http_answer \<Rightarrow> NResolve \<Rightarrow> Nmidr \<Rightarrow> (addr waiting \<times> Nmidr) option" where
  "nmidr_Watch ec r ans rs n = do {
     (res, n) \<leftarrow> doWatch ec r (nr_sid rs) ans n;
     Some (case res of
       Inl err \<Rightarrow> (Got (nr_event rs), n)
     | Inr data \<Rightarrow>
         if (rw_WType data = 0 \<or> rw_WType data = 1) \<and> rw_WKey data = nr_sid rs
         then (if n_events n (nr_event rs) then (Waits, n)
               else (Got (nr_event rs), n\<lparr>n_events := (n_events n)(nr_event rs := True)\<rparr>))
         else (Got (nr_event rs), n))
   }"

definition nmidr_Resolve_Close :: "NResolve \<Rightarrow> Nmidr \<Rightarrow> Nmidr" where
  "nmidr_Resolve_Close rs n = (case service_of n (nr_sid rs) of
     None \<Rightarrow> n
   | Some service \<Rightarrow> n\<lparr>n_services := map_option (\<lambda>m. m(nr_sid rs \<mapsto>
       service\<lparr>si_resolver := (si_resolver service)(nr_sid rs := None)\<rparr>)) (n_services n)\<rparr>)"

text \<open>The goroutine \<^verbatim>\<open>watch\<close> looks up its resolver once and calls its \<^verbatim>\<open>Watch\<close> on every tick.\<close>

definition nmidr_watch :: "string \<Rightarrow> serviceInfo \<Rightarrow> NResolve option" where
  "nmidr_watch serviceId sci = si_resolver sci serviceId"

inductive nmidr_step :: "Nmidr \<Rightarrow> Nmidr \<Rightarrow> bool" where
  register: "nmidr_Register ec marshal r ins ans n = Some (e, n') \<Longrightarrow> nmidr_step n n'"
| tick: "nmidr_tick ec marshal r r' ins ans ans' n = Some n' \<Longrightarrow> nmidr_step n n'"
| finish: "nmidr_done ec r ins ans n = Some n' \<Longrightarrow> nmidr_step n n'"
| build: "nmidr_Build sid n = Some (rs, n') \<Longrightarrow> nmidr_step n n'"
| fetch: "nmidr_Fetch ec r data rs n = Some (res, n') \<Longrightarrow> nmidr_step n n'"
| watch: "nmidr_Watch ec r w rs n = Some (ev, n') \<Longrightarrow> nmidr_step n n'"
| close_resolve: "nmidr_step n (nmidr_Resolve_Close rs n)"
| close: "nmidr_step n (nmidr_Close n)"

subsection \<open>Requests and registration\<close>

lemma nmidr_post_eq:
  "nmidr_post ec r path params ans n = (case pickMasterNode r n of None \<Rightarrow> None
    | Some node \<Rightarrow> Some (case ans of NoAnswer \<Rightarrow> Inl NHttp | Answer code data \<Rightarrow> (if ec_ok ec code then Inr data else Inl (NCode code)),
        n\<lparr>n_requests := n_requests n @ [(node, path, params)]\<rparr>))"
  by (simp add: nmidr_post_def Let_def split: option.splits)

lemmas nmidr_requests = doRegister_def doRenew_def doLogOff_def doFetchAll_def doWatch_def

lemma pickMasterNode_total: "rc_Nodes (n_conf n) \<noteq> [] \<Longrightarrow> \<exists>node \<in> set (rc_Nodes (n_conf n)). pickMasterNode r n = Some node"
  by (auto simp: pickMasterNode_def Let_def)

lemma pickMasterNode_frame [simp]:
  "pickMasterNode r (n\<lparr>n_requests := q\<rparr>) = pickMasterNode r n" "pickMasterNode r (n\<lparr>n_registry := g\<rparr>) = pickMasterNode r n"
  "pickMasterNode r (n\<lparr>n_events := v\<rparr>) = pickMasterNode r n"
  by (simp_all add: pickMasterNode_def)

text \<open>A request keeps everything but the log of requests.\<close>

lemma nmidr_post_frame:
  assumes "nmidr_post ec r path params ans n = Some (res, n')"
  shows "\<exists>node. n' = n\<lparr>n_requests := n_requests n @ [(node, path, params)]\<rparr> \<and> node \<in> set (rc_Nodes (n_conf n))"
  using assms
  by (cases ans) (auto simp: nmidr_post_eq pickMasterNode_def Let_def split: option.splits if_splits)

lemma nmidr_Register_total:
  assumes "rc_Nodes (n_conf n) \<noteq> []" "in_ServiceId ins \<notin> set (n_registry n)"
  shows "\<exists>e n'. nmidr_Register ec marshal r ins ans n = Some (e, n') \<and> rc_Nodes (n_conf n') \<noteq> []
     \<and> e \<noteq> Some NDuplicate
     \<and> set (n_registry n') = (if e = None then insert (in_ServiceId ins) (set (n_registry n)) else set (n_registry n))"
proof -
  obtain node where "pickMasterNode r n = Some node" using pickMasterNode_total [OF assms(1), of r] by blast
  then show ?thesis
    using assms by (cases ans) (auto simp: nmidr_Register_def nmidr_requests nmidr_post_eq)
qed

text \<open>Without nodes a registration panics.\<close>

lemma nmidr_Register_no_nodes:
  "rc_Nodes (n_conf n) = [] \<Longrightarrow> in_ServiceId ins \<notin> set (n_registry n) \<Longrightarrow> nmidr_Register ec marshal r ins ans n = None"
  by (simp add: nmidr_Register_def nmidr_requests nmidr_post_eq pickMasterNode_def)

lemma nmidr_tick_requests:
  assumes "rc_Nodes (n_conf n) \<noteq> []"
  shows "\<exists>n'. nmidr_tick ec marshal r r' ins ans ans' n = Some n'
    \<and> map (fst \<circ> snd) (n_requests n') = map (fst \<circ> snd) (n_requests n) @ ''renew'' #
        (case ans of Answer code _ \<Rightarrow> if \<not> ec_ok ec code \<and> ec_nothing_found ec code then [''register''] else [] | NoAnswer \<Rightarrow> [])
    \<and> n_registry n' = n_registry n \<and> n_services n' = n_services n \<and> n_conf n' = n_conf n"
proof -
  obtain a b where "pickMasterNode r n = Some a" "pickMasterNode r' n = Some b"
    using pickMasterNode_total [OF assms] by metis
  then show ?thesis by (cases ans) (auto simp: nmidr_tick_def nmidr_requests nmidr_post_eq)
qed

lemma nmidr_tick_keeps:
  assumes "nmidr_tick ec marshal r r' ins ans ans' n = Some n'"
  shows "n_registry n' = n_registry n \<and> n_services n' = n_services n \<and> n_conf n' = n_conf n"
proof -
  have "rc_Nodes (n_conf n) \<noteq> []"
    using assms by (auto simp: nmidr_tick_def nmidr_requests nmidr_post_eq pickMasterNode_def)
  from nmidr_tick_requests [OF this, of ec marshal r r' ins ans ans'] show ?thesis using assms by auto
qed

subsection \<open>Steps\<close>

lemma nmidr_Register_keeps:
  assumes "nmidr_Register ec marshal r ins ans n = Some (e, n')"
  shows "set (n_registry n) \<subseteq> set (n_registry n') \<and> n_services n' = n_services n \<and> n_conf n' = n_conf n"
proof (cases "in_ServiceId ins \<in> set (n_registry n)")
  case True
  then show ?thesis using assms by (simp add: nmidr_Register_def)
next
  case False
  let ?n = "n\<lparr>n_registry := n_registry n @ [in_ServiceId ins]\<rparr>"
  obtain res n1 where r: "doRegister ec marshal r ins ans ?n = Some (res, n1)"
    "Some (e, n') = Some (case res of Inl err \<Rightarrow> (Some err, n1\<lparr>n_registry := filter (\<lambda>s. s \<noteq> in_ServiceId ins) (n_registry n1)\<rparr>)
       | Inr _ \<Rightarrow> (None, n1))"
    using assms False by (auto simp: nmidr_Register_def bind_eq_Some_conv)
  obtain q where "n1 = ?n\<lparr>n_requests := q\<rparr>" using nmidr_post_frame [OF r(1) [unfolded nmidr_requests]] by blast
  then show ?thesis using r(2) False by (cases res) auto
qed

lemma nmidr_Fetch_cases:
  assumes "nmidr_Fetch ec r ans rs n = Some (res, n')"
  obtains (wait) "res = Waits" "n' = n"
  | (fail) q where "res = Got (None, False)" "n' = n\<lparr>n_events := (n_events n)(nr_event rs := False), n_requests := q\<rparr>"
  | (fetched) q m where "res = Got (Some \<lparr>ii_Instances = [], ii_LastTs = 0, ii_Scheduler = []\<rparr>, True)"
      "n' = n\<lparr>n_events := (n_events n)(nr_event rs := False), n_requests := q, n_services := m\<rparr>"
      "n_services n = None \<longrightarrow> m = None"
proof (cases "n_events n (nr_event rs)")
  case False
  then show thesis using assms wait by (simp add: nmidr_Fetch_def)
next
  case True
  let ?n = "n\<lparr>n_events := (n_events n)(nr_event rs := False)\<rparr>"
  obtain x n1 where x: "doFetchAll ec r (nr_sid rs) ans ?n = Some (x, n1)"
    using assms True by (auto simp: nmidr_Fetch_def bind_eq_Some_conv)
  then obtain q where q: "n1 = ?n\<lparr>n_requests := q\<rparr>" using nmidr_post_frame unfolding nmidr_requests by blast
  show thesis
  proof (cases x)
    case (Inl err)
    then show thesis using assms True x q fail by (auto simp: nmidr_Fetch_def)
  next
    case (Inr insInfo)
    then have "res = Got (Some \<lparr>ii_Instances = [], ii_LastTs = 0, ii_Scheduler = []\<rparr>, True)"
      "\<exists>m. n' = n1\<lparr>n_services := m\<rparr> \<and> (n_services n = None \<longrightarrow> m = None)"
      using assms True x q by (auto simp: nmidr_Fetch_def bind_eq_Some_conv Let_def split: option.splits intro: exI [of _ "n_services n"])
    then show thesis using q fetched by auto
  qed
qed

lemma nmidr_Fetch_keeps:
  assumes "nmidr_Fetch ec r ans rs n = Some (res, n')"
  shows "n_conf n' = n_conf n \<and> n_registry n' = n_registry n \<and> (n_services n = None \<longrightarrow> n_services n' = None)"
  using assms by (cases rule: nmidr_Fetch_cases) simp_all

lemma nmidr_Watch_keeps:
  assumes "nmidr_Watch ec r ans rs n = Some (res, n')"
  shows "n_conf n' = n_conf n \<and> n_registry n' = n_registry n \<and> n_services n' = n_services n"
proof -
  obtain x n1 where x: "doWatch ec r (nr_sid rs) ans n = Some (x, n1)"
    using assms by (auto simp: nmidr_Watch_def bind_eq_Some_conv)
  then obtain q where "n1 = n\<lparr>n_requests := q\<rparr>" using nmidr_post_frame unfolding nmidr_requests by blast
  then show ?thesis using assms x by (cases x) (auto simp: nmidr_Watch_def split: if_splits)
qed

lemma nmidr_step_keeps:
  "nmidr_step n n' \<Longrightarrow> n_conf n' = n_conf n \<and> set (n_registry n) \<subseteq> set (n_registry n')
     \<and> (n_services n = None \<longrightarrow> n_services n' = None)"
proof (induction rule: nmidr_step.induct)
  case (register ec marshal r ins ans n e n')
  then show ?case using nmidr_Register_keeps [of ec marshal r ins ans n e n'] by simp
next
  case (tick ec marshal r r' ins ans ans' n n')
  then show ?case using nmidr_tick_keeps [of ec marshal r r' ins ans ans' n n'] by simp
next
  case (finish ec r ins ans n n')
  then show ?case by (auto simp: nmidr_done_def nmidr_requests dest!: nmidr_post_frame)
next
  case (build sid n rs n')
  then show ?case by (auto simp: nmidr_Build_def Let_def split: option.splits)
next
  case (fetch ec r data rs n res n')
  then show ?case using nmidr_Fetch_keeps [of ec r data rs n res n'] by simp
next
  case (watch ec r w rs n ev n')
  then show ?case using nmidr_Watch_keeps [of ec r w rs n ev n'] by simp
qed (auto simp: nmidr_Resolve_Close_def nmidr_Close_def split: option.splits)

interpretation nmidr: registration_life "\<lambda>ins (r, ans). nmidr_Register ec marshal r ins ans" in_ServiceId
  "\<lambda>n. set (n_registry n)" NDuplicate "\<lambda>n. rc_Nodes (n_conf n) \<noteq> []" nmidr_step for ec marshal
proof (unfold_locales, goal_cases)
  case (1 i s a)
  then show ?case by (simp add: nmidr_Register_def split: prod.split)
next
  case (2 s i a)
  then show ?case by (cases a) (simp only: prod.case, rule nmidr_Register_total)
next
  case (3 s s')
  then show ?case using nmidr_step_keeps [of s s'] by simp
qed

subsection \<open>Resolvers\<close>

text \<open>The map of services is never made, so no resolver can be built.\<close>

lemma nmidr_never_builds:
  assumes "nmidr_step\<^sup>*\<^sup>* (nmidr_NewRegistry conf) n"
  shows "nmidr_Build sid n = None"
proof -
  have "n_services n = None"
    using assms by (induction rule: rtranclp_induct) (auto simp: nmidr_NewRegistry_def dest: nmidr_step_keeps)
  then show ?thesis by (simp add: nmidr_Build_def)
qed

text \<open>The instances that \<^verbatim>\<open>Fetch\<close> receives go to the service, never to its caller: the variable that
  it returns is shadowed.\<close>

lemma nmidr_Fetch_empty:
  assumes "nmidr_Fetch ec r ans rs n = Some (Got (info, ret), n')"
  shows "info = (if ret then Some \<lparr>ii_Instances = [], ii_LastTs = 0, ii_Scheduler = []\<rparr> else None)"
  using assms by (cases rule: nmidr_Fetch_cases) simp_all

lemma nmidr_Fetch_stores:
  assumes "n_events n (nr_event rs)" "rc_Nodes (n_conf n) \<noteq> []" "ec_ok ec code"
    and "map_of insInfo (nr_sid rs) = Some (Some f)" "service_of n (nr_sid rs) = Some service"
  shows "\<exists>n'. nmidr_Fetch ec r (Answer code insInfo) rs n = Some (Got (Some \<lparr>ii_Instances = [], ii_LastTs = 0, ii_Scheduler = []\<rparr>, True), n')
    \<and> service_of n' (nr_sid rs) = Some (service\<lparr>si_lastTs := ii_LastTs f, si_instances := Some f\<rparr>)"
proof -
  obtain node where "pickMasterNode r n = Some node" using pickMasterNode_total [OF assms(2), of r] by blast
  then show ?thesis
    using assms by (auto simp: nmidr_Fetch_def nmidr_requests nmidr_post_eq service_of_def split: option.splits)
qed

end
