(* ===== verification/Gateway.thy ===== *)
theory Gateway
  imports Client_Core Go_Strconv
begin

section \<open>The HTTP gateway of the server (pkg/server/gateway.go)\<close>

text \<open>
  A request over HTTP becomes a call of a client that the gateway opens to its own server. The
  model has the request (headers, path parameter, content length, body) and what \<^verbatim>\<open>net/http\<close> makes
  of a response: the headers are sent with the first status, later changes of the headers and
  later statuses have no effect, and a handler that sets no status answers 200.

  Names of headers are compared as they are written: the code reads and writes them through the
  same constants. JSON, msgpack and the text of a decoding error are arguments; what the client
  meets (dialling, writing, the rounds of its read loop, the timer) is as in the client itself. A
  handler of the client is called during \<^verbatim>\<open>Do\<close>: its calls are replayed on the response.

  The lemmas: a result comes out as the body of the answer, a time-out as 408, an error of the
  server as 500, a request without parameters as 200 with a message in its headers, and no server
  as a panic.
\<close>

subsection \<open>Requests and responses\<close>

definition NRequestType :: string where [simp]: "NRequestType = ''N-NMID-RequestType''"
definition NParamsType :: string where [simp]: "NParamsType = ''N-NMID-ParamsType''"
definition NMessageStatusType :: string where [simp]: "NMessageStatusType = ''N-NMID-MessageStatusType''"
definition NErrorMessage :: string where [simp]: "NErrorMessage = ''N-NMID-ErrorMessage''"
definition NPdtDataType :: string where [simp]: "NPdtDataType = ''N-NMID-PdtDataType''"
definition NFunctionName :: string where [simp]: "NFunctionName = ''N-NMID-FunctionName''"
definition HTTPDOWORK :: string where [simp]: "HTTPDOWORK = ''HTTP_DO_WORK''"

type_synonym http_header = "string \<rightharpoonup> string"

record http_request =
  hq_header :: http_header
  hq_functionName :: string
  hq_ContentLength :: int
  hq_Body :: "bytes option"

definition header_Get :: "string \<Rightarrow> http_header \<Rightarrow> string" where
  "header_Get k h = (case h k of None \<Rightarrow> '''' | Some v \<Rightarrow> v)"

record http_writer =
  hw_header :: http_header
  hw_sent :: "(http_header \<times> nat) option"
  hw_body :: bytes

definition header_Set :: "string \<Rightarrow> string \<Rightarrow> http_writer \<Rightarrow> http_writer" where
  "header_Set k v w = w\<lparr>hw_header := (hw_header w)(k \<mapsto> v)\<rparr>"

definition WriteHeader :: "nat \<Rightarrow> http_writer \<Rightarrow> http_writer" where
  "WriteHeader code w = (if hw_sent w = None then w\<lparr>hw_sent := Some (hw_header w, code)\<rparr> else w)"

definition http_Write :: "bytes \<Rightarrow> http_writer \<Rightarrow> http_writer" where
  "http_Write data w = (let w = WriteHeader 200 w in w\<lparr>hw_body := hw_body w @ data\<rparr>)"

definition http_new :: http_writer where
  "http_new = \<lparr>hw_header = Map.empty, hw_sent = None, hw_body = []\<rparr>"

text \<open>What the caller receives: headers, status and body.\<close>

definition http_answer_of :: "http_writer \<Rightarrow> http_header \<times> nat \<times> bytes" where
  "http_answer_of w = (case hw_sent w of
     None \<Rightarrow> (hw_header w, 200, hw_body w) | Some (h, code) \<Rightarrow> (h, code, hw_body w))"

subsection \<open>Handlers\<close>

record RetStruct =
  rt_Code :: int
  rt_Msg :: string
  rt_Data :: bytes

definition err_text :: "res_error \<Rightarrow> string" where
  "err_text e = (case e of RequestError \<Rightarrow> ''request error'' | HaveNoJobDo \<Rightarrow> ''have no job do'' | HaveRatelimit \<Rightarrow> ''have ratelimit'')"

text \<open>The tail of \<^verbatim>\<open>ErrHandler\<close>, for every error; and the whole of it for the time-out.\<close>

definition request_error :: "string \<Rightarrow> http_writer \<Rightarrow> http_writer" where
  "request_error msg w = WriteHeader 500 (header_Set NErrorMessage msg (header_Set NMessageStatusType ''REQUST ERROR'' w))"

definition request_timeout :: "http_writer \<Rightarrow> http_writer" where
  "request_timeout w = request_error ''RESTIMEOUT'' (WriteHeader 408
     (header_Set NErrorMessage ''RESTIMEOUT'' (header_Set NMessageStatusType ''REQUST TIME OUT'' w)))"

definition respHandler :: "(bytes \<Rightarrow> string + RetStruct) \<Rightarrow> CResponse \<Rightarrow> http_writer \<Rightarrow> http_writer" where
  "respHandler unmarshal resp w =
    (if cr_DataType resp = PDT_S_RETURN_DATA \<and> cr_RetLen resp \<noteq> 0 then
       (case unmarshal (cr_Ret resp) of
          Inl err \<Rightarrow> header_Set NErrorMessage err (header_Set NMessageStatusType ''RET MSGPACK UNMARSHAL ERROR'' w)
        | Inr ret \<Rightarrow>
            if rt_Code ret \<noteq> 0 then header_Set NErrorMessage (rt_Msg ret) (header_Set NMessageStatusType ''RET CODE ERROR'' w)
            else http_Write (rt_Data ret) (header_Set NPdtDataType ''PDT_S_RETURN_DATA'' w))
     else w)"

text \<open>A handler call of the client; calling \<^verbatim>\<open>Error\<close> on a nil error panics.\<close>

fun replay :: "(bytes \<Rightarrow> string + RetStruct) \<Rightarrow> unit handler_call \<Rightarrow> http_writer \<Rightarrow> http_writer option" where
  "replay unmarshal (CallErr None) w = None"
| "replay unmarshal (CallErr (Some e)) w = Some (request_error (err_text e) w)"
| "replay unmarshal CallTimeout w = Some (request_timeout w)"
| "replay unmarshal (CallResp _ resp) w = Some (respHandler unmarshal resp w)"

fun replay_all :: "(bytes \<Rightarrow> string + RetStruct) \<Rightarrow> unit handler_call list \<Rightarrow> http_writer \<Rightarrow> http_writer option" where
  "replay_all unmarshal [] w = Some w"
| "replay_all unmarshal (c # cs) w = do { w \<leftarrow> replay unmarshal c w; replay_all unmarshal cs w }"

definition complain :: "string \<Rightarrow> string \<Rightarrow> http_writer \<Rightarrow> http_writer" where
  "complain status msg w = header_Set NErrorMessage msg (header_Set NMessageStatusType status w)"

subsection \<open>The gateway\<close>

definition params_type :: "http_header \<Rightarrow> u32" where
  "params_type h = (let ptype = header_Get NParamsType h in
     if ptype = '''' then PARAMS_TYPE_MSGPACK
     else case Atoi ptype of None \<Rightarrow> PARAMS_TYPE_MSGPACK | Some val \<Rightarrow> word_of_int val)"

text \<open>The parameters of the call, or the complaint about the request.\<close>

definition gateway_params ::
  "(bytes \<Rightarrow> 'm option) \<Rightarrow> ('m \<Rightarrow> bytes option) \<Rightarrow> u32 \<Rightarrow> http_request \<Rightarrow> (string \<times> string) + bytes" where
  "gateway_params unjson pack ptype r =
    (if hq_ContentLength r = 0 then Inl (''PARAMS LENGTH ZERO'', ''params length zero'')
     else case hq_Body r of
       None \<Rightarrow> Inl (''READ PARAMS EMPTY'', ''read params empty'')
     | Some body \<Rightarrow>
         if length body = 0 then Inl (''READ PARAMS EMPTY'', ''read params empty'')
         else if ptype = PARAMS_TYPE_MSGPACK then
           (case unjson body of
              None \<Rightarrow> Inl (''JSON UNMARSHAL ERROR'', ''json unmarshal error'')
            | Some v \<Rightarrow> (case pack v of
                None \<Rightarrow> Inl (''PARAMS MSGPACK ERROR'', ''params msgpack error'')
              | Some p \<Rightarrow> Inr p))
         else if ptype = PARAMS_TYPE_JSON then Inr body
         else Inr [])"

text \<open>What the client meets: dialling, the answer to the write, the rounds of the read loop with
  their redials, whether the timer fires first.\<close>

record client_env =
  ce_dial :: "input option"
  ce_write :: write_answer
  ce_rounds :: nat
  ce_redial :: "nat \<Rightarrow> input option"
  ce_timer :: bool

definition GetClient :: "string \<Rightarrow> string \<Rightarrow> client_env \<Rightarrow> unit Client option" where
  "GetClient host port ce = (case Client_Start (ce_dial ce) (Client_SetIoTimeOut 30 (NewClient 0 ''tcp'' (host @ '':'' @ port))) of
     (Some e, c) \<Rightarrow> None | (None, c) \<Rightarrow> Some c)"

definition HTTPDoWorkByClientHandle ::
  "(bytes \<Rightarrow> 'm option) \<Rightarrow> ('m \<Rightarrow> bytes option) \<Rightarrow> (bytes \<Rightarrow> string + RetStruct) \<Rightarrow> string \<Rightarrow> string \<Rightarrow> client_env
    \<Rightarrow> http_request \<Rightarrow> http_writer \<Rightarrow> (http_writer \<times> bytes) option" where
  "HTTPDoWorkByClientHandle unjson pack unmarshal host port ce r w = (
     let functionName = (if header_Get NFunctionName (hq_header r) = '''' then hq_functionName r
                         else header_Get NFunctionName (hq_header r));
         ptype = params_type (hq_header r)
     in do {
       client \<leftarrow> GetClient host port ce;
       let client = (SetParamsType ptype client)\<lparr>cl_ErrHandler := True\<rparr>;
       let w = header_Set NFunctionName (header_Get NFunctionName (hq_header r)) w;
       (case gateway_params unjson pack ptype r of
          Inl (status, msg) \<Rightarrow> do {
            client \<leftarrow> Client_Close client;
            Some (complain status msg w, cl_output client)
          }
        | Inr params \<Rightarrow> do {
            (err, client) \<leftarrow> client_Do functionName params () (ce_write ce) (ce_rounds ce) (ce_redial ce) (ce_timer ce) client;
            w \<leftarrow> replay_all unmarshal (cl_calls client) w;
            client \<leftarrow> Client_Close client;
            Some (if err = None then w else complain ''CLIENT DO ERROR'' ''client do error'' w, cl_output client)
          })
     })"

definition HTTPAPIGatewayHandle ::
  "(bytes \<Rightarrow> 'm option) \<Rightarrow> ('m \<Rightarrow> bytes option) \<Rightarrow> (bytes \<Rightarrow> string + RetStruct) \<Rightarrow> string \<Rightarrow> string \<Rightarrow> client_env
    \<Rightarrow> http_request \<Rightarrow> http_writer \<Rightarrow> (http_writer \<times> bytes) option" where
  "HTTPAPIGatewayHandle unjson pack unmarshal host port ce r w =
    (if header_Get NRequestType (hq_header r) = HTTPDOWORK
     then HTTPDoWorkByClientHandle unjson pack unmarshal host port ce r w
     else Some (w, []))"

text \<open>\<^verbatim>\<open>NewListener\<close>: there are listeners for four networks; \<open>listens\<close> says whether the socket opens.\<close>

definition NewListener :: "bool \<Rightarrow> bool \<Rightarrow> string \<Rightarrow> bool" where
  "NewListener tls listens network =
    (if network \<notin> {''tcp'', ''http'', ''ws'', ''wss''} then False
     else if network = ''wss'' \<and> \<not> tls then False else listens)"

text \<open>Which gateways start: \<^verbatim>\<open>WsServerRun\<close> and \<^verbatim>\<open>WssServerRun\<close> call \<^verbatim>\<open>NewHTTPAPIGateway\<close> too. The value
  says whether the gateway serves.\<close>

definition NewHTTPAPIGateway :: "bool \<Rightarrow> bool \<Rightarrow> string \<Rightarrow> string \<Rightarrow> bool" where
  "NewHTTPAPIGateway tls listens httpPort network =
    (if network \<noteq> ''http'' \<and> network \<noteq> ''grpc'' then False else if length httpPort = 0 then False
     else NewListener tls listens network)"

definition NewWSAPIGateway :: "bool \<Rightarrow> bool \<Rightarrow> string \<Rightarrow> string \<Rightarrow> bool" where
  "NewWSAPIGateway tls listens wsPort network =
    (if network \<noteq> ''ws'' \<and> network \<noteq> ''wss'' \<and> network \<noteq> ''grpc'' then False else if length wsPort = 0 then False
     else NewListener tls listens network)"

definition HttpServerRun :: "bool \<Rightarrow> bool \<Rightarrow> string \<Rightarrow> bool" where
  "HttpServerRun tls listens httpPort = (if length httpPort > 0 then NewHTTPAPIGateway tls listens httpPort ''http'' else False)"

definition WsServerRun :: "bool \<Rightarrow> bool \<Rightarrow> string \<Rightarrow> bool" where
  "WsServerRun tls listens httpPort = (if length httpPort > 0 then NewHTTPAPIGateway tls listens httpPort ''ws'' else False)"

definition WssServerRun :: "bool \<Rightarrow> bool \<Rightarrow> string \<Rightarrow> bool" where
  "WssServerRun tls listens httpPort = (if length httpPort > 0 then NewHTTPAPIGateway tls listens httpPort ''wss'' else False)"

definition GrpcServerRun :: "bool \<Rightarrow> bool \<Rightarrow> string \<Rightarrow> bool" where
  "GrpcServerRun tls listens httpPort = (if length httpPort > 0 then NewHTTPAPIGateway tls listens httpPort ''grpc'' else False)"

definition gateway_name :: "http_request \<Rightarrow> string" where
  "gateway_name r = (if header_Get NFunctionName (hq_header r) = '''' then hq_functionName r
     else header_Get NFunctionName (hq_header r))"

definition gateway_header :: "http_request \<Rightarrow> http_header" where
  "gateway_header r = [NFunctionName \<mapsto> header_Get NFunctionName (hq_header r)]"

subsection \<open>Which gateways start\<close>

text \<open>Only the HTTP gateway can serve: \<^verbatim>\<open>NewHTTPAPIGateway\<close> refuses the two kinds of web sockets, and
  there is no listener for gRPC.\<close>

lemma only_http_serves:
  "HttpServerRun tls l p = (p \<noteq> [] \<and> l)" "\<not> WsServerRun tls l p" "\<not> WssServerRun tls l p" "\<not> GrpcServerRun tls l p"
  by (simp_all add: HttpServerRun_def WsServerRun_def WssServerRun_def GrpcServerRun_def NewHTTPAPIGateway_def NewListener_def)

subsection \<open>Answers\<close>

lemmas writer_defs = header_Set_def WriteHeader_def http_Write_def request_error_def request_timeout_def complain_def

text \<open>The first status stands.\<close>

lemma timeout_answer:
  "hw_sent w = None \<Longrightarrow> http_answer_of (request_timeout w) =
    ((hw_header w)(NMessageStatusType \<mapsto> ''REQUST TIME OUT'', NErrorMessage \<mapsto> ''RESTIMEOUT''), 408, hw_body w)"
  by (simp add: writer_defs http_answer_of_def)

lemma GetClient_None [simp]: "ce_dial ce = None \<Longrightarrow> GetClient host port ce = None"
  by (simp add: GetClient_def Client_Start_def ClientConn_def)

lemma GetClient_Some:
  assumes "ce_dial ce = Some i"
  obtains c where "GetClient host port ce = Some c" "cl_conn c" "cl_pending c = None" "\<not> cl_ResClosed c"
    "cl_RespHandlers c = Some NewResHandlerMap" "cl_input c = i" "cl_calls c = []" "cl_output c = []" "cl_Req c = None"
proof -
  let ?c = "(Client_SetIoTimeOut 30 (NewClient 0 ''tcp'' (host @ '':'' @ port)))\<lparr>cl_conn := True, cl_input := i\<rparr>"
  have "GetClient host port ce = Some ?c"
    using assms by (simp add: GetClient_def Client_Start_def ClientConn_def)
  then show thesis by (rule that) (simp_all add: Client_SetIoTimeOut_def NewClient_def)
qed

lemma SetParamsType_frame [simp]:
  "cl_conn (SetParamsType p c) = cl_conn c" "cl_pending (SetParamsType p c) = cl_pending c"
  "cl_ResClosed (SetParamsType p c) = cl_ResClosed c" "cl_RespHandlers (SetParamsType p c) = cl_RespHandlers c"
  "cl_input (SetParamsType p c) = cl_input c" "cl_calls (SetParamsType p c) = cl_calls c"
  "cl_output (SetParamsType p c) = cl_output c"
  by (simp_all add: SetParamsType_def Let_def)

lemma gateway_complains:
  assumes "ce_dial ce \<noteq> None" "gateway_params unjson pack (params_type (hq_header r)) r = Inl (status, msg)"
  shows "\<exists>w'. HTTPDoWorkByClientHandle unjson pack unmarshal host port ce r http_new = Some (w', [])
    \<and> http_answer_of w' = ((gateway_header r)(NMessageStatusType \<mapsto> status, NErrorMessage \<mapsto> msg), 200, [])"
proof -
  obtain i where "ce_dial ce = Some i" using assms(1) by auto
  then obtain c where "GetClient host port ce = Some c" "cl_conn c" "cl_pending c = None" "\<not> cl_ResClosed c"
    "cl_RespHandlers c = Some NewResHandlerMap" "cl_output c = []"
    by (rule GetClient_Some [where host = host and port = port])
  then show ?thesis
    using assms(2)
    by (simp add: HTTPDoWorkByClientHandle_def Client_Close_def writer_defs http_answer_of_def http_new_def gateway_header_def)
qed

lemma gateway_no_server:
  "ce_dial ce = None \<Longrightarrow> HTTPDoWorkByClientHandle unjson pack unmarshal host port ce r w = None"
  by (simp add: HTTPDoWorkByClientHandle_def)

text \<open>How the handler goes on once the call of the client has returned.\<close>

lemma gateway_after_Do:
  assumes "GetClient host port ce = Some c" "c1 = (SetParamsType (params_type (hq_header r)) c)\<lparr>cl_ErrHandler := True\<rparr>"
    and "gateway_params unjson pack (params_type (hq_header r)) r = Inr params"
    and "client_Do (gateway_name r) params () (ce_write ce) (ce_rounds ce) (ce_redial ce) (ce_timer ce) c1 = Some (None, c2)"
    and "cl_calls c2 = [call]" "cl_conn c2" "cl_pending c2 = None" "\<not> cl_ResClosed c2" "cl_RespHandlers c2 \<noteq> None"
    and "replay unmarshal call (header_Set NFunctionName (header_Get NFunctionName (hq_header r)) w) = Some w'"
  shows "HTTPDoWorkByClientHandle unjson pack unmarshal host port ce r w = Some (w', cl_output c2)"
  using assms by (simp add: HTTPDoWorkByClientHandle_def gateway_name_def Client_Close_def)

lemma gateway_client:
  assumes "ce_dial ce = Some i"
  obtains c c1 where "GetClient host port ce = Some c" "c1 = (SetParamsType p c)\<lparr>cl_ErrHandler := True\<rparr>"
    "cl_conn c1" "cl_pending c1 = None" "\<not> cl_ResClosed c1" "cl_RespHandlers c1 = Some NewResHandlerMap" "cl_ErrHandler c1"
    "cl_input c1 = i @ []" "cl_calls c1 = []" "cl_output c1 = []"
proof -
  obtain c where c: "GetClient host port ce = Some c" "cl_conn c" "cl_pending c = None" "\<not> cl_ResClosed c"
    "cl_RespHandlers c = Some NewResHandlerMap" "cl_input c = i" "cl_calls c = []" "cl_output c = []"
    by (rule GetClient_Some [OF assms, where host = host and port = port])
  then show thesis by (intro that [OF c(1) refl]) simp_all
qed

lemma gateway_result:
  assumes env: "ce_dial ce = Some (map Byte (packet res))" "ce_write ce = WroteAll" "0 < ce_rounds ce" "\<not> ce_timer ce"
    and req: "gateway_params unjson pack (params_type (hq_header r)) r = Inr params"
      "gateway_name r \<noteq> []" "length (gateway_name r) + length params + 28 < 2 ^ 32"
    and res: "res_sized res" "rs_DataType res = PDT_S_RETURN_DATA" "rs_Handle res = gateway_name r"
      "length (res_content res) \<le> maxFrameSize" "rs_Ret res \<noteq> []"
    and ret: "unmarshal (rs_Ret res) = Inr ret"
  shows "\<exists>w' req'. HTTPDoWorkByClientHandle unjson pack unmarshal host port ce r http_new
      = Some (w', do_job_frame req' (gateway_name r) params)
    \<and> http_answer_of w' = (if rt_Code ret = 0
        then ((gateway_header r)(NPdtDataType \<mapsto> ''PDT_S_RETURN_DATA''), 200, rt_Data ret)
        else ((gateway_header r)(NMessageStatusType \<mapsto> ''RET CODE ERROR'', NErrorMessage \<mapsto> rt_Msg ret), 200, []))"
proof -
  obtain c c1 where c: "GetClient host port ce = Some c" "c1 = (SetParamsType (params_type (hq_header r)) c)\<lparr>cl_ErrHandler := True\<rparr>"
    "cl_conn c1" "cl_pending c1 = None" "\<not> cl_ResClosed c1" "cl_RespHandlers c1 = Some NewResHandlerMap" "cl_ErrHandler c1"
    "cl_input c1 = map Byte (packet res) @ []" "cl_calls c1 = []" "cl_output c1 = []"
    by (rule gateway_client [OF env(1), where host = host and port = port and p = "params_type (hq_header r)"])
  obtain c2 where c2: "client_Do (gateway_name r) params () WroteAll (ce_rounds ce) (ce_redial ce) False c1 = Some (None, c2)"
    "cl_calls c2 = [CallResp () (client_view res)]" "cl_RespHandlers c2 \<noteq> None"
    "cl_output c2 = do_job_frame (cur_req c1) (gateway_name r) params" "cl_pending c2 = None" "cl_conn c2" "\<not> cl_ResClosed c2"
    by (rule client_Do_result [OF c(3-6) req(2,3) res(1-4) c(8) env(3), of "()" "ce_redial ce"]) (simp add: c(9,10))
  have v: "cr_DataType (client_view res) = PDT_S_RETURN_DATA" "cr_RetLen (client_view res) \<noteq> 0" "cr_Ret (client_view res) = rs_Ret res"
    using res by (auto simp: client_view_def res_sized_def)
  let ?w = "header_Set NFunctionName (header_Get NFunctionName (hq_header r)) http_new"
  have "HTTPDoWorkByClientHandle unjson pack unmarshal host port ce r http_new
      = Some (respHandler unmarshal (client_view res) ?w, cl_output c2)"
    using c2 env(2,4) by (intro gateway_after_Do [OF c(1,2) req(1), where call = "CallResp () (client_view res)"]) simp_all
  then show ?thesis
    unfolding c2(4) using v ret
    by (auto simp: respHandler_def writer_defs http_answer_of_def http_new_def gateway_header_def)
qed

lemma gateway_error:
  assumes env: "ce_dial ce = Some (map Byte (header CONN_TYPE_SERVER dt []))" "ce_write ce = WroteAll" "0 < ce_rounds ce" "\<not> ce_timer ce"
    and req: "gateway_params unjson pack (params_type (hq_header r)) r = Inr params"
      "length (gateway_name r) + length params + 28 < 2 ^ 32"
    and dt: "dt \<in> {PDT_ERROR, PDT_CANT_DO, PDT_RATELIMIT}" "GetResError (client_NewRes\<lparr>cr_DataType := dt\<rparr>) = Some e"
  shows "\<exists>w' out. HTTPDoWorkByClientHandle unjson pack unmarshal host port ce r http_new = Some (w', out)
    \<and> http_answer_of w' = ((gateway_header r)(NMessageStatusType \<mapsto> ''REQUST ERROR'', NErrorMessage \<mapsto> err_text e), 500, [])"
proof -
  obtain c c1 where c: "GetClient host port ce = Some c" "c1 = (SetParamsType (params_type (hq_header r)) c)\<lparr>cl_ErrHandler := True\<rparr>"
    "cl_conn c1" "cl_pending c1 = None" "\<not> cl_ResClosed c1" "cl_RespHandlers c1 = Some NewResHandlerMap" "cl_ErrHandler c1"
    "cl_input c1 = map Byte (header CONN_TYPE_SERVER dt []) @ []" "cl_calls c1 = []" "cl_output c1 = []"
    by (rule gateway_client [OF env(1), where host = host and port = port and p = "params_type (hq_header r)"])
  obtain c2 where c2: "client_Do (gateway_name r) params () WroteAll (ce_rounds ce) (ce_redial ce) False c1 = Some (None, c2)"
    "cl_calls c2 = [CallErr (Some e)]" "cl_RespHandlers c2 \<noteq> None" "cl_pending c2 = None" "cl_conn c2" "\<not> cl_ResClosed c2"
    by (rule client_Do_error [OF c(3-7) req(2) dt(1) c(8) env(3), of "()" "ce_redial ce"]) (simp add: c(9) dt(2))
  have "HTTPDoWorkByClientHandle unjson pack unmarshal host port ce r http_new
      = Some (request_error (err_text e) (header_Set NFunctionName (header_Get NFunctionName (hq_header r)) http_new), cl_output c2)"
    using c2 env(2,4) by (intro gateway_after_Do [OF c(1,2) req(1), where call = "CallErr (Some e)"]) simp_all
  then show ?thesis by (simp add: writer_defs http_answer_of_def http_new_def gateway_header_def)
qed

lemma gateway_timeout:
  assumes env: "ce_dial ce = Some i" "ce_write ce = WroteAll" "ce_rounds ce = 0" "ce_timer ce"
    and req: "gateway_params unjson pack (params_type (hq_header r)) r = Inr params"
      "length (gateway_name r) + length params + 28 < 2 ^ 32"
  shows "\<exists>w' out. HTTPDoWorkByClientHandle unjson pack unmarshal host port ce r http_new = Some (w', out)
    \<and> http_answer_of w' = ((gateway_header r)(NMessageStatusType \<mapsto> ''REQUST TIME OUT'', NErrorMessage \<mapsto> ''RESTIMEOUT''), 408, [])"
proof -
  obtain c c1 where c: "GetClient host port ce = Some c" "c1 = (SetParamsType (params_type (hq_header r)) c)\<lparr>cl_ErrHandler := True\<rparr>"
    "cl_conn c1" "cl_pending c1 = None" "\<not> cl_ResClosed c1" "cl_RespHandlers c1 = Some NewResHandlerMap" "cl_ErrHandler c1"
    "cl_input c1 = i @ []" "cl_calls c1 = []" "cl_output c1 = []"
    by (rule gateway_client [OF env(1), where host = host and port = port and p = "params_type (hq_header r)"])
  obtain c2 where c2: "client_Do (gateway_name r) params () WroteAll 0 (ce_redial ce) True c1 = Some (None, c2)"
    "cl_calls c2 = [CallTimeout]" "cl_RespHandlers c2 \<noteq> None" "cl_pending c2 = None" "cl_conn c2" "\<not> cl_ResClosed c2"
    by (rule client_Do_timeout [OF c(3-7) req(2), of "()" "ce_redial ce"]) (simp add: c(9))
  have "HTTPDoWorkByClientHandle unjson pack unmarshal host port ce r http_new
      = Some (request_timeout (header_Set NFunctionName (header_Get NFunctionName (hq_header r)) http_new), cl_output c2)"
    using c2 env(2-4) by (intro gateway_after_Do [OF c(1,2) req(1), where call = CallTimeout]) simp_all
  then show ?thesis using timeout_answer by (simp add: header_Set_def http_new_def gateway_header_def)
qed

end
