(* ===== verification/Registry_Scenario.thy ===== *)
theory Registry_Scenario
  imports Discovery Nmidr Gateway
begin

section \<open>Registry clients in a run\<close>

text \<open>The two clients of a registry with two nodes and a request to the HTTP gateway, on which the theorems of
  the root theory are instantiated.\<close>

definition demo_ec :: Ecode where
  "demo_ec = \<lparr>ec_ok = (\<lambda>c. c = 0), ec_nothing_found = (\<lambda>c. c = - 404), ec_not_modified = (\<lambda>c. c = - 304)\<rparr>"

definition demo_conf :: RConfig where
  "demo_conf = \<lparr>rc_Nodes = [''n1'', ''n2''], rc_Region = ''r'', rc_Zone = ''z'', rc_Env = ''e'', rc_Host = ''h''\<rparr>"

definition demo_ins :: "string \<Rightarrow> Instance" where
  "demo_ins sid = \<lparr>in_ServiceId = sid, in_InFlowAddr = [], in_OutFlowAddr = [], in_Region = ''r'', in_Zone = ''z'',
     in_Env = ''e'', in_Hostname = ''h'', in_Addrs = [''http://x:1''], in_Version = ''1'', in_LastTs = 0,
     in_Metadata = Some [MetaWeight \<mapsto> ''2''], in_Status = 1\<rparr>"

text \<open>The client of the discovery service with a resolver for \<^verbatim>\<open>app\<close>, and one that knows its nodes.\<close>

definition demo_first :: Discovery where
  "demo_first = snd (Build ''nmid.registry.infra.discovery''
     \<lparr>d_c = demo_conf, d_done = False, d_node = None, d_nodeIdx = 0, d_apps = [], d_registry = [],
      d_lastHost = [], d_ctx = False, d_cancelPolls = False, d_pollsCancelled = False, d_retry = 0,
      d_once = False, d_resolvers = (\<lambda>_. \<lparr>rs_id = [], rs_event = False\<rparr>), d_nextResolver = 0,
      d_requests = []\<rparr>)"

definition demo_disc :: Discovery where
  "demo_disc = snd (Build ''app'' demo_first)"

definition demo_info :: InstancesInfo where
  "demo_info = \<lparr>ii_Instances = [(''z'', [0]), (''y'', [])], ii_LastTs = 5, ii_Scheduler = []\<rparr>"

text \<open>A schedule that sends the requests of zone \<^verbatim>\<open>z\<close> to \<^verbatim>\<open>x\<close> and \<^verbatim>\<open>y\<close>, one to three.\<close>

definition demo_schedule :: InstancesInfo where
  "demo_schedule = \<lparr>ii_Instances = [(''x'', [0]), (''y'', [1, 2])], ii_LastTs = 5,
     ii_Scheduler = [\<lparr>z_Src = ''z'', z_Dst = [(''x'', 1), (''y'', 3)]\<rparr>]\<rparr>"

definition demo_heap :: "addr \<Rightarrow> Instance" where
  "demo_heap a = (demo_ins ''app'')\<lparr>in_Zone := if a = 0 then ''x'' else ''y''\<rparr>"

text \<open>A request to the HTTP gateway, with JSON parameters.\<close>

definition demo_http :: http_request where
  "demo_http = \<lparr>hq_header = [NParamsType \<mapsto> ''6''], hq_functionName = ''f'', hq_ContentLength = 2, hq_Body = Some [1, 2]\<rparr>"

lemma demo_disc_reachable: "disc_reachable demo_disc"
proof -
  have "disc_NewRegistry (\<lambda>_. []) [] demo_conf = Some (0, demo_first)"
    by (simp add: disc_NewRegistry_def fixConfig_def demo_first_def Build_def Let_def) (simp add: demo_conf_def)
  then have "disc_reachable demo_first" by (rule disc_reachable.start)
  then show ?thesis
    unfolding demo_disc_def by (rule disc_reachable.step) (rule disc_step.build [OF prod.collapse [symmetric]])
qed

lemma demo_disc_inv: "disc_inv demo_disc"
  by (rule disc_reachable_inv [OF demo_disc_reachable])

lemma demo_disc_sel: "d_done demo_disc = False" "d_ctx demo_disc = False" "d_registry demo_disc = []"
  "map_of (d_apps demo_disc) ''app'' = Some \<lparr>ap_resolver = [1], ap_zoneIns = None, ap_lastTs = 0\<rparr>"
  "rc_Nodes (d_c demo_disc) = [''n1'', ''n2'']" "d_requests demo_disc = []" "d_node demo_disc = None"
  by (simp_all add: demo_disc_def demo_first_def Build_def Let_def demo_conf_def)

lemma demo_schedulable: "schedulable demo_heap demo_schedule (dst_of ''z'' (ii_Scheduler demo_schedule))"
proof -
  have w: "weight_of (demo_heap a) = 2" for a
    by (simp add: weight_of_def demo_heap_def demo_ins_def ParseInt_def parse_abs_def is_digit_def)
  have "dst_of ''z'' (ii_Scheduler demo_schedule) = [(''x'', 1), (''y'', 3)]" by (simp add: dst_of_def demo_schedule_def)
  moreover have "dst_lists demo_schedule [(''x'', 1), (''y'', 3)] = [[0], [1, 2]]"
    by (simp add: dst_lists_def demo_schedule_def List.map_filter_def)
  ultimately show ?thesis
    by (simp add: schedulable_def wsum_def w) (simp add: demo_schedule_def demo_heap_def demo_ins_def)
qed

end
