(* ===== verification/Metrics.thy ===== *)
theory Metrics
  imports Prelude "HOL-Library.List_Lexorder" "HOL-Library.Char_ord" "HOL-Library.Multiset"
begin

section \<open>The numbers of the dashboard (pkg/metric/getmetric.go)\<close>

text \<open>
  What the dashboard computes from the metrics that Prometheus has gathered. A family of metrics has a
  name and metrics; a metric has labels and is a gauge or a counter. The gauges and counters of nmid
  change by one, so their values are integers here. \<^verbatim>\<open>sort.Slice\<close> need not be stable; the maps that
  it sorts are ranged over in any order, so the stable sort of a list stands for every result.

  The lemmas: the number of workers is the number of distinct worker names with a positive gauge;
  what the list of workers shows of a worker is its last metric; the lists are sorted by time.
\<close>

subsection \<open>Definitions\<close>

record Metric =
  me_Label :: "(string \<times> string) list"
  me_Gauge :: "int option"
  me_Counter :: "int option"

type_synonym Families = "(string \<times> Metric list) list"

definition metrics_of :: "string \<Rightarrow> Families \<Rightarrow> Metric list" where
  "metrics_of name mfs = concat (map snd (filter (\<lambda>(n, _). n = name) mfs))"

text \<open>The loop over the gauges of the workers' functions: the number of workers and the functions per
  worker.\<close>

fun count_labels :: "int \<Rightarrow> (string \<times> string) list \<Rightarrow> nat \<times> (string \<Rightarrow> nat) \<Rightarrow> nat \<times> (string \<Rightarrow> nat)" where
  "count_labels value [] acc = acc"
| "count_labels value ((name, v) # ls) (worker_num, worker_funcs) =
    count_labels value ls
      (if name = ''worker_name'' then
         (if value > 0 \<and> worker_funcs v = 0 then worker_num + 1 else worker_num,
          if value > 0 then worker_funcs(v := worker_funcs v + 1) else worker_funcs)
       else (worker_num, worker_funcs))"

fun count_workers :: "Metric list \<Rightarrow> nat \<times> (string \<Rightarrow> nat) \<Rightarrow> nat \<times> (string \<Rightarrow> nat)" where
  "count_workers [] acc = acc"
| "count_workers (m # ms) acc =
    count_workers ms (case me_Gauge m of None \<Rightarrow> acc | Some value \<Rightarrow> count_labels value (me_Label m) acc)"

definition GetDiscoveryWorkerFuncNum :: "Families \<Rightarrow> nat \<times> nat \<times> nat" where
  "GetDiscoveryWorkerFuncNum mfs = (
     length (filter (\<lambda>(name, _). name = ''discovery_name'')
       (concat (map me_Label (metrics_of ''nmid_server_client_discovery_count'' mfs)))),
     fst (count_workers (metrics_of ''nmid_server_worker_func_count'' mfs) (0, \<lambda>_. 0)),
     length (filter (\<lambda>m. case me_Gauge m of None \<Rightarrow> False | Some value \<Rightarrow> value > 0) (metrics_of ''nmid_server_func_func_count'' mfs)))"

definition counter_sum :: "Metric list \<Rightarrow> int" where
  "counter_sum ms = sum_list (List.map_filter me_Counter ms)"

definition GetSuccesFailCloseNum :: "Families \<Rightarrow> int \<times> int \<times> int" where
  "GetSuccesFailCloseNum mfs = (
     counter_sum (metrics_of ''nmid_server_worker_func_success'' mfs),
     counter_sum (metrics_of ''nmid_server_worker_func_fail'' mfs),
     counter_sum (metrics_of ''nmid_server_worker_close_count'' mfs))"

record WorkerList =
  wl_ID :: string
  wl_Name :: string
  wl_Status :: string
  wl_CreateTime :: string

record FuncList =
  fl_Name :: string
  fl_Health :: string
  fl_Worker :: string
  fl_Host :: string
  fl_CreateTime :: string

text \<open>The last label of a name wins; without one the field is empty.\<close>

definition label_of :: "string \<Rightarrow> (string \<times> string) list \<Rightarrow> string" where
  "label_of name ls = (case map_of (rev ls) name of None \<Rightarrow> '''' | Some v \<Rightarrow> v)"

definition worker_row :: "int \<Rightarrow> (string \<times> string) list \<Rightarrow> WorkerList" where
  "worker_row value ls = \<lparr>wl_ID = label_of ''worker_id'' ls, wl_Name = label_of ''worker_name'' ls,
     wl_Status = (if value > 0 then ''Online'' else ''Offline''), wl_CreateTime = label_of ''create_time'' ls\<rparr>"

definition func_row :: "int \<Rightarrow> (string \<times> string) list \<Rightarrow> FuncList" where
  "func_row value ls = \<lparr>fl_Name = label_of ''func_name'' ls, fl_Health = (if value > 0 then ''On'' else ''Off''),
     fl_Worker = label_of ''worker_name'' ls, fl_Host = label_of ''worker_ip'' ls, fl_CreateTime = label_of ''create_time'' ls\<rparr>"

text \<open>Storing into a map: the list keeps one entry per key.\<close>

definition put :: "'k \<Rightarrow> 'v \<Rightarrow> ('k \<times> 'v) list \<Rightarrow> ('k \<times> 'v) list" where
  "put k v m = filter (\<lambda>(k', _). k' \<noteq> k) m @ [(k, v)]"

fun collect_rows ::
  "Metric list \<Rightarrow> (string \<times> WorkerList) list \<times> (string \<times> FuncList) list
    \<Rightarrow> (string \<times> WorkerList) list \<times> (string \<times> FuncList) list" where
  "collect_rows [] acc = acc"
| "collect_rows (m # ms) (workers, funcs) = collect_rows ms (case me_Gauge m of
     None \<Rightarrow> (workers, funcs)
   | Some value \<Rightarrow>
       (let w = worker_row value (me_Label m); f = func_row value (me_Label m)
        in (put (wl_Name w) w workers, put (fl_Name f) f funcs)))"

definition GetWorkersFuncs :: "Families \<Rightarrow> WorkerList list \<times> FuncList list" where
  "GetWorkersFuncs mfs = (case collect_rows (metrics_of ''nmid_server_worker_func_count'' mfs) ([], []) of
     (workers, funcs) \<Rightarrow> (sort_key wl_CreateTime (map snd workers), sort_key fl_CreateTime (map snd funcs)))"

text \<open>The worker names of the metrics with a positive gauge.\<close>

definition active_names :: "Metric list \<Rightarrow> string set" where
  "active_names ms = {v. \<exists>m \<in> set ms. (\<exists>value > 0. me_Gauge m = Some value) \<and> (''worker_name'', v) \<in> set (me_Label m)}"

definition worker_rows :: "Metric list \<Rightarrow> (string \<times> WorkerList) list" where
  "worker_rows ms = List.map_filter (\<lambda>m. map_option (\<lambda>v. (label_of ''worker_name'' (me_Label m), worker_row v (me_Label m))) (me_Gauge m)) ms"

definition counted :: "nat \<times> (string \<Rightarrow> nat) \<Rightarrow> string set \<Rightarrow> bool" where
  "counted acc N \<longleftrightarrow> finite N \<and> fst acc = card N \<and> (\<forall>v. 0 < snd acc v \<longleftrightarrow> v \<in> N)"

subsection \<open>Counting workers\<close>

lemma count_labels_counted:
  "counted acc N \<Longrightarrow> counted (count_labels value ls acc)
     (N \<union> (if value > 0 then {v. (''worker_name'', v) \<in> set ls} else {}))"
proof (induction "value" ls acc arbitrary: N rule: count_labels.induct)
  case (1 val acc)
  then show ?case by simp
next
  case (2 val name v ls worker_num worker_funcs)
  define acc' where "acc' = (if name = ''worker_name'' then
         (if val > 0 \<and> worker_funcs v = 0 then worker_num + 1 else worker_num,
          if val > 0 then worker_funcs(v := worker_funcs v + 1) else worker_funcs)
       else (worker_num, worker_funcs))"
  let ?N = "if name = ''worker_name'' \<and> val > 0 then insert v N else N"
  have "counted acc' ?N"
    using 2(2) by (auto simp: counted_def acc'_def card_insert_if) (metis less_numeral_extra(3))
  note IH = 2(1) [folded acc'_def, OF this]
  have "?N \<union> (if val > 0 then {v. (''worker_name'', v) \<in> set ls} else {})
      = N \<union> (if val > 0 then {w. (''worker_name'', w) \<in> set ((name, v) # ls)} else {})"
    by auto
  then show ?case using IH by (simp add: acc'_def)
qed

lemma count_workers_counted:
  "counted acc N \<Longrightarrow> counted (count_workers ms acc) (N \<union> active_names ms)"
proof (induction ms arbitrary: acc N)
  case (Cons m ms)
  let ?acc = "case me_Gauge m of None \<Rightarrow> acc | Some value \<Rightarrow> count_labels value (me_Label m) acc"
  have 1: "active_names (m # ms) = active_names [m] \<union> active_names ms" by (auto simp: active_names_def)
  have "counted ?acc (N \<union> active_names [m])"
  proof (cases "me_Gauge m")
    case None
    then show ?thesis using Cons.prems by (simp add: active_names_def)
  next
    case (Some val)
    then have "active_names [m] = (if val > 0 then {v. (''worker_name'', v) \<in> set (me_Label m)} else {})"
      by (auto simp: active_names_def)
    then show ?thesis using count_labels_counted [OF Cons.prems] Some by simp
  qed
  from Cons.IH [OF this] show ?case unfolding 1 by (simp add: Un_assoc)
qed (simp add: active_names_def)

lemma worker_num_eq:
  "fst (snd (GetDiscoveryWorkerFuncNum mfs)) = card (active_names (metrics_of ''nmid_server_worker_func_count'' mfs))"
  using count_workers_counted [of "(0, \<lambda>_. 0)" "{}"] by (simp add: GetDiscoveryWorkerFuncNum_def counted_def)

subsection \<open>The rows\<close>

lemma map_of_put: "map_of (put k v m) = (map_of m)(k \<mapsto> v)"
proof
  fix k'
  have "map_of (filter (\<lambda>(k', _). k' \<noteq> k) m) k' = (if k' = k then None else map_of m k')"
    by (induction m) auto
  then show "map_of (put k v m) k' = ((map_of m)(k \<mapsto> v)) k'" by (auto simp: put_def map_add_def split: option.split)
qed

lemma distinct_put: "distinct (map fst m) \<Longrightarrow> distinct (map fst (put k v m))"
  by (auto simp: put_def distinct_map_filter)

lemma collect_rows_workers:
  "distinct (map fst (fst acc)) \<Longrightarrow> distinct (map fst (fst (collect_rows ms acc)))
    \<and> map_of (fst (collect_rows ms acc)) = map_of (fst acc) ++ map_of (rev (worker_rows ms))"
proof (induction ms acc rule: collect_rows.induct)
  case (1 acc)
  then show ?case by (simp add: worker_rows_def)
next
  case (2 m ms workers funcs)
  show ?case
  proof (cases "me_Gauge m")
    case None
    then show ?thesis using 2 by (simp add: worker_rows_def List.map_filter_simps)
  next
    case (Some v)
    let ?w = "worker_row v (me_Label m)"
    have w: "worker_rows (m # ms) = (wl_Name ?w, ?w) # worker_rows ms"
      using Some by (simp add: worker_rows_def List.map_filter_simps worker_row_def)
    show ?thesis
      using 2 Some unfolding w by (simp add: Let_def distinct_put map_of_put) (auto simp: fun_eq_iff map_add_def split: option.split)
  qed
qed

lemma workers_sorted: "sorted (map wl_CreateTime (fst (GetWorkersFuncs mfs)))"
  by (simp add: GetWorkersFuncs_def split: prod.split)

text \<open>The list shows each worker once, as its last metric says.\<close>

lemma workers_shown:
  "w \<in> set (fst (GetWorkersFuncs mfs)) \<longleftrightarrow>
    map_of (rev (worker_rows (metrics_of ''nmid_server_worker_func_count'' mfs))) (wl_Name w) = Some w"
proof -
  let ?ms = "metrics_of ''nmid_server_worker_func_count'' mfs"
  obtain workers funcs where r: "collect_rows ?ms ([], []) = (workers, funcs)" by fastforce
  have d: "distinct (map fst workers)" and m: "map_of workers = map_of (rev (worker_rows ?ms))"
    using collect_rows_workers [of "([], [])" ?ms] r by simp_all
  have key: "wl_Name u = n" if "(n, u) \<in> set (worker_rows ?ms)" for n u
    using that by (auto simp: worker_rows_def List.map_filter_def worker_row_def)
  then have key: "wl_Name u = n" if "map_of workers n = Some u" for n u
    using map_of_SomeD [of "rev (worker_rows ?ms)" n u] that m by simp
  have "w \<in> set (fst (GetWorkersFuncs mfs)) \<longleftrightarrow> (\<exists>n. (n, w) \<in> set workers)"
    using r by (force simp: GetWorkersFuncs_def)
  also have "\<dots> \<longleftrightarrow> (\<exists>n. map_of workers n = Some w)" using d by simp
  also have "\<dots> \<longleftrightarrow> map_of workers (wl_Name w) = Some w" using key by blast
  finally show ?thesis by (simp add: m)
qed

end
