(* ===== verification/Dashboard_Pages.thy ===== *)
theory Dashboard_Pages
  imports Metrics Go_Strconv
begin

section \<open>The pages of the dashboard (pkg/dashboard/dashboard.go)\<close>

text \<open>
  The handlers of the dashboard compute what a page shows from the metrics: the first five workers and
  functions on the index page, and one page of ten of the list of workers or of functions. The template engine
  and the HTML files are left out; a template that does not parse answers with status 500. \<^verbatim>\<open>int\<close> is 64 bits
  wide. Slicing outside of the list panics; \<^verbatim>\<open>net/http\<close> recovers the panic and drops the connection.
\<close>

subsection \<open>Definitions\<close>

record Dashboard =
  da_DiscoveryNum :: nat
  da_WorkerNum :: nat
  da_FuncNum :: nat
  da_SuccesNum :: int
  da_FailNum :: int
  da_CloseNum :: int
  da_WCurrentPage :: int
  da_FCurrentPage :: int
  da_WPageSize :: int
  da_FPageSize :: int
  da_WTotalPages :: int
  da_FTotalPages :: int
  da_IndexWorkerList :: "WorkerList list"
  da_WorkerList :: "WorkerList list"
  da_WorkersPerPage :: "WorkerList list"
  da_IndexFuncList :: "FuncList list"
  da_FuncList :: "FuncList list"
  da_FuncsPerPage :: "FuncList list"

definition NewDashboard :: Dashboard where
  "NewDashboard = \<lparr>da_DiscoveryNum = 0, da_WorkerNum = 0, da_FuncNum = 0, da_SuccesNum = 0, da_FailNum = 0, da_CloseNum = 0,
     da_WCurrentPage = 0, da_FCurrentPage = 0, da_WPageSize = 10, da_FPageSize = 10, da_WTotalPages = 0, da_FTotalPages = 0,
     da_IndexWorkerList = [], da_WorkerList = [], da_WorkersPerPage = [], da_IndexFuncList = [], da_FuncList = [],
     da_FuncsPerPage = []\<rparr>"

text \<open>\<^verbatim>\<open>seq\<close>, the numbers of the page links; the templates call it with a number of pages, far below the width of
  the counter.\<close>

function seq :: "int \<Rightarrow> int \<Rightarrow> int list" where
  "seq a b = (if a \<le> b then a # seq (a + 1) b else [])"
  by auto

termination by (relation "measure (\<lambda>(a, b). nat (b + 1 - a))") auto

declare seq.simps [simp del]

text \<open>A slice expression on a list; its upper end is never past the length here, so the capacity does not matter.\<close>

definition go_slice :: "'a list \<Rightarrow> int \<Rightarrow> int \<Rightarrow> 'a list option" where
  "go_slice xs s e = (if 0 \<le> s \<and> s \<le> e \<and> e \<le> int (length xs) then Some (take (nat (e - s)) (drop (nat s) xs)) else None)"

text \<open>What a handler answers: an error of the template with status 500, a panic, or the page, rendered from
  the dashboard as it then is. The dashboard keeps what was assigned before a panic.\<close>

datatype Answer = HttpError nat string | Panics | Rendered

definition index_page :: "string option \<Rightarrow> Families \<Rightarrow> Dashboard \<Rightarrow> Dashboard \<times> Answer" where
  "index_page parse_err mfs d = (case parse_err of
     Some e \<Rightarrow> (d, HttpError 500 e)
   | None \<Rightarrow> (case (GetDiscoveryWorkerFuncNum mfs, GetSuccesFailCloseNum mfs, GetWorkersFuncs mfs) of
       ((dn, wn, fn), (sn, fl, cn), (workers, funcs)) \<Rightarrow>
         let d = d\<lparr>da_DiscoveryNum := dn, da_WorkerNum := wn, da_FuncNum := fn, da_SuccesNum := sn, da_FailNum := fl,
               da_CloseNum := cn\<rparr>;
             iwlimit = (if int (length workers) < 5 then int (length workers) else 5);
             iflimit = (if int (length funcs) < 5 then int (length funcs) else 5)
         in (case go_slice workers 0 iwlimit of
              None \<Rightarrow> (d, Panics)
            | Some iw \<Rightarrow>
                let d = d\<lparr>da_IndexWorkerList := iw\<rparr>
                in (case go_slice funcs 0 iflimit of
                     None \<Rightarrow> (d, Panics)
                   | Some fs \<Rightarrow> (d\<lparr>da_IndexFuncList := fs\<rparr>, Rendered)))))"

text \<open>The page that a query asks for; the error of \<^verbatim>\<open>Atoi\<close> is dropped, which leaves the value beside it: 0
  for a bad syntax, the nearest number when it is out of range.\<close>

definition current_page :: "string \<Rightarrow> int" where
  "current_page q = (if q = [] then 1 else ParseInt q)"

definition total_pages :: "int \<Rightarrow> int \<Rightarrow> int" where
  "total_pages n sz = (n + sz - 1) div sz"

definition page_of :: "int \<Rightarrow> int \<Rightarrow> 'a list \<Rightarrow> 'a list option" where
  "page_of page sz xs = (
     let n = int (length xs);
         start = i64 (i64 (page - 1) * sz);
         stop = i64 (start + sz);
         stop = (if stop > n then n else stop)
     in go_slice xs start stop)"

definition workers_page :: "string option \<Rightarrow> string \<Rightarrow> Families \<Rightarrow> Dashboard \<Rightarrow> Dashboard \<times> Answer" where
  "workers_page parse_err wpageStr mfs d = (case parse_err of
     Some e \<Rightarrow> (d, HttpError 500 e)
   | None \<Rightarrow>
       let d = d\<lparr>da_WCurrentPage := current_page wpageStr\<rparr>;
           d = d\<lparr>da_WorkerList := fst (GetWorkersFuncs mfs)\<rparr>;
           d = d\<lparr>da_WTotalPages := total_pages (int (length (da_WorkerList d))) (da_WPageSize d)\<rparr>
       in (case page_of (da_WCurrentPage d) (da_WPageSize d) (da_WorkerList d) of
            None \<Rightarrow> (d, Panics)
          | Some ws \<Rightarrow> (d\<lparr>da_WorkersPerPage := ws\<rparr>, Rendered)))"

definition functions_page :: "string option \<Rightarrow> string \<Rightarrow> Families \<Rightarrow> Dashboard \<Rightarrow> Dashboard \<times> Answer" where
  "functions_page parse_err fpageStr mfs d = (case parse_err of
     Some e \<Rightarrow> (d, HttpError 500 e)
   | None \<Rightarrow>
       let d = d\<lparr>da_FCurrentPage := current_page fpageStr\<rparr>;
           d = d\<lparr>da_FuncList := snd (GetWorkersFuncs mfs)\<rparr>;
           d = d\<lparr>da_FTotalPages := total_pages (int (length (da_FuncList d))) (da_FPageSize d)\<rparr>
       in (case page_of (da_FCurrentPage d) (da_FPageSize d) (da_FuncList d) of
            None \<Rightarrow> (d, Panics)
          | Some fs \<Rightarrow> (d\<lparr>da_FuncsPerPage := fs\<rparr>, Rendered)))"

subsection \<open>Pages\<close>

lemma seq_upto: "seq a b = [a..b]"
  by (induction a b rule: seq.induct) (subst seq.simps, subst upto.simps, simp)

lemma go_slice_int: "i \<le> j \<Longrightarrow> j \<le> length xs \<Longrightarrow> go_slice xs (int i) (int j) = Some (take (j - i) (drop i xs))"
  unfolding go_slice_def by (simp add: nat_diff_distrib')

lemma go_slice_first: "go_slice xs 0 (if length xs < n then int (length xs) else int n) = Some (take n xs)"
  by (auto simp: go_slice_def)

lemma index_page_total:
  obtains d' where "index_page None mfs d = (d', Rendered)"
    "da_IndexWorkerList d' = take 5 (fst (GetWorkersFuncs mfs))" "da_IndexFuncList d' = take 5 (snd (GetWorkersFuncs mfs))"
proof -
  obtain dn wn fn where a: "GetDiscoveryWorkerFuncNum mfs = (dn, wn, fn)" by (rule prod_cases3)
  obtain sn fl cn where b: "GetSuccesFailCloseNum mfs = (sn, fl, cn)" by (rule prod_cases3)
  obtain ws fs where c: "GetWorkersFuncs mfs = (ws, fs)" by fastforce
  show thesis
    by (rule that, simp add: index_page_def a b c Let_def go_slice_first [of _ 5, unfolded of_nat_numeral])
      (simp_all add: c)
qed

text \<open>A page within the list of ten per page; the pages are numbered from 1, and one after the last page
  is still served (empty) when the last one is full.\<close>

lemma page_of_unwrapped:
  assumes "- (2 ^ 63) \<le> 10 * (p - 1)" "10 * p < 2 ^ 63"
  shows "page_of p 10 xs = go_slice xs (10 * (p - 1)) (min (10 * p) (int (length xs)))"
proof -
  have "i64 (p - 1) = p - 1" using assms by (intro i64_id) auto
  moreover have "i64 ((p - 1) * 10) = 10 * (p - 1)" using assms by (subst i64_id) auto
  moreover have "i64 (10 * (p - 1) + 10) = 10 * p" using assms by (subst i64_id) auto
  ultimately show ?thesis unfolding page_of_def Let_def by (simp only: min_def not_le [symmetric] if_not_P) auto
qed

lemma page_of_eq:
  assumes "1 \<le> p" "10 * p < 2 ^ 63" "10 * (p - 1) \<le> int (length xs)"
  shows "page_of p 10 xs = Some (take 10 (drop (10 * nat (p - 1)) xs))"
proof -
  obtain k where p: "p = int k + 1" using assms(1) by (metis add.commute diff_add_cancel zle_iff_zadd)
  have "page_of p 10 xs = go_slice xs (int (10 * k)) (int (min (10 * k + 10) (length xs)))"
    using assms(1,2) by (subst page_of_unwrapped) (simp_all add: p min_def)
  also have "\<dots> = Some (take (min (10 * k + 10) (length xs) - 10 * k) (drop (10 * k) xs))"
    using assms(3) by (intro go_slice_int) (simp_all add: p)
  also have "take (min (10 * k + 10) (length xs) - 10 * k) (drop (10 * k) xs) = take 10 (drop (10 * k) xs)"
    by (cases "10 * k + 10 \<le> length xs") (auto simp: min_def)
  finally show ?thesis by (simp add: p)
qed

lemma page_of_panics:
  assumes "p < 1 \<or> int (length xs) < 10 * (p - 1)" "- (2 ^ 59) < p" "p < 2 ^ 59"
  shows "page_of p 10 xs = None"
  using assms(1) by (subst page_of_unwrapped) (use assms(2,3) in \<open>auto simp: go_slice_def\<close>)

text \<open>The pages of the list, one after the other, are the list.\<close>

lemma pages_all:
  assumes "int (length xs) < 2 ^ 59"
  shows "concat (map (\<lambda>p. the (page_of p 10 xs)) (seq 1 (total_pages (int (length xs)) 10))) = xs"
proof -
  let ?m = "(length xs + 9) div 10"
  have t: "total_pages (int (length xs)) 10 = int ?m" by (simp add: total_pages_def of_nat_div)
  have s: "seq 1 (int ?m) = map (\<lambda>k. int k + 1) [0..<?m]"
    by (rule nth_equalityI) (simp_all add: seq_upto)
  have pg: "page_of (int k + 1) 10 xs = Some (take 10 (drop (10 * k) xs))" if "k < ?m" for k
    using assms that by (subst page_of_eq) auto
  have "concat (map (\<lambda>k. take 10 (drop (10 * k) xs)) [0..<n]) = take (10 * n) xs" for n
    by (induction n) (simp_all add: take_add [symmetric] add.commute)
  moreover have "map (\<lambda>p. the (page_of p 10 xs)) (seq 1 (int ?m)) = map (\<lambda>k. take 10 (drop (10 * k) xs)) [0..<?m]"
    using pg by (simp add: s)
  ultimately show ?thesis unfolding t by simp
qed

text \<open>A query for a page that does not exist, also one that is no number, panics in the handler.\<close>

lemma workers_page_panics:
  assumes "current_page q < 1 \<or> int (length (fst (GetWorkersFuncs mfs))) < 10 * (current_page q - 1)"
    "- (2 ^ 59) < current_page q" "current_page q < 2 ^ 59" "da_WPageSize d = 10"
  shows "snd (workers_page None q mfs d) = Panics"
  using page_of_panics [OF assms(1-3)] assms(4) by (simp add: workers_page_def Let_def)

lemma functions_page_panics:
  assumes "current_page q < 1 \<or> int (length (snd (GetWorkersFuncs mfs))) < 10 * (current_page q - 1)"
    "- (2 ^ 59) < current_page q" "current_page q < 2 ^ 59" "da_FPageSize d = 10"
  shows "snd (functions_page None q mfs d) = Panics"
  using page_of_panics [OF assms(1-3)] assms(4) by (simp add: functions_page_def Let_def)

lemma workers_page_serves:
  assumes "1 \<le> current_page q" "10 * current_page q < 2 ^ 63"
    "10 * (current_page q - 1) \<le> int (length (fst (GetWorkersFuncs mfs)))" "da_WPageSize d = 10"
  shows "\<exists>d'. workers_page None q mfs d = (d', Rendered)
    \<and> da_WorkersPerPage d' = take 10 (drop (10 * nat (current_page q - 1)) (fst (GetWorkersFuncs mfs)))"
  using page_of_eq [OF assms(1-3)] assms(4) by (simp add: workers_page_def Let_def)

subsection \<open>The information on the host (dashboard/common.go)\<close>

record PageData =
  pd_Pid :: int
  pd_Os :: string
  pd_Arch :: string
  pd_Osfamily :: string
  pd_HostName :: string
  pd_Version :: string
  pd_UpTime :: int

definition getOSFamily :: "string \<Rightarrow> string" where
  "getOSFamily goos = (if goos = ''darwin'' then ''macOS'' else if goos = ''windows'' then ''Windows''
     else if goos = ''linux'' then ''Linux'' else ''Unix'')"

text \<open>The arguments are what the system answers; the clock is read twice, first at \<open>t1\<close> and then at \<open>t2\<close>.\<close>

definition GetBasicHostInfo :: "string \<Rightarrow> string \<Rightarrow> string \<Rightarrow> string \<Rightarrow> int \<Rightarrow> int \<Rightarrow> int \<Rightarrow> PageData" where
  "GetBasicHostInfo hostname version goos goarch pid t1 t2 =
    \<lparr>pd_Pid = pid, pd_Os = goos, pd_Arch = goarch, pd_Osfamily = getOSFamily goos,
     pd_HostName = hostname, pd_Version = version, pd_UpTime = t2 - t1\<rparr>"

text \<open>The time that is shown is the one that passed between the two readings: on a clock that stands still it is 0, however long
  the program has been running.\<close>

lemma up_time_zero: "pd_UpTime (GetBasicHostInfo hostname version goos goarch pid t t) = 0"
  by (simp add: GetBasicHostInfo_def)

end
