(* ===== verification/Log_File.thy ===== *)
theory Log_File
  imports Go_Chan
begin

section \<open>The log file (pkg/logger/logfile.go)\<close>

text \<open>
  A log file that is written asynchronously: \<^verbatim>\<open>Write\<close> puts a copy of the line into a channel, one
  goroutine takes the lines out, collects them in a cache and writes the cache to the file when it
  holds enough lines, after a time-out, and on \<^verbatim>\<open>Sync\<close>. A hangup signal makes it open the file anew.

  \<open>lf_file\<close> is what was written to the file, or to the files one after the other, if it was rotated; the
  answers of the operating system to a write and to opening and syncing are arguments. A write to
  a file that could not be opened again writes nothing and fails. \<open>lf_errors\<close> counts the
  messages to the standard error output.

  The lemmas: the cache holds fewer lines than its limit; as long as the file can be written, no
  byte is lost and the order is kept; what \<^verbatim>\<open>Sync\<close> guarantees, and what a failed write loses.
\<close>

subsection \<open>Definitions\<close>

definition logChanSize :: nat where [simp]: "logChanSize = 10240"

record logFile =
  lf_filename :: string
  lf_open :: bool
  lf_file :: bytes
  lf_logChan :: "bytes list"
  lf_cacheCount :: u32
  lf_maxCacheCount :: u32
  lf_cache :: bytes
  lf_errors :: nat

definition openFile :: "bool \<Rightarrow> logFile \<Rightarrow> bool \<times> logFile" where
  "openFile ok lf = (if ok then (True, lf\<lparr>lf_open := True\<rparr>) else (False, lf))"

definition newLogFile :: "bool \<Rightarrow> string \<Rightarrow> u32 \<Rightarrow> logFile option" where
  "newLogFile ok filename maxCacheCount = (
     case openFile ok \<lparr>lf_filename = filename, lf_open = False, lf_file = [], lf_logChan = [], lf_cacheCount = 0,
       lf_maxCacheCount = maxCacheCount, lf_cache = [], lf_errors = 0\<rparr> of
       (True, lf) \<Rightarrow> Some lf | (False, lf) \<Rightarrow> None)"

definition closeFile :: "bool \<Rightarrow> logFile \<Rightarrow> logFile" where
  "closeFile ok lf = lf\<lparr>lf_open := False, lf_errors := lf_errors lf + (if ok then 0 else 1)\<rparr>"

definition reopenFile :: "bool \<Rightarrow> bool \<Rightarrow> logFile \<Rightarrow> logFile" where
  "reopenFile closes opens lf = (case openFile opens (closeFile closes lf) of
     (True, lf) \<Rightarrow> lf | (False, lf) \<Rightarrow> lf\<lparr>lf_errors := lf_errors lf + 1\<rparr>)"

text \<open>\<^verbatim>\<open>file.Write\<close>: whether all of it was written.\<close>

definition file_Write :: "write_answer \<Rightarrow> bytes \<Rightarrow> logFile \<Rightarrow> bool \<times> logFile" where
  "file_Write ans p lf =
    (if \<not> lf_open lf then (False, lf)
     else case write_all ans p of (out, ok) \<Rightarrow> (ok, lf\<lparr>lf_file := lf_file lf @ out\<rparr>))"

definition flush :: "write_answer \<Rightarrow> logFile \<Rightarrow> bool \<times> logFile" where
  "flush ans lf =
    (if length (lf_cache lf) = 0 then (True, lf)
     else case file_Write ans (lf_cache lf) lf of (ok, lf) \<Rightarrow> (ok, lf\<lparr>lf_cache := [], lf_cacheCount := 0\<rparr>))"

definition writeLog :: "write_answer \<Rightarrow> bytes \<Rightarrow> logFile \<Rightarrow> logFile" where
  "writeLog ans p lf =
    (if lf_maxCacheCount lf = 0 then
       (case file_Write ans p lf of (ok, lf) \<Rightarrow> lf\<lparr>lf_errors := lf_errors lf + (if ok then 0 else 1)\<rparr>)
     else
       let lf = lf\<lparr>lf_cache := lf_cache lf @ p, lf_cacheCount := lf_cacheCount lf + 1\<rparr>
       in if lf_cacheCount lf < lf_maxCacheCount lf then lf
          else case flush ans lf of (ok, lf) \<Rightarrow> lf\<lparr>lf_errors := lf_errors lf + (if ok then 0 else 1)\<rparr>)"

text \<open>The rounds of \<^verbatim>\<open>run\<close>, one per case of its \<^verbatim>\<open>select\<close>. A round that takes a line needs one; the value
  of \<^verbatim>\<open>Sync\<close> is its answer to the caller.\<close>

definition run_log :: "write_answer \<Rightarrow> logFile \<Rightarrow> logFile option" where
  "run_log ans lf = (case chan_recv (lf_logChan lf) of
     (None, _) \<Rightarrow> None | (Some p, q) \<Rightarrow> Some (writeLog ans p (lf\<lparr>lf_logChan := q\<rparr>)))"

definition run_sync :: "write_answer \<Rightarrow> bool \<Rightarrow> logFile \<Rightarrow> bool \<times> logFile" where
  "run_sync ans synced lf = (case flush ans lf of (ok, lf) \<Rightarrow> (if ok then lf_open lf \<and> synced else False, lf))"

definition run_timeout :: "write_answer \<Rightarrow> logFile \<Rightarrow> logFile" where
  "run_timeout ans lf = snd (flush ans lf)"

text \<open>\<^verbatim>\<open>Write\<close> waits while the channel is full.\<close>

definition logFile_Write :: "bytes \<Rightarrow> logFile \<Rightarrow> nat waiting \<times> logFile" where
  "logFile_Write p lf = (case chan_send logChanSize p (lf_logChan lf) of
     (True, q) \<Rightarrow> (Got (length p), lf\<lparr>lf_logChan := q\<rparr>) | (False, _) \<Rightarrow> (Waits, lf))"

text \<open>What can happen to a log file, and what a sequence of events does; an event that has to
  wait changes nothing.\<close>

datatype log_event =
    LWrite bytes
  | LTake write_answer
  | LSync write_answer bool
  | LTimeout write_answer
  | LReopen bool bool

fun log_step :: "log_event \<Rightarrow> logFile \<Rightarrow> logFile" where
  "log_step (LWrite p) lf = snd (logFile_Write p lf)"
| "log_step (LTake ans) lf = (case run_log ans lf of None \<Rightarrow> lf | Some lf \<Rightarrow> lf)"
| "log_step (LSync ans synced) lf = snd (run_sync ans synced lf)"
| "log_step (LTimeout ans) lf = run_timeout ans lf"
| "log_step (LReopen closes opens) lf = reopenFile closes opens lf"

text \<open>Everything on its way: written, cached and queued.\<close>

definition log_content :: "logFile \<Rightarrow> bytes" where
  "log_content lf = lf_file lf @ lf_cache lf @ concat (lf_logChan lf)"

fun accepted_lines :: "log_event list \<Rightarrow> logFile \<Rightarrow> bytes list" where
  "accepted_lines [] lf = []"
| "accepted_lines (e # es) lf =
    (case e of LWrite p \<Rightarrow> if fst (logFile_Write p lf) = Waits then [] else [p] | _ \<Rightarrow> []) @ accepted_lines es (log_step e lf)"

fun good_event :: "log_event \<Rightarrow> bool" where
  "good_event (LWrite p) = True"
| "good_event (LTake ans) = (ans = WroteAll)"
| "good_event (LSync ans synced) = (ans = WroteAll)"
| "good_event (LTimeout ans) = (ans = WroteAll)"
| "good_event (LReopen closes opens) = opens"

definition log_ready :: "logFile \<Rightarrow> bool" where
  "log_ready lf \<longleftrightarrow> lf_open lf \<and> (lf_maxCacheCount lf = 0 \<longrightarrow> lf_cache lf = [])"

text \<open>The bounds, for lines that are not empty.\<close>

definition log_bounds :: "logFile \<Rightarrow> bool" where
  "log_bounds lf \<longleftrightarrow> length (lf_logChan lf) \<le> logChanSize \<and> (\<forall>p \<in> set (lf_logChan lf). p \<noteq> [])
     \<and> unat (lf_cacheCount lf) \<le> length (lf_cache lf)
     \<and> (if lf_maxCacheCount lf = 0 then lf_cacheCount lf = 0 else lf_cacheCount lf < lf_maxCacheCount lf)"

subsection \<open>Nothing is lost\<close>

lemma file_Write_frame:
  "file_Write ans p lf = (ok, lf') \<Longrightarrow> lf_logChan lf' = lf_logChan lf \<and> lf_cache lf' = lf_cache lf
     \<and> lf_cacheCount lf' = lf_cacheCount lf \<and> lf_maxCacheCount lf' = lf_maxCacheCount lf \<and> lf_open lf' = lf_open lf
     \<and> (ok \<longrightarrow> lf_file lf' = lf_file lf @ p)"
  by (cases ans) (auto simp: file_Write_def write_all_def split: if_splits)

lemma file_Write_ok: "lf_open lf \<Longrightarrow> file_Write WroteAll p lf = (True, lf\<lparr>lf_file := lf_file lf @ p\<rparr>)"
  by (simp add: file_Write_def)

lemma flush_frame:
  assumes "flush ans lf = (ok, lf')"
  shows "lf_logChan lf' = lf_logChan lf \<and> lf_cache lf' = [] \<and> lf_maxCacheCount lf' = lf_maxCacheCount lf
    \<and> lf_open lf' = lf_open lf \<and> (ok \<longrightarrow> lf_file lf' = lf_file lf @ lf_cache lf)
    \<and> lf_cacheCount lf' = (if lf_cache lf = [] then lf_cacheCount lf else 0)"
  using assms by (auto simp: flush_def split: if_splits prod.splits dest!: file_Write_frame)

lemma flush_ok: "lf_open lf \<Longrightarrow> fst (flush WroteAll lf)"
  by (simp add: flush_def file_Write_ok)

lemma writeLog_content:
  assumes "log_ready lf"
  shows "log_content (writeLog WroteAll p lf) = lf_file lf @ lf_cache lf @ p @ concat (lf_logChan lf)"
    "log_ready (writeLog WroteAll p lf)"
proof -
  let ?lf = "lf\<lparr>lf_cache := lf_cache lf @ p, lf_cacheCount := lf_cacheCount lf + 1\<rparr>"
  obtain ok lf' where f: "flush WroteAll ?lf = (ok, lf')" by fastforce
  have ok: "ok" using flush_ok [of ?lf] f assms by (simp add: log_ready_def)
  note f' = flush_frame [OF f]
  show "log_content (writeLog WroteAll p lf) = lf_file lf @ lf_cache lf @ p @ concat (lf_logChan lf)"
    using assms f f' ok by (auto simp: writeLog_def log_content_def log_ready_def file_Write_ok Let_def)
  show "log_ready (writeLog WroteAll p lf)"
    using assms f f' ok by (auto simp: writeLog_def log_ready_def file_Write_ok Let_def)
qed

lemma log_step_content:
  assumes "log_ready lf" "good_event e"
  shows "log_ready (log_step e lf) \<and> log_content (log_step e lf) = log_content lf
    @ (case e of LWrite p \<Rightarrow> if fst (logFile_Write p lf) = Waits then [] else p | _ \<Rightarrow> [])"
proof (cases e)
  case (LWrite p)
  then show ?thesis using assms
    by (auto simp: logFile_Write_def chan_send_def log_ready_def log_content_def)
next
  case (LTake ans)
  then show ?thesis using assms writeLog_content [of "lf\<lparr>lf_logChan := tl (lf_logChan lf)\<rparr>" "hd (lf_logChan lf)"]
    by (cases "lf_logChan lf") (auto simp: run_log_def chan_recv_def log_content_def log_ready_def)
next
  case (LSync ans synced)
  obtain ok lf' where f: "flush WroteAll lf = (ok, lf')" by fastforce
  then show ?thesis using LSync assms flush_frame [OF f] flush_ok [of lf]
    by (simp add: run_sync_def log_content_def log_ready_def)
next
  case (LTimeout ans)
  obtain ok lf' where f: "flush WroteAll lf = (ok, lf')" by fastforce
  then show ?thesis using LTimeout assms flush_frame [OF f] flush_ok [of lf]
    by (simp add: run_timeout_def log_content_def log_ready_def)
next
  case (LReopen closes opens)
  then show ?thesis using assms
    by (simp add: reopenFile_def openFile_def closeFile_def log_content_def log_ready_def)
qed

lemma log_content_steps:
  assumes "log_ready lf" "\<forall>e \<in> set es. good_event e"
  shows "log_ready (fold log_step es lf) \<and> log_content (fold log_step es lf) = log_content lf @ concat (accepted_lines es lf)"
  using assms
proof (induction es arbitrary: lf)
  case (Cons e es)
  then show ?case using log_step_content [of lf e] by (auto split: log_event.splits if_splits)
qed simp

text \<open>\<^verbatim>\<open>Sync\<close> empties the cache into the file, but not the channel; a write that fails loses the rest
  of the cache.\<close>

lemma run_sync_flushes:
  assumes "run_sync ans synced lf = (True, lf')"
  shows "lf_file lf' = lf_file lf @ lf_cache lf" "lf_cache lf' = []" "lf_logChan lf' = lf_logChan lf"
  using assms by (auto simp: run_sync_def split: prod.splits if_splits dest!: flush_frame)

lemma flush_loses:
  assumes "lf_open lf" "n < length (lf_cache lf)"
  shows "flush (WroteErr n) lf = (False, lf\<lparr>lf_file := lf_file lf @ take n (lf_cache lf), lf_cache := [], lf_cacheCount := 0\<rparr>)"
proof -
  have "lf_cache lf \<noteq> []" using assms(2) by auto
  then show ?thesis using assms by (simp add: flush_def file_Write_def write_all_def)
qed

subsection \<open>Bounds\<close>

lemma unat_succ_less:
  fixes a b :: u32
  assumes "a < b"
  shows "unat (a + 1) = unat a + 1"
proof -
  have "unat a < unat b" using assms by (simp add: word_less_nat_alt)
  then have "unat a + 1 < 2 ^ 32" using unsigned_less [of b, where 'a = nat] by simp
  then show ?thesis by (simp add: unat_word_ariths)
qed

lemma flush_bounds:
  assumes "log_bounds lf" "flush ans lf = (ok, lf')"
  shows "log_bounds lf'"
proof -
  note f = flush_frame [OF assms(2)]
  have "lf_cacheCount lf' = 0"
  proof (cases "lf_cache lf = []")
    case True
    then have "unat (lf_cacheCount lf) = 0" using assms(1) by (simp add: log_bounds_def)
    then show ?thesis using f True by (simp add: unat_eq_0)
  qed (use f in simp)
  moreover have "lf_maxCacheCount lf = 0 \<or> 0 < lf_maxCacheCount lf" by (simp add: word_gt_0)
  ultimately show ?thesis using assms(1) f by (auto simp: log_bounds_def)
qed

lemma log_bounds_step:
  assumes "log_bounds lf" "\<forall>p. e = LWrite p \<longrightarrow> p \<noteq> []"
  shows "log_bounds (log_step e lf)"
proof (cases e)
  case (LWrite p)
  then show ?thesis using assms by (auto simp: logFile_Write_def chan_send_def log_bounds_def)
next
  case (LTake ans)
  show ?thesis
  proof (cases "lf_logChan lf")
    case Nil
    then show ?thesis using assms LTake by (simp add: run_log_def chan_recv_def)
  next
    case (Cons p q)
    let ?lf = "lf\<lparr>lf_logChan := q\<rparr>"
    let ?lf1 = "?lf\<lparr>lf_cache := lf_cache lf @ p, lf_cacheCount := lf_cacheCount lf + 1\<rparr>"
    obtain ok1 a where w: "file_Write ans p ?lf = (ok1, a)" by fastforce
    obtain ok2 b where f: "flush ans ?lf1 = (ok2, b)" by fastforce
    have p: "p \<noteq> []" using assms(1) Cons by (simp add: log_bounds_def)
    have c: "unat (lf_cacheCount lf + 1) \<le> length (lf_cache lf @ p)"
      if "lf_cacheCount lf < lf_maxCacheCount lf"
    proof -
      have "unat (lf_cacheCount lf + 1) = unat (lf_cacheCount lf) + 1"
        using that by (rule unat_succ_less)
      moreover have "1 \<le> length p" using p by (cases p) auto
      ultimately show ?thesis using assms(1) by (simp add: log_bounds_def)
    qed
    have take: "log_step (LTake ans) lf = writeLog ans p ?lf" using Cons by (simp add: run_log_def chan_recv_def)
    have q: "length q \<le> logChanSize" "\<forall>p \<in> set q. p \<noteq> []" using assms(1) Cons by (simp_all add: log_bounds_def)
    show ?thesis
    proof (cases "lf_maxCacheCount lf = 0")
      case True
      then show ?thesis
        using assms(1) q file_Write_frame [OF w] w unfolding LTake take by (simp add: writeLog_def log_bounds_def)
    next
      case False
      then have lt: "lf_cacheCount lf < lf_maxCacheCount lf" using assms(1) by (simp add: log_bounds_def)
      have wl: "writeLog ans p ?lf = (if lf_cacheCount lf + 1 < lf_maxCacheCount lf then ?lf1
          else b\<lparr>lf_errors := lf_errors b + (if ok2 then 0 else 1)\<rparr>)"
        using False f by (simp add: writeLog_def Let_def)
      have b: "lf_logChan b = q" "lf_cacheCount b = 0" "lf_maxCacheCount b = lf_maxCacheCount lf"
        using flush_frame [OF f] p by simp_all
      have "0 < lf_maxCacheCount lf" using False by (simp add: word_gt_0)
      then have err: "log_bounds (b\<lparr>lf_errors := x\<rparr>)" for x
        using q False b by (simp add: log_bounds_def)
      define n where "n = lf_cacheCount lf + 1"
      have "unat n \<le> length (lf_cache lf @ p)" using c [OF lt] unfolding n_def .
      then have "n < lf_maxCacheCount lf \<Longrightarrow> log_bounds (?lf\<lparr>lf_cache := lf_cache lf @ p, lf_cacheCount := n\<rparr>)"
        using q False by (simp add: log_bounds_def)
      then show ?thesis unfolding LTake take wl n_def [symmetric] using err by (simp only: split: if_split) blast
    qed
  qed
next
  case (LSync ans synced)
  obtain ok lf' where f: "flush ans lf = (ok, lf')" by fastforce
  then show ?thesis using LSync flush_bounds [OF assms(1) f] by (simp add: run_sync_def)
next
  case (LTimeout ans)
  obtain ok lf' where f: "flush ans lf = (ok, lf')" by fastforce
  then show ?thesis using LTimeout flush_bounds [OF assms(1) f] by (simp add: run_timeout_def)
next
  case (LReopen closes opens)
  then show ?thesis using assms
    by (simp add: reopenFile_def openFile_def closeFile_def log_bounds_def)
qed

end
