(* ===== verification/Server_Run.thy ===== *)
theory Server_Run
  imports Server_Steps Gateway
begin

section \<open>Starting and accepting (pkg/server/server.go)\<close>

text \<open>
  The settings of a \<^verbatim>\<open>Server\<close> and the loop of \<^verbatim>\<open>ServerRun\<close> that accepts connections. A configuration file
  that cannot be read gives no server: \<^verbatim>\<open>SetSConfig\<close> returns nil, and the next setter dereferences
  it. The loop is a recursion over what \<^verbatim>\<open>Accept\<close> answers; it ends at a timeout and when the
  listener is closed. The TLS material is opaque.
\<close>

subsection \<open>Settings\<close>

record 'tls Settings =
  st_Host :: string
  st_Port :: string
  st_HttpPort :: string
  st_Net :: string
  st_TlsConfig :: "'tls option"
  st_Version :: string
  st_Ln :: "bool option"
  st_HTTPServerGateway :: "bool option"
  st_Cm :: "bool option"

record RpcConfig =
  rpc_NETWORK :: string
  rpc_HOST :: string
  rpc_PORT :: string
  rpc_HTTPPORT :: string

definition settings_new :: "'tls Settings" where
  "settings_new = \<lparr>st_Host = [], st_Port = [], st_HttpPort = [], st_Net = [], st_TlsConfig = None, st_Version = [],
     st_Ln = None, st_HTTPServerGateway = None, st_Cm = None\<rparr>"

text \<open>The configuration, when it can be read.\<close>

definition SetSConfig :: "RpcConfig option \<Rightarrow> 'tls Settings \<Rightarrow> 'tls Settings option" where
  "SetSConfig conf st = (case conf of
     None \<Rightarrow> None
   | Some c \<Rightarrow> Some (st\<lparr>st_Net := rpc_NETWORK c, st_Host := rpc_HOST c, st_Port := rpc_PORT c, st_HttpPort := rpc_HTTPPORT c\<rparr>))"

definition SetNet :: "string \<Rightarrow> 'tls Settings \<Rightarrow> 'tls Settings" where
  "SetNet net st = st\<lparr>st_Net := net\<rparr>"

definition SetHost :: "string \<Rightarrow> 'tls Settings \<Rightarrow> 'tls Settings" where
  "SetHost host st = st\<lparr>st_Host := host\<rparr>"

definition SetPort :: "string \<Rightarrow> 'tls Settings \<Rightarrow> 'tls Settings" where
  "SetPort port st = st\<lparr>st_Port := port\<rparr>"

definition SetHttpPort :: "string \<Rightarrow> 'tls Settings \<Rightarrow> 'tls Settings" where
  "SetHttpPort port st = st\<lparr>st_HttpPort := port\<rparr>"

definition SetTlsConfig :: "'tls option \<Rightarrow> 'tls Settings \<Rightarrow> 'tls Settings" where
  "SetTlsConfig tls st = st\<lparr>st_TlsConfig := tls\<rparr>"

text \<open>The pair of files, when it loads.\<close>

definition SetTlsCrtKey :: "'tls option \<Rightarrow> 'tls Settings \<Rightarrow> 'tls Settings" where
  "SetTlsCrtKey pair st = (case pair of None \<Rightarrow> st | Some t \<Rightarrow> st\<lparr>st_TlsConfig := Some t\<rparr>)"

definition SetVersion :: "string \<Rightarrow> 'tls Settings \<Rightarrow> 'tls Settings" where
  "SetVersion v st = st\<lparr>st_Version := v\<rparr>"

text \<open>\<^verbatim>\<open>ServerClose\<close> closes the listener and, when there is an HTTP gateway, its multiplexer and its
  server; closing a nil interface panics. The value of a present object says whether it is closed.\<close>

definition ServerClose :: "'tls Settings \<Rightarrow> 'tls Settings option" where
  "ServerClose st = do {
     _ \<leftarrow> st_Ln st;
     let st = st\<lparr>st_Ln := Some True\<rparr>;
     if st_HTTPServerGateway st \<noteq> None
     then do { _ \<leftarrow> st_Cm st; Some (st\<lparr>st_Cm := Some True, st_HTTPServerGateway := Some True\<rparr>) }
     else Some st
   }"

subsection \<open>The accept loop\<close>

datatype accept_answer =
  AcceptTimeout | AcceptClosed | AcceptError
| Accepted string "(string \<times> string) option" string input

text \<open>The addresses of the connections whose read loops were started, the state, and whether the
  loop still runs after these answers.\<close>

fun accept_loop :: "SConfig \<Rightarrow> accept_answer list \<Rightarrow> Server \<Rightarrow> addr list \<times> Server \<times> bool" where
  "accept_loop cfg [] s = ([], s, True)"
| "accept_loop cfg (AcceptTimeout # as) s = ([], s, False)"
| "accept_loop cfg (AcceptClosed # as) s = ([], s, False)"
| "accept_loop cfg (AcceptError # as) s = accept_loop cfg as s"
| "accept_loop cfg (Accepted ad hostPort cid i # as) s = (case NewConnect cfg ad hostPort cid i s of
     (None, s) \<Rightarrow> accept_loop cfg as s
   | (Some c, s) \<Rightarrow> (case accept_loop cfg as s of (cs, s, b) \<Rightarrow> (c # cs, s, b)))"

text \<open>\<open>None\<close> when there is no listener: \<^verbatim>\<open>Fatalf\<close> ends the process.\<close>

definition ServerRun ::
  "SConfig \<Rightarrow> bool \<Rightarrow> accept_answer list \<Rightarrow> 'tls Settings \<Rightarrow> Server \<Rightarrow> ('tls Settings \<times> addr list \<times> Server \<times> bool) option" where
  "ServerRun cfg listens as st s =
    (if NewListener (st_TlsConfig st \<noteq> None) listens (st_Net st)
     then Some (st\<lparr>st_Ln := Some False\<rparr>, accept_loop cfg as s) else None)"

text \<open>Which peers are admitted, in the words of the two lists.\<close>

definition admitted :: "SConfig \<Rightarrow> string \<Rightarrow> bool" where
  "admitted cfg ip \<longleftrightarrow> (il_Enable (cfg_WhiteList cfg) \<longrightarrow> DoWhiteList cfg ip)
     \<and> (il_Enable (cfg_BlackList cfg) \<longrightarrow> \<not> DoBlackList cfg ip)"

text \<open>The peers that the loop admits: those before the first answer that ends it.\<close>

fun served_peers :: "SConfig \<Rightarrow> accept_answer list \<Rightarrow> (string \<times> string) list" where
  "served_peers cfg [] = []"
| "served_peers cfg (AcceptTimeout # as) = []"
| "served_peers cfg (AcceptClosed # as) = []"
| "served_peers cfg (AcceptError # as) = served_peers cfg as"
| "served_peers cfg (Accepted ad hostPort cid i # as) = (case hostPort of
     None \<Rightarrow> served_peers cfg as
   | Some (ip, port) \<Rightarrow> (if admitted cfg ip then [(ip, port)] else []) @ served_peers cfg as)"

subsection \<open>What the loop accepts\<close>

lemma NewConnect_admits:
  "NewConnect cfg ad hostPort cid i s = (case hostPort of
     None \<Rightarrow> (None, s)
   | Some (ip, port) \<Rightarrow> if admitted cfg ip
       then (Some (s_nextConn s), s\<lparr>s_conns := (s_conns s)(s_nextConn s := NewConnect_obj cid ad ip port i),
               s_nextConn := Suc (s_nextConn s)\<rparr>)
       else (None, add_metric (Metric ''ThreatIpCount'' (ip # cfg_zone cfg ip) 1) s))"
  by (auto simp: NewConnect_def admitted_def split: option.splits)

lemma add_metric_conns [simp]: "s_conns (add_metric m s) = s_conns s" "s_nextConn (add_metric m s) = s_nextConn s"
  by (simp_all add: add_metric_def)

text \<open>The connections are numbered one after the other, one for each admitted peer, in the order of
  the answers; those that were there are not touched.\<close>

lemma accept_loop_conns:
  assumes "accept_loop cfg as s = (cs, s', b)"
  shows "cs = [s_nextConn s..<s_nextConn s'] \<and> s_nextConn s \<le> s_nextConn s'
    \<and> map (\<lambda>c. (c_Ip (s_conns s' c), c_Port (s_conns s' c))) cs = served_peers cfg as
    \<and> (\<forall>c < s_nextConn s. s_conns s' c = s_conns s c)"
  using assms
proof (induction as arbitrary: s cs s' b)
  case (Cons x as)
  show ?case
  proof (cases x)
    case (Accepted ad hostPort cid i)
    obtain r t where t: "NewConnect cfg ad hostPort cid i s = (r, t)" by fastforce
    obtain ds u where u: "accept_loop cfg as t = (ds, u, b)" "s' = u" "cs = (case r of None \<Rightarrow> ds | Some c \<Rightarrow> c # ds)"
      using Cons.prems t by (auto simp: Accepted split: option.splits prod.splits)
    note IH = Cons.IH [OF u(1)]
    show ?thesis
    proof (cases r)
      case None
      then show ?thesis using t u IH
        by (auto simp: Accepted NewConnect_admits split: option.splits if_splits)
    next
      case (Some c)
      then obtain ip port where ip: "hostPort = Some (ip, port)" "admitted cfg ip"
        and c: "c = s_nextConn s" "t = s\<lparr>s_conns := (s_conns s)(s_nextConn s := NewConnect_obj cid ad ip port i),
               s_nextConn := Suc (s_nextConn s)\<rparr>"
        using t by (auto simp: NewConnect_admits split: option.splits if_splits)
      then show ?thesis using u IH Some
        by (auto simp: Accepted NewConnect_obj_def upt_conv_Cons)
    qed
  qed (use Cons in auto)
qed auto

text \<open>Every state of the loop is reached by steps of the server, so the invariant of the server holds in it.\<close>

lemma accept_loop_steps:
  assumes "accept_loop cfg as s = (cs, s', b)" "server_reachable s"
    "\<forall>ad hp cid i. Accepted ad hp cid i \<in> set as \<longrightarrow> cid \<noteq> []"
  shows "server_reachable s'"
  using assms
proof (induction as arbitrary: s cs s' b)
  case (Cons x as)
  show ?case
  proof (cases x)
    case (Accepted ad hostPort cid i)
    obtain r t where t: "NewConnect cfg ad hostPort cid i s = (r, t)" by fastforce
    have "server_step s t" using t Cons.prems(3) by (intro server_step.accept) (auto simp: Accepted)
    then have "server_reachable t" using Cons.prems(2) by (rule server_reachable.step [rotated])
    then show ?thesis using Cons.prems t Cons.IH [of t] by (auto simp: Accepted split: option.splits prod.splits)
  qed (use Cons in auto)
qed auto

text \<open>The loop ends at the first timeout, and at the first answer after the listener was closed; no other
  answer ends it.\<close>

lemma accept_loop_runs:
  "(\<exists>cs s'. accept_loop cfg as s = (cs, s', True)) \<longleftrightarrow> AcceptTimeout \<notin> set as \<and> AcceptClosed \<notin> set as"
  by (induction cfg as s rule: accept_loop.induct) (auto split: option.splits prod.splits)

end
