(* ===== verification/Thread.thy ===== *)
theory Thread
  imports Go_Strconv
begin

section \<open>The goroutine manager (pkg/thread/routines.go)\<close>

text \<open>
  The package counts the main goroutines of a program and waits for their end. The counter and the
  state are package variables; \<open>g_running\<close> is the list of goroutines that run, each with its mark and
  whether it is a main one, which the code does not keep.

  A goroutine that panics is recovered. The function \<^verbatim>\<open>overf\<close> that runs at its end is not: \<^verbatim>\<open>ListenDebug\<close>
  calls \<^verbatim>\<open>recover\<close>, but not as the deferred function itself, and such a call recovers nothing. A
  panic of \<^verbatim>\<open>overf\<close> ends the process, which is \<^const>\<open>None\<close>.

  The lemmas: the counter is the number of main goroutines; the listener ends when there is none; it
  calls \<^verbatim>\<open>stopall\<close> once, after the first main goroutine has ended or a signal has come.
\<close>

subsection \<open>Definitions\<close>

record GoMan =
  g_num :: int
  g_state :: int
  g_alarm :: bool
  g_running :: "(string \<times> bool) list"

definition go_init :: GoMan where
  "go_init = \<lparr>g_num = 0, g_state = 0, g_alarm = True, g_running = []\<rparr>"

definition IsGoRuntime :: "GoMan \<Rightarrow> bool" where
  "IsGoRuntime g \<longleftrightarrow> g_state g = 0"

definition GoSecurityOver :: "GoMan \<Rightarrow> GoMan" where
  "GoSecurityOver g = g\<lparr>g_state := 1\<rparr>"

text \<open>\<^verbatim>\<open>startGo\<close> up to the start of the goroutine; \<open>isnil\<close>: the function is nil.\<close>

definition startGo :: "string \<Rightarrow> bool \<Rightarrow> bool \<Rightarrow> GoMan \<Rightarrow> GoMan option" where
  "startGo mark ismain isnil g =
    (if isnil then None
     else Some (g\<lparr>g_num := (if ismain then i64 (g_num g + 1) else g_num g), g_running := (mark, ismain) # g_running g\<rparr>))"

definition StartGo :: "string \<Rightarrow> bool \<Rightarrow> GoMan \<Rightarrow> GoMan option" where
  "StartGo mark isnil = startGo mark True isnil"

definition StartMinorGO :: "string \<Rightarrow> bool \<Rightarrow> GoMan \<Rightarrow> GoMan option" where
  "StartMinorGO mark isnil = startGo mark False isnil"

text \<open>The deferred function at the end of a goroutine. \<open>overf\<close>: is there one, and does it panic.\<close>

definition endGo :: "string \<Rightarrow> bool \<Rightarrow> bool option \<Rightarrow> GoMan \<Rightarrow> GoMan option" where
  "endGo mark ismain overf g =
    (if overf = Some True then None
     else
       let g = g\<lparr>g_running := remove1 (mark, ismain) (g_running g)\<rparr>
       in Some (if ismain then GoSecurityOver (g\<lparr>g_num := i64 (g_num g - 1)\<rparr>) else g))"

text \<open>What the goroutine of \<^verbatim>\<open>ListenKill\<close> does when a signal comes.\<close>

definition kill_signal :: "GoMan \<Rightarrow> GoMan" where
  "kill_signal g = g\<lparr>g_alarm := False, g_state := 1\<rparr>"

definition ListenKill :: "GoMan \<Rightarrow> GoMan option" where
  "ListenKill = StartMinorGO ''listen kill'' False"

text \<open>One round of \<^verbatim>\<open>ListenAllGO\<close>: its flag, the number of calls of \<^verbatim>\<open>stopall\<close>, and whether it returns.\<close>

record Listener =
  l_flag :: bool
  l_stops :: nat

definition ListenAllGO :: "bool \<Rightarrow> GoMan \<Rightarrow> Listener \<Rightarrow> Listener \<times> bool" where
  "ListenAllGO stopnil g l = (
     let l = (if \<not> l_flag l \<and> \<not> IsGoRuntime g
              then l\<lparr>l_flag := True, l_stops := (if stopnil then l_stops l else l_stops l + 1)\<rparr> else l)
     in (l, g_num g \<le> 0))"

inductive go_step :: "GoMan \<times> Listener \<Rightarrow> GoMan \<times> Listener \<Rightarrow> bool" where
  start: "startGo mark ismain False g = Some g' \<Longrightarrow> go_step (g, l) (g', l)"
| finish: "(mark, ismain) \<in> set (g_running g) \<Longrightarrow> endGo mark ismain overf g = Some g' \<Longrightarrow> go_step (g, l) (g', l)"
| signal: "go_step (g, l) (kill_signal g, l)"
| listen: "ListenAllGO stopnil g l = (l', b) \<Longrightarrow> go_step (g, l) (g, l')"

definition go_start :: "GoMan \<times> Listener" where
  "go_start = (go_init, \<lparr>l_flag = False, l_stops = 0\<rparr>)"

definition mains :: "GoMan \<Rightarrow> nat" where
  "mains g = length (filter snd (g_running g))"

definition go_inv :: "GoMan \<times> Listener \<Rightarrow> bool" where
  "go_inv x \<longleftrightarrow> (case x of (g, l) \<Rightarrow> g_num g = i64 (int (mains g)) \<and> g_state g \<in> {0, 1} \<and> l_stops l \<le> of_bool (l_flag l)
     \<and> (l_flag l \<longrightarrow> g_state g = 1) \<and> (g_state g = 0 \<longrightarrow> g_alarm g))"

subsection \<open>Lemmas\<close>

lemma i64_add: "i64 (i64 x + y) = i64 (x + y)"
  by (simp add: i64_def algebra_simps mod_simps)

lemma i64_diff: "i64 (i64 x - y) = i64 (x - y)"
  using i64_add [of x "- y"] by simp

lemma mains_remove: "(mark, ismain) \<in> set (g_running g) \<Longrightarrow>
  int (mains (g\<lparr>g_running := remove1 (mark, ismain) (g_running g)\<rparr>)) = int (mains g) - of_bool ismain"
proof -
  assume m: "(mark, ismain) \<in> set (g_running g)"
  have "length (filter snd xs) = length (filter snd (remove1 (mark, ismain) xs)) + of_bool ismain"
    if "(mark, ismain) \<in> set xs" for xs :: "(string \<times> bool) list"
    using that by (induction xs) auto
  from this [OF m] show ?thesis by (simp add: mains_def)
qed

lemma go_step_inv: "go_step x y \<Longrightarrow> go_inv x \<Longrightarrow> go_inv y"
proof (induction rule: go_step.induct)
  case (start mark ismain g g' l)
  then show ?case by (auto simp: startGo_def go_inv_def mains_def i64_add add.commute [of 1])
next
  case (finish mark ismain g overf g' l)
  let ?g = "g\<lparr>g_running := remove1 (mark, ismain) (g_running g)\<rparr>"
  have m: "mains (GoSecurityOver h) = mains h" "mains (h\<lparr>g_num := n\<rparr>) = mains h" for h n
    by (simp_all add: GoSecurityOver_def mains_def)
  show ?case
    using finish mains_remove [OF finish(1)]
    by (cases ismain) (auto simp: endGo_def Let_def go_inv_def m i64_diff split: if_splits, simp_all add: GoSecurityOver_def)
next
  case (signal g l)
  then show ?case by (auto simp: kill_signal_def go_inv_def mains_def)
next
  case (listen stopnil g l l' b)
  then show ?case by (auto simp: ListenAllGO_def Let_def go_inv_def IsGoRuntime_def split: if_splits)
qed

lemma go_reachable_inv: "go_step\<^sup>*\<^sup>* go_start x \<Longrightarrow> go_inv x"
proof (induction rule: rtranclp_induct)
  case base
  show ?case by (simp add: go_inv_def go_start_def go_init_def mains_def i64_id)
qed (rule go_step_inv)

lemma listener_returns:
  assumes "go_step\<^sup>*\<^sup>* go_start (g, l)" "mains g < 2 ^ 63"
  shows "snd (ListenAllGO stopnil g l) \<longleftrightarrow> mains g = 0"
proof -
  have "g_num g = i64 (int (mains g))" using go_reachable_inv [OF assms(1)] by (simp add: go_inv_def)
  then have "g_num g = int (mains g)" using assms(2) by (simp add: i64_id)
  then show ?thesis by (simp add: ListenAllGO_def Let_def)
qed

text \<open>The end of any main goroutine, however it ended, makes the listener stop all others.\<close>

lemma main_end_stops:
  assumes "go_inv (g, l)" "(mark, True) \<in> set (g_running g)" "endGo mark True overf g = Some g'"
  shows "l_stops (fst (ListenAllGO False g' l)) = (if l_flag l then l_stops l else 1)"
  using assms by (auto simp: endGo_def Let_def ListenAllGO_def IsGoRuntime_def GoSecurityOver_def go_inv_def split: if_splits)

end
