(* ===== verification/Breaker.thy ===== *)
theory Breaker
  imports Complex_Main Prelude
begin

section \<open>The rules of the circuit breaker (pkg/breaker)\<close>

text \<open>
  \<^verbatim>\<open>workerbreaker.go\<close> gives the third-party circuit breaker the rule that opens it. Three of the four rules
  compute the percentage of failures in \<^verbatim>\<open>float64\<close> and cut it to \<^verbatim>\<open>uint8\<close>. A \<^verbatim>\<open>float64\<close> is a rational number
  here: every operation is exact and then rounded to 53 significant bits, ties to even, as IEEE 754
  says; the breaker asks the rule after it has counted a failure, so there is a request; the numbers that occur are 0 or between \<open>2 ^ -32\<close> and 100, far from the limits of
  the exponent. What is shown: the percentage is the exact one, rounded down, except that it may be
  one less where the exact one is a whole number.
\<close>

subsection \<open>Definitions\<close>

record BreakerConfig =
  bc_MaxRequests :: u32
  bc_Interval :: u32
  bc_ErrorNumbers :: u32
  bc_OpenTimeout :: u32
  bc_RequestTimeout :: u32
  bc_ErrorPercent :: "8 word"
  bc_RuleType :: "8 word"
  bc_IsOpen :: "8 word"
  bc_Btype :: "8 word"
  bc_Timestamp :: "64 word"
  bc_WorkerName :: string

text \<open>The counters that the circuit breaker hands to the rule.\<close>

record Counts =
  ct_Requests :: u32
  ct_TotalFailures :: u32
  ct_ConsecutiveFailures :: u32

text \<open>Rounding: the number is scaled by a power of two to 53 bits before the point, rounded, and scaled back.\<close>

definition round_even :: "rat \<Rightarrow> int" where
  "round_even x = (let n = \<lfloor>x\<rfloor>; d = x - of_int n in
     if d < 1 / 2 then n else if d > 1 / 2 then n + 1 else if even n then n else n + 1)"

fun round53 :: "nat \<Rightarrow> rat \<Rightarrow> rat" where
  "round53 0 x = of_int (round_even x)"
| "round53 (Suc k) x = (if x = 0 then 0 else if 2 ^ 52 \<le> x then of_int (round_even x) else round53 k (2 * x) / 2)"

text \<open>The scale of the numbers that occur: \<open>x * 2 ^ 90\<close> is at least \<open>2 ^ 52\<close> for \<open>x \<ge> 2 ^ -32\<close>.\<close>

definition f64_round :: "rat \<Rightarrow> rat" where
  "f64_round x = round53 90 x"

definition f64_div :: "rat \<Rightarrow> rat \<Rightarrow> rat" where
  "f64_div x y = f64_round (x / y)"

definition f64_mult :: "rat \<Rightarrow> rat \<Rightarrow> rat" where
  "f64_mult x y = f64_round (x * y)"

definition failureRatio :: "Counts \<Rightarrow> 8 word" where
  "failureRatio counts = word_of_int
    \<lfloor>f64_mult (f64_div (of_nat (unat (ct_TotalFailures counts))) (of_nat (unat (ct_Requests counts)))) 100\<rfloor>"

definition ruleOne :: "BreakerConfig \<Rightarrow> Counts \<Rightarrow> bool" where
  "ruleOne bc counts \<longleftrightarrow> ct_ConsecutiveFailures counts \<ge> bc_ErrorNumbers bc"

definition ruleTwo :: "BreakerConfig \<Rightarrow> Counts \<Rightarrow> bool" where
  "ruleTwo bc counts \<longleftrightarrow> ct_Requests counts \<ge> 3 \<and> failureRatio counts \<ge> bc_ErrorPercent bc"

definition ruleThree :: "BreakerConfig \<Rightarrow> Counts \<Rightarrow> bool" where
  "ruleThree bc counts \<longleftrightarrow> ct_ConsecutiveFailures counts \<ge> bc_ErrorNumbers bc \<or> failureRatio counts \<ge> bc_ErrorPercent bc"

definition ruleFour :: "BreakerConfig \<Rightarrow> Counts \<Rightarrow> bool" where
  "ruleFour bc counts \<longleftrightarrow> ct_ConsecutiveFailures counts \<ge> bc_ErrorNumbers bc \<and> failureRatio counts \<ge> bc_ErrorPercent bc"

definition switchOne :: "BreakerConfig \<Rightarrow> Counts \<Rightarrow> bool" where
  "switchOne bc =
    (if bc_RuleType bc = 2 then ruleTwo bc
     else if bc_RuleType bc = 3 then ruleThree bc
     else if bc_RuleType bc = 4 then ruleFour bc
     else ruleOne bc)"

text \<open>The breaker itself is third-party code: \<open>new\<close> makes it from its settings, of which the code sets only the rule; the
  others are zero, and the package then takes its own defaults. A configuration without the section panics.\<close>

record BreakerSettings =
  gs_Name :: string
  gs_MaxRequests :: u32
  gs_Interval :: int
  gs_Timeout :: int
  gs_ReadyToTrip :: "(Counts \<Rightarrow> bool) option"

record 'b WorkerBreaker =
  wb_requestTimeout :: int
  wb_config :: BreakerConfig
  wb_btype :: "8 word"
  wb_hostname :: "string \<rightharpoonup> 'b"

definition worker_breaker :: "BreakerConfig \<Rightarrow> 'b WorkerBreaker" where
  "worker_breaker bc = \<lparr>wb_requestTimeout = int (unat (bc_RequestTimeout bc)) * 1000000000, wb_config = bc,
     wb_btype = bc_Btype bc, wb_hostname = Map.empty\<rparr>"

definition NewWorkerBreaker :: "(BreakerSettings \<Rightarrow> 'b) \<Rightarrow> BreakerConfig option \<Rightarrow> 'b option" where
  "NewWorkerBreaker new sconf = do {
     bc \<leftarrow> sconf;
     let wb = (worker_breaker bc :: 'b WorkerBreaker);
     Some (new (\<lparr>gs_Name = [], gs_MaxRequests = 0, gs_Interval = 0, gs_Timeout = 0,
       gs_ReadyToTrip = Some (switchOne (wb_config wb))\<rparr>))
   }"

subsection \<open>Rounding\<close>

lemma round_even_error: "\<bar>of_int (round_even x) - x\<bar> \<le> 1 / 2"
proof -
  have "of_int \<lfloor>x\<rfloor> \<le> x" "x < of_int \<lfloor>x\<rfloor> + 1" by linarith+
  then show ?thesis unfolding round_even_def Let_def by (simp add: abs_le_iff)
qed

text \<open>The relative error of a rounding is at most \<open>2 ^ -53\<close>.\<close>

lemma round53_error:
  assumes "0 \<le> x" "2 ^ 52 \<le> x * 2 ^ k \<or> x = 0"
  shows "\<bar>round53 k x - x\<bar> \<le> x / 2 ^ 53"
  using assms
proof (induction k arbitrary: x)
  case 0
  then show ?case using round_even_error [of x] by (auto simp: round_even_def)
next
  case (Suc k)
  show ?case
  proof (cases "x = 0 \<or> 2 ^ 52 \<le> x")
    case True
    then show ?thesis using round_even_error [of x] by auto
  next
    case False
    have "\<bar>round53 k (2 * x) - 2 * x\<bar> \<le> 2 * x / 2 ^ 53"
      using Suc.prems False by (intro Suc.IH) (auto simp: algebra_simps)
    then have "\<bar>(round53 k (2 * x) - 2 * x) / 2\<bar> \<le> 2 * x / 2 ^ 53 / 2" by simp
    then show ?thesis using False by (simp add: diff_divide_distrib)
  qed
qed

lemma f64_round_error:
  assumes "x = 0 \<or> 1 / 2 ^ 32 \<le> x"
  shows "\<bar>f64_round x - x\<bar> \<le> x / 2 ^ 53"
  unfolding f64_round_def
proof (rule round53_error)
  show "0 \<le> x" using assms by (auto intro: order_trans [of 0 "1 / 2 ^ 32"])
  show "2 ^ 52 \<le> x * 2 ^ 90 \<or> x = 0"
  proof (cases "x = 0")
    case False
    then have "1 / 2 ^ 32 * 2 ^ 90 \<le> x * 2 ^ 90" using assms by (intro mult_right_mono) auto
    then show ?thesis by simp
  qed simp
qed

text \<open>The percentage, before it is cut, is off by less than \<open>2 ^ -44\<close>.\<close>

lemma ratio_error:
  fixes q :: rat
  assumes "q = 0 \<or> 1 / 2 ^ 32 \<le> q" "q \<le> 1"
  shows "\<bar>f64_mult (f64_round q) 100 - 100 * q\<bar> \<le> 300 / 2 ^ 53"
proof -
  let ?d = "f64_round q"
  have q0: "0 \<le> q" using assms(1) by (auto intro: order_trans [of 0 "1 / 2 ^ 32"])
  have d: "\<bar>?d - q\<bar> \<le> q / 2 ^ 53" by (rule f64_round_error [OF assms(1)])
  have "?d * 100 = 0 \<or> 1 / 2 ^ 32 \<le> ?d * 100"
  proof (cases "q = 0")
    case True
    then show ?thesis using d by simp
  next
    case False
    have "q / 2 ^ 53 \<le> q / 2" using q0 by simp
    then have "q / 2 \<le> ?d" using d by linarith
    then show ?thesis using False assms(1) by (auto simp: field_simps)
  qed
  then have m: "\<bar>f64_mult ?d 100 - ?d * 100\<bar> \<le> ?d * 100 / 2 ^ 53"
    unfolding f64_mult_def by (rule f64_round_error)
  have "q / 2 ^ 53 \<le> 1 / 2 ^ 53" using assms(2) by (simp add: divide_right_mono)
  then have d1: "\<bar>?d - q\<bar> \<le> 1 / 2 ^ 53" using d by linarith
  moreover have "(1 :: rat) / 2 ^ 53 \<le> 1" by simp
  ultimately have "?d \<le> 2" using assms(2) unfolding abs_le_iff by linarith
  then have "?d * 100 / 2 ^ 53 \<le> 200 / 2 ^ 53" by (simp add: divide_right_mono)
  then show ?thesis using m d1 unfolding abs_le_iff by linarith
qed

lemma floor_near:
  fixes r :: rat
  assumes R: "0 < R" "R < 2 ^ 32" and near: "\<bar>r - of_nat A / of_nat R\<bar> \<le> 300 / 2 ^ 53"
  shows "\<lfloor>r\<rfloor> = int (A div R) \<or> R dvd A \<and> \<lfloor>r\<rfloor> = int (A div R) - 1"
proof -
  let ?n = "A div R" and ?x = "of_nat A / of_nat R :: rat"
  have split: "(of_nat A :: rat) = of_nat ?n * of_nat R + of_nat (A mod R)"
    by (metis div_mult_mod_eq of_nat_add of_nat_mult)
  have Rpos: "(0 :: rat) < of_nat R" using R by simp
  have x: "?x = of_nat ?n + of_nat (A mod R) / of_nat R"
    using Rpos by (simp add: split add_divide_distrib)
  have small: "(300 :: rat) / 2 ^ 53 < 1 / 2 ^ 32" by simp
  have "(of_nat R :: rat) < 2 ^ 32" using R(2) of_nat_less_iff [of R "2 ^ 32", where 'a = rat] by simp
  then have inv: "(1 :: rat) / 2 ^ 32 < 1 / of_nat R" using Rpos by (intro divide_strict_left_mono) auto
  show ?thesis
  proof (cases "A mod R = 0")
    case True
    have "(300 :: rat) / 2 ^ 53 < 1" by simp
    then have "of_nat ?n - 1 \<le> r" "r < of_nat ?n + 1"
      using near x unfolding True abs_le_iff by (simp only: of_nat_0 div_0 add_0_right, linarith)+
    then have "\<lfloor>r\<rfloor> = int ?n \<or> \<lfloor>r\<rfloor> = int ?n - 1"
      by (cases "of_nat ?n \<le> r") (auto simp: floor_eq_iff)
    then show ?thesis using True by auto
  next
    case False
    have "1 \<le> A mod R" "A mod R + 1 \<le> R" using False R by (auto simp: Suc_le_eq)
    then have m: "(1 :: rat) \<le> of_nat (A mod R)" "of_nat (A mod R) + 1 \<le> (of_nat R :: rat)"
      by (metis of_nat_1 of_nat_le_iff, metis of_nat_1 of_nat_add of_nat_le_iff)
    have "1 / of_nat R \<le> of_nat (A mod R) / (of_nat R :: rat)" using m(1) Rpos by (simp add: divide_right_mono)
    moreover have "of_nat (A mod R) / of_nat R + 1 / of_nat R \<le> (1 :: rat)"
      using m(2) Rpos by (simp add: add_divide_distrib [symmetric] divide_le_eq_1)
    ultimately have "of_nat ?n \<le> r" "r < of_nat ?n + 1" using near x small inv unfolding abs_le_iff by linarith+
    then have "\<lfloor>r\<rfloor> = int ?n" by (simp add: floor_eq_iff)
    then show ?thesis by blast
  qed
qed

lemma failureRatio_exact:
  assumes F: "F = unat (ct_TotalFailures counts)" "R = unat (ct_Requests counts)" "F \<le> R" "0 < R"
  shows "unat (failureRatio counts) = 100 * F div R
    \<or> 0 < F \<and> R dvd 100 * F \<and> unat (failureRatio counts) = 100 * F div R - 1"
proof -
  have R: "R < 2 ^ 32" using unsigned_less [of "ct_Requests counts"] by (simp add: F)
  let ?q = "of_nat F / of_nat R :: rat"
  have Rpos: "(0 :: rat) < of_nat R" using assms(4) by (simp only: of_nat_0_less_iff)
  have q: "?q = 0 \<or> 1 / 2 ^ 32 \<le> ?q" "?q \<le> 1"
  proof -
    have "1 / 2 ^ 32 \<le> ?q" if "F \<noteq> 0"
    proof -
      have "(of_nat R :: rat) \<le> 2 ^ 32" using R of_nat_less_iff [of R "2 ^ 32", where 'a = rat] by simp
      then have "1 / 2 ^ 32 \<le> 1 / (of_nat R :: rat)" using Rpos by (intro divide_left_mono) auto
      also have "\<dots> \<le> ?q" using that Rpos by (intro divide_right_mono) (simp_all add: Suc_leI)
      finally show ?thesis .
    qed
    then show "?q = 0 \<or> 1 / 2 ^ 32 \<le> ?q" by fastforce
    show "?q \<le> 1" using assms(3) Rpos by (simp add: divide_le_eq_1)
  qed
  let ?r = "f64_mult (f64_div (of_nat F) (of_nat R)) 100"
  have "\<bar>?r - of_nat (100 * F) / of_nat R\<bar> \<le> 300 / 2 ^ 53"
    using ratio_error [OF q] by (simp add: f64_div_def)
  from floor_near [OF assms(4) R this]
  have fl: "\<lfloor>?r\<rfloor> = int (100 * F div R) \<or> R dvd 100 * F \<and> \<lfloor>?r\<rfloor> = int (100 * F div R) - 1" .
  have le: "100 * F div R \<le> 100" using assms(3,4) div_le_mono [of "100 * F" "100 * R" R] by simp
  have w: "unat (word_of_int i :: 8 word) = nat i" if "0 \<le> i" "i \<le> 100" for i
    using that by (simp add: unat_eq_nat_uint uint_word_of_int)
  show ?thesis
  proof (cases "F = 0")
    case True
    then have "?r = 0" by (simp add: f64_div_def f64_mult_def f64_round_def numeral_eq_Suc)
    then have "failureRatio counts = 0" by (simp only: failureRatio_def F(1,2) [symmetric] floor_zero of_int_0)
    then show ?thesis using True by simp
  next
    case False
    have pos: "0 < 100 * F div R" if "R dvd 100 * F" using that False assms(4) dvd_imp_le [OF that] by (simp add: div_greater_zero_iff)
    have def: "failureRatio counts = word_of_int \<lfloor>?r\<rfloor>" by (simp add: failureRatio_def F)
    from fl show ?thesis
    proof
      assume "\<lfloor>?r\<rfloor> = int (100 * F div R)"
      then show ?thesis using w [of "int (100 * F div R)"] le by (simp add: def)
    next
      assume r: "R dvd 100 * F \<and> \<lfloor>?r\<rfloor> = int (100 * F div R) - 1"
      then show ?thesis using w [of "int (100 * F div R) - 1"] le pos False by (simp add: def nat_diff_distrib)
    qed
  qed
qed

text \<open>So the rule of the percentage never opens the breaker too early, and always opens it above the
  threshold.\<close>

lemma ruleTwo_exact:
  assumes "F = unat (ct_TotalFailures counts)" "R = unat (ct_Requests counts)" "F \<le> R" "3 \<le> R"
    and "bc_RuleType bc = 2"
  shows "switchOne bc counts \<Longrightarrow> unat (bc_ErrorPercent bc) \<le> 100 * F div R"
    and "unat (bc_ErrorPercent bc) < 100 * F div R \<Longrightarrow> switchOne bc counts"
proof -
  have r: "3 \<le> ct_Requests counts" using assms(2,4) by (simp add: word_le_nat_alt)
  have "unat (failureRatio counts) \<le> 100 * F div R" "100 * F div R \<le> unat (failureRatio counts) + 1"
    using failureRatio_exact [OF assms(1-3)] assms(4) by auto
  then show "switchOne bc counts \<Longrightarrow> unat (bc_ErrorPercent bc) \<le> 100 * F div R"
    "unat (bc_ErrorPercent bc) < 100 * F div R \<Longrightarrow> switchOne bc counts"
    using r assms(5) by (auto simp: switchOne_def ruleTwo_def word_le_nat_alt)
qed

text \<open>The loss is real: 29 failures out of 100 requests are 28 percent.\<close>

lemma round53_scale:
  assumes "2 ^ 52 \<le> x * 2 ^ j" "j \<le> k" "\<And>i. i < j \<Longrightarrow> x * 2 ^ i < 2 ^ 52"
  shows "round53 k x = of_int (round_even (x * 2 ^ j)) / 2 ^ j"
  using assms
proof (induction j arbitrary: k x)
  case 0
  then show ?case by (cases k) (auto simp: round_even_def)
next
  case (Suc j)
  obtain k' where k: "k = Suc k'" using Suc.prems(2) by (cases k) auto
  have x: "x < 2 ^ 52" "x \<noteq> 0" using Suc.prems(3) [of 0] Suc.prems(1) by auto
  have "round53 k' (2 * x) = of_int (round_even (2 * x * 2 ^ j)) / 2 ^ j"
  proof (rule Suc.IH)
    show "2 * x * 2 ^ i < 2 ^ 52" if "i < j" for i using Suc.prems(3) [of "Suc i"] that by (simp add: algebra_simps)
  qed (use Suc.prems k in \<open>simp_all add: algebra_simps\<close>)
  then show ?case using x k by (simp add: algebra_simps)
qed

lemma scale_mono: "(0 :: rat) \<le> x \<Longrightarrow> x * 2 ^ j < 2 ^ 52 \<Longrightarrow> i < Suc j \<Longrightarrow> x * 2 ^ i < 2 ^ 52"
  by (rule le_less_trans [of _ "x * 2 ^ j"]) (auto intro!: mult_left_mono power_increasing)

lemma round_even_eq:
  assumes "of_int n - 1 / 2 < x" "x < of_int n + 1 / 2"
  shows "round_even x = n"
proof (cases "of_int n \<le> x")
  case True
  then have "\<lfloor>x\<rfloor> = n" using assms by (simp add: floor_eq_iff)
  then show ?thesis using assms by (simp add: round_even_def Let_def)
next
  case False
  then have "\<lfloor>x\<rfloor> = n - 1" using assms by (simp add: floor_eq_iff)
  then show ?thesis using assms by (simp add: round_even_def Let_def)
qed

lemma f64_round_eq:
  assumes "j \<le> 90" "0 \<le> x" "2 ^ 52 \<le> x * 2 ^ j" "x * 2 ^ (j - 1) < 2 ^ 52" "0 < j"
    and "of_int n - 1 / 2 < x * 2 ^ j" "x * 2 ^ j < of_int n + 1 / 2"
  shows "f64_round x = of_int n / 2 ^ j"
proof -
  have "x * 2 ^ i < 2 ^ 52" if "i < j" for i using scale_mono [OF assms(2,4), of i] that by simp
  then show ?thesis
    unfolding f64_round_def using round53_scale [OF assms(3,1)] round_even_eq [OF assms(6,7)] by simp
qed

lemma failureRatio_29: "failureRatio \<lparr>ct_Requests = 100, ct_TotalFailures = 29, ct_ConsecutiveFailures = 1\<rparr> = 28"
proof -
  have d: "f64_round (29 / 100) = of_int 5224175567749775 / 2 ^ 54"
    by (rule f64_round_eq) simp_all
  have m: "f64_round (of_int 5224175567749775 / 2 ^ 54 * 100) = of_int 8162774324609023 / 2 ^ 48"
    by (rule f64_round_eq) simp_all
  have "\<lfloor>of_int 8162774324609023 / 2 ^ 48 :: rat\<rfloor> = 28" by (simp add: floor_eq_iff)
  then have "\<lfloor>f64_round (f64_round (29 / 100) * 100)\<rfloor> = 28" unfolding d m .
  then show ?thesis by (simp add: failureRatio_def f64_div_def f64_mult_def)
qed

subsection \<open>What the configuration changes\<close>

text \<open>Only the two thresholds and the type of the rule matter: the configured number of requests, interval and open
  timeout do not reach the breaker.\<close>

lemma NewWorkerBreaker_ignores:
  assumes "bc_ErrorNumbers bc = bc_ErrorNumbers bc'" "bc_ErrorPercent bc = bc_ErrorPercent bc'" "bc_RuleType bc = bc_RuleType bc'"
  shows "NewWorkerBreaker new (Some bc) = NewWorkerBreaker new (Some bc')"
proof -
  have "switchOne bc = switchOne bc'"
    by (rule ext) (simp add: switchOne_def ruleOne_def ruleTwo_def ruleThree_def ruleFour_def assms)
  then show ?thesis by (simp add: NewWorkerBreaker_def worker_breaker_def)
qed

text \<open>A rule type outside of 2 to 4 counts consecutive failures.\<close>

lemma switchOne_default: "bc_RuleType bc \<notin> {2, 3, 4} \<Longrightarrow> switchOne bc counts \<longleftrightarrow> bc_ErrorNumbers bc \<le> ct_ConsecutiveFailures counts"
  by (simp add: switchOne_def ruleOne_def)

end
