(* ===== verification/Sidecar.thy ===== *)
theory Sidecar
  imports Go_Strconv
begin

section \<open>The sidecar proxy (pkg/sidecar, pkg/errno, pkg/model/errcode.go, pkg/model/proxy.go)\<close>

text \<open>
  The sidecar forwards every request it receives to one target and copies the answer. The response that
  the handler writes is a parameter: it is an object of the web framework, of type \<open>'r\<close>, with the
  operations of the record \<open>ResponseOps\<close>. The framework documents that the object is an
  \<^verbatim>\<open>http.ResponseWriter\<close>; the locale \<open>response_writer\<close> says so, through a function that shows what the client
  has been sent. The writer of \<^verbatim>\<open>net/http\<close> itself is defined here: the first status wins, the headers are taken
  when it is written, and a body longer than the declared \<^verbatim>\<open>Content-Length\<close> is refused.

  A header is a function from canonical names to lists of values. The answer of the target has its header
  as the list of pairs in which the loop visits them, and its body as the chunks that \<^verbatim>\<open>io.Copy\<close> reads, with the
  error at the end, if any. Error texts are ASCII.
\<close>

subsection \<open>Errors (errno.go, errcode.go)\<close>

record Errno =
  en_State :: int
  en_Msg :: string

definition Errno_Add :: "Errno \<Rightarrow> string \<Rightarrow> Errno" where
  "Errno_Add e s = e\<lparr>en_Msg := en_Msg e @ '': '' @ s\<rparr>"

text \<open>\<^verbatim>\<open>json.Marshal\<close> on a string: quotes, backslashes, control characters and the three characters of HTML are escaped, as
  the Go release of \<^verbatim>\<open>go.mod\<close> does.\<close>

definition hex_digit :: "nat \<Rightarrow> char" where
  "hex_digit n = ''0123456789abcdef'' ! n"

definition json_char :: "char \<Rightarrow> string" where
  "json_char c = (let n = of_char c :: nat in
     if n = 34 \<or> n = 92 then [CHR 0x5C, c]
     else if n = 10 then [CHR 0x5C, CHR ''n'']
     else if n = 13 then [CHR 0x5C, CHR ''r'']
     else if n = 9 then [CHR 0x5C, CHR ''t'']
     else if n < 32 \<or> n = 60 \<or> n = 62 \<or> n = 38
       then [CHR 0x5C, CHR ''u'', CHR ''0'', CHR ''0'', hex_digit (n div 16), hex_digit (n mod 16)]
     else [c])"

definition json_string :: "string \<Rightarrow> string" where
  "json_string s = CHR 0x22 # concat (map json_char s) @ [CHR 0x22]"

definition Encode :: "Errno \<Rightarrow> string" where
  "Encode e = ''{'' @ json_string ''state'' @ '':'' @ FormatInt (en_State e) @ '','' @ json_string ''msg'' @ '':''
     @ json_string (en_Msg e) @ ''}''"

definition RequestError :: Errno where
  "RequestError = \<lparr>en_State = -105, en_Msg = ''Request Error''\<rparr>"

definition ResponseError :: Errno where
  "ResponseError = \<lparr>en_State = -106, en_Msg = ''Response Error''\<rparr>"

definition RequestBodyLimitError :: Errno where
  "RequestBodyLimitError = \<lparr>en_State = -413, en_Msg = ''Request Error: body size exceeds the given limit''\<rparr>"

text \<open>An error value: an \<^verbatim>\<open>Errno\<close> or any other error with its text.\<close>

datatype error = IsErrno Errno | Other string

subsection \<open>The proxy (proxy.go, model/proxy.go)\<close>

text \<open>Durations are in nanoseconds.\<close>

record ProxyServerOption =
  po_ProtocolType :: string
  po_BindNetWork :: string
  po_BindAddress :: string
  po_BindIP :: string
  po_BindPort :: string
  po_RequestBodySize :: int
  po_ResponseBodySize :: int
  po_ReadTimeout :: int
  po_WriteTimeout :: int
  po_IdleTimeout :: int
  po_TargetProtocolType :: string
  po_TargetAddress :: string
  po_TargetDialTimeout :: int
  po_TargetKeepAlive :: int
  po_TargetIdleConnTimeout :: int
  po_TargetMaxIdleConnsPerHost :: int

record SideCar =
  si_InflowAddr :: "ProxyServerOption option"
  si_OutflowAddr :: "ProxyServerOption option"

record HttpServer =
  hs_ReadTimeout :: int
  hs_WriteTimeout :: int
  hs_IdleTimeout :: int
  hs_Addr :: string

record Transport =
  tr_DialTimeout :: int
  tr_KeepAlive :: int
  tr_DisableKeepAlives :: bool
  tr_MaxIdleConnsPerHost :: int

record httpProxy =
  hp_Options :: ProxyServerOption
  hp_Server :: HttpServer
  hp_Transport :: Transport

definition second :: int where
  "second = 1000000000"

definition NewHttpProxy :: "ProxyServerOption \<Rightarrow> httpProxy" where
  "NewHttpProxy opt = (
     let opt = (if po_ReadTimeout opt \<le> 0 then opt\<lparr>po_ReadTimeout := 60 * second\<rparr> else opt);
         opt = (if po_WriteTimeout opt \<le> 0 then opt\<lparr>po_WriteTimeout := 60 * second\<rparr> else opt)
     in \<lparr>hp_Options = opt,
         hp_Server = \<lparr>hs_ReadTimeout = po_ReadTimeout opt, hs_WriteTimeout = po_WriteTimeout opt,
           hs_IdleTimeout = po_IdleTimeout opt, hs_Addr = po_BindAddress opt\<rparr>,
         hp_Transport = \<lparr>tr_DialTimeout = 30 * second, tr_KeepAlive = po_TargetKeepAlive opt,
           tr_DisableKeepAlives = False, tr_MaxIdleConnsPerHost = po_TargetMaxIdleConnsPerHost opt\<rparr>\<rparr>)"

definition RequestBodyLimit :: int where
  "RequestBodyLimit = 1024 * 1024 * 4"

definition ResponseBodySize :: int where
  "ResponseBodySize = 1024 * 1024 * 10"

text \<open>A nil section of the options panics.\<close>

definition NewInflowServer :: "SideCar \<Rightarrow> httpProxy option" where
  "NewInflowServer config = do {
     opt \<leftarrow> si_InflowAddr config;
     Some (NewHttpProxy (opt\<lparr>po_RequestBodySize := RequestBodyLimit, po_ResponseBodySize := ResponseBodySize,
       po_ReadTimeout := 60 * second, po_WriteTimeout := 60 * second, po_IdleTimeout := 60 * second\<rparr>))
   }"

definition NewOutflowServer :: "SideCar \<Rightarrow> httpProxy option" where
  "NewOutflowServer config = do {
     opt \<leftarrow> si_OutflowAddr config;
     Some (NewHttpProxy (opt\<lparr>po_RequestBodySize := RequestBodyLimit, po_ResponseBodySize := ResponseBodySize,
       po_ReadTimeout := 60 * second, po_WriteTimeout := 60 * second, po_IdleTimeout := 60 * second\<rparr>))
   }"

record ScServer =
  sv_inflow :: httpProxy
  sv_outflow :: httpProxy

definition NewScServer :: "SideCar option \<Rightarrow> ScServer option" where
  "NewScServer sideCar = do {
     config \<leftarrow> sideCar;
     inflow \<leftarrow> NewInflowServer config;
     outflow \<leftarrow> NewOutflowServer config;
     Some \<lparr>sv_inflow = inflow, sv_outflow = outflow\<rparr>
   }"

subsection \<open>The writer of net/http\<close>

text \<open>A canonical name: the first letter and every letter after a hyphen in upper case, the others in lower case;
  a name with a character that no token has stays as it is.\<close>

definition token_char :: "char \<Rightarrow> bool" where
  "token_char c \<longleftrightarrow> c \<in> set ''!#$%&*+-.^_|~0123456789abcdefghijklmnopqrstuvwxyzABCDEFGHIJKLMNOPQRSTUVWXYZ''
     \<or> c = CHR 0x27 \<or> c = CHR 0x60"

definition to_upper :: "char \<Rightarrow> char" where
  "to_upper c = (let n = of_char c :: nat in if 97 \<le> n \<and> n \<le> 122 then char_of (n - 32) else c)"

definition to_lower :: "char \<Rightarrow> char" where
  "to_lower c = (let n = of_char c :: nat in if 65 \<le> n \<and> n \<le> 90 then char_of (n + 32) else c)"

fun canon_loop :: "bool \<Rightarrow> string \<Rightarrow> string" where
  "canon_loop upper [] = []"
| "canon_loop upper (c # cs) = (if upper then to_upper c else to_lower c) # canon_loop (c = CHR ''-'') cs"

definition canon :: "string \<Rightarrow> string" where
  "canon s = (if list_all token_char s then canon_loop True s else s)"

type_synonym Header = "string \<Rightarrow> string list"

definition header_Set :: "string \<Rightarrow> string \<Rightarrow> Header \<Rightarrow> Header" where
  "header_Set k v h = h(canon k := [v])"

definition header_Add :: "string \<Rightarrow> string \<Rightarrow> Header \<Rightarrow> Header" where
  "header_Add k v h = h(canon k := h (canon k) @ [v])"

text \<open>What has been sent: the status with the header as it was then, the declared length, the bytes counted and
  the body. \<open>o_Head\<close>: the request is a \<^verbatim>\<open>HEAD\<close>, whose body is not sent.\<close>

record HttpOut =
  o_Head :: bool
  o_Header :: Header
  o_Sent :: "(int \<times> Header) option"
  o_Length :: "int option"
  o_Written :: int
  o_Body :: string

definition declared_length :: "Header \<Rightarrow> int option" where
  "declared_length h = (case h ''Content-Length'' of
     [] \<Rightarrow> None
   | cl # _ \<Rightarrow> (case Atoi cl of Some v \<Rightarrow> if 0 \<le> v then Some v else None | None \<Rightarrow> None))"

definition http_WriteHeader :: "int \<Rightarrow> HttpOut \<Rightarrow> HttpOut" where
  "http_WriteHeader code o1 = (if o_Sent o1 \<noteq> None then o1
     else o1\<lparr>o_Sent := Some (code, o_Header o1), o_Length := declared_length (o_Header o1)\<rparr>)"

definition body_allowed :: "HttpOut \<Rightarrow> bool" where
  "body_allowed o1 \<longleftrightarrow> (case o_Sent o1 of Some (code, _) \<Rightarrow> \<not> (100 \<le> code \<and> code \<le> 199) \<and> code \<noteq> 204 \<and> code \<noteq> 304 | None \<Rightarrow> True)"

definition http_Write :: "string \<Rightarrow> HttpOut \<Rightarrow> HttpOut \<times> int \<times> string option" where
  "http_Write bs o1 = (
     let o1 = http_WriteHeader 200 o1
     in if bs = [] then (o1, 0, None)
        else if \<not> body_allowed o1 then (o1, 0, Some ''http: request method or response status code does not allow body'')
        else
          let o1 = o1\<lparr>o_Written := o_Written o1 + int (length bs)\<rparr>
          in if (case o_Length o1 of Some n \<Rightarrow> n < o_Written o1 | None \<Rightarrow> False)
             then (o1, 0, Some ''http: wrote more than the declared Content-Length'')
             else (o1\<lparr>o_Body := (if o_Head o1 then o_Body o1 else o_Body o1 @ bs)\<rparr>, int (length bs), None))"

subsection \<open>The response of the framework\<close>

record 'r ResponseOps =
  r_Set :: "string \<Rightarrow> string \<Rightarrow> 'r \<Rightarrow> 'r"
  r_Add :: "string \<Rightarrow> string \<Rightarrow> 'r \<Rightarrow> 'r"
  r_WriteHeader :: "int \<Rightarrow> 'r \<Rightarrow> 'r"
  r_Write :: "string \<Rightarrow> 'r \<Rightarrow> 'r \<times> int \<times> string option"
  r_Size :: "'r \<Rightarrow> int"
  r_Status :: "'r \<Rightarrow> int"

subsection \<open>The handlers (scserver.go, inflow.go, outflow.go)\<close>

definition InflowOutHttpRequestError :: "'r ResponseOps \<Rightarrow> 'r \<Rightarrow> int \<Rightarrow> error \<Rightarrow> 'r" where
  "InflowOutHttpRequestError ops w code err = (
     let body = (case err of IsErrno e \<Rightarrow> Encode e | Other s \<Rightarrow> Encode (Errno_Add RequestError s));
         w = r_Set ops ''Content-Type'' ''application/json;'' w;
         w = r_WriteHeader ops code w
     in fst (r_Write ops body w))"

definition OutHttpRequestError :: "'r ResponseOps \<Rightarrow> 'r \<Rightarrow> int \<Rightarrow> error \<Rightarrow> 'r" where
  "OutHttpRequestError ops w code err = (
     let body = (case err of IsErrno e \<Rightarrow> Encode e | Other s \<Rightarrow> Encode (Errno_Add RequestError s));
         w = r_Set ops ''Content-Type'' ''application/json;'' w;
         w = r_WriteHeader ops code w
     in fst (r_Write ops body w))"

definition OutHttpResponseError :: "'r ResponseOps \<Rightarrow> 'r \<Rightarrow> error option \<Rightarrow> 'r" where
  "OutHttpResponseError ops r err_opt = (case err_opt of
     None \<Rightarrow> r
   | Some err \<Rightarrow>
       let output = (case err of IsErrno e \<Rightarrow> Encode e | Other s \<Rightarrow> Encode (Errno_Add ResponseError s))
       in if r_Size ops r = 0
          then
            let r = r_Set ops ''Content-Type'' ''application/json;'' r;
                r = r_WriteHeader ops (r_Status ops r) r
            in fst (r_Write ops output r)
          else r)"

record Request =
  q_Method :: string
  q_Scheme :: string
  q_Host :: string
  q_URLHost :: string
  q_Path :: string

record Response =
  p_StatusCode :: int
  p_Header :: "(string \<times> string list) list"
  p_ContentLength :: int
  p_Chunks :: "string list"
  p_BodyError :: "string option"

text \<open>The error of \<^verbatim>\<open>RoundTrip\<close>: whether it is \<^verbatim>\<open>context.Canceled\<close> or \<^verbatim>\<open>io.EOF\<close>, and its text.\<close>

record TripError =
  te_Canceled :: bool
  te_EOF :: bool
  te_Text :: string

fun copy_header :: "'r ResponseOps \<Rightarrow> (string \<times> string list) list \<Rightarrow> 'r \<Rightarrow> 'r" where
  "copy_header ops [] r = r"
| "copy_header ops ((k, vv) # hs) r = copy_header ops hs (fold (r_Add ops k) vv r)"

text \<open>\<^verbatim>\<open>io.Copy\<close>: it stops at the first write that fails or is short, and at the error of the body.\<close>

fun io_Copy :: "'r ResponseOps \<Rightarrow> string list \<Rightarrow> string option \<Rightarrow> 'r \<Rightarrow> 'r \<times> string option" where
  "io_Copy ops [] er r = (r, er)"
| "io_Copy ops (buf # bufs) er r =
    (if buf = [] then io_Copy ops bufs er r
     else (case r_Write ops buf r of (r, nw, ew) \<Rightarrow>
       if nw < 0 \<or> int (length buf) < nw then (r, Some (case ew of None \<Rightarrow> ''invalid write result'' | Some e \<Rightarrow> e))
       else if ew \<noteq> None then (r, ew)
       else if nw \<noteq> int (length buf) then (r, Some ''short write'')
       else io_Copy ops bufs er r))"

definition proxy_request :: "ProxyServerOption \<Rightarrow> Request \<Rightarrow> Request" where
  "proxy_request opt req = req\<lparr>q_Scheme := po_TargetProtocolType opt, q_Host := po_TargetAddress opt,
     q_URLHost := po_TargetAddress opt\<rparr>"

definition doInflowProxy :: "'r ResponseOps \<Rightarrow> (Request \<Rightarrow> TripError + Response) \<Rightarrow> httpProxy \<Rightarrow> Request \<Rightarrow> 'r \<Rightarrow> 'r" where
  "doInflowProxy ops RoundTrip px req r = (case RoundTrip (proxy_request (hp_Options px) req) of
     Inl err \<Rightarrow>
       if te_Canceled err \<or> te_EOF err then r
       else OutHttpResponseError ops r (Some (IsErrno (Errno_Add RequestError (te_Text err))))
   | Inr resp \<Rightarrow>
       if i64 (p_ContentLength resp) > po_ResponseBodySize (hp_Options px)
       then OutHttpRequestError ops r 200 (IsErrno RequestBodyLimitError)
       else
         let r = copy_header ops (p_Header resp) r;
             r = r_WriteHeader ops (p_StatusCode resp) r
         in (case io_Copy ops (p_Chunks resp) (p_BodyError resp) r of
              (r, None) \<Rightarrow> r
            | (r, Some err) \<Rightarrow> InflowOutHttpRequestError ops r 200 (Other err)))"

text \<open>The outflow answers nothing.\<close>

definition doOutflowProxy :: "'r \<Rightarrow> 'r" where
  "doOutflowProxy r = r"

text \<open>The writer of \<^verbatim>\<open>net/http\<close> as such a response.\<close>

definition http_ops :: "HttpOut ResponseOps" where
  "http_ops = \<lparr>r_Set = (\<lambda>k v r. r\<lparr>o_Header := header_Set k v (o_Header r)\<rparr>),
     r_Add = (\<lambda>k v r. r\<lparr>o_Header := header_Add k v (o_Header r)\<rparr>), r_WriteHeader = http_WriteHeader, r_Write = http_Write,
     r_Size = (\<lambda>r. int (length (o_Body r))), r_Status = (\<lambda>r. case o_Sent r of None \<Rightarrow> 200 | Some (c, _) \<Rightarrow> c)\<rparr>"

definition http_fresh :: "Header \<Rightarrow> HttpOut" where
  "http_fresh h = \<lparr>o_Head = False, o_Header = h, o_Sent = None, o_Length = None, o_Written = 0, o_Body = []\<rparr>"

text \<open>The header after the values of a list of pairs have been added.\<close>

definition added :: "(string \<times> string list) list \<Rightarrow> Header \<Rightarrow> Header" where
  "added hs h = (\<lambda>k. h k @ concat (map snd (filter (\<lambda>(k', _). canon k' = k) hs)))"

definition json_header :: "Header \<Rightarrow> Header" where
  "json_header h = header_Set ''Content-Type'' ''application/json;'' h"

subsection \<open>The interface: a response is an http.ResponseWriter\<close>

locale response_writer =
  fixes ops :: "'r ResponseOps" and obs :: "'r \<Rightarrow> HttpOut"
  assumes obs_Set: "obs (r_Set ops k v r) = (obs r)\<lparr>o_Header := header_Set k v (o_Header (obs r))\<rparr>"
    and obs_Add: "obs (r_Add ops k v r) = (obs r)\<lparr>o_Header := header_Add k v (o_Header (obs r))\<rparr>"
    and obs_WriteHeader: "200 \<le> c \<Longrightarrow> c \<le> 999 \<Longrightarrow> obs (r_WriteHeader ops c r) = http_WriteHeader c (obs r)"
    and obs_Write: "r_Write ops bs r = (r', n, e) \<Longrightarrow> http_Write bs (obs r) = (obs r', n, e)"
begin

lemma fst_Write: "obs (fst (r_Write ops bs r)) = fst (http_Write bs (obs r))"
  using obs_Write [of bs r] by (cases "r_Write ops bs r") auto

lemma fold_Add:
  "obs (fold (r_Add ops k) vv r) = (obs r)\<lparr>o_Header := (o_Header (obs r))(canon k := o_Header (obs r) (canon k) @ vv)\<rparr>"
  by (induction vv arbitrary: r) (simp_all add: obs_Add header_Add_def)

lemma obs_copy_header: "obs (copy_header ops hs r) = (obs r)\<lparr>o_Header := added hs (o_Header (obs r))\<rparr>"
proof (induction hs arbitrary: r)
  case (Cons kv hs)
  obtain k vv where kv: "kv = (k, vv)" by fastforce
  have "added hs (h(canon k := h (canon k) @ vv)) = added (kv # hs) h" for h
    by (rule ext) (simp add: added_def kv)
  then show ?case using Cons by (simp add: kv fold_Add del: fun_upd_apply cong: if_cong)
qed (simp add: added_def)

text \<open>Copying a body that fits: each chunk is written, and the error of the body is the result.\<close>

lemma obs_io_Copy:
  assumes "o_Sent (obs r) = Some (c, h)" "concat bufs = [] \<or> body_allowed (obs r)"
    and "\<And>n. o_Length (obs r) = Some n \<Longrightarrow> o_Written (obs r) + int (length (concat bufs)) \<le> n"
    and "io_Copy ops bufs er r = (r', e)"
  shows "e = er \<and> obs r' = (obs r)\<lparr>o_Written := o_Written (obs r) + int (length (concat bufs)),
    o_Body := (if o_Head (obs r) then o_Body (obs r) else o_Body (obs r) @ concat bufs)\<rparr>"
  using assms
proof (induction bufs arbitrary: r)
  case (Cons buf bufs)
  show ?case
  proof (cases "buf = []")
    case True
    then show ?thesis using Cons.IH [of r] Cons.prems by simp
  next
    case False
    let ?o = "(obs r)\<lparr>o_Written := o_Written (obs r) + int (length buf),
      o_Body := (if o_Head (obs r) then o_Body (obs r) else o_Body (obs r) @ buf)\<rparr>"
    obtain r1 nw ew where w: "r_Write ops buf r = (r1, nw, ew)" by (rule prod_cases3)
    have ok: "\<not> (case o_Length (obs r) of Some n \<Rightarrow> n < o_Written (obs r) + int (length buf) | None \<Rightarrow> False)"
      using Cons.prems(3) by (auto split: option.splits)
    have "http_Write buf (obs r) = (?o, int (length buf), None)"
      using False Cons.prems(1,2) ok
      by (cases "o_Length (obs r)") (auto simp: http_Write_def http_WriteHeader_def body_allowed_def Let_def)
    then have "(obs r1, nw, ew) = (?o, int (length buf), None)" by (simp only: obs_Write [OF w])
    then have o1: "obs r1 = ?o" and n: "nw = int (length buf)" "ew = None" by (simp_all only: prod.inject)
    have "io_Copy ops bufs er r1 = (r', e)" using Cons.prems(4) False w n by simp
    moreover have "o_Sent (obs r1) = Some (c, h)" "concat bufs = [] \<or> body_allowed (obs r1)"
      using Cons.prems(1,2) False by (auto simp: o1 body_allowed_def)
    moreover have "o_Written (obs r1) + int (length (concat bufs)) \<le> n" if "o_Length (obs r1) = Some n" for n
      using Cons.prems(3) [of n] that by (simp add: o1)
    ultimately show ?thesis using Cons.IH [of r1] by (simp add: o1)
  qed
qed simp

text \<open>An error as the whole answer.\<close>

lemma obs_error:
  assumes "obs r = http_fresh h" "declared_length (json_header h) = None" "body \<noteq> []"
  shows "obs (fst (r_Write ops body (r_WriteHeader ops 200 (r_Set ops ''Content-Type'' ''application/json;'' r))))
    = \<lparr>o_Head = False, o_Header = json_header h, o_Sent = Some (200, json_header h), o_Length = None,
       o_Written = int (length body), o_Body = body\<rparr>"
  using assms by (simp add: fst_Write obs_WriteHeader obs_Set http_fresh_def json_header_def http_Write_def http_WriteHeader_def
    body_allowed_def Let_def)

lemma trip_canceled:
  assumes "RoundTrip (proxy_request (hp_Options px) req) = Inl err" "te_Canceled err \<or> te_EOF err"
  shows "doInflowProxy ops RoundTrip px req r = r"
  using assms by (simp add: doInflowProxy_def)

lemma trip_failed:
  assumes "RoundTrip (proxy_request (hp_Options px) req) = Inl err" "\<not> te_Canceled err" "\<not> te_EOF err"
    and "obs r = http_fresh h" "declared_length (json_header h) = None"
    and "r_Size ops r = 0" "\<And>k v. r_Status ops (r_Set ops k v r) = 200"
  shows "o_Sent (obs (doInflowProxy ops RoundTrip px req r)) = Some (200, json_header h)
    \<and> o_Body (obs (doInflowProxy ops RoundTrip px req r)) = Encode (Errno_Add RequestError (te_Text err))"
proof -
  have "Encode (Errno_Add RequestError (te_Text err)) \<noteq> []" by (simp add: Encode_def)
  from obs_error [OF assms(4,5) this] show ?thesis
    using assms(1-3,6,7) by (simp add: doInflowProxy_def OutHttpResponseError_def Let_def)
qed

lemma trip_too_long:
  assumes "RoundTrip (proxy_request (hp_Options px) req) = Inr resp"
    and "i64 (p_ContentLength resp) > po_ResponseBodySize (hp_Options px)"
    and "obs r = http_fresh h" "declared_length (json_header h) = None"
  shows "o_Sent (obs (doInflowProxy ops RoundTrip px req r)) = Some (200, json_header h)
    \<and> o_Body (obs (doInflowProxy ops RoundTrip px req r)) = Encode RequestBodyLimitError"
proof -
  have "Encode RequestBodyLimitError \<noteq> []" by (simp add: Encode_def)
  from obs_error [OF assms(3,4) this] show ?thesis
    using assms(1,2) by (simp add: doInflowProxy_def OutHttpRequestError_def Let_def)
qed

text \<open>The state after the header and the status of the target have been written.\<close>

lemma obs_status:
  assumes "obs r = http_fresh h" "200 \<le> c" "c \<le> 999"
  shows "obs (r_WriteHeader ops c (copy_header ops hs r)) = (http_fresh (added hs h))\<lparr>o_Sent := Some (c, added hs h),
    o_Length := declared_length (added hs h)\<rparr>"
  using assms by (simp add: obs_WriteHeader obs_copy_header http_WriteHeader_def http_fresh_def)

lemma trip_forwarded:
  assumes "RoundTrip (proxy_request (hp_Options px) req) = Inr resp"
    and "i64 (p_ContentLength resp) \<le> po_ResponseBodySize (hp_Options px)"
    and "obs r = http_fresh h" "200 \<le> p_StatusCode resp" "p_StatusCode resp \<le> 999"
    and "concat (p_Chunks resp) = [] \<or> p_StatusCode resp \<noteq> 204 \<and> p_StatusCode resp \<noteq> 304"
    and "\<And>n. declared_length (added (p_Header resp) h) = Some n \<Longrightarrow> int (length (concat (p_Chunks resp))) \<le> n"
    and "p_BodyError resp = None"
  shows "o_Sent (obs (doInflowProxy ops RoundTrip px req r)) = Some (p_StatusCode resp, added (p_Header resp) h)
    \<and> o_Body (obs (doInflowProxy ops RoundTrip px req r)) = concat (p_Chunks resp)"
proof -
  let ?r = "r_WriteHeader ops (p_StatusCode resp) (copy_header ops (p_Header resp) r)"
  note st = obs_status [OF assms(3-5), of "p_Header resp"]
  obtain r' e where c: "io_Copy ops (p_Chunks resp) (p_BodyError resp) ?r = (r', e)" by fastforce
  have "e = None \<and> obs r' = (obs ?r)\<lparr>o_Written := int (length (concat (p_Chunks resp))), o_Body := concat (p_Chunks resp)\<rparr>"
    using obs_io_Copy [OF _ _ _ c] assms(4,6-8) by (simp add: st http_fresh_def body_allowed_def)
  then show ?thesis using assms(1,2) c by (simp add: doInflowProxy_def st http_fresh_def)
qed

text \<open>When the body of the target breaks off, the error is appended to what was already copied, under the
  status of the target.\<close>

lemma trip_broken:
  assumes "RoundTrip (proxy_request (hp_Options px) req) = Inr resp"
    and "i64 (p_ContentLength resp) \<le> po_ResponseBodySize (hp_Options px)"
    and "obs r = http_fresh h" "200 \<le> p_StatusCode resp" "p_StatusCode resp \<le> 999"
    and "p_StatusCode resp \<noteq> 204" "p_StatusCode resp \<noteq> 304"
    and "declared_length (added (p_Header resp) h) = None"
    and "p_BodyError resp = Some text"
  shows "o_Sent (obs (doInflowProxy ops RoundTrip px req r)) = Some (p_StatusCode resp, added (p_Header resp) h)
    \<and> o_Body (obs (doInflowProxy ops RoundTrip px req r)) = concat (p_Chunks resp) @ Encode (Errno_Add RequestError text)"
proof -
  let ?r = "r_WriteHeader ops (p_StatusCode resp) (copy_header ops (p_Header resp) r)"
  note st = obs_status [OF assms(3-5), of "p_Header resp"]
  have ne: "Encode (Errno_Add RequestError text) \<noteq> []" by (simp add: Encode_def)
  obtain r' e where c: "io_Copy ops (p_Chunks resp) (p_BodyError resp) ?r = (r', e)" by fastforce
  have r': "e = Some text \<and> obs r' = (obs ?r)\<lparr>o_Written := int (length (concat (p_Chunks resp))), o_Body := concat (p_Chunks resp)\<rparr>"
    using obs_io_Copy [OF _ _ _ c] assms(4,6-9) by (simp add: st http_fresh_def body_allowed_def)
  then have d: "doInflowProxy ops RoundTrip px req r = InflowOutHttpRequestError ops r' 200 (Other text)"
    using assms(1,2) c by (simp add: doInflowProxy_def)
  show ?thesis unfolding d
    using r' ne assms(4,6-8) by (simp add: InflowOutHttpRequestError_def Let_def fst_Write obs_WriteHeader obs_Set st http_fresh_def
      http_Write_def http_WriteHeader_def body_allowed_def)
qed

end

interpretation http: response_writer http_ops "\<lambda>r. r"
  by unfold_locales (simp_all add: http_ops_def)

subsection \<open>The options of the servers\<close>

text \<open>Whatever the configuration says, the limits and the timeouts are the built-in ones.\<close>

lemma NewScServer_limits:
  assumes "NewScServer sideCar = Some sc" "px = sv_inflow sc \<or> px = sv_outflow sc"
  shows "po_RequestBodySize (hp_Options px) = 4194304 \<and> po_ResponseBodySize (hp_Options px) = 10485760
    \<and> hs_ReadTimeout (hp_Server px) = 60000000000 \<and> hs_WriteTimeout (hp_Server px) = 60000000000
    \<and> hs_IdleTimeout (hp_Server px) = 60000000000"
  using assms by (auto simp: NewScServer_def NewInflowServer_def NewOutflowServer_def NewHttpProxy_def second_def
    RequestBodyLimit_def ResponseBodySize_def Let_def split: Option.bind_splits)

end
