(* ===== verification/Startup.thy ===== *)
theory Startup
  imports Server_Run Thread Breaker Sidecar "HOL-Library.Multiset"
begin

section \<open>Configuration, start and shutdown (pkg/conf, pkg/model, pkg/metric/server.go, cmd/server/nmid.go)\<close>

text \<open>
  The configuration file, the program that starts the server, and the listeners that close the metrics.
  A section of the file that is missing is a nil pointer, \<^const>\<open>None\<close>, and reading a field of it panics.
  \<^verbatim>\<open>GetConfig\<close> reads the file again at every call, so what the calls return is a function of the number of the
  call. The YAML packages are arguments; the environment of the process, the network and the third-party
  HTTP server are left out.

  The lemmas: what \<^verbatim>\<open>GetConfig\<close> returns for every state of the file; the program ends with status 0 after a
  signal, its listener and its gateway closed; without the section \<^verbatim>\<open>Prometheus\<close> it crashes at the
  start; the wait group of the close listeners reaches zero exactly when each of them has run.
\<close>

subsection \<open>The configuration\<close>

record RegistryConfig =
  rg_TYPE :: string
  rg_HOST :: string
  rg_PORT :: string
  rg_RENEW :: int

record LogConfig =
  lc_Debug :: bool
  lc_LogDir :: string
  lc_StdoutFilename :: string
  lc_Encoding :: string

record TraceConfig =
  tc_TraceType :: string
  tc_ReporterUrl :: string

record DingTalkConfig =
  dt_Enable :: bool
  dt_Tokens :: string
  dt_Secret :: string

record Prometheus =
  pr_Enable :: bool
  pr_Host :: string
  pr_Port :: string
  pr_Path :: string

record DashboardConfig =
  db_Enable :: bool
  db_Host :: string
  db_Port :: string
  db_DefaultPath :: string
  db_Template :: string

record BreakerSection =
  br_SerialErrorNumbers :: u32
  br_ErrorPercent :: "8 word"
  br_MaxRequest :: u32
  br_Interval :: u32
  br_Timeout :: u32
  br_RuleType :: "8 word"
  br_Btype :: "8 word"
  br_RequestTimeout :: u32
  br_Cycle :: u32

record ServerConfig =
  sc_RpcServer :: "RpcConfig option"
  sc_SideCar :: "SideCar option"
  sc_Registry :: "RegistryConfig option"
  sc_Breaker :: "BreakerSection option"
  sc_WhiteList :: "IpList option"
  sc_BlackList :: "IpList option"
  sc_BreakerConfig :: "BreakerConfig option"
  sc_LogConfig :: "LogConfig option"
  sc_TraceConfig :: "TraceConfig option"
  sc_DingTalkConfig :: "DingTalkConfig option"
  sc_Prometheus :: "Prometheus option"
  sc_Dashboard :: "DashboardConfig option"

definition zero_config :: ServerConfig where
  "zero_config = \<lparr>sc_RpcServer = None, sc_SideCar = None, sc_Registry = None, sc_Breaker = None, sc_WhiteList = None, sc_BlackList = None,
     sc_BreakerConfig = None, sc_LogConfig = None, sc_TraceConfig = None, sc_DingTalkConfig = None,
     sc_Prometheus = None, sc_Dashboard = None\<rparr>"

text \<open>The file: what \<^verbatim>\<open>os.Stat\<close> says of its existence, and what reading it returns.\<close>

record File =
  fi_NotExist :: bool
  fi_Read :: "string + bytes"

definition ReadFileData :: "File \<Rightarrow> string + bytes" where
  "ReadFileData f = (if fi_NotExist f then Inl ''The yaml configuration file does not exist'' else fi_Read f)"

text \<open>\<open>unmarshal\<close> fills the configuration, also beside an error.\<close>

definition ParseYaml4Bytes :: "(bytes \<Rightarrow> ServerConfig \<times> string option) \<Rightarrow> bytes \<Rightarrow> ServerConfig \<times> string option" where
  "ParseYaml4Bytes unmarshal orignData =
    (if orignData = [] then (zero_config, Some ''yaml source data is empty'') else unmarshal orignData)"

definition ParseYaml4File :: "(bytes \<Rightarrow> ServerConfig \<times> string option) \<Rightarrow> File \<Rightarrow> ServerConfig \<times> string option" where
  "ParseYaml4File unmarshal f = (case ReadFileData f of
     Inl e \<Rightarrow> (zero_config, Some e)
   | Inr fileData \<Rightarrow> ParseYaml4Bytes unmarshal fileData)"

text \<open>The error is printed and dropped.\<close>

definition GetConfig :: "(bytes \<Rightarrow> ServerConfig \<times> string option) \<Rightarrow> File \<Rightarrow> ServerConfig" where
  "GetConfig unmarshal f = fst (ParseYaml4File unmarshal f)"

text \<open>\<^verbatim>\<open>Init\<close>: every error ends the process, \<^const>\<open>None\<close>. \<open>expand\<close> is \<^verbatim>\<open>os.ExpandEnv\<close>, \<open>read_config\<close> and \<open>unmarshal\<close>
  are the two calls of viper, the second of which decodes into a configuration; the result is the global
  configuration. When the file changes, viper decodes again into it, and an error is only printed.\<close>

definition Init ::
  "(bytes \<Rightarrow> bytes) \<Rightarrow> (bytes \<Rightarrow> string + 'v) \<Rightarrow> ('v \<Rightarrow> ServerConfig \<Rightarrow> ServerConfig \<times> string option) \<Rightarrow> File
    \<Rightarrow> ServerConfig option" where
  "Init expand read_config unmarshal f = (case fi_Read f of
     Inl e \<Rightarrow> None
   | Inr confContent \<Rightarrow> (case read_config (expand confContent) of
       Inl e \<Rightarrow> None
     | Inr v \<Rightarrow> (case unmarshal v zero_config of (c, Some e) \<Rightarrow> None | (c, None) \<Rightarrow> Some c)))"

definition config_changed :: "('v \<Rightarrow> ServerConfig \<Rightarrow> ServerConfig \<times> string option) \<Rightarrow> 'v \<Rightarrow> ServerConfig \<Rightarrow> ServerConfig" where
  "config_changed unmarshal v sConfig = fst (unmarshal v sConfig)"

subsection \<open>Starting the metrics and the dashboard\<close>

text \<open>The two \<^verbatim>\<open>sync.Once\<close>, how often \<^verbatim>\<open>GetConfig\<close> was called, and the HTTP servers started, each with its
  name, address and path.\<close>

record StartState =
  ss_promOnce :: bool
  ss_dashOnce :: bool
  ss_calls :: nat
  ss_started :: "(string \<times> string \<times> string) list"

definition start_init :: StartState where
  "start_init = \<lparr>ss_promOnce = False, ss_dashOnce = False, ss_calls = 0, ss_started = []\<rparr>"

definition next_config :: "(nat \<Rightarrow> ServerConfig) \<Rightarrow> StartState \<Rightarrow> ServerConfig \<times> StartState" where
  "next_config g s = (g (ss_calls s), s\<lparr>ss_calls := ss_calls s + 1\<rparr>)"

definition metric_StartServer :: "ServerConfig \<Rightarrow> StartState \<Rightarrow> StartState option" where
  "metric_StartServer c s = do {
     p \<leftarrow> sc_Prometheus c;
     if pr_Port p = [] then Some s
     else if ss_promOnce s then Some s
     else Some (s\<lparr>ss_promOnce := True,
       ss_started := ss_started s @ [(''start prometheus server'', pr_Host p @ '':'' @ pr_Port p, pr_Path p)]\<rparr>)
   }"

definition StartDashboard :: "ServerConfig \<Rightarrow> StartState \<Rightarrow> StartState option" where
  "StartDashboard c s = do {
     d \<leftarrow> sc_Dashboard c;
     if db_Port d = [] then Some s
     else if ss_dashOnce s then Some s
     else Some (s\<lparr>ss_dashOnce := True,
       ss_started := ss_started s @ [(''start dashboard server'', db_Host d @ '':'' @ db_Port d, db_DefaultPath d)]\<rparr>)
   }"

definition SetStartUp :: "(nat \<Rightarrow> ServerConfig) \<Rightarrow> StartState \<Rightarrow> StartState option" where
  "SetStartUp g s = (case next_config g s of (c, s) \<Rightarrow> do {
     p \<leftarrow> sc_Prometheus c;
     if pr_Enable p then (case next_config g s of (c, s) \<Rightarrow> do {
       s \<leftarrow> metric_StartServer c s;
       (case next_config g s of (c, s) \<Rightarrow> do {
         d \<leftarrow> sc_Dashboard c;
         if db_Enable d then (case next_config g s of (c, s) \<Rightarrow> StartDashboard c s) else Some s
       })
     })
     else Some s
   })"

subsection \<open>The program\<close>

text \<open>A wait group: a negative counter panics.\<close>

definition wg_Add :: "int \<Rightarrow> int \<Rightarrow> int option" where
  "wg_Add wg delta = (if wg + delta < 0 then None else Some (wg + delta))"

text \<open>How \<^verbatim>\<open>main\<close> ends: by \<^verbatim>\<open>log.Fatalf\<close>, by a panic that its deferred function logs, waiting for ever for the wait
  group, or with status 0.\<close>

datatype 'tls main_end = FatalExit | Recovered | Blocked | Exit0 "'tls Settings" StartState

definition shutdown :: "(nat \<Rightarrow> ServerConfig) \<Rightarrow> 'tls Settings \<Rightarrow> StartState \<Rightarrow> (int \<times> 'tls Settings \<times> StartState) option" where
  "shutdown g st s = do {
     wg \<leftarrow> wg_Add 0 1;
     st \<leftarrow> ServerClose st;
     wg \<leftarrow> wg_Add wg (- 1);
     (case next_config g s of (c, s) \<Rightarrow> do {
       p \<leftarrow> sc_Prometheus c;
       if pr_Enable p then do { wg \<leftarrow> wg_Add wg 1; wg \<leftarrow> wg_Add wg (- 1); Some (wg, st, s) }
       else Some (wg, st, s)
     })
   }"

text \<open>\<open>init\<close> is what \<^verbatim>\<open>Init\<close> leaves. \<open>run\<close> is what the goroutines of \<^verbatim>\<open>ServerRun\<close> and, with \<open>True\<close>, of \<^verbatim>\<open>HttpServerRun\<close> make of the
  server until one of the four signals comes: \<^const>\<open>None\<close> when one of them ends the process.\<close>

definition main ::
  "ServerConfig option \<Rightarrow> (nat \<Rightarrow> ServerConfig) \<Rightarrow> (bool \<Rightarrow> 'tls Settings \<Rightarrow> 'tls Settings option) \<Rightarrow> string \<Rightarrow> 'tls main_end" where
  "main init g run version = (case init of
     None \<Rightarrow> FatalExit
   | Some _ \<Rightarrow> (case next_config g start_init of (c, s) \<Rightarrow>
       (case do {
          r \<leftarrow> sc_RpcServer c;
          st \<leftarrow> SetSConfig (Some r) settings_new;
          s \<leftarrow> SetStartUp g s;
          (case next_config g s of (c, s) \<Rightarrow> do {
            r \<leftarrow> sc_RpcServer c;
            Some (run (rpc_HTTPPORT r \<noteq> []) (SetVersion version st), s)
          })
        } of
          None \<Rightarrow> Recovered
        | Some (None, s) \<Rightarrow> FatalExit
        | Some (Some st, s) \<Rightarrow> (case shutdown g st s of
            None \<Rightarrow> Recovered
          | Some (wg, st, s) \<Rightarrow> if wg = 0 then Exit0 st s else Blocked))))"

subsection \<open>The close listeners\<close>

text \<open>The wait group, the registered listeners, the goroutines that run them, and the listeners that have run.
  A listener is a number.\<close>

record closeManager =
  cm_wait :: int
  cm_listeners :: "nat list"
  cm_running :: "nat list"
  cm_ran :: "nat list"

definition cm_new :: closeManager where
  "cm_new = \<lparr>cm_wait = 0, cm_listeners = [], cm_running = [], cm_ran = []\<rparr>"

definition addListener :: "nat \<Rightarrow> closeManager \<Rightarrow> closeManager" where
  "addListener fn cm = cm\<lparr>cm_wait := cm_wait cm + 1, cm_listeners := cm_listeners cm @ [fn]\<rparr>"

definition doListeners :: "closeManager \<Rightarrow> closeManager" where
  "doListeners cm = cm\<lparr>cm_running := cm_running cm @ cm_listeners cm\<rparr>"

text \<open>A goroutine runs its listener and then decrements the counter; a counter below zero panics there, and
  the goroutine recovers it.\<close>

definition listener_ends :: "nat \<Rightarrow> closeManager \<Rightarrow> closeManager" where
  "listener_ends fn cm = cm\<lparr>cm_running := remove1 fn (cm_running cm), cm_ran := fn # cm_ran cm, cm_wait := cm_wait cm - 1\<rparr>"

definition wait_returns :: "closeManager \<Rightarrow> bool" where
  "wait_returns cm \<longleftrightarrow> cm_wait cm = 0"

text \<open>The states of a program that registers its listeners, closes once, and lets the goroutines end in any
  order; the flag says whether it has closed.\<close>

inductive cm_once :: "closeManager \<Rightarrow> bool \<Rightarrow> bool" where
  new: "cm_once cm_new False"
| add: "cm_once cm False \<Longrightarrow> cm_once (addListener fn cm) False"
| close: "cm_once cm False \<Longrightarrow> cm_once (doListeners cm) True"
| finish: "cm_once cm True \<Longrightarrow> fn \<in> set (cm_running cm) \<Longrightarrow> cm_once (listener_ends fn cm) True"

subsection \<open>Reading the configuration\<close>

lemma GetConfig_cases:
  "GetConfig unmarshal f = (if fi_NotExist f then zero_config else case fi_Read f of
     Inl _ \<Rightarrow> zero_config | Inr [] \<Rightarrow> zero_config | Inr (b # bs) \<Rightarrow> fst (unmarshal (b # bs)))"
  by (auto simp: GetConfig_def ParseYaml4File_def ReadFileData_def ParseYaml4Bytes_def split: sum.splits list.splits)

subsection \<open>Start and shutdown\<close>

lemmas start_defs = SetStartUp_def next_config_def metric_StartServer_def StartDashboard_def

text \<open>With the sections it reads, the start does not panic; it starts at most one server of each kind.\<close>

lemma SetStartUp_total:
  assumes "\<And>k. sc_Prometheus (g k) \<noteq> None" "\<And>k. sc_Dashboard (g k) \<noteq> None"
  obtains s' where "SetStartUp g s = Some s'"
proof -
  define p d where "p k = the (sc_Prometheus (g k))" and "d k = the (sc_Dashboard (g k))" for k
  then have pd: "sc_Prometheus (g k) = Some (p k)" "sc_Dashboard (g k) = Some (d k)" for k using assms by simp_all
  have "\<exists>s'. metric_StartServer (g k) s = Some s'" "\<exists>s'. StartDashboard (g k) s = Some s'" for k s
    using assms [of k] by (auto simp: metric_StartServer_def StartDashboard_def)
  then obtain f h where "\<And>k s. metric_StartServer (g k) s = Some (f k s)" "\<And>k s. StartDashboard (g k) s = Some (h k s)"
    by metis
  then have "\<exists>s'. SetStartUp g s = Some s'"
    by (simp add: SetStartUp_def next_config_def pd)
  then show thesis using that by blast
qed

lemma SetStartUp_missing: "sc_Prometheus (g (ss_calls s)) = None \<Longrightarrow> SetStartUp g s = None"
  by (simp add: start_defs)

lemma SetStartUp_disabled:
  "sc_Prometheus (g (ss_calls s)) = Some p \<Longrightarrow> \<not> pr_Enable p \<Longrightarrow> SetStartUp g s = Some (s\<lparr>ss_calls := ss_calls s + 1\<rparr>)"
  by (simp add: start_defs)

lemma ServerClose_total:
  assumes "st_Ln st \<noteq> None" "st_HTTPServerGateway st \<noteq> None \<longrightarrow> st_Cm st \<noteq> None"
  obtains st' where "ServerClose st = Some st'" "st_Ln st' = Some True"
    "st_HTTPServerGateway st \<noteq> None \<longrightarrow> st_HTTPServerGateway st' = Some True \<and> st_Cm st' = Some True"
proof -
  obtain a where a: "st_Ln st = Some a" using assms(1) by blast
  show thesis
  proof (cases "st_HTTPServerGateway st")
    case None
    then show ?thesis using a by (intro that [of "st\<lparr>st_Ln := Some True\<rparr>"]) (simp_all add: ServerClose_def)
  next
    case (Some b)
    then obtain c where "st_Cm st = Some c" using assms(2) by blast
    then show ?thesis using Some a
      by (intro that [of "st\<lparr>st_Ln := Some True, st_Cm := Some True, st_HTTPServerGateway := Some True\<rparr>"])
        (simp_all add: ServerClose_def)
  qed
qed

lemma shutdown_total:
  assumes "\<And>k. sc_Prometheus (g k) \<noteq> None" "ServerClose st = Some st'"
  obtains s' where "shutdown g st s = Some (0, st', s')"
proof -
  obtain p where "sc_Prometheus (g (ss_calls s)) = Some p" using assms(1) by blast
  then show thesis using that assms(2) by (simp add: shutdown_def wg_Add_def next_config_def)
qed

lemma main_exits:
  assumes cfg: "\<And>k. sc_RpcServer (g k) \<noteq> None" "\<And>k. sc_Prometheus (g k) \<noteq> None" "\<And>k. sc_Dashboard (g k) \<noteq> None"
    and "init = Some c"
    and run: "\<And>h st. \<exists>st'. run h st = Some st' \<and> st_Ln st' \<noteq> None \<and> (st_HTTPServerGateway st' \<noteq> None \<longrightarrow> st_Cm st' \<noteq> None)"
  shows "\<exists>st s. main init g run version = Exit0 st s \<and> st_Ln st = Some True \<and> st_HTTPServerGateway st \<noteq> Some False"
proof -
  obtain r where r: "sc_RpcServer (g 0) = Some r" using cfg(1) by blast
  obtain s1 where s1: "SetStartUp g (start_init\<lparr>ss_calls := 1\<rparr>) = Some s1" by (rule SetStartUp_total [OF cfg(2,3)])
  obtain r1 where r1: "sc_RpcServer (g (ss_calls s1)) = Some r1" using cfg(1) by blast
  let ?st = "SetVersion version (the (SetSConfig (Some r) settings_new))"
  obtain st1 where st1: "run (rpc_HTTPPORT r1 \<noteq> []) ?st = Some st1" "st_Ln st1 \<noteq> None"
    "st_HTTPServerGateway st1 \<noteq> None \<longrightarrow> st_Cm st1 \<noteq> None" using run by blast
  obtain st2 where st2: "ServerClose st1 = Some st2" "st_Ln st2 = Some True"
    "st_HTTPServerGateway st1 \<noteq> None \<longrightarrow> st_HTTPServerGateway st2 = Some True \<and> st_Cm st2 = Some True"
    by (rule ServerClose_total [OF st1(2,3)])
  have gw: "st_HTTPServerGateway st2 \<noteq> Some False"
    using st2 by (cases "st_HTTPServerGateway st1") (auto simp: ServerClose_def split: Option.bind_splits)
  obtain s2 where "shutdown g st1 (s1\<lparr>ss_calls := ss_calls s1 + 1\<rparr>) = Some (0, st2, s2)"
    by (rule shutdown_total [OF cfg(2) st2(1)])
  then have "main init g run version = Exit0 st2 s2"
    using assms(4) r s1 r1 st1(1) by (simp add: main_def next_config_def start_init_def SetSConfig_def)
  then show ?thesis using st2(2) gw by blast
qed

text \<open>The second call of \<^verbatim>\<open>GetConfig\<close> is the first one of the start.\<close>

lemma main_crashes: "sc_Prometheus (g 1) = None \<Longrightarrow> init = Some c \<Longrightarrow> main init g run version = Recovered"
  by (cases "sc_RpcServer (g 0)") (simp_all add: main_def next_config_def start_init_def SetStartUp_def SetSConfig_def)

subsection \<open>The wait group of the close listeners\<close>

lemmas cm_defs = cm_new_def addListener_def doListeners_def listener_ends_def

lemma cm_once_inv:
  assumes "cm_once cm cl"
  shows "cm_wait cm = int (length (cm_listeners cm)) - int (length (cm_ran cm))
    \<and> mset (cm_running cm) + mset (cm_ran cm) = (if cl then mset (cm_listeners cm) else {#})"
  using assms
proof (induction rule: cm_once.induct)
  case (finish cm fn)
  have "add_mset fn (mset (cm_running cm) - {#fn#}) = mset (cm_running cm)" using finish.hyps by simp
  then have "mset (cm_running cm) - {#fn#} + add_mset fn (mset (cm_ran cm)) = mset (cm_running cm) + mset (cm_ran cm)"
    by (metis union_mset_add_mset_left union_mset_add_mset_right)
  then show ?case using finish.IH unfolding listener_ends_def by simp
qed (auto simp: cm_defs)

lemma close_waits:
  assumes "cm_once cm True"
  shows "wait_returns cm \<longleftrightarrow> mset (cm_ran cm) = mset (cm_listeners cm)"
    and "wait_returns cm \<longleftrightarrow> cm_running cm = []"
proof -
  have w: "cm_wait cm = int (length (cm_listeners cm)) - int (length (cm_ran cm))"
    and m: "mset (cm_running cm) + mset (cm_ran cm) = mset (cm_listeners cm)"
    using cm_once_inv [OF assms] by auto
  have "length (cm_running cm) + length (cm_ran cm) = length (cm_listeners cm)"
    using arg_cong [OF m, of size] by simp
  then show r: "wait_returns cm \<longleftrightarrow> cm_running cm = []" using w by (auto simp: wait_returns_def)
  show "wait_returns cm \<longleftrightarrow> mset (cm_ran cm) = mset (cm_listeners cm)"
    unfolding r using m by (metis add_cancel_left_left mset_zero_iff)
qed

text \<open>A second close runs the listeners again and drives the counter below zero.\<close>

lemma close_twice:
  assumes "cm_once cm True" "wait_returns cm" "fn \<in> set (cm_listeners cm)"
  shows "fn \<in> set (cm_running (doListeners cm)) \<and> cm_wait (listener_ends fn (doListeners cm)) = - 1"
  using assms(2,3) by (simp add: cm_defs wait_returns_def)

end
