(* ===== verification/Worker_Loop.thy ===== *)
theory Worker_Loop
  imports Worker_Core
begin

section \<open>The loops of a worker (WorkerDo in pkg/worker/worker.go)\<close>

text \<open>
  \<^verbatim>\<open>WorkerDo\<close> starts the worker and runs three loops: the watchdog over the agents, the heartbeat,
  and the loop that hands the responses of the agents to \<^verbatim>\<open>handleResponse\<close>. Each is modelled by one
  round. \<^verbatim>\<open>logger.Fatal\<close> ends the process.

  The lemmas: when the start succeeds, what a heartbeat sends, and that the watchdog gives an
  agent that was silent for too long a new connection, on which the worker announces itself again, if the
  server can be reached; if not, closes the connection it has and goes on; and leaves the other agents alone.
\<close>

subsection \<open>Definitions\<close>

definition NMID_SERVER_TIMEOUT :: int where [simp]: "NMID_SERVER_TIMEOUT = 60000"

datatype 'a proc = Exits | Runs 'a

definition WorkerDo ::
  "(nat \<Rightarrow> input option) \<Rightarrow> (nat \<Rightarrow> write_answer) \<Rightarrow> 'm Worker \<Rightarrow> 'm Worker proc option" where
  "WorkerDo dial ans w =
    (if w_ready w then Some (Runs (w\<lparr>w_running := True\<rparr>))
     else do {
       (err, w) \<leftarrow> WorkerReady dial ans w;
       Some (if err = None then Runs (w\<lparr>w_running := True\<rparr>) else Exits)
     })"

text \<open>The watchdog: one agent, and all of them. \<open>stop\<close>: the stop signal is received at this agent.\<close>

definition watch_agent ::
  "int \<Rightarrow> write_answer \<Rightarrow> input option \<Rightarrow> write_answer \<Rightarrow> nat \<Rightarrow> 'm Worker \<Rightarrow> 'm Worker option" where
  "watch_agent now old dial ans i w =
    (if now - ag_lastTime (w_Agents w ! i) > NMID_SERVER_TIMEOUT then WorkerReConnect now old dial ans i w else Some w)"

fun watch_agents ::
  "int \<Rightarrow> (nat \<Rightarrow> bool) \<Rightarrow> (nat \<Rightarrow> write_answer) \<Rightarrow> (nat \<Rightarrow> input option) \<Rightarrow> (nat \<Rightarrow> write_answer) \<Rightarrow> nat list \<Rightarrow> 'm Worker
    \<Rightarrow> ('m Worker \<times> bool) option" where
  "watch_agents now stop old dial ans [] w = Some (w, w_running w)"
| "watch_agents now stop old dial ans (i # is) w =
    (if stop i then Some (w, False)
     else do {
       w \<leftarrow> watch_agent now (old i) (dial i) (ans i) i w;
       watch_agents now stop old dial ans is w
     })"

definition watch_round ::
  "int \<Rightarrow> (nat \<Rightarrow> bool) \<Rightarrow> (nat \<Rightarrow> write_answer) \<Rightarrow> (nat \<Rightarrow> input option) \<Rightarrow> (nat \<Rightarrow> write_answer) \<Rightarrow> 'm Worker
    \<Rightarrow> ('m Worker \<times> bool) option" where
  "watch_round now stop old dial ans w =
    (if w_running w then watch_agents now stop old dial ans [0..<length (w_Agents w)] w else Some (w, False))"

text \<open>The heartbeat.\<close>

fun ping_agents :: "(nat \<Rightarrow> write_answer) \<Rightarrow> nat \<Rightarrow> Agent list \<Rightarrow> Agent list option" where
  "ping_agents ans i [] = Some []"
| "ping_agents ans i (a # as) = do {
     a \<leftarrow> HeartBeatPing (ans i) a;
     a \<leftarrow> Grab (ans i) a;
     as \<leftarrow> ping_agents ans (Suc i) as;
     Some (a # as)
   }"

definition ping_round :: "bool \<Rightarrow> (nat \<Rightarrow> write_answer) \<Rightarrow> 'm Worker \<Rightarrow> ('m Worker \<times> bool) option" where
  "ping_round stop ans w =
    (if \<not> w_running w \<or> stop then Some (w, False)
     else do { as \<leftarrow> ping_agents ans 0 (w_Agents w); Some (w\<lparr>w_Agents := as\<rparr>, w_running w) })"

text \<open>The loop over the responses; a round that gets no response waits 100 ms and looks at \<^verbatim>\<open>running\<close>.\<close>

definition WorkerDo_round :: "int \<Rightarrow> bool \<Rightarrow> write_answer \<Rightarrow> 'm Worker \<Rightarrow> ('m Worker \<times> bool) option" where
  "WorkerDo_round now stop ans w =
    (if stop then Some (w, False)
     else case w_Resps w of
       r # rs \<Rightarrow> do { w \<leftarrow> handleResponse now ans r (w\<lparr>w_Resps := rs\<rparr>); Some (w, True) }
     | [] \<Rightarrow> if w_RespsClosed w then Some (w, False) else Some (w, w_running w))"

text \<open>A whole round of the watchdog: the agents silent for more than a minute whose server answers have new
  connections and have announced the worker on them; those whose server does not are closed, with the old connection and
  the old time of the last sign of life; the others are unchanged.\<close>

definition watched :: "int \<Rightarrow> (nat \<Rightarrow> input option) \<Rightarrow> 'm Worker \<Rightarrow> nat \<Rightarrow> Agent \<Rightarrow> Agent \<Rightarrow> bool" where
  "watched now dial w i a a' \<longleftrightarrow>
    (if now - ag_lastTime a > NMID_SERVER_TIMEOUT
     then ag_addr a' = ag_addr a \<and> (case dial i of
         Some inp \<Rightarrow> ag_conn a' \<and> \<not> ag_sockClosed a' \<and> ag_input a' = inp \<and> ag_lastTime a' = now
           \<and> ag_output a' = name_frame PDT_W_SET_NAME (w_WorkerName w)
             @ concat (map (name_frame PDT_W_ADD_FUNC) (map fst (w_Funcs w)))
       | None \<Rightarrow> ag_conn a' = ag_conn a \<and> (ag_conn a \<longrightarrow> ag_sockClosed a') \<and> ag_input a' = ag_input a
           \<and> ag_lastTime a' = ag_lastTime a)
     else a' = a)"

definition ping_frames :: bytes where
  "ping_frames = frame_bytes (CONN_TYPE_WORKER, PDT_W_HEARTBEAT_PING, gobytes ''PING'')
     @ frame_bytes (CONN_TYPE_WORKER, PDT_W_GRAB_JOB, [])"

subsection \<open>Sending, whatever the connection answers\<close>

lemma Agent_send_total:
  assumes "req_framed (pack (ag_Req a))"
  obtains out where "Agent_send pack ans a = Some (a\<lparr>ag_Req := pack (ag_Req a), ag_output := out\<rparr>)"
proof -
  have "\<exists>out. Agent_send pack ans a = Some (a\<lparr>ag_Req := pack (ag_Req a), ag_output := out\<rparr>)"
    using assms by (auto simp: Agent_send_def Agent_Write_def worker_EncodePack_eq split: prod.split
        intro: exI [of _ "ag_output a"])
  then show thesis using that by blast
qed

lemma pack_name_framed:
  "length f + 12 < 2 ^ 32 \<Longrightarrow> req_framed (DelFunctionPack f req) \<and> req_framed (AddFunctionPack f req)
    \<and> req_framed (worker_SetWorkerName_pack f req)"
  by (simp add: pack_defs req_framed_def)

lemma send_all_total:
  assumes "\<And>f req. f \<in> set fs \<Longrightarrow> req_framed (pk f req)"
  shows "\<exists>req out. send_all (\<lambda>f. Agent_send (pk f)) ans fs a = Some (a\<lparr>ag_Req := req, ag_output := out\<rparr>)"
  using assms
proof (induction fs arbitrary: a)
  case Nil
  have "a = a\<lparr>ag_Req := ag_Req a, ag_output := ag_output a\<rparr>" by simp
  then show ?case by (metis send_all.simps(1))
next
  case (Cons f fs)
  then have f: "req_framed (pk f (ag_Req a))" by simp
  obtain out where "Agent_send (pk f) ans a = Some (a\<lparr>ag_Req := pk f (ag_Req a), ag_output := out\<rparr>)"
    by (rule Agent_send_total [of "pk f" a ans, OF f])
  then show ?case using Cons.IH [of "a\<lparr>ag_Req := pk f (ag_Req a), ag_output := out\<rparr>"] Cons.prems by auto
qed

lemma send_names_total:
  assumes "\<forall>f \<in> set fs. length f + 12 < 2 ^ 32"
  shows "\<exists>req out. send_all DelOldFuncMsg ans fs a = Some (a\<lparr>ag_Req := req, ag_output := out\<rparr>)"
    and "\<exists>req out. send_all ReAddFuncMsg ans fs a = Some (a\<lparr>ag_Req := req, ag_output := out\<rparr>)"
proof -
  have "DelOldFuncMsg = (\<lambda>f. Agent_send (DelFunctionPack f))" "ReAddFuncMsg = (\<lambda>f. Agent_send (AddFunctionPack f))"
    by (simp_all add: fun_eq_iff DelOldFuncMsg_def ReAddFuncMsg_def)
  then show "\<exists>req out. send_all DelOldFuncMsg ans fs a = Some (a\<lparr>ag_Req := req, ag_output := out\<rparr>)"
    "\<exists>req out. send_all ReAddFuncMsg ans fs a = Some (a\<lparr>ag_Req := req, ag_output := out\<rparr>)"
    using send_all_total [of fs DelFunctionPack ans a] send_all_total [of fs AddFunctionPack ans a] pack_name_framed assms
    by simp_all
qed

lemma ReAdd_ok:
  assumes "\<forall>f \<in> set fs. length f + 12 < 2 ^ 32" "ag_conn a"
  shows "\<exists>req. send_all ReAddFuncMsg WroteAll fs a
    = Some (a\<lparr>ag_Req := req, ag_output := ag_output a @ concat (map (name_frame PDT_W_ADD_FUNC) fs)\<rparr>)"
  using assms
proof (induction fs arbitrary: a)
  case Nil
  have "a = a\<lparr>ag_Req := ag_Req a, ag_output := ag_output a @ []\<rparr>" by simp
  then show ?case by (metis send_all.simps(1) list.map(1) concat.simps(1))
next
  case (Cons f fs)
  then have "req_framed (AddFunctionPack f (ag_Req a))" using pack_name_framed by simp
  from Agent_send_ok [of a "AddFunctionPack f", OF Cons.prems(2) this] have
    "Agent_send (AddFunctionPack f) WroteAll a
      = Some (a\<lparr>ag_Req := AddFunctionPack f (ag_Req a), ag_output := ag_output a @ name_frame PDT_W_ADD_FUNC f\<rparr>)"
    by (simp add: pack_defs name_frame_def)
  then show ?case
    using Cons.IH [of "a\<lparr>ag_Req := AddFunctionPack f (ag_Req a), ag_output := ag_output a @ name_frame PDT_W_ADD_FUNC f\<rparr>"]
      Cons.prems
    by (auto simp: ReAddFuncMsg_def)
qed

subsection \<open>The watchdog\<close>

lemma WorkerReConnect_announces:
  assumes "length (w_WorkerName w) + 12 < 2 ^ 32" "\<forall>f \<in> fst ` set (w_Funcs w). length f + 12 < 2 ^ 32"
  shows "\<exists>a. WorkerReConnect now old (Some inp) WroteAll i w = Some (upd_agent i a w)
    \<and> ag_conn a \<and> ag_addr a = ag_addr (w_Agents w ! i) \<and> \<not> ag_sockClosed a \<and> ag_input a = inp \<and> ag_lastTime a = now
    \<and> ag_output a = name_frame PDT_W_SET_NAME (w_WorkerName w)
        @ concat (map (name_frame PDT_W_ADD_FUNC) (map fst (w_Funcs w)))"
proof -
  let ?a = "w_Agents w ! i" and ?fs = "map fst (w_Funcs w)"
  have fs: "\<forall>f \<in> set ?fs. length f + 12 < 2 ^ 32" using assms(2) by simp
  obtain req out where d: "send_all DelOldFuncMsg old ?fs ?a = Some (?a\<lparr>ag_Req := req, ag_output := out\<rparr>)"
    using send_names_total(1) [OF fs] by blast
  define a1 where "a1 = (let a = ?a\<lparr>ag_Req := req, ag_output := out\<rparr> in if ag_conn a then a\<lparr>ag_sockClosed := True\<rparr> else a)"
  define a2 where "a2 = a1\<lparr>ag_conn := True, ag_input := inp, ag_output := [], ag_sockClosed := False, ag_lastTime := now\<rparr>"
  have f: "req_framed (worker_SetWorkerName_pack (w_WorkerName w) (ag_Req a2))" using pack_name_framed assms(1) by simp
  let ?a3 = "a2\<lparr>ag_Req := worker_SetWorkerName_pack (w_WorkerName w) (ag_Req a2),
    ag_output := name_frame PDT_W_SET_NAME (w_WorkerName w)\<rparr>"
  have n: "ReSetWorkerName (w_WorkerName w) WroteAll a2 = Some ?a3"
    unfolding ReSetWorkerName_def using Agent_send_ok [of a2 "worker_SetWorkerName_pack (w_WorkerName w)", OF _ f]
    by (simp add: a2_def pack_defs name_frame_def)
  obtain req' where "send_all ReAddFuncMsg WroteAll ?fs ?a3 = Some (?a3\<lparr>ag_Req := req',
      ag_output := ag_output ?a3 @ concat (map (name_frame PDT_W_ADD_FUNC) ?fs)\<rparr>)"
    using ReAdd_ok [OF fs, of ?a3] by (auto simp: a2_def)
  then have "WorkerReConnect now old (Some inp) WroteAll i w = Some (upd_agent i (?a3\<lparr>ag_Req := req',
      ag_output := ag_output ?a3 @ concat (map (name_frame PDT_W_ADD_FUNC) ?fs)\<rparr>) w)"
    using d n by (simp add: WorkerReConnect_def Let_def a1_def a2_def Agent_ReConnect_def)
  then show ?thesis by (auto simp: a2_def a1_def Let_def)
qed

text \<open>The error of a failed dial is ignored: the frames of the announcement are written to what is left of the old
  connection, and nothing says that the agent has no server.\<close>

lemma WorkerReConnect_unreachable:
  assumes "length (w_WorkerName w) + 12 < 2 ^ 32" "\<forall>f \<in> fst ` set (w_Funcs w). length f + 12 < 2 ^ 32"
  shows "\<exists>a. WorkerReConnect now old None ans i w = Some (upd_agent i a w)
    \<and> ag_addr a = ag_addr (w_Agents w ! i) \<and> ag_conn a = ag_conn (w_Agents w ! i)
    \<and> (ag_conn (w_Agents w ! i) \<longrightarrow> ag_sockClosed a) \<and> ag_input a = ag_input (w_Agents w ! i)
    \<and> ag_lastTime a = ag_lastTime (w_Agents w ! i)"
proof -
  let ?a = "w_Agents w ! i" and ?fs = "map fst (w_Funcs w)"
  have fs: "\<forall>f \<in> set ?fs. length f + 12 < 2 ^ 32" using assms(2) by simp
  obtain r1 o1 where d: "send_all DelOldFuncMsg old ?fs ?a = Some (?a\<lparr>ag_Req := r1, ag_output := o1\<rparr>)"
    using send_names_total(1) [OF fs] by blast
  define a1 where "a1 = (let a = ?a\<lparr>ag_Req := r1, ag_output := o1\<rparr> in if ag_conn a then a\<lparr>ag_sockClosed := True\<rparr> else a)"
  have f: "req_framed (worker_SetWorkerName_pack (w_WorkerName w) (ag_Req a1))" using pack_name_framed assms(1) by simp
  obtain o2 where n: "ReSetWorkerName (w_WorkerName w) ans a1
      = Some (a1\<lparr>ag_Req := worker_SetWorkerName_pack (w_WorkerName w) (ag_Req a1), ag_output := o2\<rparr>)"
    unfolding ReSetWorkerName_def by (rule Agent_send_total [of "worker_SetWorkerName_pack (w_WorkerName w)" a1 ans, OF f])
  let ?a2 = "a1\<lparr>ag_Req := worker_SetWorkerName_pack (w_WorkerName w) (ag_Req a1), ag_output := o2\<rparr>"
  obtain r3 o3 where "send_all ReAddFuncMsg ans ?fs ?a2 = Some (?a2\<lparr>ag_Req := r3, ag_output := o3\<rparr>)"
    using send_names_total(2) [OF fs] by blast
  then have "WorkerReConnect now old None ans i w = Some (upd_agent i (?a2\<lparr>ag_Req := r3, ag_output := o3\<rparr>) w)"
    using d n by (simp add: WorkerReConnect_def Let_def a1_def Agent_ReConnect_def)
  then show ?thesis by (auto simp: a1_def Let_def)
qed

lemma watch_agent_ok:
  assumes "length (w_WorkerName w) + 12 < 2 ^ 32" "\<forall>f \<in> fst ` set (w_Funcs w). length f + 12 < 2 ^ 32"
    "dial i \<noteq> None \<longrightarrow> ans = WroteAll" "i < length (w_Agents w)"
  shows "\<exists>a. watch_agent now old (dial i) ans i w = Some (w\<lparr>w_Agents := (w_Agents w)[i := a]\<rparr>)
    \<and> watched now dial w i (w_Agents w ! i) a"
proof (cases "now - ag_lastTime (w_Agents w ! i) > NMID_SERVER_TIMEOUT")
  case True
  show ?thesis
  proof (cases "dial i")
    case None
    then show ?thesis
      using WorkerReConnect_unreachable [OF assms(1,2), of now old ans i] True
      by (auto simp: watch_agent_def watched_def upd_agent_def)
  next
    case (Some inp)
    then show ?thesis
      using WorkerReConnect_announces [OF assms(1,2), of now old inp i] True assms(3)
      by (auto simp: watch_agent_def watched_def upd_agent_def)
  qed
next
  case False
  then show ?thesis
    by (auto simp: watch_agent_def watched_def intro!: exI [of _ "w_Agents w ! i"])
qed

lemma watched_frame [simp]: "watched now dial (w\<lparr>w_Agents := as\<rparr>) = watched now dial w"
  by (simp add: watched_def fun_eq_iff split: option.split)

lemma watch_agents_ok:
  assumes "length (w_WorkerName w) + 12 < 2 ^ 32" "\<forall>f \<in> fst ` set (w_Funcs w). length f + 12 < 2 ^ 32"
    "\<forall>i. dial i \<noteq> None \<longrightarrow> ans i = WroteAll" "distinct is" "\<forall>i \<in> set is. i < length (w_Agents w)"
  shows "\<exists>as. watch_agents now (\<lambda>_. False) old dial ans is w = Some (w\<lparr>w_Agents := as\<rparr>, w_running w)
    \<and> length as = length (w_Agents w)
    \<and> (\<forall>i < length as. if i \<in> set is then watched now dial w i (w_Agents w ! i) (as ! i) else as ! i = w_Agents w ! i)"
  using assms
proof (induction "is" arbitrary: w)
  case Nil
  show ?case by (rule exI [of _ "w_Agents w"]) simp
next
  case (Cons i "is")
  obtain a where a: "watch_agent now (old i) (dial i) (ans i) i w = Some (w\<lparr>w_Agents := (w_Agents w)[i := a]\<rparr>)"
    "watched now dial w i (w_Agents w ! i) a"
    using watch_agent_ok [OF Cons.prems(1,2), of dial i "ans i" now "old i"] Cons.prems by auto
  let ?w = "w\<lparr>w_Agents := (w_Agents w)[i := a]\<rparr>"
  have "\<exists>as. watch_agents now (\<lambda>_. False) old dial ans is ?w = Some (?w\<lparr>w_Agents := as\<rparr>, w_running ?w)
    \<and> length as = length (w_Agents ?w)
    \<and> (\<forall>j < length as. if j \<in> set is then watched now dial ?w j (w_Agents ?w ! j) (as ! j) else as ! j = w_Agents ?w ! j)"
    by (rule Cons.IH) (use Cons.prems in simp_all)
  then obtain as where as: "watch_agents now (\<lambda>_. False) old dial ans is ?w = Some (?w\<lparr>w_Agents := as\<rparr>, w_running ?w)"
    "length as = length (w_Agents ?w)"
    "\<forall>j < length as. if j \<in> set is then watched now dial ?w j (w_Agents ?w ! j) (as ! j) else as ! j = w_Agents ?w ! j"
    by (elim exE conjE)
  have nth: "(w_Agents w)[i := a] ! j = (if j = i then a else w_Agents w ! j)" if "j < length as" for j
    using that as(2) by (simp add: nth_list_update)
  have "\<forall>j < length as. if j \<in> set (i # is) then watched now dial w j (w_Agents w ! j) (as ! j) else as ! j = w_Agents w ! j"
  proof (intro allI impI)
    fix j assume "j < length as"
    then show "if j \<in> set (i # is) then watched now dial w j (w_Agents w ! j) (as ! j) else as ! j = w_Agents w ! j"
      using as(3) nth a(2) Cons.prems(4) by (cases "j = i"; cases "j \<in> set is"; fastforce)
  qed
  then show ?case using a(1) as(1,2) by (intro exI [of _ as]) simp
qed

lemma watch_round_ok:
  assumes "length (w_WorkerName w) + 12 < 2 ^ 32" "\<forall>f \<in> fst ` set (w_Funcs w). length f + 12 < 2 ^ 32"
    "\<forall>i. dial i \<noteq> None \<longrightarrow> ans i = WroteAll" "w_running w"
  shows "\<exists>as. watch_round now (\<lambda>_. False) old dial ans w = Some (w\<lparr>w_Agents := as\<rparr>, True)
    \<and> list_all2 (\<lambda>(i, a) a'. watched now dial w i a a') (enumerate 0 (w_Agents w)) as"
  using watch_agents_ok [OF assms(1-3), of "[0..<length (w_Agents w)]" now old] assms(4)
  by (auto simp: watch_round_def list_all2_conv_all_nth nth_enumerate_eq)

subsection \<open>The heartbeat\<close>

lemma ping_agents_ok:
  assumes "\<forall>a \<in> set as. ag_conn a"
  shows "\<exists>as'. ping_agents (\<lambda>_. WroteAll) k as = Some as' \<and> agents_got ping_frames as as'"
  using assms
proof (induction "as" arbitrary: k)
  case (Cons a "as")
  have h: "req_framed (HeartBeatPack (ag_Req a))" by (simp add: pack_defs req_framed_def)
  let ?a = "a\<lparr>ag_Req := HeartBeatPack (ag_Req a), ag_output := ag_output a
     @ frame_bytes (CONN_TYPE_WORKER, PDT_W_HEARTBEAT_PING, gobytes ''PING'')\<rparr>"
  have g: "req_framed (GrabDataPack (ag_Req ?a))" by (simp add: pack_defs req_framed_def)
  have 1: "HeartBeatPing WroteAll a = Some ?a"
    using Agent_send_ok [of a HeartBeatPack, OF _ h] Cons.prems by (simp add: HeartBeatPing_def pack_defs)
  have 2: "Grab WroteAll ?a = Some (?a\<lparr>ag_Req := GrabDataPack (ag_Req ?a), ag_output := ag_output a @ ping_frames\<rparr>)"
    using Agent_send_ok [of ?a GrabDataPack, OF _ g] Cons.prems by (simp add: Grab_def pack_defs ping_frames_def)
  obtain as' where "ping_agents (\<lambda>_. WroteAll) (Suc k) as = Some as'" "agents_got ping_frames as as'"
    using Cons by fastforce
  then show ?case using 1 2 Cons.prems by (auto simp: agents_got_def nth_Cons split: nat.splits)
qed (simp add: agents_got_def)

lemma ping_round_ok:
  assumes "\<forall>a \<in> set (w_Agents w). ag_conn a" "w_running w"
  shows "\<exists>as. ping_round False (\<lambda>_. WroteAll) w = Some (w\<lparr>w_Agents := as\<rparr>, True) \<and> agents_got ping_frames (w_Agents w) as"
  using ping_agents_ok [OF assms(1), of 0] assms(2) by (auto simp: ping_round_def)

subsection \<open>The start\<close>

lemma WorkerDo_runs:
  assumes "w_Agents w \<noteq> []" "w_Funcs w \<noteq> []" "\<forall>k. \<exists>x. dial k = Some x"
    and "length (w_WorkerName w) + 12 < 2 ^ 32" "\<forall>f \<in> fst ` set (w_Funcs w). length f + 12 < 2 ^ 32"
  shows "\<exists>w'. WorkerDo dial (\<lambda>_. WroteAll) w = Some (Runs w') \<and> w_running w'"
proof (cases "w_ready w")
  case False
  obtain w' where "WorkerReady dial (\<lambda>_. WroteAll) w = Some (None, w')"
    using WorkerReady_ok [OF assms] by blast
  then show ?thesis using False by (simp add: WorkerDo_def)
qed (simp add: WorkerDo_def)

lemma WorkerDo_exits:
  "\<not> w_ready w \<Longrightarrow> w_Agents w = [] \<or> w_Funcs w = [] \<Longrightarrow> WorkerDo dial ans w = Some Exits"
  by (auto simp: WorkerDo_def WorkerReady_def)

text \<open>The loop hands over the responses in their order and ends when the channel is closed and empty.\<close>

lemma WorkerDo_round_closed:
  "w_Resps w = [] \<Longrightarrow> w_RespsClosed w \<Longrightarrow> WorkerDo_round now stop ans w = Some (w, False)"
  by (simp add: WorkerDo_round_def)

end
