(* ===== verification/Utils.thy ===== *)
theory Utils
  imports Go_Strconv "HOL-Library.Sublist"
begin

section \<open>Identifiers, time and addresses (pkg/utils/utils.go)\<close>

text \<open>
  The parts of \<^verbatim>\<open>utils\<close> that compute: the identifiers made of the clock, the clock itself, the random
  integer and the choice of the server's address. The argument \<open>nano\<close> is \<^verbatim>\<open>time.Now().Nanosecond()\<close>, the
  nanosecond within the second, or \<^verbatim>\<open>UnixNano()\<close>; \<open>md5hex\<close> is the digest in hexadecimal.
\<close>

subsection \<open>Definitions\<close>

definition GetId :: "int \<Rightarrow> string" where
  "GetId nano = (let value = i64 (nano * 2 ^ 32) in FormatInt (i64 (value + 1)))"

definition GetJobId :: "(string \<Rightarrow> string) \<Rightarrow> int \<Rightarrow> string \<Rightarrow> string \<Rightarrow> string" where
  "GetJobId md5hex nano Handle Params = (let timeStr = FormatInt nano in md5hex (Handle @ Params @ timeStr))"

definition GenServiceId :: "(string \<Rightarrow> string) \<Rightarrow> int \<Rightarrow> string \<Rightarrow> string" where
  "GenServiceId md5hex nano salt = (let timeStr = FormatInt nano in md5hex (salt @ timeStr))"

text \<open>\<open>unpack\<close> is what msgpack decodes into a list of strings.\<close>

definition IsMulParams :: "(bytes \<Rightarrow> string list option) \<Rightarrow> bytes \<Rightarrow> bool" where
  "IsMulParams unpack params = (case unpack params of None \<Rightarrow> False | Some dec \<Rightarrow> if length dec > 1 then True else False)"

definition getMilliSec :: "int \<Rightarrow> int" where
  "getMilliSec unixNano = unixNano div 1000000"

definition GetNowSecond :: "int \<Rightarrow> int" where
  "GetNowSecond unixNano = getMilliSec unixNano"

text \<open>\<^verbatim>\<open>rand.Intn\<close> panics unless its argument is positive; the draw \<open>r\<close> is taken modulo it.\<close>

definition RandomInt :: "nat \<Rightarrow> int \<Rightarrow> int \<Rightarrow> int option" where
  "RandomInt r lo hi = (if hi - lo + 1 \<le> 0 then None else Some (int r mod (hi - lo + 1) + lo))"

text \<open>A network interface: its name, and its addresses or an error; an address that is an
  \<^verbatim>\<open>IPNet\<close> has the flag of a loopback address and its IPv4 form, if it has one.\<close>

record net_iface =
  if_Name :: string
  if_Addrs :: "(bool \<times> string option) option list option"

fun first_addr :: "(bool \<times> string option) option list \<Rightarrow> string option" where
  "first_addr [] = None"
| "first_addr (ad # as) = (case ad of
     None \<Rightarrow> first_addr as
   | Some (loopback, v4) \<Rightarrow> if loopback then first_addr as else (case v4 of Some s \<Rightarrow> Some s | None \<Rightarrow> first_addr as))"

fun first_iface :: "net_iface list \<Rightarrow> string option" where
  "first_iface [] = None"
| "first_iface (f # fs) =
    (if sublist ''docker'' (if_Name f) \<or> sublist ''lo'' (if_Name f) then first_iface fs
     else case if_Addrs f of
       None \<Rightarrow> first_iface fs
     | Some addrs \<Rightarrow> (case first_addr addrs of Some s \<Rightarrow> Some s | None \<Rightarrow> first_iface fs))"

definition GetServerIP :: "net_iface list option \<Rightarrow> string option" where
  "GetServerIP ifaces = (case ifaces of None \<Rightarrow> None | Some fs \<Rightarrow> first_iface fs)"

subsection \<open>Lemmas\<close>

lemma FormatInt_inj:
  assumes "- (2 ^ 63) \<le> m" "m < 2 ^ 63" "- (2 ^ 63) \<le> n" "n < 2 ^ 63"
  shows "FormatInt m = FormatInt n \<longleftrightarrow> m = n"
  using ParseInt_FormatInt [OF assms(1,2)] ParseInt_FormatInt [OF assms(3,4)] by metis

text \<open>The identifiers of two moments are equal just when the two moments are the same nanosecond of
  their seconds: the counter of \<^verbatim>\<open>GetId\<close> is local to the call.\<close>

lemma GetId_eq:
  assumes "0 \<le> m" "m < 10 ^ 9" "0 \<le> n" "n < 10 ^ 9"
  shows "GetId m = GetId n \<longleftrightarrow> m = n"
  using assms by (simp add: GetId_def Let_def i64_id FormatInt_inj)

lemma RandomInt_range:
  "lo \<le> hi \<Longrightarrow> \<exists>x. RandomInt r lo hi = Some x \<and> lo \<le> x \<and> x \<le> hi"
  using pos_mod_bound [of "hi - lo + 1" "int r"] pos_mod_sign [of "hi - lo + 1" "int r"] by (auto simp: RandomInt_def)

lemma first_addr_sound: "first_addr as = Some s \<Longrightarrow> Some (False, Some s) \<in> set as"
  by (induction "as") (auto split: option.splits if_splits)

lemma first_iface_sound:
  "first_iface fs = Some s \<Longrightarrow> \<exists>f \<in> set fs. \<exists>as. if_Addrs f = Some as \<and> Some (False, Some s) \<in> set as
     \<and> \<not> sublist ''docker'' (if_Name f) \<and> \<not> sublist ''lo'' (if_Name f)"
  by (induction fs) (auto split: if_splits option.splits dest: first_addr_sound)

end
