(* ===== verification/Consumer.thy ===== *)
theory Consumer
  imports Client_Core Worker_Loop Utils
begin

section \<open>Finding workers through etcd, and calling the next worker (client/discovery.go, worker/response.go)\<close>

text \<open>
  A worker puts its functions, with the addresses of the servers it is connected to, into etcd
  (\<^verbatim>\<open>Register\<close>); a \<^verbatim>\<open>Consumer\<close> watches the common prefix, reads all entries below it when one has
  changed, and connects to one of the servers. A worker calls another one through a client, either at a given address (\<^verbatim>\<open>ClientCall\<close>) or
  by its function (\<^verbatim>\<open>ClientDiscovery\<close>).

  etcd is an argument: \<open>get\<close> answers a prefix with the values below it, in some order, or an error.
  What it does to the watcher is a list of events: the answers change and the watcher is told, or the watch ends and its
  channel is closed. So are JSON and msgpack. A nil consumer is \<^const>\<open>None\<close>.

  The lemmas: the consumer finds what the last entry for a function says, so that of two workers
  with the same function only one is seen; together with \<^verbatim>\<open>Register\<close>, it connects to a server of that
  worker, once an entry has changed after the watch began, and not before; a worker without servers makes it panic; and \<^verbatim>\<open>ClientDiscovery\<close> always panics.
\<close>

subsection \<open>Definitions\<close>

definition EtcdBaseKey :: string where [simp]: "EtcdBaseKey = ''nmid/''"

record Consumer =
  cs_EtcdAddrs :: "string list"
  cs_Username :: string
  cs_Password :: string
  cs_Workers :: "string \<rightharpoonup> string list"

fun collect_ins ::
  "('v \<Rightarrow> (string \<times> string list) list option) \<Rightarrow> 'v option list \<Rightarrow> (string \<rightharpoonup> string list) \<Rightarrow> (string \<rightharpoonup> string list)" where
  "collect_ins unjson [] m = m"
| "collect_ins unjson (v # kvs) m = collect_ins unjson kvs (case v of
     None \<Rightarrow> m
   | Some x \<Rightarrow> (case unjson x of None \<Rightarrow> m | Some ins \<Rightarrow> fold (\<lambda>(key, val) m. m(key \<mapsto> val)) ins m))"

text \<open>An error of etcd gives a nil map, in which nothing is found.\<close>

definition GetAllWorkerIns ::
  "('v \<Rightarrow> (string \<times> string list) list option) \<Rightarrow> (string \<Rightarrow> 'v option list option) \<Rightarrow> string \<Rightarrow> (string \<rightharpoonup> string list)" where
  "GetAllWorkerIns unjson get pre = (case get pre of None \<Rightarrow> Map.empty | Some kvs \<Rightarrow> collect_ins unjson kvs Map.empty)"

text \<open>\<^verbatim>\<open>EtcdWatch\<close> opens the watch and starts a goroutine; nothing is read yet. The state of the watch: what
  etcd answers now, how many messages wait on the channel of the watch, whether that channel is closed, the consumer, and how
  often \<^verbatim>\<open>discoveryCount\<close> was raised.\<close>

record 'v Watch =
  wt_get :: "string \<Rightarrow> 'v option list option"
  wt_ready :: nat
  wt_ended :: bool
  wt_Consumer :: Consumer
  wt_discoveryCount :: nat

definition EtcdWatch :: "(string \<Rightarrow> 'v option list option) \<Rightarrow> Consumer \<Rightarrow> 'v Watch" where
  "EtcdWatch get c = \<lparr>wt_get = get, wt_ready = 0, wt_ended = False, wt_Consumer = c, wt_discoveryCount = 0\<rparr>"

text \<open>A turn of the goroutine: it blocks on an empty channel, and receives from a closed one at once.\<close>

definition watch_turn :: "('v \<Rightarrow> (string \<times> string list) list option) \<Rightarrow> 'v Watch \<Rightarrow> 'v Watch option" where
  "watch_turn unjson st = (if wt_ready st = 0 \<and> \<not> wt_ended st then None
     else Some (st\<lparr>wt_ready := wt_ready st - 1,
       wt_Consumer := (wt_Consumer st)\<lparr>cs_Workers := GetAllWorkerIns unjson (wt_get st) EtcdBaseKey\<rparr>,
       wt_discoveryCount := wt_discoveryCount st + 1\<rparr>))"

datatype 'v watch_event = EtcdChange "string \<Rightarrow> 'v option list option" | EtcdEnds | WatchTurn

fun watch_step :: "('v \<Rightarrow> (string \<times> string list) list option) \<Rightarrow> 'v watch_event \<Rightarrow> 'v Watch \<Rightarrow> 'v Watch" where
  "watch_step unjson (EtcdChange get) st = st\<lparr>wt_get := get, wt_ready := wt_ready st + 1\<rparr>"
| "watch_step unjson EtcdEnds st = st\<lparr>wt_ended := True\<rparr>"
| "watch_step unjson WatchTurn st = (case watch_turn unjson st of None \<Rightarrow> st | Some st' \<Rightarrow> st')"

definition watch_run :: "('v \<Rightarrow> (string \<times> string list) list option) \<Rightarrow> 'v watch_event list \<Rightarrow> 'v Watch \<Rightarrow> 'v Watch" where
  "watch_run unjson es st = fold (watch_step unjson) es st"

text \<open>\<^verbatim>\<open>Discovery\<close>; the remainder of a division by zero panics.\<close>

definition Consumer_Discovery :: "nat \<Rightarrow> nat \<Rightarrow> string \<Rightarrow> Consumer option \<Rightarrow> 'h Client option option" where
  "Consumer_Discovery timeout r funcName consumer = do {
     c \<leftarrow> consumer;
     case cs_Workers c funcName of
       None \<Rightarrow> Some None
     | Some addrs \<Rightarrow> do {
         x \<leftarrow> RandomInt r 1 10000;
         if addrs = [] then None else Some (Some (NewClient timeout ''tcp'' (addrs ! (nat x mod length addrs))))
       }
   }"

text \<open>\<^verbatim>\<open>ClientCall\<close> without tracing: the process ends, or the client after the call. The error of
  \<^verbatim>\<open>msgpack.Marshal\<close> is logged only and leaves the parameters empty.\<close>

definition ClientCall ::
  "nat \<Rightarrow> ('p \<Rightarrow> bytes option) \<Rightarrow> string \<Rightarrow> string \<Rightarrow> 'p \<Rightarrow> 'h \<Rightarrow> bool \<Rightarrow> input option \<Rightarrow> write_answer \<Rightarrow> nat \<Rightarrow> (nat \<Rightarrow> input option) \<Rightarrow> bool
    \<Rightarrow> 'h Client proc option" where
  "ClientCall timeout marshal serverAddr funcName params respHandler errHandler dial ans n redial timer =
    (if length serverAddr = 0 then Some Exits
     else if length funcName = 0 then Some Exits
     else case Client_Start dial (NewClient timeout ''tcp'' serverAddr) of
       (Some e, c) \<Rightarrow> None
     | (None, c) \<Rightarrow> do {
         let cparams = (case marshal params of None \<Rightarrow> [] | Some p \<Rightarrow> p);
         (err, c) \<leftarrow> client_Do funcName cparams respHandler ans n redial timer (c\<lparr>cl_ErrHandler := errHandler\<rparr>);
         c \<leftarrow> Client_Close c;
         Some (Runs c)
       })"

text \<open>\<^verbatim>\<open>discovery\<close> starts from a consumer that is nil. The client it returns is the one \<^verbatim>\<open>Discovery\<close> made,
  started when dialling succeeded.\<close>

definition worker_discovery :: "nat \<Rightarrow> nat \<Rightarrow> string \<Rightarrow> input option \<Rightarrow> 'h Client option option" where
  "worker_discovery timeout r funcName dial = do {
     let consumer = None;
     client \<leftarrow> Consumer_Discovery timeout r funcName consumer;
     Some (case client of
       None \<Rightarrow> None
     | Some c \<Rightarrow> Some (snd (Client_Start dial (Client_SetIoTimeOut 30 c))))
   }"

definition ClientDiscovery ::
  "nat \<Rightarrow> nat \<Rightarrow> ('p \<Rightarrow> bytes option) \<Rightarrow> string \<Rightarrow> 'p \<Rightarrow> 'h \<Rightarrow> bool \<Rightarrow> input option \<Rightarrow> write_answer \<Rightarrow> nat \<Rightarrow> (nat \<Rightarrow> input option) \<Rightarrow> bool
    \<Rightarrow> 'h Client proc option" where
  "ClientDiscovery timeout r marshal funcName params respHandler errHandler dial ans n redial timer =
    (if length funcName = 0 then Some Exits
     else do {
       client \<leftarrow> worker_discovery timeout r funcName dial;
       case client of
         None \<Rightarrow> Some Exits
       | Some c \<Rightarrow> do {
           let cparams = (case marshal params of None \<Rightarrow> [] | Some p \<Rightarrow> p);
           (err, c) \<leftarrow> client_Do funcName cparams respHandler ans n redial timer (c\<lparr>cl_ErrHandler := errHandler\<rparr>);
           c \<leftarrow> Client_Close c;
           Some (Runs c)
         }
     })"

definition mentions :: "('v \<Rightarrow> (string \<times> string list) list option) \<Rightarrow> string \<Rightarrow> 'v option \<Rightarrow> bool" where
  "mentions unjson f v \<longleftrightarrow> (\<exists>x ins. v = Some x \<and> unjson x = Some ins \<and> f \<in> fst ` set ins)"

subsection \<open>The last entry for a function wins\<close>

lemma fold_upd_other: "f \<notin> fst ` set ins \<Longrightarrow> fold (\<lambda>(key, val) m. m(key \<mapsto> val)) ins m f = m f"
  by (induction ins arbitrary: m) auto

lemma fold_upd_map_of:
  "distinct (map fst ins) \<Longrightarrow> fold (\<lambda>(key, val) m. m(key \<mapsto> val)) ins m f = (case map_of ins f of None \<Rightarrow> m f | Some v \<Rightarrow> Some v)"
proof (induction ins arbitrary: m)
  case (Cons x ins)
  obtain k v where x: "x = (k, v)" by (cases x)
  then have "map_of ins k = None" using Cons.prems by (simp add: map_of_eq_None_iff)
  then show ?case using Cons x by (auto split: option.split)
qed simp

lemma collect_ins_other:
  "\<forall>v \<in> set kvs. \<not> mentions unjson f v \<Longrightarrow> collect_ins unjson kvs m f = m f"
proof (induction kvs arbitrary: m)
  case (Cons v kvs)
  have "(case v of None \<Rightarrow> m | Some x \<Rightarrow> (case unjson x of None \<Rightarrow> m | Some ins \<Rightarrow> fold (\<lambda>(key, val) m. m(key \<mapsto> val)) ins m)) f = m f"
    using Cons.prems by (auto simp: mentions_def fold_upd_other split: option.split)
  then show ?case using Cons by simp
qed simp

lemma collect_ins_append: "collect_ins unjson (xs @ ys) m = collect_ins unjson ys (collect_ins unjson xs m)"
  by (induction xs arbitrary: m) simp_all

lemma last_entry_wins:
  assumes "get EtcdBaseKey = Some (before @ Some x # after)" "unjson x = Some ins" "distinct (map fst ins)"
    and "map_of ins f = Some addrs" "\<forall>v \<in> set after. \<not> mentions unjson f v"
  shows "GetAllWorkerIns unjson get EtcdBaseKey f = Some addrs"
  using assms collect_ins_other [OF assms(5)]
  by (simp add: GetAllWorkerIns_def collect_ins_append fold_upd_map_of)

subsection \<open>What the watch reads\<close>

text \<open>Before an entry has changed the goroutine waits.\<close>

lemma watch_waits: "watch_run unjson (replicate n WatchTurn) (EtcdWatch get c) = EtcdWatch get c"
  by (induction n) (simp_all add: watch_run_def watch_turn_def EtcdWatch_def)

text \<open>After a change and a turn, however many turns follow, the table is what etcd answers.\<close>

definition table_read :: "('v \<Rightarrow> (string \<times> string list) list option) \<Rightarrow> (string \<Rightarrow> 'v option list option) \<Rightarrow> 'v Watch \<Rightarrow> bool" where
  "table_read unjson get st \<longleftrightarrow> wt_get st = get \<and> cs_Workers (wt_Consumer st) = GetAllWorkerIns unjson get EtcdBaseKey"

lemma watch_turns_keep: "table_read unjson get st \<Longrightarrow> table_read unjson get (watch_run unjson (replicate n WatchTurn) st)"
  unfolding watch_run_def
  by (induction n arbitrary: st) (simp_all add: watch_turn_def table_read_def)

lemma watch_reads_change:
  "table_read unjson get (watch_run unjson (es @ EtcdChange get # replicate (Suc n) WatchTurn) st)"
proof -
  let ?st = "watch_step unjson (EtcdChange get) (watch_run unjson es st)"
  have "table_read unjson get (watch_step unjson WatchTurn ?st)" by (simp add: watch_turn_def table_read_def)
  from watch_turns_keep [OF this, of n] show ?thesis by (simp add: watch_run_def)
qed

subsection \<open>From the worker to the consumer\<close>

lemma Worker_Register_funcs:
  assumes "f \<in> (\<lambda>(_, fn). fn_FuncName fn) ` set (w_Funcs w)"
  shows "snd (Worker_Register base gid w) f = Some (map ag_addr (w_Agents w))"
proof -
  have "fold (\<lambda>(_, val) m. m(fn_FuncName val \<mapsto> as)) fs m f
      = (if f \<in> (\<lambda>(_, fn). fn_FuncName fn) ` set fs then Some as else m f)" for fs :: "(string \<times> 'a Function) list" and m as
    by (induction fs arbitrary: m) auto
  from this [of "map ag_addr (w_Agents w)" "w_Funcs w" Map.empty] show ?thesis
    using assms by (simp add: Worker_Register_def Let_def)
qed

lemma consumer_finds_server:
  assumes "get EtcdBaseKey = Some (before @ Some x # after)" "unjson x = Some ins" "distinct (map fst ins)"
    and "map_of ins = snd (Worker_Register EtcdBaseKey gid w)"
    and "f \<in> (\<lambda>(_, fn). fn_FuncName fn) ` set (w_Funcs w)" "\<forall>v \<in> set after. \<not> mentions unjson f v"
    and "w_Agents w \<noteq> []" "cs_Workers c f = GetAllWorkerIns unjson get EtcdBaseKey f"
  shows "\<exists>a cl. a \<in> set (w_Agents w) \<and> cl_Addr cl = ag_addr a \<and> Consumer_Discovery timeout r f (Some c) = Some (Some cl)"
proof -
  have m: "map_of ins f = Some (map ag_addr (w_Agents w))" using Worker_Register_funcs [OF assms(5)] assms(4) by simp
  obtain y where y: "RandomInt r 1 10000 = Some y" using RandomInt_range [of 1 10000 r] by auto
  let ?i = "nat y mod length (w_Agents w)"
  have "?i < length (w_Agents w)" using assms(7) by simp
  then show ?thesis
    using last_entry_wins [of get before x after unjson, OF assms(1-3) m assms(6)] y assms(7,8)
    by (intro exI [of _ "w_Agents w ! ?i"] exI [of _ "NewClient timeout ''tcp'' (ag_addr (w_Agents w ! ?i))"])
      (simp add: Consumer_Discovery_def NewClient_def)
qed

lemma consumer_no_server_panics:
  "cs_Workers c f = Some [] \<Longrightarrow> Consumer_Discovery timeout r f (Some c) = None"
  using RandomInt_range [of 1 10000 r] by (auto simp: Consumer_Discovery_def)

subsection \<open>Calling the next worker\<close>

lemma ClientDiscovery_panics: "f \<noteq> [] \<Longrightarrow> ClientDiscovery timeout r marshal f params h eh dial ans n redial timer = None"
  by (simp add: ClientDiscovery_def worker_discovery_def Consumer_Discovery_def)

lemma ClientCall_no_server: "addr \<noteq> [] \<Longrightarrow> f \<noteq> [] \<Longrightarrow> ClientCall timeout marshal addr f params h eh None ans n redial timer = None"
  by (simp add: ClientCall_def Client_Start_def ClientConn_def)

lemma ClientCall_result:
  assumes "addr \<noteq> []" "f \<noteq> []" "marshal params = Some p" "length f + length p + 28 < 2 ^ 32"
    and res: "res_sized res" "rs_DataType res = PDT_S_RETURN_DATA" "rs_Handle res = f" "length (res_content res) \<le> maxFrameSize"
    and "0 < n"
  shows "\<exists>c. ClientCall timeout marshal addr f params h eh (Some (map Byte (packet res))) WroteAll n redial False = Some (Runs c)
    \<and> cl_calls c = [CallResp h (client_view res)] \<and> cl_output c = do_job_frame client_NewReq f p"
proof -
  define c where "c = (NewClient timeout ''tcp'' addr :: 'b Client)\<lparr>cl_conn := True, cl_input := map Byte (packet res), cl_ErrHandler := eh\<rparr>"
  have c: "cl_conn c" "cl_pending c = None" "\<not> cl_ResClosed c" "cl_RespHandlers c = Some NewResHandlerMap"
    "cl_input c = map Byte (packet res) @ []" "cl_calls c = []" "cl_output c = []" "cur_req c = client_NewReq"
    by (simp_all add: c_def NewClient_def cur_req_def)
  obtain c' where c': "client_Do f p h WroteAll n redial False c = Some (None, c')"
    "cl_calls c' = [CallResp h (client_view res)]" "cl_RespHandlers c' \<noteq> None"
    "cl_output c' = do_job_frame client_NewReq f p" "cl_pending c' = None" "cl_conn c'" "\<not> cl_ResClosed c'"
    by (rule client_Do_result [OF c(1-4) assms(2,4) res c(5) assms(9), of h redial]) (simp add: c)
  have "ClientCall timeout marshal addr f params h eh (Some (map Byte (packet res))) WroteAll n redial False
      = map_option Runs (Client_Close c')"
    using assms(1-3) c'(1) by (simp add: ClientCall_def Client_Start_def ClientConn_def c_def map_conv_bind_option comp_def)
  then show ?thesis using c' by (simp add: Client_Close_def)
qed

end
