(* ===== verification/Logger.thy ===== *)
theory Logger
  imports Log_File Startup Consumer
begin

section \<open>Setting up the logger and the etcd clients (pkg/logger/logger.go, worker/register.go, client/discovery.go)\<close>

text \<open>
  \<^verbatim>\<open>NewLogger\<close> chooses the level and the file of the log and opens a new file when the day changes. The encoders and cores
  of the logging package are left out; an entry goes to the standard error output and to the newest
  file. A round of the loop reads the clock three times: before and after it sleeps, and, if the days
  differ, for the name of the new file.

  Both etcd clients choose their credentials in the same way; the client itself is third-party and is made
  by the argument \<open>new\<close>.
\<close>

subsection \<open>The log file of the day\<close>

definition DEFAULT_LOG_DIR :: string where
  "DEFAULT_LOG_DIR = ''./nmid_log_dir''"

definition DEFAULT_LOG_FILENAME :: string where
  "DEFAULT_LOG_FILENAME = ''log_file.log''"

datatype Level = InfoLevel | DebugLevel

definition log_level :: "LogConfig option \<Rightarrow> Level" where
  "log_level logConfig = (case logConfig of
     None \<Rightarrow> InfoLevel
   | Some c \<Rightarrow> if lc_Debug c then DebugLevel else InfoLevel)"

text \<open>The directory and the constant part of the name; \<open>env\<close> is the environment of the process.\<close>

definition log_names :: "LogConfig option \<Rightarrow> (string \<Rightarrow> string) \<Rightarrow> string \<times> string" where
  "log_names logConfig env = (case logConfig of
     None \<Rightarrow>
       (let logDir = env ''LOG_DIR''; logDir = (if logDir = [] then DEFAULT_LOG_DIR else logDir);
            name = env ''LOGFILENAME''; name = (if name = [] then DEFAULT_LOG_FILENAME else name)
        in (logDir, name))
   | Some c \<Rightarrow> (lc_LogDir c, lc_StdoutFilename c))"

definition day_file :: "string \<Rightarrow> string \<Rightarrow> string" where
  "day_file day name = day @ ''_'' @ name"

text \<open>The log files that were opened, the newest last: directory, name and the file; a file that cannot be opened ends the process.\<close>

type_synonym LogFiles = "(string \<times> string \<times> logFile) list"

definition open_day :: "u32 \<Rightarrow> string \<times> string \<Rightarrow> string \<Rightarrow> bool \<Rightarrow> LogFiles \<Rightarrow> LogFiles option" where
  "open_day maxCache names day ok fs = (case names of (dir, name) \<Rightarrow>
     (case newLogFile ok (dir @ ''/'' @ day_file day name) maxCache of
        None \<Rightarrow> None
      | Some lf \<Rightarrow> Some (fs @ [(dir, day_file day name, lf)])))"

record Round =
  rd_last :: string
  rd_now :: string
  rd_day :: string
  rd_ok :: bool

fun day_loop :: "u32 \<Rightarrow> string \<times> string \<Rightarrow> Round list \<Rightarrow> LogFiles \<Rightarrow> LogFiles option" where
  "day_loop maxCache names [] fs = Some fs"
| "day_loop maxCache names (rd # rds) fs =
    (if rd_last rd \<noteq> rd_now rd
     then (case open_day maxCache names (rd_day rd) (rd_ok rd) fs of
             None \<Rightarrow> None
           | Some fs \<Rightarrow> day_loop maxCache names rds fs)
     else day_loop maxCache names rds fs)"

definition NewLogger ::
  "u32 \<Rightarrow> LogConfig option \<Rightarrow> (string \<Rightarrow> string) \<Rightarrow> string \<Rightarrow> bool \<Rightarrow> Round list \<Rightarrow> (Level \<times> LogFiles) option" where
  "NewLogger maxCache logConfig env today ok rds = (
     let names = log_names logConfig env
     in case open_day maxCache names today ok [] of
          None \<Rightarrow> None
        | Some fs \<Rightarrow> (case day_loop maxCache names rds fs of None \<Rightarrow> None | Some fs \<Rightarrow> Some (log_level logConfig, fs)))"

text \<open>No midnight falls between the end of a round and the start of the next one.\<close>

fun no_gap :: "string \<Rightarrow> Round list \<Rightarrow> bool" where
  "no_gap day [] = True"
| "no_gap day (rd # rds) \<longleftrightarrow> rd_last rd = day \<and> rd_day rd = rd_now rd \<and> rd_ok rd \<and> no_gap (rd_now rd) rds"

definition final_day :: "string \<Rightarrow> Round list \<Rightarrow> string" where
  "final_day day rds = (if rds = [] then day else rd_now (last rds))"

subsection \<open>The etcd clients\<close>

record EtcdConfig =
  ec_Addrs :: "string list"
  ec_Username :: string
  ec_Password :: string

record V3Config =
  v3_Endpoints :: "string list"
  v3_DialTimeout :: int
  v3_Username :: string
  v3_Password :: string

definition worker_EtcdClient :: "(V3Config \<Rightarrow> string + 'c) \<Rightarrow> EtcdConfig \<Rightarrow> 'c option" where
  "worker_EtcdClient new config = (
     let v3Config = \<lparr>v3_Endpoints = ec_Addrs config, v3_DialTimeout = 5 * second, v3_Username = [], v3_Password = []\<rparr>;
         v3Config = (if ec_Username config \<noteq> [] \<and> ec_Password config \<noteq> []
           then v3Config\<lparr>v3_Username := ec_Username config, v3_Password := ec_Password config\<rparr> else v3Config)
     in (case new v3Config of Inl err \<Rightarrow> None | Inr cli \<Rightarrow> Some cli))"

definition consumer_EtcdClient :: "(V3Config \<Rightarrow> string + 'c) \<Rightarrow> Consumer \<Rightarrow> 'c option" where
  "consumer_EtcdClient new c = (
     let v3Config = \<lparr>v3_Endpoints = cs_EtcdAddrs c, v3_DialTimeout = 5 * second, v3_Username = [], v3_Password = []\<rparr>;
         v3Config = (if cs_Username c \<noteq> [] \<and> cs_Password c \<noteq> []
           then v3Config\<lparr>v3_Username := cs_Username c, v3_Password := cs_Password c\<rparr> else v3Config)
     in (case new v3Config of Inl err \<Rightarrow> None | Inr cli \<Rightarrow> Some cli))"

subsection \<open>The file of the current day\<close>

lemma open_day_ok: "\<exists>lf. open_day m (dir, name) day True fs = Some (fs @ [(dir, day_file day name, lf)])"
  by (simp add: open_day_def newLogFile_def openFile_def)

text \<open>As long as midnight falls into a sleep, the newest file is the one of the day.\<close>

lemma day_loop_follows:
  assumes "no_gap day rds" "fst (last fs) = dir" "fst (snd (last fs)) = day_file day name" "fs \<noteq> []"
  shows "\<exists>fs'. day_loop m (dir, name) rds fs = Some fs' \<and> fs' \<noteq> [] \<and> fst (last fs') = dir
    \<and> fst (snd (last fs')) = day_file (final_day day rds) name"
  using assms
proof (induction rds arbitrary: day fs)
  case (Cons rd rds)
  have fd: "final_day day (rd # rds) = final_day (rd_now rd) rds" by (simp add: final_day_def)
  show ?case
  proof (cases "rd_last rd = rd_now rd")
    case True
    then show ?thesis using Cons.IH [of day fs] Cons.prems fd by auto
  next
    case False
    obtain lf where "open_day m (dir, name) (rd_now rd) True fs = Some (fs @ [(dir, day_file (rd_now rd) name, lf)])"
      using open_day_ok by blast
    then show ?thesis
      using Cons.IH [of "rd_now rd" "fs @ [(dir, day_file (rd_now rd) name, lf)]"] Cons.prems False fd by simp
  qed
qed (simp add: final_day_def)

text \<open>A midnight between two rounds is missed: no round sees two different days, and the old file stays.\<close>

lemma day_loop_misses: "list_all (\<lambda>rd. rd_last rd = rd_now rd) rds \<Longrightarrow> day_loop m names rds fs = Some fs"
  by (induction rds) simp_all

lemma NewLogger_follows:
  assumes "no_gap today rds" "log_names logConfig env = (dir, name)"
  shows "\<exists>fs. NewLogger m logConfig env today True rds = Some (log_level logConfig, fs) \<and> fs \<noteq> []
    \<and> fst (last fs) = dir \<and> fst (snd (last fs)) = day_file (final_day today rds) name"
proof -
  obtain lf where o: "open_day m (dir, name) today True [] = Some [(dir, day_file today name, lf)]"
    using open_day_ok [of m dir name today "[]"] by auto
  show ?thesis
    using day_loop_follows [OF assms(1), of "[(dir, day_file today name, lf)]" dir name m] o assms(2)
    by (auto simp: NewLogger_def)
qed

lemma log_names_nonempty: "fst (log_names None env) \<noteq> [] \<and> snd (log_names None env) \<noteq> []"
  by (simp add: log_names_def DEFAULT_LOG_DIR_def DEFAULT_LOG_FILENAME_def Let_def)

subsection \<open>Credentials\<close>

text \<open>The two clients agree, and a name is never sent without a password or a password without a name.\<close>

lemma etcd_clients_agree:
  "consumer_EtcdClient new c = worker_EtcdClient new \<lparr>ec_Addrs = cs_EtcdAddrs c, ec_Username = cs_Username c, ec_Password = cs_Password c\<rparr>"
  by (simp add: consumer_EtcdClient_def worker_EtcdClient_def Let_def)

lemma etcd_credentials:
  "worker_EtcdClient (\<lambda>v. Inr v) config = Some v \<Longrightarrow> (v3_Username v = [] \<longleftrightarrow> v3_Password v = [])"
  by (auto simp: worker_EtcdClient_def Let_def split: if_splits)

end
