(* ===== verification/Utils_Net.thy ===== *)
theory Utils_Net
  imports Breaker Go_Strconv
begin

section \<open>Parameter maps, files, buffers and the zone of an address (pkg/utils/utils.go)\<close>

text \<open>
  The part of the utilities that talks to the file system and to two HTTP services. What the
  services answer, the decoders of msgpack and JSON and the operations on files are arguments. A coordinate is the
  rational number that its \<^verbatim>\<open>float64\<close> stands for; \<open>format_fixed\<close> is the verb \<^verbatim>\<open>%.nf\<close>, which rounds the exact
  value, ties to even.

  A file name is a list of runes, so that the index of a byte and the index of a rune can differ.

  The lemmas: the zone is empty or that of the address asked for, and empty when a service fails; \<^verbatim>\<open>CreateFile\<close> makes the
  directory before the last slash for ASCII names, panics on a name without a slash, and makes a wrong
  directory for other names; a buffer from the pool is one that was put back or a fresh one.
\<close>

subsection \<open>Parameter maps\<close>

definition MsgpackParamsMap :: "(bytes \<Rightarrow> string + 'm) \<Rightarrow> bytes \<Rightarrow> 'm option" where
  "MsgpackParamsMap unmarshal params = (case unmarshal params of Inl err \<Rightarrow> None | Inr paramsMap \<Rightarrow> Some paramsMap)"

definition JsonParamsMap :: "(bytes \<Rightarrow> string + 'm) \<Rightarrow> bytes \<Rightarrow> 'm option" where
  "JsonParamsMap unmarshal params = (case unmarshal params of Inl err \<Rightarrow> None | Inr paramsMap \<Rightarrow> Some paramsMap)"

text \<open>\<^verbatim>\<open>Struct2Map\<close>; the loop at its end stores every value where it is.\<close>

definition Struct2Map :: "('a \<Rightarrow> string + bytes) \<Rightarrow> (bytes \<Rightarrow> string + (string \<times> 'v) list) \<Rightarrow> 'a \<Rightarrow> string + (string \<rightharpoonup> 'v)" where
  "Struct2Map marshal decode content = (case marshal content of
     Inl err \<Rightarrow> Inl err
   | Inr marshalContent \<Rightarrow> (case decode marshalContent of
       Inl err \<Rightarrow> Inl err
     | Inr name \<Rightarrow> Inr (fold (\<lambda>(k, v) m. m(k \<mapsto> v)) name (map_of name))))"

subsection \<open>Buffers\<close>

text \<open>A \<^verbatim>\<open>sync.Pool\<close>: \<^verbatim>\<open>Get\<close> takes any pooled buffer, or none and makes a new one; the pool may drop buffers.\<close>

type_synonym BufferPool = "bytes list"

definition NewBufferPool :: BufferPool where
  "NewBufferPool = []"

definition pool_Get :: "nat option \<Rightarrow> BufferPool \<Rightarrow> bytes \<times> BufferPool" where
  "pool_Get choice bp = (case choice of
     Some k \<Rightarrow> if k < length bp then (bp ! k, take k bp @ drop (Suc k) bp) else (replicate (32 * 1024) 0, bp)
   | None \<Rightarrow> (replicate (32 * 1024) 0, bp))"

definition pool_Put :: "bytes \<Rightarrow> BufferPool \<Rightarrow> BufferPool" where
  "pool_Put v bp = v # bp"

definition pool_drop :: "nat \<Rightarrow> BufferPool \<Rightarrow> BufferPool" where
  "pool_drop k bp = take k bp"

inductive pool_reach :: "bytes set \<Rightarrow> BufferPool \<Rightarrow> bool" where
  new: "pool_reach {} NewBufferPool"
| get: "pool_reach B bp \<Longrightarrow> pool_reach B (snd (pool_Get choice bp))"
| put: "pool_reach B bp \<Longrightarrow> pool_reach (insert v B) (pool_Put v bp)"
| drop: "pool_reach B bp \<Longrightarrow> pool_reach B (pool_drop k bp)"

subsection \<open>Files\<close>

text \<open>What \<^verbatim>\<open>os.Stat\<close> returns: no error, or one of which \<^verbatim>\<open>os.IsExist\<close> says something.\<close>

definition PathExist :: "bool option \<Rightarrow> bool" where
  "PathExist err = (case err of Some isExist \<Rightarrow> isExist | None \<Rightarrow> True)"

type_synonym rune = nat

definition rune_bytes :: "rune \<Rightarrow> nat" where
  "rune_bytes c = (if c < 128 then 1 else if c < 2048 then 2 else if c < 65536 then 3 else 4)"

definition slash :: rune where
  "slash = 47"

text \<open>\<^verbatim>\<open>strings.LastIndex\<close> of a slash: an index of a byte, or -1.\<close>

fun last_slash :: "nat \<Rightarrow> rune list \<Rightarrow> int" where
  "last_slash n [] = -1"
| "last_slash n (c # cs) =
    (let i = last_slash (n + rune_bytes c) cs in if i \<ge> 0 then i else if c = slash then int n else -1)"

text \<open>\<^verbatim>\<open>CreateFile\<close>: the slice of the runes may extend to the capacity \<open>cap\<close> of the converted slice, whose rest is zero. The
  result is \<^const>\<open>None\<close> for a panic; the first component is the directory that was made.\<close>

definition CreateFile ::
  "nat \<Rightarrow> (rune list \<Rightarrow> string option) \<Rightarrow> (rune list \<Rightarrow> string + 'f) \<Rightarrow> rune list \<Rightarrow> (rune list \<times> (string + 'f)) option" where
  "CreateFile cap mkdirAll create name = (
     let i = last_slash 0 name
     in if i < 0 \<or> int cap < i then None
        else
          let dir = take (nat i) (name @ replicate (cap - length name) 0)
          in Some (dir, case mkdirAll dir of Some err \<Rightarrow> Inl err | None \<Rightarrow> create name))"

subsection \<open>The zone of an address\<close>

record IpInfo =
  ip_Status :: string
  ip_Country :: string
  ip_CountryCode :: string
  ip_Region :: string
  ip_RegionName :: string
  ip_City :: string
  ip_Lat :: rat
  ip_Lon :: rat
  ip_Timezone :: string
  ip_Isp :: string
  ip_Org :: string
  ip_As :: string
  ip_Query :: string

record LocationInfo =
  lo_Status :: int
  lo_Message :: int
  lo_RequestId :: int
  lo_Address :: string
  lo_Recommend :: string

definition zero_location :: LocationInfo where
  "zero_location = \<lparr>lo_Status = 0, lo_Message = 0, lo_RequestId = 0, lo_Address = [], lo_Recommend = []\<rparr>"

record ZoneInfo =
  zi_Ip :: string
  zi_Zone :: string
  zi_Country :: string
  zi_Prov :: string
  zi_City :: string
  zi_Lat :: string
  zi_Lon :: string

definition zero_zone :: ZoneInfo where
  "zero_zone = \<lparr>zi_Ip = [], zi_Zone = [], zi_Country = [], zi_Prov = [], zi_City = [], zi_Lat = [], zi_Lon = []\<rparr>"

definition pad_zeros :: "nat \<Rightarrow> string \<Rightarrow> string" where
  "pad_zeros n s = replicate (n - length s) (CHR ''0'') @ s"

definition format_fixed :: "nat \<Rightarrow> rat \<Rightarrow> string" where
  "format_fixed n x = (
     let m = nat (round_even (\<bar>x\<bar> * 10 ^ n)); s = digits (m div 10 ^ n) @ ''.'' @ pad_zeros n (digits (m mod 10 ^ n))
     in if x < 0 then ''-'' @ s else s)"

text \<open>What an HTTP request for a URL ends with: an error, or the body read.\<close>

definition GetIPInfo :: "(string \<Rightarrow> string + bytes) \<Rightarrow> string \<Rightarrow> bytes" where
  "GetIPInfo http ip = (case http (''http://ip-api.com/json/'' @ ip @ ''?lang=zh-CN'') of Inl err \<Rightarrow> [] | Inr body \<Rightarrow> body)"

text \<open>The error of the decoder is dropped; \<open>decode\<close> fills the structure that it is given.\<close>

definition GetLocation ::
  "(string \<Rightarrow> string + bytes) \<Rightarrow> (bytes \<Rightarrow> LocationInfo \<Rightarrow> LocationInfo) \<Rightarrow> string \<Rightarrow> rat \<Rightarrow> rat \<Rightarrow> LocationInfo" where
  "GetLocation http decode mapkey lat lon =
    (case http (''https://apis.map.qq.com/ws/geocoder/v1/?location='' @ format_fixed 4 lat @ '','' @ format_fixed 4 lon
        @ ''&key='' @ mapkey @ ''&get_poi=1'') of
       Inl err \<Rightarrow> zero_location
     | Inr body \<Rightarrow> decode body zero_location)"

definition GetIPZone ::
  "(string \<Rightarrow> string + bytes) \<Rightarrow> (bytes \<Rightarrow> IpInfo option) \<Rightarrow> (bytes \<Rightarrow> LocationInfo \<Rightarrow> LocationInfo) \<Rightarrow> string \<Rightarrow> string \<Rightarrow> ZoneInfo" where
  "GetIPZone http unjson decode mapkey ip = (
     let ret = GetIPInfo http ip
     in if ret = [] then zero_zone
        else (case unjson ret of
          None \<Rightarrow> zero_zone
        | Some info \<Rightarrow>
            if ip_Status info = ''success''
            then
              let location = GetLocation http decode mapkey (ip_Lat info) (ip_Lon info);
                  address = (if lo_Status location = 0 then lo_Address location @ '', '' @ lo_Recommend location else [])
              in \<lparr>zi_Ip = ip, zi_Zone = ip_Country info @ ''-'' @ ip_City info @ ''-'' @ ip_Org info @ ''-'' @ address,
                  zi_Country = ip_Country info, zi_Prov = ip_RegionName info, zi_City = ip_City info,
                  zi_Lat = format_fixed 3 (ip_Lat info), zi_Lon = format_fixed 3 (ip_Lon info)\<rparr>
            else zero_zone))"

text \<open>The labels that the server counts for a refused address.\<close>

definition zone_labels :: "ZoneInfo \<Rightarrow> string list" where
  "zone_labels z = [zi_Zone z, zi_Country z, zi_Prov z, zi_City z, zi_Lat z, zi_Lon z]"

subsection \<open>Lemmas on maps and buffers\<close>

lemma fold_upd_self: "(\<And>k v. (k, v) \<in> set kvs \<Longrightarrow> m k = Some v) \<Longrightarrow> fold (\<lambda>(k, v) m. m(k \<mapsto> v)) kvs m = m"
proof (induction kvs)
  case (Cons kv kvs)
  obtain k v where kv: "kv = (k, v)" by fastforce
  have "m(k \<mapsto> v) = m" using Cons.prems [of k v] kv by (simp add: fun_upd_idem)
  then show ?case using Cons.IH Cons.prems kv by (simp del: fun_upd_apply)
qed simp

text \<open>The loop of \<^verbatim>\<open>Struct2Map\<close> changes nothing: the result is what was decoded.\<close>

lemma Struct2Map_decoded:
  assumes "marshal content = Inr b" "decode b = Inr kvs" "distinct (map fst kvs)"
  shows "Struct2Map marshal decode content = Inr (map_of kvs)"
  using assms by (simp add: Struct2Map_def fold_upd_self)

lemma pool_reach_set: "pool_reach B bp \<Longrightarrow> set bp \<subseteq> B"
proof (induction rule: pool_reach.induct)
  case (get B bp choice)
  then show ?case by (auto simp: pool_Get_def split: option.splits dest!: in_set_takeD in_set_dropD)
qed (auto simp: NewBufferPool_def pool_Put_def pool_drop_def dest!: in_set_takeD)

text \<open>A buffer is one that was put back, or a fresh one of 32 KiB; a buffer is handed out once for every time it was put.\<close>

lemma pool_Get_buffer:
  assumes "pool_reach B bp"
  shows "fst (pool_Get choice bp) \<in> B \<or> fst (pool_Get choice bp) = replicate (32 * 1024) 0"
  using pool_reach_set [OF assms] by (auto simp: pool_Get_def split: option.splits)

lemma pool_Get_once: "k < length bp \<Longrightarrow> length (snd (pool_Get (Some k) bp)) = length bp - 1"
  by (simp add: pool_Get_def)

subsection \<open>Lemmas on files\<close>

lemma last_slash_none: "slash \<notin> set cs \<Longrightarrow> last_slash n cs = -1"
  by (induction cs arbitrary: n) (auto simp: Let_def)

lemma last_slash_some:
  "slash \<notin> set cs \<Longrightarrow> last_slash n (ds @ slash # cs) = int (n + sum_list (map rune_bytes ds))"
  by (induction ds arbitrary: n) (simp_all add: last_slash_none)

lemma ascii_bytes: "list_all (\<lambda>c. c < 128) ds \<Longrightarrow> sum_list (map rune_bytes ds) = length ds"
  by (induction ds) (simp_all add: rune_bytes_def)

lemma CreateFile_no_slash: "slash \<notin> set name \<Longrightarrow> CreateFile cap mkdirAll create name = None"
  by (simp add: CreateFile_def last_slash_none)

lemma CreateFile_ascii:
  assumes "name = dir @ slash # file" "slash \<notin> set file" "list_all (\<lambda>c. c < 128) dir" "length name \<le> cap"
  shows "CreateFile cap mkdirAll create name = Some (dir, case mkdirAll dir of Some err \<Rightarrow> Inl err | None \<Rightarrow> create name)"
  using assms(2-4) unfolding assms(1) by (simp add: CreateFile_def last_slash_some ascii_bytes Let_def)

text \<open>For other names the directory is too long: here it is the whole name of the file, so that the file itself
  becomes a directory.\<close>

lemma CreateFile_wrong_dir:
  assumes "name = [233, 233, slash, 120]" "4 \<le> cap"
  shows "CreateFile cap mkdirAll create name = Some (name, case mkdirAll name of Some err \<Rightarrow> Inl err | None \<Rightarrow> create name)"
  using assms(2) unfolding assms(1)
  by (simp add: CreateFile_def rune_bytes_def slash_def Let_def split: option.split)

subsection \<open>Lemmas on zones\<close>

lemma GetIPZone_cases:
  obtains "GetIPZone http unjson decode mapkey ip = zero_zone"
  | info where "unjson (GetIPInfo http ip) = Some info" "ip_Status info = ''success''"
      "zi_Ip (GetIPZone http unjson decode mapkey ip) = ip" "zi_Country (GetIPZone http unjson decode mapkey ip) = ip_Country info"
      "zi_City (GetIPZone http unjson decode mapkey ip) = ip_City info"
proof (cases "\<exists>info. unjson (GetIPInfo http ip) = Some info \<and> ip_Status info = ''success'' \<and> GetIPInfo http ip \<noteq> []")
  case True
  then obtain info where "unjson (GetIPInfo http ip) = Some info" "ip_Status info = ''success''" "GetIPInfo http ip \<noteq> []"
    by blast
  then show thesis by (intro that(2)) (simp_all add: GetIPZone_def Let_def)
next
  case False
  then show thesis by (intro that(1)) (auto simp: GetIPZone_def Let_def split: option.splits)
qed

lemma GetIPZone_unreachable:
  "http (''http://ip-api.com/json/'' @ ip @ ''?lang=zh-CN'') = Inl err \<Longrightarrow> GetIPZone http unjson decode mapkey ip = zero_zone"
  by (simp add: GetIPZone_def GetIPInfo_def)

text \<open>A location service that fails leaves a location with status 0, which counts as an answer: the zone ends with an
  empty address.\<close>

lemma GetIPZone_no_location:
  assumes "http (''http://ip-api.com/json/'' @ ip @ ''?lang=zh-CN'') = Inr b" "b \<noteq> []" "unjson b = Some info"
    "ip_Status info = ''success''" "\<And>url. url \<noteq> ''http://ip-api.com/json/'' @ ip @ ''?lang=zh-CN'' \<Longrightarrow> http url = Inl err"
  shows "zi_Zone (GetIPZone http unjson decode mapkey ip) = ip_Country info @ ''-'' @ ip_City info @ ''-'' @ ip_Org info @ ''-, ''"
proof -
  have "GetLocation http decode mapkey (ip_Lat info) (ip_Lon info) = zero_location"
    unfolding GetLocation_def by (subst assms(5)) simp_all
  then show ?thesis using assms by (simp add: GetIPZone_def GetIPInfo_def zero_location_def)
qed

text \<open>Together with the address the zone gives the seven labels of the counter of refused addresses.\<close>

lemma zone_labels_length: "length (ip # zone_labels z) = 7"
  by (simp add: zone_labels_def)

end
