(* ===== verification/Server_Metrics.thy ===== *)
theory Server_Metrics
  imports Server_Jobs Metrics Startup Utils_Net
begin

section \<open>The metrics of the server (pkg/metric, server/metric.go, client/metric.go, worker/metric.go)\<close>

text \<open>
  The declarations of the Prometheus metrics, the updates that the server makes, and what the dashboard
  then reads. Prometheus is third-party code: \<open>mustRegister\<close> is an argument, and what is gathered after a list of
  updates is described by \<open>gathered\<close>, as its documentation says: one series for every list of label values that was
  updated, whose value is the sum of the updates.

  The lemmas: the names declared by the server are distinct, but the worker package declares one of them
  again; every name the dashboard reads is declared; every update of the server has the labels of its
  declaration; and since the time of the update is a label, no later update reaches a series: a worker that has deleted
  its functions, or has left, is still counted.
\<close>

subsection \<open>Declarations\<close>

record VecOpts =
  vo_Namespace :: string
  vo_Subsystem :: string
  vo_Name :: string
  vo_Help :: string
  vo_Labels :: "string list"
  vo_Buckets :: "nat list"

datatype VecKind = CounterVec | GaugeVec | HistogramVec

text \<open>A package variable with its kind and options.\<close>

record Vec =
  ve_Var :: string
  ve_Kind :: VecKind
  ve_Opts :: VecOpts

definition namespace :: string where
  "namespace = ''nmid_server''"

definition vec :: "string \<Rightarrow> VecKind \<Rightarrow> string \<Rightarrow> string \<Rightarrow> string \<Rightarrow> string list \<Rightarrow> nat list \<Rightarrow> Vec" where
  "vec var kind subsystem name help labels buckets = \<lparr>ve_Var = var, ve_Kind = kind, ve_Opts =
     \<lparr>vo_Namespace = namespace, vo_Subsystem = subsystem, vo_Name = name, vo_Help = help, vo_Labels = labels, vo_Buckets = buckets\<rparr>\<rparr>"

definition WorkerFuncCount :: Vec where
  "WorkerFuncCount = vec ''WorkerFuncCount'' GaugeVec ''worker'' ''func_count'' ''nmid worker func count.''
     [''worker_id'', ''worker_name'', ''worker_ip'', ''func_name'', ''create_time''] []"

definition server_vecs :: "Vec list" where
  "server_vecs =
    [vec ''requestCount'' CounterVec ''client'' ''request_count'' ''nmid client requests count.'' [''worker_name'', ''func_name''] [],
     vec ''requestDuring'' CounterVec ''client'' ''request_during'' ''nmid client requests during time.'' [''worker_name'', ''func_name''] [],
     vec ''requestDuration'' HistogramVec ''client'' ''request_duration'' ''nmid client http requests duration(ms).''
       [''worker_name'', ''func_name''] [5, 10, 20, 30, 50],
     vec ''WorkerCloseCount'' CounterVec ''worker'' ''close_count'' ''nmid worker close count.'' [''worker_ip''] [],
     WorkerFuncCount,
     vec ''WorkerFuncSuccessCount'' CounterVec ''worker'' ''func_success'' ''nmid worker func do job success count.''
       [''worker_name'', ''func_name''] [],
     vec ''WorkerFuncFailCount'' CounterVec ''worker'' ''func_fail'' ''nmid worker func do job fail count.''
       [''worker_name'', ''func_name''] [],
     vec ''FuncCount'' GaugeVec ''func'' ''func_count'' ''nmid all func count.'' [''func_name''] [],
     vec ''FuncSuccessCount'' CounterVec ''func'' ''func_success'' ''nmid func do job success count.'' [''func_name''] [],
     vec ''FuncFailCount'' CounterVec ''func'' ''func_fail'' ''nmid func do job fail count.'' [''func_name''] [],
     vec ''ThreatIpCount'' CounterVec ''ip'' ''threat_ip'' ''nmid threat ip count.''
       [''ip'', ''zone'', ''country'', ''prov'', ''city'', ''lat'', ''lon''] []]"

definition client_vecs :: "Vec list" where
  "client_vecs = [vec ''discoveryCount'' CounterVec ''client'' ''discovery_count'' ''nmid client discovery count.'' [''discovery_name''] []]"

definition worker_vecs :: "Vec list" where
  "worker_vecs = [vec ''WorkerCloseCount'' CounterVec ''worker'' ''close_count'' ''nmid worker close count.'' [''worker_ip''] []]"

text \<open>The full name of a metric whose three parts are not empty.\<close>

definition fq_name :: "VecOpts \<Rightarrow> string" where
  "fq_name o1 = vo_Namespace o1 @ ''_'' @ vo_Subsystem o1 @ ''_'' @ vo_Name o1"

text \<open>The constructors: no options give no vector; otherwise it is registered, which may panic, and a close listener
  is added, named by its number.\<close>

definition NewCounterVec ::
  "(VecOpts \<Rightarrow> 'reg \<Rightarrow> 'reg option) \<Rightarrow> VecOpts option \<Rightarrow> 'reg \<times> closeManager \<Rightarrow> (VecOpts option \<times> 'reg \<times> closeManager) option" where
  "NewCounterVec mustRegister opts st = (case (opts, st) of
     (None, _) \<Rightarrow> Some (None, st)
   | (Some o1, (reg, cm)) \<Rightarrow> do { reg \<leftarrow> mustRegister o1 reg; Some (Some o1, reg, addListener (length (cm_listeners cm)) cm) })"

definition NewGaugeVec ::
  "(VecOpts \<Rightarrow> 'reg \<Rightarrow> 'reg option) \<Rightarrow> VecOpts option \<Rightarrow> 'reg \<times> closeManager \<Rightarrow> (VecOpts option \<times> 'reg \<times> closeManager) option" where
  "NewGaugeVec mustRegister opts st = (case (opts, st) of
     (None, _) \<Rightarrow> Some (None, st)
   | (Some o1, (reg, cm)) \<Rightarrow> do { reg \<leftarrow> mustRegister o1 reg; Some (Some o1, reg, addListener (length (cm_listeners cm)) cm) })"

definition NewHistogramVec ::
  "(VecOpts \<Rightarrow> 'reg \<Rightarrow> 'reg option) \<Rightarrow> VecOpts option \<Rightarrow> 'reg \<times> closeManager \<Rightarrow> (VecOpts option \<times> 'reg \<times> closeManager) option" where
  "NewHistogramVec mustRegister opts st = (case (opts, st) of
     (None, _) \<Rightarrow> Some (None, st)
   | (Some o1, (reg, cm)) \<Rightarrow> do { reg \<leftarrow> mustRegister o1 reg; Some (Some o1, reg, addListener (length (cm_listeners cm)) cm) })"

text \<open>The initialisation of the package variables, in order.\<close>

fun init_vecs :: "(VecOpts \<Rightarrow> 'reg \<Rightarrow> 'reg option) \<Rightarrow> Vec list \<Rightarrow> 'reg \<times> closeManager \<Rightarrow> ('reg \<times> closeManager) option" where
  "init_vecs mustRegister [] st = Some st"
| "init_vecs mustRegister (v # vs) st = do {
     (_, st) \<leftarrow> (case ve_Kind v of
        CounterVec \<Rightarrow> NewCounterVec mustRegister (Some (ve_Opts v)) st
      | GaugeVec \<Rightarrow> NewGaugeVec mustRegister (Some (ve_Opts v)) st
      | HistogramVec \<Rightarrow> NewHistogramVec mustRegister (Some (ve_Opts v)) st);
     init_vecs mustRegister vs st
   }"

text \<open>What the registry documents: a name can be registered once; \<open>names\<close> are those registered.\<close>

definition registers_once :: "(VecOpts \<Rightarrow> 'reg \<Rightarrow> 'reg option) \<Rightarrow> ('reg \<Rightarrow> string set) \<Rightarrow> bool" where
  "registers_once mustRegister names \<longleftrightarrow> (\<forall>o1 reg. case mustRegister o1 reg of
     None \<Rightarrow> fq_name o1 \<in> names reg
   | Some reg' \<Rightarrow> fq_name o1 \<notin> names reg \<and> names reg' = insert (fq_name o1) (names reg))"

subsection \<open>Updates\<close>

text \<open>An update fits its declaration, and carries the time of the environment if it counts the functions of a
  worker, and its labels are UTF-8. The labels of a refused address come from outside, and the address of a
  closed connection from the operating system.\<close>

fun fits :: "Env \<Rightarrow> metric \<Rightarrow> bool" where
  "fits env (Metric var ls a) \<longleftrightarrow>
    (var = ''ThreatIpCount'' \<or> (\<exists>v \<in> set server_vecs. ve_Var v = var \<and> length (vo_Labels (ve_Opts v)) = length ls))
    \<and> (var = ''WorkerFuncCount'' \<longrightarrow> last ls = e_timeStr env)
    \<and> (var \<noteq> ''ThreatIpCount'' \<and> var \<noteq> ''WorkerCloseCount'' \<longrightarrow> list_all valid_utf8 ls)"

definition grows :: "Env \<Rightarrow> Server \<Rightarrow> Server \<Rightarrow> bool" where
  "grows env s s' \<longleftrightarrow> (\<exists>ms. s_Metrics s' = s_Metrics s @ ms \<and> (\<forall>m \<in> set ms. fits env m))"

fun amount :: "string \<Rightarrow> string list \<Rightarrow> metric \<Rightarrow> int" where
  "amount var ls (Metric var' ls' a) = (if var' = var \<and> ls' = ls then a else 0)"

definition series :: "metric list \<Rightarrow> string \<Rightarrow> string list \<Rightarrow> int" where
  "series us var ls = sum_list (map (amount var ls) us)"

definition gathered :: "Vec \<Rightarrow> metric list \<Rightarrow> Families \<Rightarrow> bool" where
  "gathered v us mfs \<longleftrightarrow> (\<forall>ls. (\<exists>a. Metric (ve_Var v) ls a \<in> set us) \<longrightarrow>
     (\<exists>m \<in> set (metrics_of (fq_name (ve_Opts v)) mfs). set (me_Label m) = set (zip (vo_Labels (ve_Opts v)) ls)
       \<and> me_Gauge m = Some (series us (ve_Var v) ls)))"

subsection \<open>Declarations: lemmas\<close>

lemmas vec_defs = server_vecs_def client_vecs_def worker_vecs_def WorkerFuncCount_def vec_def namespace_def fq_name_def

lemma vecs_distinct: "distinct (map (fq_name \<circ> ve_Opts) (server_vecs @ client_vecs))"
  by (simp add: vec_defs)

lemma vecs_clash: "fq_name (ve_Opts (hd worker_vecs)) \<in> (fq_name \<circ> ve_Opts) ` set server_vecs"
  by (simp add: vec_defs)

lemma init_vecs_step:
  assumes "registers_once mustRegister names"
  shows "init_vecs mustRegister (v # vs) (reg, cm) = (if fq_name (ve_Opts v) \<in> names reg then None
    else init_vecs mustRegister vs (the (mustRegister (ve_Opts v) reg), addListener (length (cm_listeners cm)) cm))"
    "fq_name (ve_Opts v) \<notin> names reg \<Longrightarrow> names (the (mustRegister (ve_Opts v) reg)) = insert (fq_name (ve_Opts v)) (names reg)"
proof -
  have r: "case mustRegister (ve_Opts v) reg of None \<Rightarrow> fq_name (ve_Opts v) \<in> names reg
    | Some reg' \<Rightarrow> fq_name (ve_Opts v) \<notin> names reg \<and> names reg' = insert (fq_name (ve_Opts v)) (names reg)"
    using assms unfolding registers_once_def by blast
  show "init_vecs mustRegister (v # vs) (reg, cm) = (if fq_name (ve_Opts v) \<in> names reg then None
    else init_vecs mustRegister vs (the (mustRegister (ve_Opts v) reg), addListener (length (cm_listeners cm)) cm))"
    using r by (cases "mustRegister (ve_Opts v) reg"; cases "ve_Kind v")
      (simp_all add: NewCounterVec_def NewGaugeVec_def NewHistogramVec_def)
  show "fq_name (ve_Opts v) \<notin> names reg \<Longrightarrow> names (the (mustRegister (ve_Opts v) reg)) = insert (fq_name (ve_Opts v)) (names reg)"
    using r by (cases "mustRegister (ve_Opts v) reg") simp_all
qed

lemma init_vecs_ok:
  assumes "registers_once mustRegister names" "distinct (map (fq_name \<circ> ve_Opts) vs)"
    "names reg \<inter> (fq_name \<circ> ve_Opts) ` set vs = {}"
  shows "\<exists>reg' cm'. init_vecs mustRegister vs (reg, cm) = Some (reg', cm')
    \<and> names reg' = names reg \<union> (fq_name \<circ> ve_Opts) ` set vs \<and> cm_wait cm' = cm_wait cm + int (length vs)"
  using assms(2,3)
proof (induction vs arbitrary: reg cm)
  case (Cons v vs)
  have n: "fq_name (ve_Opts v) \<notin> names reg" using Cons.prems by auto
  show ?case
    using Cons.IH [of "the (mustRegister (ve_Opts v) reg)" "addListener (length (cm_listeners cm)) cm"]
      init_vecs_step(2) [OF assms(1) n] Cons.prems n
    by (auto simp: init_vecs_step(1) [OF assms(1)] addListener_def simp del: init_vecs.simps)
qed simp

lemma init_vecs_clash:
  assumes "registers_once mustRegister names" "\<not> distinct (map (fq_name \<circ> ve_Opts) vs)
    \<or> names reg \<inter> (fq_name \<circ> ve_Opts) ` set vs \<noteq> {}"
  shows "init_vecs mustRegister vs (reg, cm) = None"
  using assms(2)
proof (induction vs arbitrary: reg cm)
  case (Cons v vs)
  show ?case
  proof (cases "fq_name (ve_Opts v) \<in> names reg")
    case False
    then show ?thesis
      using Cons.IH [of "the (mustRegister (ve_Opts v) reg)"] init_vecs_step(2) [OF assms(1) False] Cons.prems
      by (auto simp: init_vecs_step(1) [OF assms(1)] simp del: init_vecs.simps)
  qed (simp add: init_vecs_step(1) [OF assms(1)] del: init_vecs.simps)
qed simp

text \<open>A process that has the server and a worker in it panics when it starts.\<close>

lemma server_with_worker_panics:
  assumes "registers_once mustRegister names"
  shows "init_vecs mustRegister (server_vecs @ worker_vecs) (reg, cm) = None"
proof -
  have "\<not> distinct (map (fq_name \<circ> ve_Opts) (server_vecs @ worker_vecs))" by (simp add: vec_defs)
  then show ?thesis by (intro init_vecs_clash [OF assms]) blast
qed

subsection \<open>What leaves the metrics alone\<close>

lemma metrics_upd [simp]:
  "s_Metrics (upd_conn c f s) = s_Metrics s" "s_Metrics (upd_worker w g s) = s_Metrics s"
  "s_Metrics (upd_job j h s) = s_Metrics s" "s_Metrics (snd (write_conn c p s)) = s_Metrics s"
  "s_Metrics (snd (alloc_job jb s)) = s_Metrics s" "s_Metrics (CloseSelfWorker w s) = s_Metrics s"
  "s_Metrics (CloseConnect c s) = s_Metrics s" "s_Metrics (CloseClientConnect c s) = s_Metrics s"
  "s_Metrics (workerWakeup w s) = s_Metrics s" "s_Metrics (snd (getSWClinet c s)) = s_Metrics s"
  "s_Metrics (snd (getSCClient c s)) = s_Metrics s"
  by (simp_all add: upd_conn_def upd_worker_def upd_job_def write_conn_def alloc_job_def CloseSelfWorker_def CloseConnect_def
    CloseClientConnect_def workerWakeup_def getSWClinet_def getSCClient_def Let_def split: prod.splits option.splits)

lemma metrics_same:
  "write_res res c s = Some s' \<Longrightarrow> s_Metrics s' = s_Metrics s"
  "doWork w j s = Some s' \<Longrightarrow> s_Metrics s' = s_Metrics s"
  "upd_client c f s = Some s' \<Longrightarrow> s_Metrics s' = s_Metrics s"
  by (auto simp: write_res_def doWork_def upd_client_def bind_eq_Some_conv Let_def split: option.splits if_splits prod.splits)

lemma metrics_client:
  "client_reply c dt s = Some s' \<Longrightarrow> s_Metrics s' = s_Metrics s"
  "decode_client_req c s = Some (cl, s') \<Longrightarrow> s_Metrics s' = s_Metrics s"
  by (auto simp: client_reply_def decode_client_req_def Let_def bind_eq_Some_conv dest!: metrics_same(3))

lemma metrics_GetBestWorker_loop: "GetBestWorker_loop n env name s = Done (r, s') \<Longrightarrow> s_Metrics s' = s_Metrics s"
  by (induction n env name s rule: GetBestWorker_loop.induct) (auto split: option.splits if_splits)

lemma metrics_GetBestWorker: "GetBestWorker env name s = Some (r, s') \<Longrightarrow> s_Metrics s' = s_Metrics s"
  by (auto simp: GetBestWorker_def simp del: GetBestWorker_loop.simps split: outcome.splits intro: metrics_GetBestWorker_loop)

lemma metrics_close:
  "CloseWorkerConnect c s = Some s' \<Longrightarrow> s_Metrics s' = s_Metrics s"
  "CloseAll c s = Some s' \<Longrightarrow> s_Metrics s' = s_Metrics s"
  by (auto simp: CloseWorkerConnect_def CloseAll_def Let_def split: if_splits option.splits)

lemma metrics_doJobAsync: "doJobAsync c s = Some s' \<Longrightarrow> s_Metrics s' = s_Metrics s"
  by (auto simp: doJobAsync_def bind_eq_Some_conv Let_def split: if_splits prod.splits bool.splits dest!: metrics_client)

lemma metrics_RunClientOptimized: "RunClientOptimized c s = Some s' \<Longrightarrow> s_Metrics s' = s_Metrics s"
  by (auto simp: RunClientOptimized_def bind_eq_Some_conv split: if_splits dest: metrics_doJobAsync)

lemma metrics_small:
  "heartBeatPong w s = Some s' \<Longrightarrow> s_Metrics s' = s_Metrics s"
  "setWorkerName w req s = Some s' \<Longrightarrow> s_Metrics s' = s_Metrics s"
  by (auto simp: heartBeatPong_def setWorkerName_def Let_def dest!: metrics_same(1) split: if_splits)

subsection \<open>Every update fits its declaration\<close>

lemma grows_refl [simp]: "s_Metrics s' = s_Metrics s \<Longrightarrow> grows env s s'"
  by (simp add: grows_def)

lemma grows_trans: "grows env s s' \<Longrightarrow> grows env s' s'' \<Longrightarrow> grows env s s''"
  unfolding grows_def by (metis append.assoc set_append Un_iff)

lemma grows_cong: "s_Metrics t = s_Metrics s \<Longrightarrow> s_Metrics t' = s_Metrics s' \<Longrightarrow> grows env t t' \<longleftrightarrow> grows env s s'"
  by (simp add: grows_def)

lemma grows_add: "grows env s s' \<Longrightarrow> fits env m \<Longrightarrow> grows env s (add_metric m s')"
  by (auto simp: grows_def add_metric_def)

lemma fits_vars [simp]:
  "valid_utf8 a \<Longrightarrow> valid_utf8 b \<Longrightarrow> fits env (Metric ''requestCount'' [a, b] x)"
  "valid_utf8 a \<Longrightarrow> valid_utf8 b \<Longrightarrow> fits env (Metric ''requestDuring'' [a, b] x)"
  "valid_utf8 a \<Longrightarrow> valid_utf8 b \<Longrightarrow> fits env (Metric ''requestDuration'' [a, b] x)"
  "valid_utf8 a \<Longrightarrow> valid_utf8 b \<Longrightarrow> fits env (Metric ''WorkerFuncSuccessCount'' [a, b] x)"
  "valid_utf8 a \<Longrightarrow> valid_utf8 b \<Longrightarrow> fits env (Metric ''WorkerFuncFailCount'' [a, b] x)"
  "list_all valid_utf8 [a, b, c, d, e_timeStr env] \<Longrightarrow> fits env (Metric ''WorkerFuncCount'' [a, b, c, d, e_timeStr env] x)"
  "valid_utf8 a \<Longrightarrow> fits env (Metric ''FuncCount'' [a] x)" "valid_utf8 a \<Longrightarrow> fits env (Metric ''FuncSuccessCount'' [a] x)"
  "valid_utf8 a \<Longrightarrow> fits env (Metric ''FuncFailCount'' [a] x)" "fits env (Metric ''WorkerCloseCount'' [a] x)"
  "fits env (Metric ''ThreatIpCount'' ls x)"
  by (simp_all add: vec_defs)

declare fits.simps [simp del]

lemma grows_same_right: "grows env s s1 \<Longrightarrow> s_Metrics s' = s_Metrics s1 \<Longrightarrow> grows env s s'"
  by (simp add: grows_def)

lemma grows_addFunction: "addFunction env w req s = Some s' \<Longrightarrow> grows env s s'"
  unfolding addFunction_def Let_def
  by (auto simp: bind_eq_Some_conv inc_metric_Some dest!: metrics_same(1) split: if_splits
      intro!: grows_add elim!: grows_same_right [rotated])

lemma grows_delFunction: "delFunction env w req s = Some s' \<Longrightarrow> grows env s s'"
  by (auto simp: delFunction_def Let_def bind_eq_Some_conv inc_metric_Some intro!: grows_add split: if_splits)

lemma metrics_write: "write_conn c p s = (e, s') \<Longrightarrow> s_Metrics s' = s_Metrics s"
  using metrics_upd(4) [of c p s] by simp

lemma grows_answer_client:
  assumes "answer_client env sw client response req jb s = Some s'"
  shows "grows env s s'"
proof (cases "c_ConnType (s_conns s client) = CONN_TYPE_CLIENT")
  case False
  then show ?thesis using assms by (auto simp: answer_client_def Let_def bind_eq_Some_conv inc_metric_Some intro!: grows_add)
next
  case True
  then obtain r p where p: "ResEncodePack (response\<lparr>rs_DataType := PDT_S_RETURN_DATA, rs_Ret := jd_RetData jb,
      rs_RetLen := rq_RetLen req\<rparr>) = Some (r, p)"
    using assms by (auto simp: answer_client_def Let_def bind_eq_Some_conv)
  obtain e s2 where e: "write_conn client p s = (e, s2)" by fastforce
  then have "grows env s s2" using metrics_write [OF e] by simp
  then show ?thesis using assms True p e
    by (cases "e = None") (auto simp: answer_client_def Let_def bind_eq_Some_conv inc_metric_Some intro!: grows_add)
qed

lemma grows_returnData:
  assumes "returnData env w rj s = Some s'"
  shows "grows env s s'"
proof -
  obtain job sw where p: "PopJobFromChannel (rj_FuncName rj) (s_workers s w) = (job, sw)" by fastforce
  have a: "grows env s s'" if "answer_client env sw client response req jb s1 = Some s'" "s_Metrics s1 = s_Metrics s"
    for client response req jb s1
    using grows_answer_client [OF that(1)] that(2) by (simp add: grows_def)
  show ?thesis
    using assms by (auto simp: returnData_def p Let_def split: option.splits if_splits intro: a)
qed

lemma metrics_alloc: "alloc_job jb s = (j, s') \<Longrightarrow> s_Metrics s' = s_Metrics s"
  using metrics_upd(5) [of jb s] by simp

lemma grows_run_dispatched:
  assumes "run_dispatched env d s = Some s'"
  shows "grows env s s'"
proof -
  obtain worker s1 where g: "GetBestWorker env (dj_handle d) s = Some (worker, s1)"
    using assms by (auto simp: run_dispatched_def bind_eq_Some_conv)
  note m1 = metrics_GetBestWorker [OF g]
  show ?thesis
  proof (cases worker)
    case None
    then show ?thesis using assms g m1 by (auto simp: run_dispatched_def dest!: metrics_same(1))
  next
    case (Some w)
    obtain j s2 where j: "alloc_job (make_job env d (wid_of s1 w)) s1 = (j, s2)" by fastforce
    obtain ok sw where ok: "PushJobToChannelWithBackpressure (s_jobs s2) (Some j) (s_workers s2 w) = (ok, sw)" by fastforce
    note m2 = metrics_alloc [OF j]
    show ?thesis
      using assms m1 m2 by (auto simp: run_dispatched_def g Some j ok Let_def bind_eq_Some_conv inc_metric_Some split: if_splits
        intro!: grows_add dest!: metrics_same(1,2))
  qed
qed

lemma grows_read_failed: "read_failed c err s = Some (s', b) \<Longrightarrow> grows env s s'"
proof -
  assume r: "read_failed c err s = Some (s', b)"
  have "s_Metrics s' = s_Metrics s \<or> s_Metrics s' = s_Metrics (add_metric (Metric ''WorkerCloseCount'' [c_Ip (s_conns s c)] 1) s)"
    using r by (auto simp: read_failed_def Let_def bind_eq_Some_conv split: frame_error.splits io_error.splits if_splits
      dest!: metrics_close)
  moreover have "grows env s (add_metric (Metric ''WorkerCloseCount'' [c_Ip (s_conns s c)] 1) s)" by (intro grows_add) simp_all
  ultimately show ?thesis by (auto simp: grows_def)
qed

lemma grows_RunWorkerOptimized: "RunWorkerOptimized env w data s = Some s' \<Longrightarrow> grows env s s'"
  by (auto simp: RunWorkerOptimized_def bind_eq_Some_conv Let_def split: if_splits prod.splits bool.splits
    intro: grows_addFunction grows_delFunction grows_returnData dest: metrics_small)

lemma grows_frame_read:
  assumes "frame_read env c f s = Some s'"
  shows "grows env s s'"
proof -
  obtain ct dt p where f: "f = (ct, dt, p)" by (rule prod_cases3)
  have w: "s_Metrics s2 = s_Metrics s1" if "getSWClinet c s1 = (r, s2)" for s1 r s2 using metrics_upd(10) [of c s1] that by simp
  have cl: "s_Metrics s2 = s_Metrics s1" if "getSCClient c s1 = (r, s2)" for s1 r s2 using metrics_upd(11) [of c s1] that by simp
  have g: "grows env s s'" if "RunWorkerOptimized env w p s1 = Some s'" "s_Metrics s1 = s_Metrics s" for w s1
    using grows_RunWorkerOptimized [OF that(1)] that(2) by (simp add: grows_def)
  show ?thesis
    using assms by (auto simp: frame_read_def f Let_def bind_eq_Some_conv split: if_splits prod.splits option.splits
      dest!: w cl metrics_same(3) metrics_RunClientOptimized intro: g)
qed

text \<open>A round of the read loop, of the dispatch pool and of the result router, and accepting a connection.\<close>

lemma grows_DoIO:
  assumes "DoIO env c s = Some (s', b)"
  shows "grows env s s'"
proof -
  obtain r i where r: "server_ReadFrame (\<not> c_Conn (s_conns s c)) (c_input (s_conns s c)) = (r, i)" by fastforce
  let ?s = "upd_conn c (\<lambda>cn. cn\<lparr>c_input := i\<rparr>) s"
  have same: "grows env ?s s1 \<Longrightarrow> grows env s s1" for s1 by (simp add: grows_def)
  show ?thesis
  proof (cases r)
    case (Inl err)
    then obtain s1 b1 where s1: "read_failed c err ?s = Some (s1, b1)" "s' = s1 \<or> CloseAll c s1 = Some s'"
      using assms r by (auto simp: DoIO_def Let_def bind_eq_Some_conv split: if_splits)
    then have "s_Metrics s' = s_Metrics s1" using metrics_close(2) by blast
    then show ?thesis using same [OF grows_read_failed [OF s1(1)]] by (simp add: grows_def)
  next
    case (Inr f)
    then have "frame_read env c f ?s = Some s'" using assms r by (auto simp: DoIO_def Let_def bind_eq_Some_conv)
    then show ?thesis by (rule same [OF grows_frame_read])
  qed
qed

lemma grows_DispatchPool_worker: "DispatchPool_worker env s = Some s' \<Longrightarrow> grows env s s'"
  using grows_run_dispatched by (fastforce simp: DispatchPool_worker_def grows_def split: prod.splits option.splits)

lemma grows_ResultRouter_worker: "ResultRouter_worker env s = Some s' \<Longrightarrow> grows env s s'"
  using grows_returnData by (fastforce simp: ResultRouter_worker_def grows_def split: prod.splits option.splits)

lemma grows_NewConnect: "NewConnect cfg ad hp cid i s = (r, s') \<Longrightarrow> grows env s s'"
  by (auto simp: NewConnect_def split: option.splits if_splits intro!: grows_add)

text \<open>So in every reachable state all recorded updates fit: none of them panics in Prometheus for its labels.\<close>

lemma reachable_fits:
  assumes "server_reachable s"
  shows "\<forall>m \<in> set (s_Metrics s). \<exists>env. fits env m"
  using assms
proof (induction rule: server_reachable.induct)
  case start
  then show ?case by (simp add: NewServer_def)
next
  case (step s s')
  have "s_Metrics s' = s_Metrics s \<or> (\<exists>env. grows env s s')"
    using step.hyps(2)
    by (cases rule: server_step.cases)
      (auto dest: grows_DoIO grows_DispatchPool_worker grows_ResultRouter_worker grows_NewConnect)
  then show ?case using step.IH by (auto simp: grows_def)
qed

subsection \<open>What the dashboard counts\<close>

lemma dashboard_names:
  "{''nmid_server_client_discovery_count'', ''nmid_server_worker_func_count'', ''nmid_server_func_func_count'',
    ''nmid_server_worker_func_success'', ''nmid_server_worker_func_fail'', ''nmid_server_worker_close_count''}
    \<subseteq> (fq_name \<circ> ve_Opts) ` set (server_vecs @ client_vecs)"
  by (simp add: vec_defs)

lemma series_append: "series (us @ vs) var ls = series us var ls + series vs var ls"
  by (simp add: series_def)

lemma series_none: "(\<And>a. Metric var ls a \<notin> set us) \<Longrightarrow> series us var ls = 0"
proof (induction us)
  case (Cons u us)
  then show ?case by (cases u) (auto simp: series_def)
qed (simp add: series_def)

text \<open>A handler that runs at another time leaves a series of the functions of a worker as it is.\<close>

lemma grows_series:
  assumes "grows env s s'" "last ls \<noteq> e_timeStr env"
  shows "series (s_Metrics s') ''WorkerFuncCount'' ls = series (s_Metrics s) ''WorkerFuncCount'' ls"
proof -
  obtain ms where ms: "s_Metrics s' = s_Metrics s @ ms" "\<forall>m \<in> set ms. fits env m" using assms(1) by (auto simp: grows_def)
  then have "series ms ''WorkerFuncCount'' ls = 0" using assms(2) by (intro series_none) (auto simp: fits.simps)
  then show ?thesis by (simp add: ms series_append)
qed

lemma positive_series_active:
  assumes "gathered WorkerFuncCount us mfs" "series us ''WorkerFuncCount'' [i, n, ip, f, t] > 0"
  shows "n \<in> active_names (metrics_of ''nmid_server_worker_func_count'' mfs)"
proof -
  have v: "ve_Var WorkerFuncCount = ''WorkerFuncCount''" "fq_name (ve_Opts WorkerFuncCount) = ''nmid_server_worker_func_count''"
    "(''worker_name'', n) \<in> set (zip (vo_Labels (ve_Opts WorkerFuncCount)) [i, n, ip, f, t])"
    by (simp_all add: vec_defs)
  obtain a where "Metric ''WorkerFuncCount'' [i, n, ip, f, t] a \<in> set us"
    using assms(2) series_none [of "''WorkerFuncCount''" "[i, n, ip, f, t]" us] by fastforce
  then obtain m where "m \<in> set (metrics_of ''nmid_server_worker_func_count'' mfs)"
    "set (me_Label m) = set (zip (vo_Labels (ve_Opts WorkerFuncCount)) [i, n, ip, f, t])"
    "me_Gauge m = Some (series us ''WorkerFuncCount'' [i, n, ip, f, t])"
    using assms(1) unfolding gathered_def v by blast
  then show ?thesis using assms(2) v(3) unfolding active_names_def by blast
qed

lemma finite_active_names: "finite (active_names ms)"
  by (rule finite_subset [of _ "snd ` (\<Union>m \<in> set ms. set (me_Label m))"]) (force simp: active_names_def)+

lemma left_worker_shown:
  assumes "DoIO env c s = Some (s', goes_on)" "t \<noteq> e_timeStr env"
    and "series (s_Metrics s) ''WorkerFuncCount'' [i, n, ip, f, t] > 0" "gathered WorkerFuncCount (s_Metrics s') mfs"
  shows "n \<in> active_names (metrics_of ''nmid_server_worker_func_count'' mfs)" "0 < fst (snd (GetDiscoveryWorkerFuncNum mfs))"
proof -
  show n: "n \<in> active_names (metrics_of ''nmid_server_worker_func_count'' mfs)"
    using grows_series [OF grows_DoIO [OF assms(1)], of "[i, n, ip, f, t]"] assms(2,3)
    by (intro positive_series_active [OF assms(4), of i n ip f t]) simp
  then show "0 < fst (snd (GetDiscoveryWorkerFuncNum mfs))"
    using finite_active_names by (auto simp: worker_num_eq card_gt_0_iff)
qed

text \<open>An announcement raises its gauge by one.\<close>

lemma announce_series:
  "series (us @ announce_metrics env c p s) ''WorkerFuncCount'' (announce_labels env c p s)
    = series us ''WorkerFuncCount'' (announce_labels env c p s) + 1"
  by (simp add: series_append series_def announce_metrics_def)

end
