(* ===== verification/Vec_Updates.thy ===== *)
theory Vec_Updates
  imports Server_Metrics
begin

section \<open>Updating the metrics (metric/counter.go, gauge.go, histogram.go)\<close>

text \<open>
  The methods of the three kinds of vectors over what Prometheus documents of them: a child for each list of label
  values, made at its first use with the value 0; a panic for the wrong number of values or a value that is not
  UTF-8; a panic when a counter is lowered. Values are integers: the amounts of the code are, and a \<^verbatim>\<open>float64\<close> is exact on sums below
  \<open>2 ^ 53\<close>. The lemmas: carried out on the vectors of the server, the updates of a reachable state never panic, and
  the value of a child is the sum of its updates.
\<close>

subsection \<open>Definitions\<close>

record VecData =
  vd_Kind :: VecKind
  vd_Opts :: VecOpts
  vd_Vals :: "string list \<rightharpoonup> int"
  vd_Obs :: "string list \<Rightarrow> int list"

definition new_data :: "Vec \<Rightarrow> VecData" where
  "new_data v = \<lparr>vd_Kind = ve_Kind v, vd_Opts = ve_Opts v, vd_Vals = Map.empty, vd_Obs = (\<lambda>_. [])\<rparr>"

definition child :: "string list \<Rightarrow> VecData \<Rightarrow> int" where
  "child ls d = (case vd_Vals d ls of None \<Rightarrow> 0 | Some x \<Rightarrow> x)"

definition WithLabelValues :: "string list \<Rightarrow> VecData \<Rightarrow> VecData option" where
  "WithLabelValues ls d = (if length ls = length (vo_Labels (vd_Opts d)) \<and> list_all valid_utf8 ls
     then Some (d\<lparr>vd_Vals := (vd_Vals d)(ls \<mapsto> child ls d)\<rparr>) else None)"

definition vec_put :: "string list \<Rightarrow> int \<Rightarrow> VecData \<Rightarrow> VecData" where
  "vec_put ls x d = d\<lparr>vd_Vals := (vd_Vals d)(ls \<mapsto> x)\<rparr>"

definition counter_Inc :: "string list \<Rightarrow> VecData \<Rightarrow> VecData option" where
  "counter_Inc ls d = do { d \<leftarrow> WithLabelValues ls d; Some (vec_put ls (child ls d + 1) d) }"

definition counter_Add :: "int \<Rightarrow> string list \<Rightarrow> VecData \<Rightarrow> VecData option" where
  "counter_Add v ls d = do { d \<leftarrow> WithLabelValues ls d; if v < 0 then None else Some (vec_put ls (child ls d + v) d) }"

definition gauge_Inc :: "string list \<Rightarrow> VecData \<Rightarrow> VecData option" where
  "gauge_Inc ls d = do { d \<leftarrow> WithLabelValues ls d; Some (vec_put ls (child ls d + 1) d) }"

definition gauge_Add :: "int \<Rightarrow> string list \<Rightarrow> VecData \<Rightarrow> VecData option" where
  "gauge_Add v ls d = do { d \<leftarrow> WithLabelValues ls d; Some (vec_put ls (child ls d + v) d) }"

definition gauge_Set :: "int \<Rightarrow> string list \<Rightarrow> VecData \<Rightarrow> VecData option" where
  "gauge_Set v ls d = do { d \<leftarrow> WithLabelValues ls d; Some (vec_put ls v d) }"

definition histogram_Observe :: "int \<Rightarrow> string list \<Rightarrow> VecData \<Rightarrow> VecData option" where
  "histogram_Observe v ls d = do { d \<leftarrow> WithLabelValues ls d; Some (d\<lparr>vd_Obs := (vd_Obs d)(ls := vd_Obs d ls @ [v])\<rparr>) }"

text \<open>\<^verbatim>\<open>close\<close> of all three kinds: the registry forgets the vector, and says whether it knew it.\<close>

definition vec_close :: "(VecOpts \<Rightarrow> 'reg \<Rightarrow> bool \<times> 'reg) \<Rightarrow> VecData \<Rightarrow> 'reg \<Rightarrow> bool \<times> 'reg" where
  "vec_close unregister d reg = unregister (vd_Opts d) reg"

text \<open>An update that the server records, carried out on its vector, and all of them.\<close>

fun apply_update :: "metric \<Rightarrow> (string \<rightharpoonup> VecData) \<Rightarrow> (string \<rightharpoonup> VecData) option" where
  "apply_update (Metric var ls a) vecs = do {
     d \<leftarrow> vecs var;
     d \<leftarrow> (case vd_Kind d of CounterVec \<Rightarrow> counter_Add a ls d | GaugeVec \<Rightarrow> gauge_Add a ls d
       | HistogramVec \<Rightarrow> histogram_Observe a ls d);
     Some (vecs(var \<mapsto> d))
   }"

fun apply_updates :: "metric list \<Rightarrow> (string \<rightharpoonup> VecData) \<Rightarrow> (string \<rightharpoonup> VecData) option" where
  "apply_updates [] vecs = Some vecs"
| "apply_updates (m # ms) vecs = do { vecs \<leftarrow> apply_update m vecs; apply_updates ms vecs }"

definition start_vectors :: "string \<rightharpoonup> VecData" where
  "start_vectors = map_of (map (\<lambda>v. (ve_Var v, new_data v)) server_vecs)"

subsection \<open>Lemmas on the methods\<close>

lemma Inc_is_Add: "counter_Inc ls = counter_Add 1 ls" "gauge_Inc ls = gauge_Add 1 ls"
  by (simp_all add: counter_Inc_def counter_Add_def gauge_Inc_def gauge_Add_def fun_eq_iff)

lemma wrong_labels_panic:
  assumes "length ls \<noteq> length (vo_Labels (vd_Opts d)) \<or> \<not> list_all valid_utf8 ls"
  shows "counter_Inc ls d = None" "counter_Add v ls d = None" "gauge_Inc ls d = None" "gauge_Add v ls d = None"
    "gauge_Set v ls d = None" "histogram_Observe v ls d = None"
  using assms
  by (auto simp: counter_Inc_def counter_Add_def gauge_Inc_def gauge_Add_def gauge_Set_def histogram_Observe_def WithLabelValues_def)

lemma gauge_Set_child: "gauge_Set v ls d = Some d' \<Longrightarrow> child ls d' = v"
  by (auto simp: gauge_Set_def vec_put_def child_def bind_eq_Some_conv)

lemma counter_never_lowered: "counter_Add v ls d = Some d' \<Longrightarrow> child ls d \<le> child ls d'"
  by (auto simp: counter_Add_def WithLabelValues_def vec_put_def child_def split: if_splits)

subsection \<open>All updates of the server\<close>

definition booked :: "metric list \<Rightarrow> Vec \<Rightarrow> VecData \<Rightarrow> bool" where
  "booked ms v d \<longleftrightarrow> vd_Kind d = ve_Kind v \<and> vd_Opts d = ve_Opts v
    \<and> (ve_Kind v \<noteq> HistogramVec \<longrightarrow> (\<forall>ls. child ls d = series ms (ve_Var v) ls))"

definition allowed :: "metric \<Rightarrow> bool" where
  "allowed m \<longleftrightarrow> (\<exists>v \<in> set server_vecs. \<exists>ls a. m = Metric (ve_Var v) ls a \<and> length ls = length (vo_Labels (ve_Opts v))
    \<and> list_all valid_utf8 ls \<and> (ve_Kind v = CounterVec \<longrightarrow> 0 \<le> a))"

lemma vars_distinct: "distinct (map ve_Var server_vecs)"
  by (simp add: vec_defs)

lemma same_var: "v \<in> set server_vecs \<Longrightarrow> v' \<in> set server_vecs \<Longrightarrow> ve_Var v = ve_Var v' \<Longrightarrow> v = v'"
  using vars_distinct by (metis distinct_map inj_onD)

lemma series_snoc: "series (ms @ [Metric var' ls' a]) var ls = series ms var ls + (if var' = var \<and> ls' = ls then a else 0)"
  by (simp add: series_def)

lemma apply_updates_snoc: "apply_updates (ms @ [m]) vecs = do { vecs \<leftarrow> apply_updates ms vecs; apply_update m vecs }"
  by (induction ms arbitrary: vecs) (auto split: bind_splits)

lemma start_booked:
  assumes "v \<in> set server_vecs"
  shows "\<exists>d. start_vectors (ve_Var v) = Some d \<and> booked [] v d"
proof -
  have "map fst (map (\<lambda>v. (ve_Var v, new_data v)) server_vecs) = map ve_Var server_vecs" by (simp add: comp_def)
  then have "start_vectors (ve_Var v) = Some (new_data v)"
    unfolding start_vectors_def using assms vars_distinct by (intro map_of_is_SomeI) (auto simp: comp_def)
  then show ?thesis by (simp add: booked_def new_data_def child_def series_def)
qed

lemma update_booked:
  assumes d: "booked ms v d" and a: "length ls = length (vo_Labels (ve_Opts v))" "list_all valid_utf8 ls" "ve_Kind v = CounterVec \<longrightarrow> 0 \<le> a"
  shows "\<exists>d'. (case vd_Kind d of CounterVec \<Rightarrow> counter_Add a ls d | GaugeVec \<Rightarrow> gauge_Add a ls d
      | HistogramVec \<Rightarrow> histogram_Observe a ls d) = Some d' \<and> booked (ms @ [Metric (ve_Var v) ls a]) v d'"
  using assms
  by (cases "ve_Kind v")
    (auto simp: booked_def counter_Add_def gauge_Add_def histogram_Observe_def WithLabelValues_def vec_put_def series_snoc child_def
      split: option.splits)

lemma updates_booked:
  assumes "\<forall>m \<in> set ms. allowed m"
  shows "\<exists>vecs. apply_updates ms start_vectors = Some vecs
    \<and> (\<forall>v \<in> set server_vecs. \<exists>d. vecs (ve_Var v) = Some d \<and> booked ms v d)"
  using assms
proof (induction ms rule: rev_induct)
  case Nil
  then show ?case using start_booked by auto
next
  case (snoc m ms)
  then obtain vecs where vecs: "apply_updates ms start_vectors = Some vecs"
    "\<And>v. v \<in> set server_vecs \<Longrightarrow> \<exists>d. vecs (ve_Var v) = Some d \<and> booked ms v d" by fastforce
  obtain v ls a where m: "v \<in> set server_vecs" "m = Metric (ve_Var v) ls a" "length ls = length (vo_Labels (ve_Opts v))"
    "list_all valid_utf8 ls" "ve_Kind v = CounterVec \<longrightarrow> 0 \<le> a" using snoc.prems unfolding allowed_def by fastforce
  obtain d where d: "vecs (ve_Var v) = Some d" "booked ms v d" using vecs(2) [OF m(1)] by blast
  obtain d' where d': "(case vd_Kind d of CounterVec \<Rightarrow> counter_Add a ls d | GaugeVec \<Rightarrow> gauge_Add a ls d
      | HistogramVec \<Rightarrow> histogram_Observe a ls d) = Some d'" "booked (ms @ [m]) v d'"
    using update_booked [OF d(2) m(3-5)] m(2) by blast
  have "\<exists>e. (vecs(ve_Var v \<mapsto> d')) (ve_Var u) = Some e \<and> booked (ms @ [m]) u e" if u: "u \<in> set server_vecs" for u
  proof (cases "u = v")
    case False
    then have "ve_Var u \<noteq> ve_Var v" using same_var [OF u m(1)] by blast
    then show ?thesis using vecs(2) [OF u] m(2) by (auto simp: booked_def series_snoc)
  qed (use d'(2) in simp)
  then show ?case using vecs(1) d(1) d'(1) m(2) by (simp add: apply_updates_snoc)
qed

text \<open>So the updates of a reachable state can be carried out, if the zone of a refused address gives six values, that zone and the
  addresses of closed connections are UTF-8, and no time is negative; and a vector holds the sums.\<close>

lemma reachable_updates:
  assumes "server_reachable s"
    and "\<forall>ls a. Metric ''ThreatIpCount'' ls a \<in> set (s_Metrics s) \<longrightarrow> length ls = 7 \<and> list_all valid_utf8 ls"
    and "\<forall>ls a. Metric ''WorkerCloseCount'' ls a \<in> set (s_Metrics s) \<longrightarrow> list_all valid_utf8 ls"
    and "\<forall>v \<in> set server_vecs. ve_Kind v = CounterVec \<longrightarrow> (\<forall>ls a. Metric (ve_Var v) ls a \<in> set (s_Metrics s) \<longrightarrow> 0 \<le> a)"
  shows "\<exists>vecs. apply_updates (s_Metrics s) start_vectors = Some vecs
    \<and> (\<forall>v \<in> set server_vecs. \<exists>d. vecs (ve_Var v) = Some d \<and> booked (s_Metrics s) v d)"
proof (rule updates_booked, rule ballI)
  fix m
  assume m: "m \<in> set (s_Metrics s)"
  obtain var ls a where v: "m = Metric var ls a" by (cases m)
  obtain env where f: "fits env m" using reachable_fits [OF assms(1)] m by blast
  have utf8: "list_all valid_utf8 ls"
  proof (cases "var = ''ThreatIpCount'' \<or> var = ''WorkerCloseCount''")
    case True
    then show ?thesis using assms(2,3) m unfolding v by fastforce
  next
    case False
    then show ?thesis using f unfolding v fits.simps by fast
  qed
  from f consider "var = ''ThreatIpCount''"
    | u where "u \<in> set server_vecs" "ve_Var u = var" "length (vo_Labels (ve_Opts u)) = length ls"
    unfolding v fits.simps by blast
  then show "allowed m"
  proof cases
    case 1
    obtain u where u: "u \<in> set server_vecs" "ve_Var u = ''ThreatIpCount''" "length (vo_Labels (ve_Opts u)) = 7"
      by (rule that [of "last server_vecs"]) (simp_all add: vec_defs)
    then show ?thesis unfolding allowed_def using assms(2,4) m v 1 utf8 by (intro bexI [OF _ u(1)]) auto
  next
    case 2
    then show ?thesis unfolding allowed_def using assms(4) m v utf8 by (intro bexI [OF _ 2(1)]) auto
  qed
qed

end
