(* ===== verification/Alerts.thy ===== *)
theory Alerts
  imports Server_Steps Utils_Net
begin

section \<open>Alerts and rate limits (pkg/alert/dingtalk.go, pkg/limiter)\<close>

text \<open>
  The messages that the program sends to a chat group, and who sends them: the server when it refuses an address or
  loses a worker, the worker when it closes. The chat client is third-party code: the state has the client, when
  there is one, and the calls made on it. The marks of a line are the values of \<^verbatim>\<open>dingtalk.MarkType\<close> that
  the code names, and the zero value that a missing key of the map gives.

  The limits wrap a token bucket and a lock of two packages; what these do is an argument.

  The lemmas: without a client nothing is sent; a message to everybody carries its content and its time, and
  \<^verbatim>\<open>SendMarkDown\<close> carries no content; a refused address is counted and reported under one zone; a full bucket
  lets exactly its capacity pass; the lock is free again after every check.
\<close>

subsection \<open>Definitions: alerts\<close>

record 'm Marks =
  mk_RED :: 'm
  mk_GOLD :: 'm
  mk_GREEN :: 'm
  mk_BLUE :: 'm
  mk_N :: 'm
  mk_H2 :: 'm
  mk_zero :: 'm

datatype at_option = WithAtAll | WithAtMobiles "string list"

text \<open>The second argument of \<open>SendMarkDownMessageBySlice\<close> is what was \<^verbatim>\<open>Set\<close> on the map, in order.\<close>

datatype 'm ding_call =
  SendTextMessage string "at_option list" |
  SendMarkDownMessageBySlice string "(string \<times> 'm) list" "at_option list"

record ('d, 'm) Ding =
  dg_ding :: "'d option"
  dg_calls :: "('d \<times> 'm ding_call) list"

definition DERROR :: string where "DERROR = ''ERROR''"
definition DWARNING :: string where "DWARNING = ''WARNING''"

definition messageType :: "'m Marks \<Rightarrow> string \<Rightarrow> 'm" where
  "messageType mk mtype =
    (if mtype = ''ERROR'' then mk_RED mk else if mtype = ''WARNING'' then mk_GOLD mk
     else if mtype = ''SUCCESS'' then mk_GREEN mk else if mtype = ''INFO'' then mk_BLUE mk else mk_zero mk)"

definition NewDingTalk :: "(string \<Rightarrow> string \<Rightarrow> 'd) \<Rightarrow> string \<Rightarrow> string \<Rightarrow> ('d, 'm) Ding \<Rightarrow> ('d, 'm) Ding" where
  "NewDingTalk initDing tokens secret a = a\<lparr>dg_ding := Some (initDing tokens secret)\<rparr>"

definition alert_init :: "(string \<Rightarrow> string) \<Rightarrow> (string \<Rightarrow> string \<Rightarrow> 'd) \<Rightarrow> ('d, 'm) Ding \<Rightarrow> ('d, 'm) Ding" where
  "alert_init getenv initDing a =
    (if getenv ''DINGTAKL_ENABLE'' = ''true''
     then NewDingTalk initDing (getenv ''DINGTAKL_TOKENS'') (getenv ''DINGTAKL_SECRET'') a else a)"

definition ding_send :: "'m ding_call \<Rightarrow> ('d, 'm) Ding \<Rightarrow> ('d, 'm) Ding" where
  "ding_send call a = (case dg_ding a of None \<Rightarrow> a | Some d \<Rightarrow> a\<lparr>dg_calls := dg_calls a @ [(d, call)]\<rparr>)"

definition SendText :: "string \<Rightarrow> ('d, 'm) Ding \<Rightarrow> ('d, 'm) Ding" where
  "SendText content = ding_send (SendTextMessage content [])"

definition SendTextAtAll :: "string \<Rightarrow> ('d, 'm) Ding \<Rightarrow> ('d, 'm) Ding" where
  "SendTextAtAll content = ding_send (SendTextMessage content [WithAtAll])"

definition SendTextAtMobile :: "string \<Rightarrow> string list \<Rightarrow> ('d, 'm) Ding \<Rightarrow> ('d, 'm) Ding" where
  "SendTextAtMobile content mobiles = ding_send (SendTextMessage content [WithAtMobiles mobiles])"

definition SendMarkDown :: "'m Marks \<Rightarrow> string \<Rightarrow> string \<Rightarrow> string \<Rightarrow> ('d, 'm) Ding \<Rightarrow> ('d, 'm) Ding" where
  "SendMarkDown mk mtype title content = ding_send (SendMarkDownMessageBySlice title
     [(title, mk_H2 mk), (''---'', mk_N mk), (mtype, messageType mk mtype)] [])"

definition markdown_lines :: "'m Marks \<Rightarrow> string \<Rightarrow> string \<Rightarrow> string \<Rightarrow> string \<Rightarrow> (string \<times> 'm) list" where
  "markdown_lines mk startTime mtype title content =
    [(title, mk_H2 mk), (''---'', mk_N mk), (mtype, messageType mk mtype),
     (''start time: '' @ startTime, mk_N mk), (''message: '' @ content, mk_N mk)]"

definition SendMarkDownAtAll :: "'m Marks \<Rightarrow> string \<Rightarrow> string \<Rightarrow> string \<Rightarrow> string \<Rightarrow> ('d, 'm) Ding \<Rightarrow> ('d, 'm) Ding" where
  "SendMarkDownAtAll mk startTime mtype title content =
    ding_send (SendMarkDownMessageBySlice title (markdown_lines mk startTime mtype title content) [WithAtAll])"

definition SendMarkDownAtMobile ::
  "'m Marks \<Rightarrow> string \<Rightarrow> string \<Rightarrow> string \<Rightarrow> string \<Rightarrow> string list \<Rightarrow> ('d, 'm) Ding \<Rightarrow> ('d, 'm) Ding" where
  "SendMarkDownAtMobile mk startTime mtype title content mobiles =
    ding_send (SendMarkDownMessageBySlice title (markdown_lines mk startTime mtype title content) [WithAtMobiles mobiles])"

text \<open>The goroutine that \<^verbatim>\<open>NewConnect\<close> starts for an address that it refuses: the alert, and the counter.
  \<open>found\<close> is what the text says of the address.\<close>

definition threat_ip ::
  "'m Marks \<Rightarrow> string \<Rightarrow> string \<Rightarrow> string \<Rightarrow> ZoneInfo \<Rightarrow> ('d, 'm) Ding \<Rightarrow> ('d, 'm) Ding \<times> metric" where
  "threat_ip mk startTime found ip zinfo a =
    (SendMarkDownAtAll mk startTime DWARNING ''threat ip'' (found @ '' ip '' @ ip @ '', ip zone '' @ zi_Zone zinfo) a,
     Metric ''ThreatIpCount'' (ip # zone_labels zinfo) 1)"

text \<open>The alert of \<^verbatim>\<open>DoIO\<close> for a worker whose connection ends, and its counter; the alert of \<^verbatim>\<open>WorkerClose\<close>.\<close>

definition worker_lost :: "'m Marks \<Rightarrow> string \<Rightarrow> Server \<Rightarrow> addr \<Rightarrow> ('d, 'm) Ding \<Rightarrow> ('d, 'm) Ding \<times> metric" where
  "worker_lost mk startTime s c a = (
     let workerName = (case c_RunWorker (s_conns s c) of None \<Rightarrow> '''' | Some w \<Rightarrow> sw_WorkerName (s_workers s w));
         ip = c_Ip (s_conns s c)
     in (SendMarkDownAtAll mk startTime DERROR ''worker close'' (''worker ip: '' @ ip @ '', worker name: '' @ workerName) a,
         Metric ''WorkerCloseCount'' [ip] 1))"

definition worker_close_alert :: "'m Marks \<Rightarrow> string \<Rightarrow> bool \<Rightarrow> string \<Rightarrow> ('d, 'm) Ding \<Rightarrow> ('d, 'm) Ding" where
  "worker_close_alert mk startTime running workerName a =
    (if running then SendMarkDownAtAll mk startTime DERROR ''worker close'' (''worker:'' @ workerName) a else a)"

subsection \<open>Definitions: limits\<close>

text \<open>Durations in nanoseconds, as \<^verbatim>\<open>time.Duration\<close>.\<close>

definition MAXPENDING :: int where "MAXPENDING = 1000"
definition MAXOUTSTANDING :: int where "MAXOUTSTANDING = 10"
definition TARGETLATENCY :: int where "TARGETLATENCY = 5 * 1000000"
definition FILLINTERVAL :: int where "FILLINTERVAL = 1 * 1000000000"
definition CAPACITY :: int where "CAPACITY = 1000"

record CodelOptions =
  co_MaxPending :: int
  co_MaxOutstanding :: int
  co_TargetLatency :: int

definition NewBucketLimiter :: "(int \<Rightarrow> int \<Rightarrow> 'b) \<Rightarrow> 'b" where
  "NewBucketLimiter newBucket = newBucket FILLINTERVAL CAPACITY"

definition DoBucketLimiter :: "(int \<Rightarrow> 'b \<Rightarrow> int \<times> 'b) \<Rightarrow> 'b \<Rightarrow> bool \<times> 'b" where
  "DoBucketLimiter takeAvailable b = (case takeAvailable 1 b of (tokenGet, b) \<Rightarrow> (tokenGet \<noteq> 0, b))"

definition NewCodelLimiter :: "(CodelOptions \<Rightarrow> 'l) \<Rightarrow> 'l" where
  "NewCodelLimiter codel = codel \<lparr>co_MaxPending = MAXPENDING, co_MaxOutstanding = MAXOUTSTANDING,
     co_TargetLatency = TARGETLATENCY\<rparr>"

definition DoCodelLimiter :: "('l \<Rightarrow> string option \<times> 'l) \<Rightarrow> ('l \<Rightarrow> 'l) \<Rightarrow> 'l \<Rightarrow> bool \<times> 'l" where
  "DoCodelLimiter acquire release c = (case acquire c of (Some err, c) \<Rightarrow> (False, c) | (None, c) \<Rightarrow> (True, release c))"

text \<open>A burst of \<open>n\<close> requests on one bucket: how many pass, and the bucket after them.\<close>

fun burst :: "(int \<Rightarrow> 'b \<Rightarrow> int \<times> 'b) \<Rightarrow> nat \<Rightarrow> 'b \<Rightarrow> nat \<times> 'b" where
  "burst takeAvailable 0 b = (0, b)"
| "burst takeAvailable (Suc n) b = (case DoBucketLimiter takeAvailable b of (ok, b) \<Rightarrow>
     (case burst takeAvailable n b of (k, b) \<Rightarrow> (if ok then Suc k else k, b)))"

subsection \<open>Lemmas on alerts\<close>

lemmas alert_defs = SendText_def SendTextAtAll_def SendTextAtMobile_def SendMarkDown_def SendMarkDownAtAll_def
  SendMarkDownAtMobile_def ding_send_def

lemma alerts_off:
  assumes "dg_ding a = None"
  shows "SendText content a = a" "SendTextAtAll content a = a" "SendTextAtMobile content mobiles a = a"
    "SendMarkDown mk mtype title content a = a" "SendMarkDownAtAll mk t mtype title content a = a"
    "SendMarkDownAtMobile mk t mtype title content mobiles a = a"
  using assms by (simp_all add: alert_defs)

lemma alert_init_off: "getenv ''DINGTAKL_ENABLE'' \<noteq> ''true'' \<Longrightarrow> alert_init getenv initDing a = a"
  by (simp add: alert_init_def)

lemma SendMarkDownAtAll_on:
  assumes "dg_ding a = Some d"
  shows "dg_calls (SendMarkDownAtAll mk t mtype title content a)
    = dg_calls a @ [(d, SendMarkDownMessageBySlice title (markdown_lines mk t mtype title content) [WithAtAll])]"
  using assms by (simp add: alert_defs)

text \<open>The lines of a message to everybody determine what it was made of; \<^verbatim>\<open>SendMarkDown\<close> drops its content.\<close>

lemma markdown_lines_inj:
  "markdown_lines mk t mtype title content = markdown_lines mk t' mtype' title' content'
    \<Longrightarrow> t = t' \<and> mtype = mtype' \<and> title = title' \<and> content = content'"
  by (simp add: markdown_lines_def)

lemma SendMarkDown_drops_content: "SendMarkDown mk mtype title content = SendMarkDown mk mtype title content'"
  by (simp add: SendMarkDown_def)

text \<open>An address that is refused gets no connection, and what the refusal adds to the metrics is what the report counts.\<close>

lemma refused_reported:
  assumes "il_Enable (cfg_WhiteList cfg) \<and> \<not> DoWhiteList cfg ip \<or> il_Enable (cfg_BlackList cfg) \<and> DoBlackList cfg ip"
    and "cfg_zone cfg ip = zone_labels (GetIPZone http unjson decode mapkey ip)" "dg_ding a = Some d"
    and found: "found = (if il_Enable (cfg_WhiteList cfg) \<and> \<not> DoWhiteList cfg ip then ''not in whitelist'' else ''blacklist'')"
  shows "NewConnect cfg ad (Some (ip, port)) cid i s
      = (None, add_metric (snd (threat_ip mk t found ip (GetIPZone http unjson decode mapkey ip) a)) s)"
    and "\<exists>call. dg_calls (fst (threat_ip mk t found ip (GetIPZone http unjson decode mapkey ip) a)) = dg_calls a @ [(d, call)]
      \<and> call = SendMarkDownMessageBySlice ''threat ip'' (markdown_lines mk t ''WARNING'' ''threat ip''
          (found @ '' ip '' @ ip @ '', ip zone '' @ zi_Zone (GetIPZone http unjson decode mapkey ip))) [WithAtAll]"
  using assms by (auto simp: NewConnect_def threat_ip_def SendMarkDownAtAll_on DWARNING_def)

text \<open>A worker at the end of its input: one alert, and the counter that \<^verbatim>\<open>DoIO\<close> increases.\<close>

lemma worker_lost_sends:
  assumes "dg_ding a = Some d"
  shows "length (dg_calls (fst (worker_lost mk t s c a))) = Suc (length (dg_calls a))"
    "snd (worker_lost mk t s c a) = Metric ''WorkerCloseCount'' [c_Ip (s_conns s c)] 1"
  using assms by (simp_all add: worker_lost_def SendMarkDownAtAll_on Let_def)

lemma lost_reported:
  assumes "c_ConnType (s_conns s c) = CONN_TYPE_WORKER"
  shows "read_failed c (IoErr EOF) s = (let s' = add_metric (snd (worker_lost mk t s c a)) s
      in Some (s'\<lparr>s_Funcs := snd (DelWorker (wid_of s') (c_Id (s_conns s c)) (s_Funcs s'))\<rparr>, False))"
    and "read_failed c (IoErr (OpError False)) s
      = map_option (\<lambda>s. (s, False)) (CloseWorkerConnect c (add_metric (snd (worker_lost mk t s c a)) s))"
  using assms by (simp_all add: read_failed_def worker_lost_def Let_def map_conv_bind_option comp_def)

subsection \<open>Lemmas on limits\<close>

text \<open>A bucket that gives what it has, up to what is asked, and is not refilled during the burst.\<close>

lemma burst_passes:
  assumes "\<And>n b. 0 \<le> n \<Longrightarrow> 0 \<le> avail b \<Longrightarrow>
      fst (takeAvailable n b) = min n (avail b) \<and> avail (snd (takeAvailable n b)) = avail b - min n (avail b)"
    and "0 \<le> avail b"
  shows "int (fst (burst takeAvailable n b)) = min (int n) (avail b)"
    and "avail (snd (burst takeAvailable n b)) = avail b - min (int n) (avail b)"
proof -
  have "int (fst (burst takeAvailable n b)) = min (int n) (avail b)
      \<and> avail (snd (burst takeAvailable n b)) = avail b - min (int n) (avail b)"
    using assms(2)
  proof (induction n arbitrary: b)
    case 0
    then show ?case by simp
  next
    case (Suc n)
    obtain g b1 where g: "takeAvailable 1 b = (g, b1)" by fastforce
    have g1: "g = min 1 (avail b)" "avail b1 = avail b - min 1 (avail b)"
      using assms(1) [of 1 b] Suc.prems g by simp_all
    then have "0 \<le> avail b1" by simp
    then show ?case
      using Suc.IH [of b1] g g1 Suc.prems by (auto simp: DoBucketLimiter_def min_def split: prod.split if_splits)
  qed
  then show "int (fst (burst takeAvailable n b)) = min (int n) (avail b)"
    "avail (snd (burst takeAvailable n b)) = avail b - min (int n) (avail b)" by simp_all
qed

text \<open>A new bucket is full: a burst passes up to the capacity.\<close>

lemma burst_new:
  assumes "\<And>n b. 0 \<le> n \<Longrightarrow> 0 \<le> avail b \<Longrightarrow>
      fst (takeAvailable n b) = min n (avail b) \<and> avail (snd (takeAvailable n b)) = avail b - min n (avail b)"
    and "\<And>interval cap. avail (newBucket interval cap) = cap"
  shows "fst (burst takeAvailable n (NewBucketLimiter newBucket)) = min n 1000"
proof -
  have "int (fst (burst takeAvailable n (NewBucketLimiter newBucket))) = min (int n) 1000"
    using burst_passes(1) [OF assms(1), of "NewBucketLimiter newBucket" n] assms(2) by (simp add: NewBucketLimiter_def CAPACITY_def)
  then show ?thesis by linarith
qed

text \<open>A check takes the lock and gives it back: when releasing undoes acquiring, it leaves the lock as it was, so that no number
  of checks holds an acquisition.\<close>

lemma DoCodelLimiter_free:
  assumes "\<And>c' . acquire c = (None, c') \<Longrightarrow> release c' = c" "fst (acquire c) = None"
  shows "DoCodelLimiter acquire release c = (True, c)"
  using assms by (cases "acquire c") (auto simp: DoCodelLimiter_def)

end
