(* ===== verification/Tracing.thy ===== *)
theory Tracing
  imports Worker_Core
begin

section \<open>Tracing and binding of a worker's response (worker/response.go, trace/skywalking.go)\<close>

text \<open>
  The spans that a worker opens around a job, and the binding of its parameters to a structure. The tracer is
  third-party code: it is the record \<open>Tracer\<close> of what its two functions do. \<^verbatim>\<open>CreateEntrySpan\<close> asks an extractor for
  the values of some keys, and \<^verbatim>\<open>CreateExitSpan\<close> hands pairs to an injector. The extractor is a closure
  over one variable: what it returns for a key that is absent is what it has found before.

  The lemmas: without tracing, or with a tracer that could not be made, nothing changes; the identifier of a trace that
  comes with the parameters is kept; a second key that the tracer asks for overwrites it; a parameter of
  that name that is no string panics; an exit span with nil parameters panics.
\<close>

subsection \<open>Definitions\<close>

datatype span_tag = TagStatusCode | TagURL | NamedTag string

datatype span_event =
  SetLayer string | SetOperation string | SetComponent nat | SetTag span_tag string | LogEntry string string | EndSpan

record SpanContext =
  sx_TraceID :: string
  sx_ParentSegmentID :: string
  sx_ParentService :: string
  sx_ParentServiceInstance :: string
  sx_ParentEndpoint :: string
  sx_ParentSpanID :: int
  sx_Sample :: int

text \<open>The keys that \<^verbatim>\<open>CreateEntrySpan\<close> asks for; its answer for an operation and the values: a context with the two
  identifiers of the reported span; the pairs that \<^verbatim>\<open>CreateExitSpan\<close> injects, and whether it succeeds.\<close>

record 'c Tracer =
  tc_keys :: "string list"
  tc_entry :: "string \<Rightarrow> string list \<Rightarrow> ('c \<times> string \<times> string) option"
  tc_exit :: "'c option \<Rightarrow> string \<Rightarrow> string \<Rightarrow> (string \<times> string) list \<times> bool"

definition ComponentIDGoMicroClient :: nat where
  "ComponentIDGoMicroClient = 5008"

definition ComponentIDGoMicroServer :: nat where
  "ComponentIDGoMicroServer = 5009"

text \<open>\<^verbatim>\<open>NewReporter\<close>: both or neither.\<close>

definition NewReporter ::
  "(string \<Rightarrow> string + 'rp) \<Rightarrow> (string \<Rightarrow> 'rp \<Rightarrow> string + 'c Tracer) \<Rightarrow> string \<Rightarrow> string \<Rightarrow> 'rp option \<times> 'c Tracer option" where
  "NewReporter newGRPC newTracer reporterUrl serviceName = (case newGRPC reporterUrl of
     Inl err \<Rightarrow> (None, None)
   | Inr rp \<Rightarrow> (case newTracer serviceName rp of Inl err \<Rightarrow> (None, None) | Inr tracer \<Rightarrow> (Some rp, Some tracer)))"

text \<open>The part of a worker that tracing uses.\<close>

record ('rp, 'c) Traced =
  td_useTrace :: bool
  td_Reporter :: "'rp option"
  td_Tracer :: "'c Tracer option"
  td_WorkerId :: string
  td_WorkerName :: string

definition WithTrace ::
  "(string \<Rightarrow> string + 'rp) \<Rightarrow> (string \<Rightarrow> 'rp \<Rightarrow> string + 'c Tracer) \<Rightarrow> string \<Rightarrow> ('rp, 'c) Traced \<Rightarrow> ('rp, 'c) Traced" where
  "WithTrace newGRPC newTracer reporterUrl w = (
     let w = w\<lparr>td_useTrace := True\<rparr>
     in case NewReporter newGRPC newTracer reporterUrl (td_WorkerName w) of
          (rp, tracer) \<Rightarrow> w\<lparr>td_Reporter := rp, td_Tracer := tracer\<rparr>)"

text \<open>The fields of a response for the trace.\<close>

record 'c TraceResponse =
  tp_Handle :: string
  tp_Sw8 :: string
  tp_Sw8Len :: u32
  tp_TraceEntryCtx :: "'c option"

text \<open>The extractor, over the keys one after the other: the values returned and the variable at the end. A parameter
  is absent, a string, or a value of another type, for which the type assertion panics.\<close>

datatype param = NotString | IsString string

fun ask_keys :: "(string \<rightharpoonup> param) \<Rightarrow> string list \<Rightarrow> string \<Rightarrow> (string list \<times> string) option" where
  "ask_keys params [] sw8 = Some ([], sw8)"
| "ask_keys params (key # keys) sw8 = (case params key of
     None \<Rightarrow> do { (vs, sw8') \<leftarrow> ask_keys params keys sw8; Some (sw8 # vs, sw8') }
   | Some NotString \<Rightarrow> None
   | Some (IsString val) \<Rightarrow> do { (vs, sw8') \<leftarrow> ask_keys params keys val; Some (val # vs, sw8') })"

definition start_text :: "string \<Rightarrow> string \<Rightarrow> string \<Rightarrow> string" where
  "start_text workerId workerName f = ''start request, workerid:'' @ workerId @ '', workername:'' @ workerName @ '', function:'' @ f"

definition SetEntrySpan ::
  "(SpanContext \<Rightarrow> string) \<Rightarrow> string \<Rightarrow> ('rp, 'c) Traced \<Rightarrow> (string \<rightharpoonup> param) \<Rightarrow> 'c TraceResponse
    \<Rightarrow> ('c TraceResponse \<times> span_event list) option" where
  "SetEntrySpan EncodeSW8 goVersion w params resp =
    (if \<not> td_useTrace w then Some (resp, [])
     else case td_Tracer w of
       None \<Rightarrow> Some (resp, [])
     | Some tracer \<Rightarrow> do {
         (vs, sw8) \<leftarrow> ask_keys params (tc_keys tracer) [];
         (case tc_entry tracer (tp_Handle resp) vs of
            None \<Rightarrow> Some (resp, [])
          | Some (entryCtx, traceId, segmentId) \<Rightarrow>
              let sw8 = (if sw8 = []
                    then EncodeSW8 \<lparr>sx_TraceID = traceId, sx_ParentSegmentID = segmentId, sx_ParentService = td_WorkerName w,
                      sx_ParentServiceInstance = td_WorkerId w, sx_ParentEndpoint = tp_Handle resp, sx_ParentSpanID = -1,
                      sx_Sample = 1\<rparr>
                    else sw8)
              in Some (resp\<lparr>tp_TraceEntryCtx := Some entryCtx, tp_Sw8Len := len32 sw8, tp_Sw8 := sw8\<rparr>,
                   [SetLayer ''RPCFramework'', SetOperation (tp_Handle resp), SetComponent ComponentIDGoMicroServer,
                    SetTag (NamedTag ''go_version'') goVersion, SetTag TagStatusCode ''200'',
                    LogEntry ''[nmid rpc]'' (start_text (td_WorkerId w) (td_WorkerName w) (tp_Handle resp)), EndSpan]))
       })"

text \<open>The parameters of the call are behind a pointer to a map that may be nil: storing into it then panics.\<close>

fun inject :: "(string \<times> string) list \<Rightarrow> (string \<rightharpoonup> param) option \<Rightarrow> (string \<rightharpoonup> param) option option" where
  "inject [] params = Some params"
| "inject ((key, val) # kvs) params = (case params of
     None \<Rightarrow> None
   | Some m \<Rightarrow> inject kvs (Some (m(key \<mapsto> IsString val))))"

definition SetExitSpan ::
  "('rp, 'c) Traced \<Rightarrow> 'c TraceResponse \<Rightarrow> string \<Rightarrow> string \<Rightarrow> (string \<rightharpoonup> param) option
    \<Rightarrow> ((string \<rightharpoonup> param) option \<times> span_event list) option" where
  "SetExitSpan w resp serverAddr exitHandle params =
    (if \<not> td_useTrace w then Some (params, [])
     else case td_Tracer w of
       None \<Rightarrow> Some (params, [])
     | Some tracer \<Rightarrow>
         let operationName = serverAddr @ ''@'' @ exitHandle
         in (case tc_exit tracer (tp_TraceEntryCtx resp) operationName serverAddr of
               (kvs, ok) \<Rightarrow> do {
                 params \<leftarrow> inject kvs params;
                 Some (params, if ok then [SetOperation operationName, SetComponent ComponentIDGoMicroClient,
                   SetTag TagURL serverAddr, SetLayer ''RPCFramework'', EndSpan] else [])
               }))"

text \<open>\<^verbatim>\<open>ShouldBind\<close>: the object as \<^verbatim>\<open>json.Unmarshal\<close> leaves it, and the error.\<close>

definition ShouldBind ::
  "('m \<Rightarrow> string + bytes) \<Rightarrow> (bytes \<Rightarrow> 'o \<Rightarrow> 'o \<times> string option) \<Rightarrow> ('o \<Rightarrow> string option) \<Rightarrow> 'm \<Rightarrow> 'o \<Rightarrow> 'o \<times> string option" where
  "ShouldBind marshal unmarshal validate paramsMap obj = (case marshal paramsMap of
     Inl err \<Rightarrow> (obj, Some err)
   | Inr params \<Rightarrow> (case unmarshal params obj of
       (obj, Some err) \<Rightarrow> (obj, Some err)
     | (obj, None) \<Rightarrow> (case validate obj of Some err \<Rightarrow> (obj, Some err) | None \<Rightarrow> (obj, None))))"

subsection \<open>Without a tracer\<close>

lemma untraced:
  assumes "\<not> td_useTrace w \<or> td_Tracer w = None"
  shows "SetEntrySpan enc v w params resp = Some (resp, [])" "SetExitSpan w resp addr h ps = Some (ps, [])"
  using assms by (auto simp: SetEntrySpan_def SetExitSpan_def)

text \<open>A worker whose reporter or tracer cannot be made works untraced.\<close>

lemma WithTrace_fails:
  assumes "\<And>rp. newGRPC url = Inr rp \<Longrightarrow> \<exists>err. newTracer (td_WorkerName w) rp = Inl err"
  shows "SetEntrySpan enc v (WithTrace newGRPC newTracer url w) params resp = Some (resp, [])"
proof (rule untraced(1))
  show "\<not> td_useTrace (WithTrace newGRPC newTracer url w) \<or> td_Tracer (WithTrace newGRPC newTracer url w) = None"
    using assms by (cases "newGRPC url") (force simp: WithTrace_def NewReporter_def)+
qed

subsection \<open>With a tracer\<close>

lemma ask_keys_absent: "(\<And>key. key \<in> set keys \<Longrightarrow> params key = None) \<Longrightarrow> ask_keys params keys sw8 = Some (map (\<lambda>_. sw8) keys, sw8)"
  by (induction keys) simp_all

lemma ask_keys_panics: "key \<in> set keys \<Longrightarrow> params key = Some NotString \<Longrightarrow> ask_keys params keys sw8 = None"
proof (induction keys arbitrary: sw8)
  case (Cons k keys)
  then show ?case by (cases "params k") (auto split: param.splits)
qed simp

text \<open>The last key with a value decides.\<close>

lemma ask_keys_last:
  assumes "keys = ks @ key # ks'" "params key = Some (IsString val)" "\<And>k. k \<in> set ks' \<Longrightarrow> params k = None"
    "\<And>k. k \<in> set ks \<Longrightarrow> params k \<noteq> Some NotString"
  shows "\<exists>vs. ask_keys params keys sw8 = Some (vs, val)"
  using assms(4) unfolding assms(1)
proof (induction ks arbitrary: sw8)
  case Nil
  then show ?case using ask_keys_absent [of ks' params val] assms(2,3) by simp
next
  case (Cons k ks)
  have "\<exists>vs. ask_keys params (ks @ key # ks') sw8 = Some (vs, val)" for sw8 using Cons by simp
  then show ?case using Cons.prems [of k]
    by (auto split: option.split param.split) (metis case_prod_conv bind.bind_lunit)+
qed

lemma entry_keeps_trace:
  assumes "td_useTrace w" "td_Tracer w = Some tracer" "tc_keys tracer = ks @ key # ks'"
    and "params key = Some (IsString val)" "val \<noteq> []" "\<And>k. k \<in> set ks' \<Longrightarrow> params k = None"
    and "\<And>k. k \<in> set ks \<Longrightarrow> params k \<noteq> Some NotString" "\<And>vs. tc_entry tracer (tp_Handle resp) vs \<noteq> None"
  shows "\<exists>resp' es. SetEntrySpan enc v w params resp = Some (resp', es) \<and> tp_Sw8 resp' = val \<and> tp_Sw8Len resp' = len32 val"
proof -
  obtain vs where vs: "ask_keys params (tc_keys tracer) [] = Some (vs, val)"
    using ask_keys_last [where params = params and key = key, OF assms(3,4,6,7), of "[]"] by blast
  obtain a b c where "tc_entry tracer (tp_Handle resp) vs = Some (a, b, c)" using assms(8) [of vs] by fastforce
  then show ?thesis using assms(1,2,5) vs by (simp add: SetEntrySpan_def Let_def)
qed

lemma entry_new_trace:
  assumes "td_useTrace w" "td_Tracer w = Some tracer" "\<And>k. k \<in> set (tc_keys tracer) \<Longrightarrow> params k = None"
    and "tc_entry tracer (tp_Handle resp) (map (\<lambda>_. []) (tc_keys tracer)) = Some (ctx, traceId, segmentId)"
  shows "\<exists>resp' es. SetEntrySpan enc v w params resp = Some (resp', es)
    \<and> tp_Sw8 resp' = enc \<lparr>sx_TraceID = traceId, sx_ParentSegmentID = segmentId, sx_ParentService = td_WorkerName w,
        sx_ParentServiceInstance = td_WorkerId w, sx_ParentEndpoint = tp_Handle resp, sx_ParentSpanID = -1, sx_Sample = 1\<rparr>"
  using ask_keys_absent [where params = params, OF assms(3)] assms(1,2,4) by (simp add: SetEntrySpan_def Let_def)

text \<open>A parameter under a key of the tracer that is no string, which a caller can send, panics.\<close>

lemma entry_panics:
  assumes "td_useTrace w" "td_Tracer w = Some tracer" "key \<in> set (tc_keys tracer)" "params key = Some NotString"
  shows "SetEntrySpan enc v w params resp = None"
  using ask_keys_panics [where params = params, OF assms(3,4)] assms(1,2) by (simp add: SetEntrySpan_def)

lemma exit_injects:
  assumes "td_useTrace w" "td_Tracer w = Some tracer" "tc_exit tracer (tp_TraceEntryCtx resp) (addr @ ''@'' @ h) addr = ([(key, val)], ok)"
  shows "\<exists>es. SetExitSpan w resp addr h (Some m) = Some (Some (m(key \<mapsto> IsString val)), es)"
    and "SetExitSpan w resp addr h None = None"
  using assms by (simp_all add: SetExitSpan_def Let_def)

subsection \<open>Binding\<close>

lemma ShouldBind_ok:
  "snd (ShouldBind marshal unmarshal validate m obj) = None \<longleftrightarrow>
    (\<exists>b obj'. marshal m = Inr b \<and> unmarshal b obj = (obj', None) \<and> validate obj' = None)"
  by (auto simp: ShouldBind_def split: sum.splits prod.splits option.splits)

end
