(* ===== verification/Front_Door.thy ===== *)
theory Front_Door
  imports Gateway Server_Core
begin

section \<open>Routes of the gateway and the pool of connections (server/gateway.go, server/connect.go)\<close>

text \<open>
  What stands before the handlers: the routes of the HTTP gateway, the matcher that tells a frame from
  another protocol by its first byte, and the pool in which connections can be looked up by their id. The router
  is third-party code: \<open>catchall\<close> is the value it gives the parameter of the pattern \<^verbatim>\<open>/*functionName\<close> for a path,
  \<open>unrouted\<close> what it does with a request of another method.

  The lemmas: three methods reach the handler; with a router that keeps the slash of the path, a request that names no
  function in its headers asks for a name that begins with a slash; the matcher accepts exactly the frames
  whose connection type is below \<open>2 ^ 24\<close>, so every frame of the protocol; no connection is ever in the pool.
\<close>

subsection \<open>Definitions\<close>

record http_server =
  hs_ReadTimeout :: int
  hs_WriteTimeout :: int

definition HTTPServerGateway :: http_server where
  "HTTPServerGateway = \<lparr>hs_ReadTimeout = 30 * 1000000000, hs_WriteTimeout = 300 * 1000000000\<rparr>"

datatype serve_error = ErrServerClosed | ErrListenerClosed | OtherServeError string

definition serve_log :: "serve_error option \<Rightarrow> string option" where
  "serve_log e = (case e of None \<Rightarrow> None
     | Some err \<Rightarrow> Some (case err of OtherServeError msg \<Rightarrow> ''error in gateway serve:'' @ msg | _ \<Rightarrow> ''gateway server closed''))"

definition StartHTTPAPIGateway ::
  "(string \<Rightarrow> string) \<Rightarrow> (string \<Rightarrow> string \<Rightarrow> http_writer \<Rightarrow> http_writer) \<Rightarrow> (http_request \<Rightarrow> http_writer \<Rightarrow> (http_writer \<times> bytes) option)
    \<Rightarrow> string \<Rightarrow> string \<Rightarrow> http_request \<Rightarrow> http_writer \<Rightarrow> (http_writer \<times> bytes) option" where
  "StartHTTPAPIGateway catchall unrouted handle meth path r w =
    (if meth \<in> {''POST'', ''GET'', ''PUT''} then handle (r\<lparr>hq_functionName := catchall path\<rparr>) w
     else Some (unrouted meth path w, []))"

text \<open>\<^verbatim>\<open>Read\<close> into a buffer of one byte: no byte at the end of the input.\<close>

definition nmidPrefixByteMatcher :: "bytes \<Rightarrow> bool" where
  "nmidPrefixByteMatcher r = (case r of [] \<Rightarrow> False | b # _ \<Rightarrow> b = 0)"

record ConnectPool =
  cp_TotalNum :: u32
  cp_FreeNum :: u32
  cp_Pool :: "addr list"
  cp_Free :: "addr list"
  cp_CMaps :: "string \<rightharpoonup> addr"

definition NewConnectPool :: ConnectPool where
  "NewConnectPool = \<lparr>cp_TotalNum = 0, cp_FreeNum = 0, cp_Pool = [], cp_Free = [], cp_CMaps = Map.empty\<rparr>"

definition GetConnect :: "string \<Rightarrow> ConnectPool \<Rightarrow> addr option" where
  "GetConnect cid p = cp_CMaps p cid"

definition DelConnect :: "string \<Rightarrow> ConnectPool \<Rightarrow> ConnectPool" where
  "DelConnect cid p = p\<lparr>cp_CMaps := (cp_CMaps p)(cid := None)\<rparr>"

subsection \<open>Lemmas on routes\<close>

lemma other_methods:
  "meth \<notin> {''POST'', ''GET'', ''PUT''} \<Longrightarrow>
    StartHTTPAPIGateway catchall unrouted handle meth path r w = Some (unrouted meth path w, [])"
  by (simp add: StartHTTPAPIGateway_def)

text \<open>The name of the function that the gateway asks for, by the header and by the path.\<close>

lemma routed_name:
  assumes "meth \<in> {''POST'', ''GET'', ''PUT''}" "\<And>p. catchall p = p" "path = CHR ''/'' # rest"
  obtains r' where "StartHTTPAPIGateway catchall unrouted handle meth path r w = handle r' w"
    "gateway_name r' = (if header_Get NFunctionName (hq_header r) = '''' then CHR ''/'' # rest
      else header_Get NFunctionName (hq_header r))"
proof
  show "StartHTTPAPIGateway catchall unrouted handle meth path r w = handle (r\<lparr>hq_functionName := path\<rparr>) w"
    using assms(1,2) by (simp add: StartHTTPAPIGateway_def)
  show "gateway_name (r\<lparr>hq_functionName := path\<rparr>) = (if header_Get NFunctionName (hq_header r) = '''' then CHR ''/'' # rest
      else header_Get NFunctionName (hq_header r))"
    using assms(3) by (simp add: gateway_name_def)
qed

text \<open>The first byte of a frame is the top of its connection type.\<close>

lemma matcher_frames:
  "nmidPrefixByteMatcher (header connType dataType content @ rest) \<longleftrightarrow> connType < 2 ^ 24"
proof -
  have "drop_bit 24 connType = (word_of_nat (unat connType div 2 ^ 24) :: u32)"
    by (simp add: drop_bit_eq_div word_arith_nat_div unat_of_nat)
  moreover have "unat connType div 2 ^ 24 < 2 ^ 8"
    using unsigned_less [of connType, where 'a = nat] by (simp add: less_mult_imp_div_less)
  ultimately have "(ucast (drop_bit 24 connType :: u32) :: 8 word) = word_of_nat (unat connType div 2 ^ 24)"
    by (simp add: unsigned_of_nat take_bit_nat_eq_self)
  then have "nmidPrefixByteMatcher (header connType dataType content @ rest)
      \<longleftrightarrow> (word_of_nat (unat connType div 2 ^ 24) :: 8 word) = 0"
    by (simp add: nmidPrefixByteMatcher_def header_def be32_def)
  also have "\<dots> \<longleftrightarrow> unat connType div 2 ^ 24 = 0"
    using \<open>unat connType div 2 ^ 24 < 2 ^ 8\<close> using nat_dvd_not_less [of "unat connType div 2 ^ 24" "2 ^ 8"]
    by (auto simp: word_of_nat_eq_0_iff)
  also have "\<dots> \<longleftrightarrow> connType < 2 ^ 24"
    by (simp add: div_eq_0_iff word_less_nat_alt)
  finally show ?thesis .
qed

lemma matcher_packets [simp]:
  "connType \<in> {CONN_TYPE_INIT, CONN_TYPE_SERVER, CONN_TYPE_WORKER, CONN_TYPE_CLIENT, CONN_TYPE_SERVICE} \<Longrightarrow>
    nmidPrefixByteMatcher (header connType dataType content @ rest)"
  unfolding matcher_frames by auto

subsection \<open>Lemmas on the pool\<close>

text \<open>The two operations of a pool never put a connection into it.\<close>

lemma pool_empty: "GetConnect cid (fold DelConnect ids NewConnectPool) = None"
proof -
  have "cp_CMaps (fold DelConnect ids p) cid = None" if "cp_CMaps p cid = None" for p
    using that by (induction ids arbitrary: p) (simp_all add: DelConnect_def)
  then show ?thesis by (simp add: GetConnect_def NewConnectPool_def)
qed

end
