(* ===== verification/Optimised.thy ===== *)
theory Optimised
  imports Server_Steps
begin

section \<open>The optimised paths against the original ones (optimize.go, client.go, worker.go)\<close>

text \<open>
  \<^verbatim>\<open>optimize.go\<close> replaces the handling of a request and of a result by a queue and a goroutine of a pool; the
  original functions are still there. With the queues empty, the optimised path, run to the end of one
  round of its pool, computes the same state as the original function: for every frame of a client whose request is
  malformed or finds a worker with room, and for every frame of a worker. Where the two differ is stated
  too: without room the original sends the job although it could not store it.
\<close>

subsection \<open>Empty queues\<close>

lemma DispatchPool_take_empty: "dp_jobCh dp = [] \<Longrightarrow> DispatchPool_take dp = (None, dp)"
  by (cases dp) (simp add: DispatchPool_take_def chan_recv_def)

lemma DispatchPool_submit_take:
  assumes "dp_jobCh dp = []" "0 < DispatchPool_cap dp"
  shows "\<exists>dp'. DispatchPool_Submit d dp = (True, dp') \<and> DispatchPool_take dp' = (Some d, dp)"
  using assms by (cases dp) (simp add: DispatchPool_Submit_def DispatchPool_take_def chan_send_def chan_recv_def)

lemma ResultRouter_submit_take:
  assumes "rr_resultCh rr = []" "0 < ResultRouter_cap rr"
  shows "\<exists>rr'. ResultRouter_Submit w f i req rr = (True, rr')
    \<and> ResultRouter_take rr' = (Some \<lparr>dr_sw = w, dr_jobFunc = f, dr_jobId = i, dr_req = req\<rparr>, rr)"
  using assms by (cases rr) (simp add: ResultRouter_Submit_def ResultRouter_take_def chan_send_def chan_recv_def)

lemma pool_upd [simp]:
  "s_DispatchPool (upd_conn c f s) = s_DispatchPool s" "s_DispatchPool (snd (write_conn c p s)) = s_DispatchPool s"
  by (simp_all add: upd_conn_def write_conn_def split: prod.splits)

lemma pool_decode: "decode_client_req c s = Some (cl, s') \<Longrightarrow> s_DispatchPool s' = s_DispatchPool s"
  by (auto simp: decode_client_req_def upd_client_def Let_def bind_eq_Some_conv split: option.splits)

lemma pool_reply: "client_reply c dt s = Some s' \<Longrightarrow> s_DispatchPool s' = s_DispatchPool s"
  by (auto simp: client_reply_def upd_client_def Let_def bind_eq_Some_conv split: option.splits)

lemma pushes_agree: "PushJobToChannelWithBackpressure jd job w = PushJobToChannel jd job w"
  by (simp add: PushJobToChannelWithBackpressure_def PushJobToChannel_def)

subsection \<open>Requests\<close>

definition malformed :: "SRequest \<Rightarrow> bool" where
  "malformed req \<longleftrightarrow> rq_HandleLen req = 0 \<or> rq_Handle req = [] \<or> rq_ParamsLen req = 0 \<or> rq_Params req = []"

text \<open>The channel of a worker for a function has room.\<close>

definition has_room :: "string \<Rightarrow> SWorker \<Rightarrow> bool" where
  "has_room f w \<longleftrightarrow> (case sw_JobChannels w f of None \<Rightarrow> True | Some ch \<Rightarrow> length ch < 1024)"

lemma push_room:
  "has_room (jd_FuncName (jd j)) w \<Longrightarrow> jd_FuncName (jd j) \<noteq> [] \<Longrightarrow> fst (PushJobToChannel jd (Some j) w)"
  by (auto simp: has_room_def PushJobToChannel_def GetJobChannel_def chan_send_def split: option.splits)

lemma doJob_run_dispatched:
  assumes d: "decode_client_req c s = Some (cl, s0)" and ok: "\<not> malformed (sc_Req cl)"
    and w: "GetBestWorker env (rq_Handle (sc_Req cl)) s0 = Some (Some w, s2)"
    and room: "has_room (rq_Handle (sc_Req cl)) (s_workers s2 w)"
  shows "doJob env c s = run_dispatched env (client_job cl) s0"
proof -
  let ?jb = "make_job env (client_job cl) (wid_of s2 w)"
  obtain j s3 where j: "alloc_job ?jb s2 = (j, s3)" by fastforce
  have s3: "s_jobs s3 j = ?jb" "s_workers s3 = s_workers s2" using j by (auto simp: alloc_job_def)
  have f: "jd_FuncName ?jb = rq_Handle (sc_Req cl)" by (simp add: make_job_def client_job_def)
  obtain sw where push: "PushJobToChannel (s_jobs s3) (Some j) (s_workers s3 w) = (True, sw)"
    using push_room [of "s_jobs s3" j "s_workers s3 w"] room ok
    by (cases "PushJobToChannel (s_jobs s3) (Some j) (s_workers s3 w)") (auto simp: s3 f [unfolded make_job_def client_job_def] make_job_def client_job_def malformed_def)
  have h: "dj_handle (client_job cl) = rq_Handle (sc_Req cl)" by (simp add: client_job_def)
  show ?thesis
    using ok push by (simp add: doJob_def run_dispatched_def d w j h pushes_agree malformed_def Let_def)
qed

lemma async_equals_sync:
  assumes "dp_jobCh (s_DispatchPool s) = []" "0 < DispatchPool_cap (s_DispatchPool s)"
    and "decode_client_req c s = Some (cl, s0)"
    and "malformed (sc_Req cl) \<or> (\<exists>w s2. GetBestWorker env (rq_Handle (sc_Req cl)) s0 = Some (Some w, s2)
      \<and> has_room (rq_Handle (sc_Req cl)) (s_workers s2 w))"
  shows "do { s1 \<leftarrow> doJobAsync c s; DispatchPool_worker env s1 } = doJob env c s"
proof (cases "malformed (sc_Req cl)")
  case True
  have "DispatchPool_worker env s1 = Some s1" if "client_reply c PDT_ERROR s0 = Some s1" for s1
    using pool_reply [OF that] pool_decode [OF assms(3)] assms(1)
    by (simp add: DispatchPool_worker_def DispatchPool_take_empty)
  moreover have "doJobAsync c s = client_reply c PDT_ERROR s0" "doJob env c s = client_reply c PDT_ERROR s0"
    using True by (auto simp: doJobAsync_def doJob_def assms(3) malformed_def Let_def)
  ultimately show ?thesis by (cases "client_reply c PDT_ERROR s0") simp_all
next
  case False
  note pool = pool_decode [OF assms(3)]
  obtain dp where dp: "DispatchPool_Submit (client_job cl) (s_DispatchPool s0) = (True, dp)"
    "DispatchPool_take dp = (Some (client_job cl), s_DispatchPool s0)"
    using DispatchPool_submit_take [of "s_DispatchPool s0" "client_job cl"] assms(1,2) pool by auto
  have "doJobAsync c s = Some (s0\<lparr>s_DispatchPool := dp\<rparr>)"
    using False dp(1) by (simp add: doJobAsync_def assms(3) malformed_def Let_def)
  moreover have "DispatchPool_worker env (s0\<lparr>s_DispatchPool := dp\<rparr>) = run_dispatched env (client_job cl) s0"
    using dp(2) by (simp add: DispatchPool_worker_def)
  moreover have "doJob env c s = run_dispatched env (client_job cl) s0"
    using assms(4) False doJob_run_dispatched [OF assms(3)] by blast
  ultimately show ?thesis by simp
qed

text \<open>Without room the original sends the job, which is not in the channel, so that its result will be taken for another
  one's; the optimised path answers that it cannot be done.\<close>

lemma push_full: "\<not> has_room (jd_FuncName (jd j)) w \<Longrightarrow> PushJobToChannel jd (Some j) w = (False, w)"
  by (auto simp: has_room_def PushJobToChannel_def GetJobChannel_def chan_send_def split: option.splits)

lemma full_channel_differs:
  assumes "decode_client_req c s = Some (cl, s0)" "\<not> malformed (sc_Req cl)"
    and w: "GetBestWorker env (rq_Handle (sc_Req cl)) s0 = Some (Some w, s2)"
    and "\<not> has_room (rq_Handle (sc_Req cl)) (s_workers s2 w)"
    and j: "alloc_job (make_job env (client_job cl) (wid_of s2 w)) s2 = (j, s3)"
  shows "doJob env c s = do {
      s4 \<leftarrow> doWork w (Some j) s3;
      inc_metric (Metric ''requestCount'' [sw_WorkerName (s_workers s4 w), rq_Handle (sc_Req cl)] 1) s4 }"
    and "run_dispatched env (client_job cl) s0 = write_res (server_NewRes\<lparr>rs_DataType := PDT_CANT_DO\<rparr>) (sc_Connect cl) s3"
proof -
  have s3: "s_jobs s3 j = make_job env (client_job cl) (wid_of s2 w)" "s_workers s3 = s_workers s2"
    using j by (auto simp: alloc_job_def)
  have f: "jd_FuncName (s_jobs s3 j) = rq_Handle (sc_Req cl)" by (simp add: s3 make_job_def client_job_def)
  have push: "PushJobToChannel (s_jobs s3) (Some j) (s_workers s3 w) = (False, s_workers s3 w)"
    using push_full [of "s_jobs s3" j "s_workers s3 w"] assms(4) unfolding f s3(2) by simp
  have same: "upd_worker w (\<lambda>_. s_workers s3 w) s3 = s3" by (simp add: upd_worker_def)
  show "doJob env c s = do {
      s4 \<leftarrow> doWork w (Some j) s3;
      inc_metric (Metric ''requestCount'' [sw_WorkerName (s_workers s4 w), rq_Handle (sc_Req cl)] 1) s4 }"
    using assms(2) by (simp add: doJob_def assms(1) w j push same malformed_def Let_def)
  have "dj_handle (client_job cl) = rq_Handle (sc_Req cl)" "dj_connect (client_job cl) = sc_Connect cl"
    by (simp_all add: client_job_def)
  then show "run_dispatched env (client_job cl) s0 = write_res (server_NewRes\<lparr>rs_DataType := PDT_CANT_DO\<rparr>) (sc_Connect cl) s3"
    by (simp add: run_dispatched_def w j pushes_agree push same)
qed

subsection \<open>Results\<close>

lemma routed_equals_queued:
  assumes "worker_req w data s = Some req" "rq_DataType req = PDT_W_RETURN_DATA"
    and "rr_resultCh (s_ResultRouter s) = []" "0 < ResultRouter_cap (s_ResultRouter s)" "sw_Results (s_workers s w) = []"
  shows "do { s1 \<leftarrow> RunWorkerOptimized env w data s; ResultRouter_worker env s1 }
    = do { s1 \<leftarrow> SWorker_RunWorker env w data s; processResults env w s1 }"
proof -
  obtain rr where rr: "ResultRouter_Submit w (rq_Handle req) (rq_JobId req) req (s_ResultRouter s) = (True, rr)"
    "ResultRouter_take rr = (Some \<lparr>dr_sw = w, dr_jobFunc = rq_Handle req, dr_jobId = rq_JobId req, dr_req = req\<rparr>, s_ResultRouter s)"
    using ResultRouter_submit_take [OF assms(3,4)] by blast
  have "do { s1 \<leftarrow> RunWorkerOptimized env w data s; ResultRouter_worker env s1 } = returnData env w (result_job req) s"
    using assms(1,2) rr by (simp add: RunWorkerOptimized_def ResultRouter_worker_def result_job_def Let_def)
  moreover have "(s_workers s w)\<lparr>sw_Results := []\<rparr> = s_workers s w" using assms(5) by (cases "s_workers s w") simp
  then have "s\<lparr>s_workers := (s_workers s)(w := s_workers s w\<lparr>sw_Results := []\<rparr>)\<rparr> = s" by simp
  then have "do { s1 \<leftarrow> SWorker_RunWorker env w data s; processResults env w s1 } = returnData env w (result_job req) s"
    using assms(1,2,5) by (simp add: SWorker_RunWorker_def processResults_def chan_send_def chan_recv_def upd_worker_def Let_def)
  ultimately show ?thesis by simp
qed

text \<open>No handler of a frame touches the router or the queue of results of the worker.\<close>

lemma results_frame [simp]:
  "s_ResultRouter (snd (write_conn c p s)) = s_ResultRouter s" "s_workers (snd (write_conn c p s)) = s_workers s"
  "s_ResultRouter (add_metric m s) = s_ResultRouter s" "s_ResultRouter (upd_worker w f s) = s_ResultRouter s"
  by (simp_all add: write_conn_def upd_conn_def add_metric_def upd_worker_def split: prod.splits)

lemma results_write_res:
  assumes "write_res res c s = Some s'"
  shows "s_ResultRouter s' = s_ResultRouter s \<and> s_workers s' = s_workers s"
  using assms by (auto simp: write_res_def bind_eq_Some_conv)

lemma results_addFunction:
  assumes "addFunction env w req s = Some s'"
  shows "s_ResultRouter s' = s_ResultRouter s \<and> s_workers s' = s_workers s"
  using assms by (auto simp: addFunction_def add_metric_def inc_metric_Some bind_eq_Some_conv Let_def dest!: results_write_res split: if_splits)

lemma results_delFunction:
  assumes "delFunction env w req s = Some s'"
  shows "s_ResultRouter s' = s_ResultRouter s \<and> s_workers s' = s_workers s"
  using assms by (auto simp: delFunction_def add_metric_def inc_metric_Some bind_eq_Some_conv Let_def split: if_splits)

lemma results_setWorkerName:
  assumes "setWorkerName w req s = Some s'"
  shows "s_ResultRouter s' = s_ResultRouter s \<and> sw_Results (s_workers s' w) = sw_Results (s_workers s w)"
  using assms by (auto simp: setWorkerName_def upd_worker_def Let_def dest!: results_write_res split: if_splits)

lemmas results_same = results_write_res results_addFunction results_delFunction results_setWorkerName

lemma ResultRouter_take_empty: "rr_resultCh rr = [] \<Longrightarrow> ResultRouter_take rr = (None, rr)"
  by (cases rr) (simp add: ResultRouter_take_def chan_recv_def)

text \<open>Other frames than results are handled alike, and leave nothing for the second step.\<close>

lemma frames_alike:
  assumes "worker_req w data s = Some req" "rq_DataType req \<noteq> PDT_W_RETURN_DATA"
  shows "RunWorkerOptimized env w data s = SWorker_RunWorker env w data s"
    and "SWorker_RunWorker env w data s = Some s1 \<Longrightarrow>
      s_ResultRouter s1 = s_ResultRouter s \<and> sw_Results (s_workers s1 w) = sw_Results (s_workers s w)"
  using assms
  by (auto simp: RunWorkerOptimized_def SWorker_RunWorker_def workerWakeup_def heartBeatPong_def upd_worker_def Let_def
      dest: results_same split: if_splits)

lemma worker_frames_equal:
  assumes "rr_resultCh (s_ResultRouter s) = []" "0 < ResultRouter_cap (s_ResultRouter s)" "sw_Results (s_workers s w) = []"
  shows "do { s1 \<leftarrow> RunWorkerOptimized env w data s; ResultRouter_worker env s1 }
    = do { s1 \<leftarrow> SWorker_RunWorker env w data s; processResults env w s1 }"
proof (cases "worker_req w data s")
  case None
  then show ?thesis by (simp add: RunWorkerOptimized_def SWorker_RunWorker_def)
next
  case (Some req)
  show ?thesis
  proof (cases "rq_DataType req = PDT_W_RETURN_DATA")
    case True
    then show ?thesis by (intro routed_equals_queued [OF Some _ assms])
  next
    case False
    note alike = frames_alike [where env = env, OF Some False]
    show ?thesis
    proof (cases "SWorker_RunWorker env w data s")
      case (Some s1)
      then show ?thesis using alike(1) alike(2) [of s1] assms
        by (simp add: ResultRouter_worker_def ResultRouter_take_empty processResults_def chan_recv_def)
    qed (simp add: alike(1))
  qed
qed

text \<open>The same for a frame of a client.\<close>

lemma client_frames_equal:
  assumes "dp_jobCh (s_DispatchPool s) = []" "0 < DispatchPool_cap (s_DispatchPool s)"
    and "\<And>cl s0. decode_client_req c s = Some (cl, s0) \<Longrightarrow>
      malformed (sc_Req cl) \<or> (\<exists>w s2. GetBestWorker env (rq_Handle (sc_Req cl)) s0 = Some (Some w, s2)
        \<and> has_room (rq_Handle (sc_Req cl)) (s_workers s2 w))"
  shows "do { s1 \<leftarrow> RunClientOptimized c s; DispatchPool_worker env s1 } = SClient_RunClient env c s"
proof (cases "c_RunClient (s_conns s c)")
  case (Some cl)
  have empty: "DispatchPool_worker env s = Some s"
    using assms(1) by (simp add: DispatchPool_worker_def DispatchPool_take_empty)
  have "do { s1 \<leftarrow> doJobAsync c s; DispatchPool_worker env s1 } = doJob env c s"
  proof (cases "decode_client_req c s")
    case None
    then show ?thesis by (simp add: doJobAsync_def doJob_def)
  next
    case (Some r)
    then show ?thesis using async_equals_sync [where c = c and env = env, OF assms(1,2)] assms(3) by (cases r) blast
  qed
  then show ?thesis using Some empty by (simp add: RunClientOptimized_def SClient_RunClient_def)
qed (simp add: RunClientOptimized_def SClient_RunClient_def)

end
