(* ===== verification/Edge_Scenario.thy ===== *)
theory Edge_Scenario
  imports Scenario Dashboard_Pages Logger Vec_Updates Alerts Tracing Front_Door Optimised
begin

section \<open>Concrete values for the sidecar, the breaker and the program\<close>

definition demo_proxy_option :: ProxyServerOption where
  "demo_proxy_option = \<lparr>po_ProtocolType = ''http'', po_BindNetWork = ''tcp'', po_BindAddress = '':7000'', po_BindIP = [], po_BindPort = [],
     po_RequestBodySize = 0, po_ResponseBodySize = 0, po_ReadTimeout = 0,
     po_WriteTimeout = 0, po_IdleTimeout = 0, po_TargetProtocolType = ''http'', po_TargetAddress = ''target'', po_TargetDialTimeout = 0,
     po_TargetKeepAlive = 0, po_TargetIdleConnTimeout = 0,
     po_TargetMaxIdleConnsPerHost = 2\<rparr>"

definition demo_response :: Response where
  "demo_response = \<lparr>p_StatusCode = 404, p_Header = [(''X'', [''a''])], p_ContentLength = -1, p_Chunks = [''hi '', ''you''],
     p_BodyError = None\<rparr>"

definition demo_trip_error :: TripError where
  "demo_trip_error = \<lparr>te_Canceled = False, te_EOF = False, te_Text = ''refused''\<rparr>"

definition demo_request :: Request where
  "demo_request = \<lparr>q_Method = ''GET'', q_Scheme = [], q_Host = ''sidecar'', q_URLHost = [], q_Path = ''/''\<rparr>"

definition demo_breaker :: BreakerConfig where
  "demo_breaker = \<lparr>bc_MaxRequests = 1, bc_Interval = 0, bc_ErrorNumbers = 5, bc_OpenTimeout = 10, bc_RequestTimeout = 3,
     bc_ErrorPercent = 50, bc_RuleType = 2, bc_IsOpen = 1, bc_Btype = 1, bc_Timestamp = 0, bc_WorkerName = ''w''\<rparr>"

definition demo_counts :: Counts where
  "demo_counts = \<lparr>ct_Requests = 10, ct_TotalFailures = 6, ct_ConsecutiveFailures = 2\<rparr>"

definition demo_config :: ServerConfig where
  "demo_config = zero_config\<lparr>
     sc_RpcServer := Some \<lparr>rpc_NETWORK = ''tcp'', rpc_HOST = ''0.0.0.0'', rpc_PORT = ''6808'', rpc_HTTPPORT = ''6809''\<rparr>,
     sc_Prometheus := Some \<lparr>pr_Enable = True, pr_Host = ''0.0.0.0'', pr_Port = ''9099'', pr_Path = ''/metrics''\<rparr>,
     sc_Dashboard := Some \<lparr>db_Enable = True, db_Host = ''0.0.0.0'', db_Port = ''9100'', db_DefaultPath = ''/dashboard'',
       db_Template = ''d.html''\<rparr>\<rparr>"

definition demo_run :: "bool \<Rightarrow> unit Settings \<Rightarrow> unit Settings option" where
  "demo_run http st = Some (st\<lparr>st_Ln := Some False, st_HTTPServerGateway := (if http then Some False else None),
     st_Cm := (if http then Some False else None)\<rparr>)"

text \<open>The idle server with the request of the client on its connection.\<close>

definition demo_asking :: Server where
  "demo_asking = upd_conn 1 (\<lambda>cn. cn\<lparr>c_RunClient := Some \<lparr>sc_ClientId = ''c2'', sc_Connect = 1,
     sc_Req = server_NewReq\<lparr>rq_DataType := PDT_C_DO_JOB, rq_DataLen := 19, rq_Data := do_job_layout 0 0 ''f'' [1, 2]\<rparr>,
     sc_Res = server_NewRes\<rparr>\<rparr>) demo_idle"

lemma demo_asking_decoded:
  assumes "decode_client_req 1 demo_asking = Some (cl, s0)"
  shows "rq_Handle (sc_Req cl) = ''f''" "s_Funcs s0 = s_Funcs demo_idle" "s_workers s0 = s_workers demo_idle"
    "c_RunWorker (s_conns s0 0) = Some 0"
proof -
  have d: "ReqDecodePack req = decode_do_job req"
    if "rq_DataLen req = 19" "rq_DataType req = PDT_C_DO_JOB" "rq_Data req = do_job_layout 0 0 ''f'' [1, 2]" for req
    using that by (simp add: ReqDecodePack_def do_job_layout_def)
  show "rq_Handle (sc_Req cl) = ''f''" "s_Funcs s0 = s_Funcs demo_idle" "s_workers s0 = s_workers demo_idle"
    "c_RunWorker (s_conns s0 0) = Some 0"
    using assms
    by (auto simp: decode_client_req_def demo_asking_def upd_conn_def upd_client_def d server_NewReq_def bind_eq_Some_conv
        decode_do_job_layout [of "''f''" "[1, 2]"] Let_def demo_conns)
qed

lemma demo_asking_found:
  assumes "decode_client_req 1 demo_asking = Some (cl, s0)"
  shows "\<exists>w s2. GetBestWorker demo_env (rq_Handle (sc_Req cl)) s0 = Some (Some w, s2)
    \<and> has_room (rq_Handle (sc_Req cl)) (s_workers s2 w)"
  using demo_best [of s0] demo_asking_decoded [OF assms] by (simp add: has_room_def)

lemma demo_asking_sel [simp]:
  "s_DispatchPool demo_asking = GetDispatchPool" "s_ResultRouter demo_asking = GetResultRouter"
  "s_workers demo_asking = s_workers demo_idle" "sw_Results (s_workers demo_idle 0) = []"
  "0 < DispatchPool_cap GetDispatchPool" "0 < ResultRouter_cap GetResultRouter"
  by (simp_all add: demo_asking_def upd_conn_def demo_idle_def DispatchPool_cap_def ResultRouter_cap_def demo_pools NewServer_def)

text \<open>The idle server with an announcement of the worker on its connection.\<close>

definition demo_announcing :: "bytes \<Rightarrow> Server" where
  "demo_announcing p = upd_conn 0 (\<lambda>cn. cn\<lparr>c_input := map Byte (frame_bytes (CONN_TYPE_WORKER, PDT_W_ADD_FUNC, p))\<rparr>) demo_idle"

lemma demo_announcing_facts:
  "server_inv (demo_announcing p)" "0 < s_nextConn (demo_announcing p)" "c_Conn (s_conns (demo_announcing p) 0)"
  "c_input (s_conns (demo_announcing p) 0) = map Byte (frame_bytes (CONN_TYPE_WORKER, PDT_W_ADD_FUNC, p))"
  "can_write q (s_conns (demo_announcing p) 0) = can_write q (s_conns demo_idle 0)"
  "announce_labels env 0 p (demo_announcing p) = [''c1'', ''w'', ''a'', gostring p, e_timeStr env]"
  "series (s_Metrics (demo_announcing p)) ''WorkerFuncCount'' ls = 0" "workers_of (s_Funcs (demo_announcing p)) ''g'' = []"
proof -
  show "server_inv (demo_announcing p)" unfolding demo_announcing_def by (rule inv_read [OF demo_idle_inv])
  have "s_Funcs (demo_announcing p) = s_Funcs demo_idle" by (simp add: demo_announcing_def)
  then show "workers_of (s_Funcs (demo_announcing p)) ''g'' = []" by (simp add: demo_workers)
qed (simp_all add: demo_announcing_def demo_conn_sel NewConnect_obj_def can_write_def announce_labels_def worker_name_at_def
      demo_idle_def NewServer_def series_def upd_conn_def)

lemma demo_announcing_ok:
  "gobytes ''g'' \<noteq> []" "length (gobytes ''g'') \<le> maxFrameSize"
  "can_write (header CONN_TYPE_SERVER PDT_OK []) (s_conns (demo_announcing p) 0)"
  "valid_utf8 ''c1''" "valid_utf8 ''w''" "valid_utf8 ''a''" "valid_utf8 ''g''" "valid_utf8 ''t''" "valid_utf8 ''t0''"
  "e_timeStr demo_env = ''t''" "gostring (gobytes ''g'') = ''g''"
proof -
  show "can_write (header CONN_TYPE_SERVER PDT_OK []) (s_conns (demo_announcing p) 0)"
    unfolding demo_announcing_facts(5) by (rule demo_can_write) simp
qed (simp_all add: demo_env_def)

lemma demo_not_utf8: "\<not> valid_utf8 (gostring [255])"
  by (simp add: gostring_def valid_utf8_def rune_tail_def)

end
