(* ===== verification/Health.thy ===== *)
theory Health
  imports Prelude
begin

section \<open>The health checker of the dashboard (pkg/dashboard/health.go)\<close>

text \<open>
  The checker has a map from URLs to result objects and one goroutine per URL that was added. A
  goroutine holds a pointer to a result while its request is under way, so results live in a
  store. A check is two operations, before and after the request, since the map may change in
  between. \<open>hc_loops\<close> are the goroutines, each with the URL it checks.

  The lemmas: an invariant of all operations; every target has a goroutine that checks it; it may
  have two, after the URL was removed and added again; a check that was under way then
  writes to the old object, and the new one does not change.
\<close>

subsection \<open>Definitions\<close>

record HealthCheckResult =
  he_URL :: string
  he_StatusCode :: int
  he_ResponseTime :: int
  he_IsUp :: bool
  he_LastCheckedAt :: int
  he_ErrorMessage :: string
  he_CheckIntervalMs :: int

record HealthChecker =
  hc_targets :: "(string \<times> addr) list"
  hc_results :: "addr \<Rightarrow> HealthCheckResult"
  hc_next :: addr
  hc_loops :: "string list"

definition new_result :: "string \<Rightarrow> int \<Rightarrow> HealthCheckResult" where
  "new_result url interval = \<lparr>he_URL = url, he_StatusCode = 0, he_ResponseTime = 0, he_IsUp = False, he_LastCheckedAt = 0,
     he_ErrorMessage = '''', he_CheckIntervalMs = interval\<rparr>"

definition NewHealthChecker :: HealthChecker where
  "NewHealthChecker = \<lparr>hc_targets = [], hc_results = (\<lambda>_. new_result '''' 0), hc_next = 0, hc_loops = []\<rparr>"

definition AddTarget :: "string \<Rightarrow> int \<Rightarrow> HealthChecker \<Rightarrow> HealthChecker" where
  "AddTarget url intervalMs hc = (case map_of (hc_targets hc) url of
     Some a \<Rightarrow> hc\<lparr>hc_results := (hc_results hc)(a := (hc_results hc a)\<lparr>he_CheckIntervalMs := intervalMs\<rparr>)\<rparr>
   | None \<Rightarrow> hc\<lparr>hc_targets := hc_targets hc @ [(url, hc_next hc)],
               hc_results := (hc_results hc)(hc_next hc := new_result url intervalMs),
               hc_next := Suc (hc_next hc), hc_loops := hc_loops hc @ [url]\<rparr>)"

definition RemoveTarget :: "string \<Rightarrow> HealthChecker \<Rightarrow> HealthChecker" where
  "RemoveTarget url hc = hc\<lparr>hc_targets := filter (\<lambda>(u, _). u \<noteq> url) (hc_targets hc)\<rparr>"

definition GetResult :: "string \<Rightarrow> HealthChecker \<Rightarrow> HealthCheckResult option" where
  "GetResult url hc = map_option (hc_results hc) (map_of (hc_targets hc) url)"

definition GetAllResults :: "HealthChecker \<Rightarrow> HealthCheckResult list" where
  "GetAllResults hc = map (\<lambda>(_, a). hc_results hc a) (hc_targets hc)"

text \<open>One turn of \<^verbatim>\<open>startChecking\<close> and the first part of \<^verbatim>\<open>checkHealth\<close>: the goroutine ends, or has the
  result object to update.\<close>

definition startChecking :: "string \<Rightarrow> HealthChecker \<Rightarrow> addr option \<times> HealthChecker" where
  "startChecking url hc = (case map_of (hc_targets hc) url of
     None \<Rightarrow> (None, hc\<lparr>hc_loops := remove1 url (hc_loops hc)\<rparr>)
   | Some a \<Rightarrow> (Some a, hc))"

text \<open>The second part of \<^verbatim>\<open>checkHealth\<close>: an error text or the status of the answer.\<close>

definition checkHealth :: "string \<Rightarrow> addr \<Rightarrow> string + int \<Rightarrow> int \<Rightarrow> int \<Rightarrow> HealthChecker \<Rightarrow> HealthChecker" where
  "checkHealth url a resp responseTime now hc =
    (if map_of (hc_targets hc) url = None then hc
     else
       let result = (hc_results hc a)\<lparr>he_ResponseTime := responseTime, he_LastCheckedAt := now\<rparr>;
           result = (case resp of
             Inl err \<Rightarrow> result\<lparr>he_IsUp := False, he_ErrorMessage := err, he_StatusCode := 0\<rparr>
           | Inr code \<Rightarrow> result\<lparr>he_StatusCode := code, he_IsUp := (code \<ge> 200 \<and> code < 400), he_ErrorMessage := ''''\<rparr>)
       in hc\<lparr>hc_results := (hc_results hc)(a := result)\<rparr>)"

text \<open>The HTTP interface: the method with its decoded body or parameter; the status of the answer.\<close>

datatype health_request =
    HGet
  | HPost "(string \<times> int) option"
  | HDelete string
  | HOther

definition requestTargets :: "health_request \<Rightarrow> HealthChecker \<Rightarrow> nat \<times> HealthChecker" where
  "requestTargets req hc = (case req of
     HGet \<Rightarrow> (200, hc)
   | HPost None \<Rightarrow> (400, hc)
   | HPost (Some (url, intervalMs)) \<Rightarrow> (201, AddTarget url (if intervalMs < 100 then 5000 else intervalMs) hc)
   | HDelete url \<Rightarrow> if url = '''' then (400, hc) else (200, RemoveTarget url hc)
   | HOther \<Rightarrow> (405, hc))"

definition getTargets :: "string \<Rightarrow> HealthChecker \<Rightarrow> nat \<times> HealthCheckResult option" where
  "getTargets url hc = (case GetResult url hc of None \<Rightarrow> (404, None) | Some r \<Rightarrow> (200, Some r))"

text \<open>What can happen: a request over HTTP, a turn of a goroutine, the end of a check.\<close>

inductive health_step :: "HealthChecker \<Rightarrow> HealthChecker \<Rightarrow> bool" where
  http: "requestTargets req hc = (status, hc') \<Longrightarrow> health_step hc hc'"
| turn: "url \<in> set (hc_loops hc) \<Longrightarrow> startChecking url hc = (r, hc') \<Longrightarrow> health_step hc hc'"
| check: "a < hc_next hc \<Longrightarrow> he_URL (hc_results hc a) = url \<Longrightarrow> health_step hc (checkHealth url a resp t now hc)"

definition result_ok :: "HealthCheckResult \<Rightarrow> bool" where
  "result_ok r \<longleftrightarrow> (he_IsUp r \<longleftrightarrow> 200 \<le> he_StatusCode r \<and> he_StatusCode r < 400)"

definition health_inv :: "HealthChecker \<Rightarrow> bool" where
  "health_inv hc \<longleftrightarrow> distinct (map fst (hc_targets hc))
     \<and> (\<forall>url a. (url, a) \<in> set (hc_targets hc) \<longrightarrow> a < hc_next hc \<and> he_URL (hc_results hc a) = url \<and> url \<in> set (hc_loops hc))
     \<and> (\<forall>a < hc_next hc. result_ok (hc_results hc a))"

subsection \<open>The invariant\<close>

lemma health_inv_New: "health_inv NewHealthChecker"
  by (simp add: health_inv_def NewHealthChecker_def)

lemma health_inv_Add: "health_inv hc \<Longrightarrow> health_inv (AddTarget url i hc)"
proof (cases "map_of (hc_targets hc) url")
  case None
  assume i: "health_inv hc"
  have "url \<notin> fst ` set (hc_targets hc)" using None by (simp add: map_of_eq_None_iff)
  then show ?thesis using i None
    by (auto simp: AddTarget_def health_inv_def result_ok_def new_result_def less_Suc_eq)
next
  case (Some a)
  assume "health_inv hc"
  then show ?thesis using Some by (auto simp: AddTarget_def health_inv_def result_ok_def)
qed

lemma health_inv_Remove: "health_inv hc \<Longrightarrow> health_inv (RemoveTarget url hc)"
  by (auto simp: RemoveTarget_def health_inv_def distinct_map_filter)

lemma health_inv_turn: "health_inv hc \<Longrightarrow> startChecking url hc = (r, hc') \<Longrightarrow> health_inv hc'"
proof -
  assume i: "health_inv hc" and s: "startChecking url hc = (r, hc')"
  show "health_inv hc'"
  proof (cases "map_of (hc_targets hc) url")
    case None
    have "u \<in> set (remove1 url (hc_loops hc))" if "(u, a) \<in> set (hc_targets hc)" for u a
    proof -
      have "u \<noteq> url" using that None by (force simp: map_of_eq_None_iff)
      moreover have "u \<in> set (hc_loops hc)" using i that by (auto simp: health_inv_def)
      ultimately show ?thesis by (simp add: in_set_remove1)
    qed
    then show ?thesis using i s None by (auto simp: startChecking_def health_inv_def)
  next
    case (Some a)
    then show ?thesis using i s by (simp add: startChecking_def)
  qed
qed

lemma health_inv_check: "health_inv hc \<Longrightarrow> health_inv (checkHealth url a resp t now hc)"
  by (cases resp) (auto simp: checkHealth_def health_inv_def result_ok_def Let_def)

lemma health_step_inv: "health_step hc hc' \<Longrightarrow> health_inv hc \<Longrightarrow> health_inv hc'"
proof (induction rule: health_step.induct)
  case (http req hc status hc')
  then show ?case
    by (auto simp: requestTargets_def intro: health_inv_Add health_inv_Remove
        split: health_request.splits option.splits if_splits)
qed (auto intro: health_inv_turn health_inv_check)

lemma health_reachable_inv: "health_step\<^sup>*\<^sup>* NewHealthChecker hc \<Longrightarrow> health_inv hc"
  by (induction rule: rtranclp_induct) (auto intro: health_inv_New health_step_inv)

subsection \<open>Removing and adding again\<close>

lemma health_two_loops:
  assumes "health_inv hc" "(url, a) \<in> set (hc_targets hc)"
  shows "count_list (hc_loops (AddTarget url i (RemoveTarget url hc))) url = count_list (hc_loops hc) url + 1"
    "count_list (hc_loops hc) url \<ge> 1"
proof -
  have "map_of (hc_targets (RemoveTarget url hc)) url = None"
    by (auto simp: RemoveTarget_def map_of_eq_None_iff)
  then show "count_list (hc_loops (AddTarget url i (RemoveTarget url hc))) url = count_list (hc_loops hc) url + 1"
    by (simp add: AddTarget_def RemoveTarget_def)
  have "url \<in> set (hc_loops hc)" using assms by (auto simp: health_inv_def)
  then show "count_list (hc_loops hc) url \<ge> 1" using count_list_0_iff [of "hc_loops hc" url] by (cases "count_list (hc_loops hc) url") auto
qed

lemma health_stale_check:
  assumes "health_inv hc" "(url, a) \<in> set (hc_targets hc)"
  shows "GetResult url (checkHealth url a resp t now (AddTarget url i (RemoveTarget url hc))) = Some (new_result url i)"
proof -
  have n: "map_of (hc_targets (RemoveTarget url hc)) url = None"
    by (auto simp: RemoveTarget_def map_of_eq_None_iff)
  have a: "a < hc_next hc" using assms by (auto simp: health_inv_def)
  let ?hc = "AddTarget url i (RemoveTarget url hc)"
  have t: "map_of (hc_targets ?hc) url = Some (hc_next hc)" "hc_results ?hc (hc_next hc) = new_result url i"
    using n by (auto simp: AddTarget_def map_add_def) (simp_all add: RemoveTarget_def)
  then show ?thesis using a by (auto simp: GetResult_def checkHealth_def Let_def)
qed

end
