(* ===== verification/Spec2Isabelle.thy ===== *)
theory Spec2Isabelle
  imports Scenario Registry_Scenario Edge_Scenario Health
begin

text \<open>
  \<^bold>\<open>nmid: a verification development.\<close>

  nmid is a job server written in Go. A \<^emph>\<open>worker\<close> connects to the \<^emph>\<open>server\<close> and announces the functions
  it can run; a \<^emph>\<open>client\<close> connects to the server and asks for a function by its name. The server
  queues the request, chooses one of the workers that announced the function, sends it the
  job, and sends the result, when it comes back, to the client. Clients and workers can also
  call each other without the server (\<^emph>\<open>direct calls\<close>), both kinds of connections can be pooled, and
  the addresses of workers can be kept in a \<^emph>\<open>registry\<close>.

  \<^bold>\<open>Conventions.\<close> A Go function is a HOL function with the state passed and returned. A panic (index
  out of range, nil dereference) is the value \<^const>\<open>None\<close>; an error that the code returns is a value of
  an error datatype. \<^verbatim>\<open>uint32\<close> is a 32-bit word with its wrap-around, a byte an 8-bit word. Objects that
  the code reaches through several pointers live in stores indexed by addresses. A Go map is an
  association list where the code ranges over it: its order is one of the orders in which the
  range may visit the map, so a theorem for all lists holds for every order. The clock, random
  numbers, fresh ids, dialling, and what a socket answers to a write are arguments.

  A handler runs atomically; the steps of different goroutines interleave in any order. Locks
  are therefore left out, and what is not shown is the absence of data races inside a handler. The wait of up to 100 ms for
  room in a full channel (\<^verbatim>\<open>PushJobToChannelWithBackpressure\<close>) is part of such a handler: the model follows the run in
  which nobody makes room meanwhile.

  A label value of a metric that is not UTF-8 makes Prometheus panic, and nothing in the server recovers. The
  functions \<open>inc_metric\<close> and \<open>labels_ok\<close> of \<^verbatim>\<open>Server_State\<close> follow this wherever a label comes from a peer: the name of a worker and
  the name of a function. The functions of the users, in workers and in direct calls, are total HOL functions: they do not panic.

  \<^bold>\<open>The theories\<close>, and the code under src/pkg that they model:

  \<^item> \<^verbatim>\<open>Prelude\<close>: bytes, words, slices, \<^verbatim>\<open>encoding/binary\<close>, \<^verbatim>\<open>io.ReadFull\<close>, writes; the shared lemmas.
    \<^verbatim>\<open>Go_Chan\<close>: buffered channels and the contract \<open>bounded_fifo\<close> of what wraps one. \<^verbatim>\<open>Go_Utf8\<close>: which bytes are UTF-8.
  \<^item> \<^verbatim>\<open>Model_Const\<close>: model/const.go.
  \<^item> \<^verbatim>\<open>Server_IO\<close>, \<^verbatim>\<open>Client_IO\<close>, \<^verbatim>\<open>Worker_IO\<close>: the packets of server/io.go, of client/request.go and
    response.go, and of worker/request.go, response.go and function.go, with the layout of each
    packet and that each side unpacks what the other side packs. \<^verbatim>\<open>Frame_IO\<close>: the three frame readers and
    the contract \<open>framing\<close>: frames written one after the other are read back as they were written.
  \<^item> \<^verbatim>\<open>Func_Map\<close>: server/function.go, the table of functions and workers, with the invariant of its
    counters and its refinement of a map from names to lists of workers (locale \<open>worker_registry\<close>).
  \<^item> \<^verbatim>\<open>Job_Data_List\<close> and \<^verbatim>\<open>Job_List\<close>: server/joblist.go over \<^verbatim>\<open>container/list\<close>, and the linked list of
    server/job.go on a heap.
  \<^item> \<^verbatim>\<open>Server_State\<close>, \<^verbatim>\<open>Dispatch\<close>, \<^verbatim>\<open>Server_Worker\<close>, \<^verbatim>\<open>Server_Core\<close>: the objects of the server, the write side
    of a connection, the dispatch pool and the result router (optimize.go), the worker object
    (worker.go), the client object, the connections, access control and the read loop (client.go,
    connect.go, server.go, pkg/security). \<^verbatim>\<open>Server_Inv\<close> has the invariant \<open>server_inv\<close> and that every
    primitive update keeps it, \<^verbatim>\<open>Server_Steps\<close> the step relation and the reachable states,
    \<^verbatim>\<open>Server_Jobs\<close> what the handlers do to a job from the request to the result. \<^verbatim>\<open>Server_Run\<close>: the
    settings of server.go and its loop that accepts connections. \<^verbatim>\<open>Optimised\<close>: the paths of optimize.go against the
    functions that they replace. \<^verbatim>\<open>Front_Door\<close>: the routes of the gateway and the pool of connections.
  \<^item> \<^verbatim>\<open>Client_Core\<close>: client/client.go; \<^verbatim>\<open>Worker_Core\<close>: worker/worker.go and agent.go; \<^verbatim>\<open>Worker_Loop\<close>: the
    watchdog, the heartbeat and the main loop of a worker; \<^verbatim>\<open>Tracing\<close>: its spans and the binding of
    parameters (worker/response.go, pkg/trace). \<^verbatim>\<open>Call_Path\<close>: the path of a call through client,
    server and worker, leg by leg and as a whole.
  \<^item> \<^verbatim>\<open>Gateway\<close>: server/gateway.go and listener.go, the HTTP gateway over a client.
  \<^item> \<^verbatim>\<open>Registry\<close>: registry/registry.go, the instances and the scheduler that shifts weights between zones,
    and the contract of a registration (locales \<open>registration\<close> and \<open>registration_life\<close>), which the two
    clients meet: \<^verbatim>\<open>Discovery\<close> (registry/discovery) and \<^verbatim>\<open>Nmidr\<close> (registry/nmidr). \<^verbatim>\<open>Consumer\<close>:
    client/discovery.go and the calls from worker to worker of worker/response.go.
  \<^item> \<^verbatim>\<open>Sidecar\<close>: pkg/sidecar, errno and the options of model/proxy.go, the HTTP proxy over a response of the web
    framework (locale \<open>response_writer\<close>). \<^verbatim>\<open>Breaker\<close>: breaker/workerbreaker.go with its floating-point percentages.
  \<^item> \<^verbatim>\<open>Startup\<close>: pkg/conf, model/model.go, metric/server.go, \<^verbatim>\<open>SetStartUp\<close> and cmd/server/nmid.go: the
    configuration, the start and the shutdown.
  \<^item> \<^verbatim>\<open>Log_File\<close> and \<^verbatim>\<open>Logger\<close>: logger/logfile.go and logger.go, and how the etcd clients are configured;
    \<^verbatim>\<open>Thread\<close>: thread/routines.go; \<^verbatim>\<open>Health\<close>, \<^verbatim>\<open>Metrics\<close> and \<^verbatim>\<open>Dashboard_Pages\<close>: dashboard/health.go,
    metric/getmetric.go, dashboard/dashboard.go and common.go; \<^verbatim>\<open>Server_Metrics\<close>: the declarations of the metrics (pkg/metric
    and the three files metric.go) and how the updates of the server fit them, \<^verbatim>\<open>Vec_Updates\<close> the methods of the vectors; \<^verbatim>\<open>Alerts\<close>: pkg/alert and pkg/limiter;
    \<^verbatim>\<open>Utils\<close> and \<^verbatim>\<open>Utils_Net\<close>: utils/utils.go; \<^verbatim>\<open>Go_Strconv\<close>: decimal numbers of the standard library.
  \<^item> \<^verbatim>\<open>Direct\<close>: the protocol, the server and the client of pkg/direct. \<^verbatim>\<open>Conn_Pools\<close>: the two pools of
    connections, client/pool_client.go and direct/pool_client.go (locale \<open>lending_pool\<close>).
  \<^item> \<^verbatim>\<open>Scenario\<close>, \<^verbatim>\<open>Registry_Scenario\<close> and \<^verbatim>\<open>Edge_Scenario\<close>: concrete runs, on which the witnesses of the theorems below are
    evaluated.

  \<^bold>\<open>Bounds and loops.\<close> Loops over data are structural recursion. \<^verbatim>\<open>GetBestWorker\<close> starts over when it
  meets a worker whose connection is gone: the model counts its rounds down from one more than the
  number of registered workers, and \<open>best_worker\<close> (C7) shows that it always returns. \<^verbatim>\<open>getOrCreate\<close> of
  the pool of clients has fuel; more than the number of idle clients is enough (\<open>client_pool_borrows\<close>). The
  loops of job.go are partial functions whose value is \<^const>\<open>None\<close> when they do not return; on a list they
  are shown to return (C35). The endless loops of the goroutines are modelled by one round, and
  by a number of rounds where a theorem needs several.

  \<^bold>\<open>The theorems\<close> of this theory are grouped by component. First a whole call (C1): what the client
  writes makes the server queue and send a job, the worker runs the function, the server answers
  the client, and the client's handler gets the result; this is a run without other traffic, while
  the theorems on its legs and on the server hold in every reachable state, whatever else goes on.
  Then the server (invariant, dispatch, results, the optimised paths, registration, panics, accepting), the table and the
  queues, the client and the gateway, the worker, direct calls, the pools, the registries, the job
  lists, the sidecar and the breaker, starting and stopping, the log. Where the code does not do what it means to, the theorem states what it does.

  \<^bold>\<open>Not modelled:\<close> the packages that are not part of the repository: the token bucket and the lock of \<^verbatim>\<open>limiter\<close>, the
  tracer, the chat client, the circuit breaker itself, Prometheus and the web frameworks are arguments, and the
  modelled code hands data over to them. The formatting functions of \<^verbatim>\<open>logger\<close> call the logging package; the dashboard renders
  templates with the values that \<^verbatim>\<open>Dashboard_Pages\<close> computes; the start of the sidecar's servers registers its
  handlers with the framework; \<^verbatim>\<open>service\<close> has empty functions. Of the utilities hashing and the two functions that ask
  the operating system for paths are left out. The examples are not part of the library.
\<close>

section \<open>A call through the server\<close>

text \<open>C1. A call returns the result of the function. On a server with nothing on its way, one connected
  worker registered for \<open>f\<close>, room on both connections, the name of the worker and \<open>f\<close> in UTF-8, and parameters and
  result that fit a frame: the bytes that the client writes for the
  call make the read loop queue a request and the dispatch pool send a job; the worker process
  that reads the job runs its function and writes a result; the read loop queues that result and
  the result router answers the client; and when the client reads the answer, \<^verbatim>\<open>Do\<close> calls the handler once, with
  what the function returned.\<close>

theorem call_returns:
  assumes "ready_for f c w s" "client_ready cl" "f \<noteq> []" "params \<noteq> []"
    and "jb = make_job env (call_dj cl f params c s) (wid_of s w)" "serves msgpack json k jb ret wk"
    and "length f + length params + length ret + length (e_uuid env) + 64 \<le> maxFrameSize"
    and "can_write (packet (job_packet jb)) (s_conns s (sw_Connect (s_workers s w)))"
    and "can_write (packet (result_packet jb ret)) (s_conns s c)"
  shows "\<exists>cl1 s1 s2 a resp wk' s3 s4 cl2 res. Do_send f params cb WroteAll cl = Some (None, cl1)
    \<and> (\<exists>req. cl_output cl1 = cl_output cl @ req \<and> DoIO env c (arrive c req s) = Some (s1, True))
    \<and> DispatchPool_worker env s1 = Some s2
    \<and> (\<exists>job. stream (s_conns s2 (sw_Connect (s_workers s w))) = stream (s_conns s (sw_Connect (s_workers s w))) @ job
        \<and> Agent_Work msgpack json ((w_Agents wk ! k)\<lparr>ag_input := map Byte job\<rparr>) = Some (a, Some resp, True))
    \<and> handleResponse now WroteAll (k, resp) (upd_agent k a wk) = Some wk'
    \<and> (\<exists>out. ag_output (w_Agents wk' ! k) = ag_output (w_Agents wk ! k) @ out
        \<and> DoIO env (sw_Connect (s_workers s w)) (arrive (sw_Connect (s_workers s w)) out s2) = Some (s3, True))
    \<and> ResultRouter_worker env s3 = Some s4
    \<and> (\<exists>ans. stream (s_conns s4 c) = stream (s_conns s c) @ ans
        \<and> client_Do f params cb WroteAll 1 dial False (cl\<lparr>cl_input := map Byte ans\<rparr>) = Some (None, cl2))
    \<and> cl_calls cl2 = cl_calls cl @ [CallResp cb res] \<and> cr_Ret res = ret"
  using assms by (rule call_path)

theorem call_returns_witness:
  "\<exists>(s4 :: Server) ans cl2 res. stream (s_conns s4 1) = ans
    \<and> client_Do ''f'' [1, 2] () WroteAll 1 (\<lambda>_. None) False (demo_client\<lparr>cl_input := map Byte ans\<rparr>) = Some (None, cl2)
    \<and> cl_calls cl2 = [CallResp () res] \<and> cr_Ret res = [9]"
proof -
  let ?jb = "make_job demo_env (call_dj demo_client ''f'' [1, 2] 1 demo_idle) (wid_of demo_idle 0)"
  have ready: "ready_for ''f'' 1 0 demo_idle"
    using demo_idle_inv
    by (auto simp: ready_for_def demo_workers demo_pools alive_def chan_def demo_conn_sel NewConnect_obj_def)
  have cl: "client_ready demo_client" by (simp add: client_ready_def demo_client_facts)
  have sv: "serves (\<lambda>_. None) (\<lambda>_. None) 0 ?jb [9] demo_worker"
    by (simp add: serves_def demo_worker_facts make_job_def call_dj_def NewFunction_def)
  have can: "can_write (packet (job_packet ?jb)) (s_conns demo_idle (sw_Connect (s_workers demo_idle 0)))"
    "can_write (packet (result_packet ?jb [9])) (s_conns demo_idle 1)"
    by (rule demo_can_write; simp add: packet_def job_packet_def result_packet_def res_content_def get_data_content_def
        return_data_content_def make_job_def call_dj_def demo_env_def NewJobData_def server_NewRes_def)+
  have len: "length ''f'' + length [1 :: byte, 2] + length [9 :: byte] + length (e_uuid demo_env) + 64 \<le> maxFrameSize"
    by (simp add: demo_env_def)
  obtain s4 :: Server and ans cl2 res where "stream (s_conns s4 1) = stream (s_conns demo_idle 1) @ ans"
    "client_Do ''f'' [1, 2] () WroteAll 1 (\<lambda>_. None) False (demo_client\<lparr>cl_input := map Byte ans\<rparr>) = Some (None, cl2)"
    "cl_calls cl2 = cl_calls demo_client @ [CallResp () res]" "cr_Ret res = [9]"
    using call_returns [OF ready cl list.simps(3) list.simps(3) refl sv len can, of "()" 5 "\<lambda>_. None"] by blast
  then show ?thesis by (intro exI [of _ s4] exI [of _ ans] exI [of _ cl2] exI [of _ res]) (simp_all add: demo_facts demo_client_facts)
qed

text \<open>C2. What a client writes for a call that fits a frame is read by the server as one frame, and, if the
  dispatch pool is not full, the request that reaches it is the call: the same function, parameters and parameter types,
  with the identity of the client's connection.\<close>

theorem request_reaches_dispatch:
  assumes "cl_conn cl" "cl_RespHandlers cl = Some rhm" "f \<noteq> []" "params \<noteq> []"
    and "length f + length params + 16 \<le> maxFrameSize"
    and "server_inv s" "c < s_nextConn s" "c_Conn (s_conns s c)"
    and "length (dp_jobCh (s_DispatchPool s)) < 1024"
    and "c_input (s_conns s c) = map Byte (do_job_frame (cur_req cl) f params) @ i"
  shows "\<exists>cl' s'. Do_send f params cb WroteAll cl = Some (None, cl')
    \<and> cl_output cl' = cl_output cl @ do_job_frame (cur_req cl) f params
    \<and> DoIO env c s = Some (s', True)
    \<and> dp_jobCh (s_DispatchPool s') = dp_jobCh (s_DispatchPool s) @ [\<lparr>dj_handle = f, dj_params = params,
         dj_paramsType = cq_ParamsType (cur_req cl), dj_paramsHandleType = cq_ParamsHandleType (cur_req cl),
         dj_clientId = c_Id (s_conns s c), dj_connect = c\<rparr>]"
  by (rule request_leg [OF assms, of cb env]) (auto simp: call_dj_def)

theorem request_reaches_dispatch_witness:
  "\<exists>cl' s'. Do_send ''f'' [1, 2] () WroteAll demo_client = Some (None, cl')
    \<and> DoIO demo_env 1 (upd_conn 1 (\<lambda>cn. cn\<lparr>c_input := map Byte (cl_output cl')\<rparr>) demo_idle) = Some (s', True)
    \<and> map dj_params (dp_jobCh (s_DispatchPool s')) = [[1, 2]]"
  using request_reaches_dispatch [OF demo_client_facts(1,2), of "''f''" "[1, 2]"
      "upd_conn 1 (\<lambda>cn. cn\<lparr>c_input := map Byte (do_job_frame (cur_req demo_client) ''f'' [1, 2])\<rparr>) demo_idle" 1 "[]" "()" demo_env]
    inv_read [OF demo_idle_inv]
  by (auto simp: demo_conn_sel demo_pools demo_client_facts NewConnect_obj_def)

text \<open>C3. A worker that reads the packet of a job runs the function that is registered under its name
  and writes one frame: the result with the name, the parameters and the identifier of the job.\<close>

theorem job_reaches_function:
  assumes "job_small jb ret" "jd_FuncName jb \<noteq> []" "jd_Params jb \<noteq> []"
    and "length (packet (job_packet jb)) \<le> maxFrameSize"
    and "resp = worker_view msgpack json (job_packet jb)"
    and "k < length (w_Agents w)" "ag_conn (w_Agents w ! k)" "\<not> ag_cancelled (w_Agents w ! k)"
    and "ag_input (w_Agents w ! k) = map Byte (packet (job_packet jb)) @ i"
    and "GetFunction (jd_FuncName jb) w = Inr fn" "fn_Func fn resp = Some ret"
  shows "\<exists>a w'. Agent_Work msgpack json (w_Agents w ! k) = Some (a, Some resp, True)
    \<and> handleResponse now WroteAll (k, resp) (upd_agent k a w) = Some w'
    \<and> ag_output (w_Agents w' ! k) = ag_output (w_Agents w ! k)
        @ result_frame (jd_FuncName jb) (jd_Params jb) ret (jd_JobId jb)"
  by (rule job_leg [OF assms, of now]) blast

theorem job_reaches_function_witness:
  "\<exists>a resp w'. Agent_Work (\<lambda>_. None) (\<lambda>_. None) (w_Agents demo_worker ! 0) = Some (a, Some resp, True)
    \<and> handleResponse 5 WroteAll (0, resp) (upd_agent 0 a demo_worker) = Some w'
    \<and> ag_output (w_Agents w' ! 0) = result_frame ''f'' [1, 2] [9] ''j1''"
  using job_reaches_function [OF demo_job_sent(5), of "worker_view (\<lambda>_. None) (\<lambda>_. None) (job_packet demo_job)"
      "\<lambda>_. None" "\<lambda>_. None" 0 demo_worker "[]" "NewFunction (\<lambda>_. Some [9]) ''f''" 5]
  by (auto simp: demo_worker_facts demo_job_sel NewFunction_def)

text \<open>The frame of a result is read by the server and queued for the result router with the worker
  of the connection and with the name, the lengths and the result that the worker sent.\<close>

theorem result_reaches_router:
  assumes "server_inv s" "c < s_nextConn s" "c_Conn (s_conns s c)"
    and "c_input (s_conns s c) = map Byte (result_frame f params ret jobId) @ i"
    and "length f + length params + length ret + length jobId + 16 \<le> maxFrameSize"
    and "length (rr_resultCh (s_ResultRouter s)) < 1024"
  shows "\<exists>w s' dr. DoIO env c s = Some (s', True) \<and> c_RunWorker (s_conns s' c) = Some w
    \<and> rr_resultCh (s_ResultRouter s') = rr_resultCh (s_ResultRouter s) @ [dr]
    \<and> dr_sw dr = w \<and> dr_jobFunc dr = f \<and> dr_jobId dr = jobId \<and> rq_Handle (dr_req dr) = f
    \<and> rq_ParamsLen (dr_req dr) = len32 params \<and> rq_Ret (dr_req dr) = ret \<and> rq_RetLen (dr_req dr) = len32 ret"
  by (rule result_leg [OF assms, of env]) blast

theorem result_reaches_router_witness:
  "\<exists>s'. DoIO demo_env 0 (upd_conn 0 (\<lambda>cn. cn\<lparr>c_input := map Byte (result_frame ''f'' [1, 2] [9] ''j1'')\<rparr>) demo_sent)
      = Some (s', True) \<and> map (\<lambda>d. rq_Ret (dr_req d)) (rr_resultCh (s_ResultRouter s')) = [[9]]"
  using result_reaches_router [OF inv_read [OF demo_sent_inv, of 0 "map Byte (result_frame ''f'' [1, 2] [9] ''j1'')"],
      of 0 "''f''" "[1, 2]" "[9]" "''j1''" "[]" demo_env]
  by (auto simp: demo_sent_def demo_conn_sel demo_pools NewConnect_obj_def)

text \<open>C4. The packet that the server sends for a finished job makes the waiting call return: the client
  calls the handler of the function once, with the result of the job, and forgets the handler.\<close>

theorem result_reaches_caller:
  assumes "cl_conn cl" "cl_pending cl = None" "\<not> cl_ResClosed cl" "cl_RespHandlers cl = Some rhm"
    and "f \<noteq> []" "length f + length params + 28 < 2 ^ 32"
    and "jd_FuncName jb = f" "job_small jb ret" "length (packet (result_packet jb ret)) \<le> maxFrameSize"
    and "cl_input cl = map Byte (packet (result_packet jb ret)) @ i" "0 < n"
  shows "\<exists>cl' r. client_Do f params cb WroteAll n dial False cl = Some (None, cl')
    \<and> cl_calls cl' = cl_calls cl @ [CallResp cb r] \<and> cr_Ret r = ret \<and> cr_Handle r = f
    \<and> cl_RespHandlers cl' = Some (DelResHandlerMap f rhm) \<and> cl_input cl' = i"
  by (rule caller_leg [OF assms, of cb dial]) blast

theorem result_reaches_caller_witness:
  "\<exists>cl' r. client_Do ''f'' [1, 2] () WroteAll 1 (\<lambda>_. None) False
       (demo_client\<lparr>cl_input := map Byte (packet (result_packet demo_job [9]))\<rparr>) = Some (None, cl')
    \<and> cl_calls cl' = [CallResp () r] \<and> cr_Ret r = [9]"
  using result_reaches_caller [of "demo_client\<lparr>cl_input := map Byte (packet (result_packet demo_job [9]))\<rparr>" _ "''f''" "[1, 2]"
      demo_job "[9]" "[]" 1 "()" "\<lambda>_. None"] demo_job_sent(5) demo_client_facts
  by (auto simp: demo_packets demo_job_sel)

section \<open>The server\<close>

text \<open>C5. Every state that the server reaches satisfies the invariant: the write queues are within
  their bounds, the function table counts its entries and points to existing workers, workers,
  clients and connections point to each other, every queued job is in one channel only, was
  sent to the worker of that channel and knows its client, and the pools are bounded.\<close>

theorem server_invariant:
  assumes "server_reachable s"
  shows "server_inv s"
  using assms by (rule reachable_inv)

theorem server_invariant_witness:
  "server_inv (upd_conn 0 (\<lambda>cn. cn\<lparr>c_input := c_input cn @ [Byte 1]\<rparr>)
     (snd (NewConnect demo_cfg ''a:1'' (Some (''a'', ''1'')) ''c1'' [] NewServer)))"
proof (rule server_invariant)
  have "server_step NewServer (snd (NewConnect demo_cfg ''a:1'' (Some (''a'', ''1'')) ''c1'' [] NewServer))"
    by (rule server_step.accept [OF prod.collapse [symmetric]]) simp
  with server_reachable.start have "server_reachable (snd (NewConnect demo_cfg ''a:1'' (Some (''a'', ''1'')) ''c1'' [] NewServer))"
    by (rule server_reachable.step)
  then show "server_reachable (upd_conn 0 (\<lambda>cn. cn\<lparr>c_input := c_input cn @ [Byte 1]\<rparr>)
     (snd (NewConnect demo_cfg ''a:1'' (Some (''a'', ''1'')) ''c1'' [] NewServer)))"
    using server_step.arrive by (rule server_reachable.step)
qed

text \<open>C6. The dispatch pool takes the oldest request, and the job made of it, if it is small enough for a packet and
  there is room in the channel of its function and on the connection of the chosen worker, is written, as one
  packet, to that connection and to no other connection, and is put at the end of the channel. The request is then
  counted under the name of the worker and the function: if one of them is not UTF-8, the goroutine of
  the pool panics.\<close>

theorem dispatch_sends_job:
  assumes "server_inv s" "dp_jobCh (s_DispatchPool s) = d # ds"
    and s0: "s0 = s\<lparr>s_DispatchPool := (s_DispatchPool s)\<lparr>dp_jobCh := ds\<rparr>\<rparr>"
    and "GetBestWorker env (dj_handle d) s0 = Some (Some w, s1)"
    and "jb = make_job env d (wid_of s w)" "job_small jb []"
    and "length (chan s w (dj_handle d)) < 1024"
    and "can_write (packet (job_packet jb)) (s_conns s (sw_Connect (s_workers s w)))"
  shows "if valid_utf8 (sw_WorkerName (s_workers s w)) \<and> valid_utf8 (dj_handle d)
    then \<exists>s'. DispatchPool_worker env s = Some s'
      \<and> stream (s_conns s' (sw_Connect (s_workers s w)))
          = stream (s_conns s (sw_Connect (s_workers s w))) @ packet (job_packet jb)
      \<and> (\<forall>c. c \<noteq> sw_Connect (s_workers s w) \<longrightarrow> stream (s_conns s' c) = stream (s_conns s c))
      \<and> (\<forall>v g. chan s' v g = (if v = w \<and> g = dj_handle d then chan s w g @ [s_nextJob s] else chan s v g))
    else DispatchPool_worker env s = None"
  by (rule dispatch_leg [OF assms]) (simp add: inc_metric_def)

theorem dispatch_sends_job_witness:
  "\<exists>s'. DispatchPool_worker demo_env demo_asked = Some s'
    \<and> stream (s_conns s' 0) = packet (job_packet (make_job demo_env demo_dj ''c1'')) \<and> chan s' 0 ''f'' = [0]"
proof -
  let ?s0 = "demo_asked\<lparr>s_DispatchPool := (s_DispatchPool demo_asked)\<lparr>dp_jobCh := []\<rparr>\<rparr>"
  have "GetBestWorker demo_env ''f'' ?s0 = Some (Some 0, ?s0)"
    by (rule demo_best) (simp_all add: demo_facts demo_conns)
  then show ?thesis
    using dispatch_sends_job [OF demo_asked_inv demo_facts(2) refl, of demo_env 0 ?s0 "make_job demo_env demo_dj ''c1''"]
      demo_can_write [of "packet (job_packet (make_job demo_env demo_dj ''c1''))" 0]
    by (auto simp: demo_facts demo_packets)
qed

text \<open>C7. Load balancing always returns; a worker that it returns is registered for the function
  and connected. It returns none only if every worker registered for the function has the identifier of one that is
  registered and not connected: cleaning up after a worker goes by its identifier, so that a connected worker with
  the identifier of a dead one is taken out with it. If the identifiers are distinct, none is returned only if none
  is connected.\<close>

theorem best_worker:
  assumes "server_inv s"
  shows "\<exists>r s'. GetBestWorker env name s = Some (r, s') \<and> server_inv s'
    \<and> (case r of
         Some w \<Rightarrow> w \<in> set (workers_of (s_Funcs s) name) \<and> alive s w
       | None \<Rightarrow> (\<forall>w \<in> set (workers_of (s_Funcs s) name).
             \<exists>v \<in> set (workers_of (s_Funcs s) name). \<not> alive s v \<and> wid_of s v = wid_of s w)
           \<and> (inj_on (wid_of s) (set (workers_of (s_Funcs s) name))
               \<longrightarrow> (\<forall>w \<in> set (workers_of (s_Funcs s) name). \<not> alive s w)))"
proof -
  obtain r s' where "GetBestWorker env name s = Some (r, s')" "server_inv s'"
    and r: "case r of Some w \<Rightarrow> w \<in> set (workers_of (s_Funcs s) name) \<and> alive s w
      | None \<Rightarrow> (\<forall>w \<in> set (workers_of (s_Funcs s) name).
          \<exists>v \<in> set (workers_of (s_Funcs s) name). \<not> alive s v \<and> wid_of s v = wid_of s w)"
    using GetBestWorker_spec [OF assms, of env name] by blast
  moreover have "\<forall>w \<in> set (workers_of (s_Funcs s) name). \<not> alive s w"
    if "r = None" "inj_on (wid_of s) (set (workers_of (s_Funcs s) name))"
    using r that by (fastforce dest: inj_onD)
  ultimately show ?thesis by (cases r) auto
qed

theorem best_worker_witness: "\<exists>s'. GetBestWorker demo_env ''f'' demo_idle = Some (Some 0, s') \<and> server_inv s'"
  using best_worker [OF demo_idle_inv, of demo_env "''f''"]
    demo_best [OF refl refl] by (auto simp: demo_conns)

text \<open>C8. A result for the oldest job waiting in the channel of its function, if it fits a packet and there is room on the
  connection of the client of that job, is sent, as one packet, to that client and to nobody else; the job leaves
  the channel and is done. The result is then counted under the name of the worker and the function: if one of them
  is not UTF-8, the goroutine panics.\<close>

theorem result_answers_client:
  assumes "server_inv s" "chan s w f = j # js" "jb = s_jobs s j" "jd_Client jb = Some c"
    and "c_ConnType (s_conns s c) = CONN_TYPE_CLIENT"
    and "rj_FuncName rj = f" "result_for jb ret (rj_Request rj)" "job_small jb ret"
    and "can_write (packet (result_packet jb ret)) (s_conns s c)"
  shows "if valid_utf8 (sw_WorkerName (s_workers s w)) \<and> valid_utf8 f
    then \<exists>s'. returnData env w rj s = Some s'
      \<and> stream (s_conns s' c) = stream (s_conns s c) @ packet (result_packet jb ret)
      \<and> (\<forall>c'. c' \<noteq> c \<longrightarrow> s_conns s' c' = s_conns s c')
      \<and> (\<forall>v g. chan s' v g = (if v = w \<and> g = f then js else chan s v g))
      \<and> jd_status (s_jobs s' j) = JOB_STATUS_DONE \<and> jd_RetData (s_jobs s' j) = ret
    else returnData env w rj s = None"
proof (cases "valid_utf8 (sw_WorkerName (s_workers s w)) \<and> valid_utf8 f")
  case True
  show ?thesis
    unfolding if_P [OF True]
    by (rule returnData_answers [OF assms conjunct1 [OF True] conjunct2 [OF True], of env]) blast
next
  case False
  show ?thesis unfolding if_not_P [OF False] by (rule returnData_bad_label [OF assms False])
qed

theorem result_answers_client_witness:
  "\<exists>s'. returnData demo_env 0 \<lparr>rj_JobId = ''j1'', rj_FuncName = ''f'', rj_Request = demo_req\<rparr> demo_sent = Some s'
    \<and> stream (s_conns s' 1) = packet (result_packet demo_job [9]) \<and> chan s' 0 ''f'' = []"
proof -
  have "c_ConnType (s_conns demo_sent 1) = CONN_TYPE_CLIENT" "jd_Client demo_job = Some 1"
    using demo_job_sent by (simp_all add: demo_facts demo_conn_sel)
  moreover have "result_for demo_job [9] demo_req"
    by (simp add: result_for_def demo_job_def make_job_def demo_dj_def demo_req_def)
  ultimately show ?thesis
    using result_answers_client [OF demo_sent_inv demo_facts(6) demo_facts(11) [symmetric], of 1
        "\<lparr>rj_JobId = ''j1'', rj_FuncName = ''f'', rj_Request = demo_req\<rparr>" "[9]" demo_env]
      demo_can_write [of "packet (result_packet demo_job [9])" 1] demo_job_sent(5)
    by (auto simp: demo_facts demo_packets)
qed

text \<open>The identifier of the job that a worker returns is never used: a result is matched with
  the oldest waiting job of the function, whatever job it names.\<close>

theorem results_ignore_job_id: "returnData env w (rj\<lparr>rj_JobId := i\<rparr>) s = returnData env w rj s"
  by (rule returnData_ignores_JobId)

text \<open>C9. The optimised paths compute what the original functions compute. With nothing queued, a frame of a client whose
  request is malformed or finds a worker with room, followed by one round of the dispatch pool, changes the server as
  the function it replaces does at once; a frame of a worker, followed by a round of the result router,
  changes it as the original handler followed by a round of the worker's own goroutine does. A panic of one is a panic
  of the other.\<close>

theorem optimised_equals_original:
  assumes "dp_jobCh (s_DispatchPool s) = []" "0 < DispatchPool_cap (s_DispatchPool s)"
    and "rr_resultCh (s_ResultRouter s) = []" "0 < ResultRouter_cap (s_ResultRouter s)" "sw_Results (s_workers s w) = []"
    and "\<And>cl s0. decode_client_req c s = Some (cl, s0) \<Longrightarrow>
      malformed (sc_Req cl) \<or> (\<exists>w s2. GetBestWorker env (rq_Handle (sc_Req cl)) s0 = Some (Some w, s2)
        \<and> has_room (rq_Handle (sc_Req cl)) (s_workers s2 w))"
  shows "do { s1 \<leftarrow> RunClientOptimized c s; DispatchPool_worker env s1 } = SClient_RunClient env c s
    \<and> do { s1 \<leftarrow> RunWorkerOptimized env w data s; ResultRouter_worker env s1 }
      = do { s1 \<leftarrow> SWorker_RunWorker env w data s; processResults env w s1 }"
  using client_frames_equal [where c = c and env = env, OF assms(1,2,6)] worker_frames_equal [OF assms(3-5)] by blast

theorem optimised_equals_original_witness:
  "do { s1 \<leftarrow> RunClientOptimized 1 demo_asking; DispatchPool_worker demo_env s1 } = SClient_RunClient demo_env 1 demo_asking"
  using optimised_equals_original [of demo_asking 0 1 demo_env "[]"] demo_asking_found by (simp add: demo_pools)

text \<open>C10. The read loop survives a request frame of a client with a non-empty payload exactly if the length of the handle
  that it announces fits the payload; otherwise \<^verbatim>\<open>ReqDecodePack\<close> panics.\<close>

theorem client_frame_panics:
  assumes "server_inv s" "c < s_nextConn s" "c_Conn (s_conns s c)"
    and "c_input (s_conns s c) = map Byte (frame_bytes (CONN_TYPE_CLIENT, PDT_C_DO_JOB, p)) @ i"
    and "p \<noteq> []" "length p \<le> maxFrameSize"
  shows "DoIO env c s = None \<longleftrightarrow> \<not> do_job_wf p"
proof -
  let ?s = "upd_conn c (\<lambda>cn. cn\<lparr>c_input := i\<rparr>) s"
  have i: "server_inv ?s" using assms(1) by (rule inv_read)
  have "DoIO env c s = map_option (\<lambda>s. (s, True)) (frame_read env c (CONN_TYPE_CLIENT, PDT_C_DO_JOB, p) ?s)"
    using assms(3,4,6) by (intro DoIO_frame) (simp_all add: server_frame_ok_def)
  moreover have "frame_read env c (CONN_TYPE_CLIENT, PDT_C_DO_JOB, p) ?s = None \<longleftrightarrow> \<not> do_job_wf p"
    using assms(2,5,6) by (intro frame_read_do_job_panics [OF i]) simp_all
  ultimately show ?thesis by (simp del: PDT_C_DO_JOB_def CONN_TYPE_CLIENT_def)
qed

theorem client_frame_panics_witness:
  "DoIO demo_env 1 (upd_conn 1 (\<lambda>cn. cn\<lparr>c_input := map Byte (frame_bytes (CONN_TYPE_CLIENT, PDT_C_DO_JOB, [0]))\<rparr>) demo_idle)
   = None"
  by (subst client_frame_panics [OF inv_read [OF demo_idle_inv], where p = "[0]" and i = "[]"])
    (simp_all add: demo_conn_sel NewConnect_obj_def do_job_wf_def)

text \<open>Likewise for the result frame of a worker.\<close>

theorem worker_frame_panics:
  assumes "server_inv s" "c < s_nextConn s" "c_Conn (s_conns s c)"
    and "c_input (s_conns s c) = map Byte (frame_bytes (CONN_TYPE_WORKER, PDT_W_RETURN_DATA, p)) @ i"
    and "p \<noteq> []" "length p \<le> maxFrameSize" "length (rr_resultCh (s_ResultRouter s)) < 1024"
  shows "DoIO env c s = None \<longleftrightarrow> \<not> return_data_wf p"
proof -
  let ?s = "upd_conn c (\<lambda>cn. cn\<lparr>c_input := i\<rparr>) s"
  have i: "server_inv ?s" using assms(1) by (rule inv_read)
  have "DoIO env c s = map_option (\<lambda>s. (s, True)) (frame_read env c (CONN_TYPE_WORKER, PDT_W_RETURN_DATA, p) ?s)"
    using assms(3,4,6) by (intro DoIO_frame) (simp_all add: server_frame_ok_def)
  moreover have "frame_read env c (CONN_TYPE_WORKER, PDT_W_RETURN_DATA, p) ?s = None \<longleftrightarrow> \<not> return_data_wf p"
    using assms(2,5,6,7) by (intro frame_read_return_data_panics [OF i]) simp_all
  ultimately show ?thesis by (simp del: PDT_W_RETURN_DATA_def CONN_TYPE_WORKER_def)
qed

theorem worker_frame_panics_witness:
  "DoIO demo_env 0 (upd_conn 0 (\<lambda>cn. cn\<lparr>c_input := map Byte (frame_bytes (CONN_TYPE_WORKER, PDT_W_RETURN_DATA, [0]))\<rparr>) demo_idle)
   = None"
  by (subst worker_frame_panics [OF inv_read [OF demo_idle_inv], where p = "[0]" and i = "[]"])
    (simp_all add: demo_conn_sel NewConnect_obj_def return_data_wf_def demo_pools)

text \<open>C11. A frame that announces a function with a non-empty name registers the worker of the connection for it, at the
  end of the workers of the function, and is answered with \<^verbatim>\<open>PDT_OK\<close>, if there is room on the connection and the labels of the
  gauges that it raises are UTF-8: the identifier and address of the connection, the name of the worker, the
  function and the time. If one of them is not, the read loop panics, and the server with it; the name of
  the worker and that of the function are whatever bytes the peer has sent.\<close>

theorem worker_registers:
  assumes "server_inv s" "c < s_nextConn s" "c_Conn (s_conns s c)"
    and "c_input (s_conns s c) = map Byte (frame_bytes (CONN_TYPE_WORKER, PDT_W_ADD_FUNC, p)) @ i"
    and "p \<noteq> []" "length p \<le> maxFrameSize" "can_write (header CONN_TYPE_SERVER PDT_OK []) (s_conns s c)"
  shows "if list_all valid_utf8 (announce_labels env c p s)
    then \<exists>w s'. DoIO env c s = Some (s', True) \<and> sw_Connect (s_workers s' w) = c
      \<and> c_RunWorker (s_conns s' c) = Some w
      \<and> workers_of (s_Funcs s') (gostring p) = workers_of (s_Funcs s) (gostring p) @ [w]
      \<and> stream (s_conns s' c) = stream (s_conns s c) @ header CONN_TYPE_SERVER PDT_OK []
    else DoIO env c s = None"
proof -
  obtain w s2 s' where "DoIO env c s
      = (if list_all valid_utf8 (announce_labels env c p s) then Some (s', True) else None)"
    "worker_ready c w (upd_conn c (\<lambda>cn. cn\<lparr>c_input := i\<rparr>) s) s2" "s_workers s' = s_workers s2" "conn_idle (s_conns s2 c) (s_conns s' c)"
    "workers_of (s_Funcs s') (gostring p) = workers_of (s_Funcs s) (gostring p) @ [w]"
    "stream (s_conns s' c) = stream (s_conns s c) @ header CONN_TYPE_SERVER PDT_OK []"
    by (rule DoIO_add_func [OF assms, of env], rule that) blast+
  then show ?thesis by (auto simp: worker_ready_def conn_idle_def)
qed

theorem worker_registers_witness:
  "(\<exists>w s'. DoIO demo_env 0 (demo_announcing (gobytes ''g'')) = Some (s', True) \<and> workers_of (s_Funcs s') ''g'' = [w])
    \<and> DoIO demo_env 0 (demo_announcing [255]) = None"
  using worker_registers [OF demo_announcing_facts(1-3), of "gobytes ''g''" "gobytes ''g''" "[]" demo_env]
    worker_registers [OF demo_announcing_facts(1-3), of "[255]" "[255]" "[]" demo_env] demo_announcing_ok demo_not_utf8
  by (auto simp: demo_announcing_facts)

text \<open>C12. At the end of a worker's input the read loop ends, the socket is closed, and the worker is
  no longer registered for any function (if its identifier is registered at most twice for each).\<close>

theorem worker_leaves:
  assumes "server_inv s" "c < s_nextConn s" "c_Conn (s_conns s c)" "c_input (s_conns s c) = []"
    and "c_ConnType (s_conns s c) = CONN_TYPE_WORKER" "c_RunWorker (s_conns s c) = Some w"
    and "\<forall>n. length (filter (\<lambda>v. wid_of s v = c_Id (s_conns s c)) (workers_of (s_Funcs s) n)) \<le> 2"
  shows "\<exists>s'. DoIO env c s = Some (s', False) \<and> \<not> c_Conn (s_conns s' c) \<and> c_closed (s_conns s' c)
    \<and> (\<forall>n. workers_of (s_Funcs s') n = filter (\<lambda>v. wid_of s v \<noteq> c_Id (s_conns s c)) (workers_of (s_Funcs s) n))"
proof -
  obtain s' where s': "DoIO env c s = Some (s', False)" "\<not> c_Conn (s_conns s' c)" "c_closed (s_conns s' c)"
    "\<And>n. workers_of (s_Funcs s') n = remove_first (\<lambda>v. wid_of s v = c_Id (s_conns s c))
       (remove_first (\<lambda>v. wid_of s v = c_Id (s_conns s c)) (workers_of (s_Funcs s) n))"
    by (rule DoIO_worker_eof [OF assms(1-6), of env]) blast
  moreover have "workers_of (s_Funcs s') n = filter (\<lambda>v. wid_of s v \<noteq> c_Id (s_conns s c)) (workers_of (s_Funcs s) n)" for n
    unfolding s'(4) by (rule remove_first_twice) (use assms(7) in blast)
  ultimately show ?thesis by blast
qed

theorem worker_leaves_witness:
  "\<exists>s'. DoIO demo_env 0 demo_idle = Some (s', False) \<and> workers_of (s_Funcs s') ''f'' = []"
proof -
  have "\<forall>n. length (filter (\<lambda>v. wid_of demo_idle v = c_Id (s_conns demo_idle 0)) (workers_of (s_Funcs demo_idle) n)) \<le> 2"
    by (simp add: demo_workers)
  then show ?thesis
    using worker_leaves [OF demo_idle_inv, of 0 0 demo_env]
    by (auto simp: demo_conn_sel NewConnect_obj_def demo_workers wid_of_def)
qed

text \<open>C13. The dashboard goes on counting a worker that has left. The gauge of the functions of a worker has the time of the
  update among its labels and is not lowered when the connection ends: if a worker announces a function and, at another time, its
  input ends, then its connection is closed and no worker belongs to it; but whatever Prometheus gathers then, the
  name that the worker had is among the active names, whose number is the number of workers that the dashboard
  shows. (The labels are UTF-8, there is room on the connection for the answer, and the gauge was not below 0 before.)\<close>

theorem left_worker_counted:
  assumes "server_inv s" "c < s_nextConn s" "c_Conn (s_conns s c)"
    and "c_input (s_conns s c) = map Byte (frame_bytes (CONN_TYPE_WORKER, PDT_W_ADD_FUNC, p))"
    and "p \<noteq> []" "length p \<le> maxFrameSize" "can_write (header CONN_TYPE_SERVER PDT_OK []) (s_conns s c)"
    and "list_all valid_utf8 (announce_labels env c p s)"
    and "0 \<le> series (s_Metrics s) ''WorkerFuncCount'' (announce_labels env c p s)" "e_timeStr env \<noteq> e_timeStr env'"
  shows "\<exists>s1 s2. DoIO env c s = Some (s1, True) \<and> DoIO env' c s1 = Some (s2, False)
    \<and> c_closed (s_conns s2 c) \<and> c_RunWorker (s_conns s2 c) = None
    \<and> (\<forall>mfs. gathered WorkerFuncCount (s_Metrics s2) mfs \<longrightarrow>
        worker_name_at c s \<in> active_names (metrics_of ''nmid_server_worker_func_count'' mfs)
        \<and> fst (snd (GetDiscoveryWorkerFuncNum mfs)) = card (active_names (metrics_of ''nmid_server_worker_func_count'' mfs))
        \<and> 0 < fst (snd (GetDiscoveryWorkerFuncNum mfs)))"
proof -
  have input: "c_input (s_conns s c) = map Byte (frame_bytes (CONN_TYPE_WORKER, PDT_W_ADD_FUNC, p)) @ []"
    using assms(4) by simp
  obtain w t s1 where s1: "DoIO env c s = (if list_all valid_utf8 (announce_labels env c p s) then Some (s1, True) else None)"
    "worker_ready c w (upd_conn c (\<lambda>cn. cn\<lparr>c_input := []\<rparr>) s) t" "conn_idle (s_conns t c) (s_conns s1 c)"
    "s_nextConn s1 = s_nextConn s" "s_Metrics s1 = s_Metrics s @ announce_metrics env c p s"
    by (rule DoIO_add_func [OF assms(1-3) input assms(5-7), of env], rule that) blast+
  have io: "DoIO env c s = Some (s1, True)" using s1(1) assms(8) by simp
  have i1: "server_inv s1" and c1: "c < s_nextConn s1"
    using server_step_inv [OF server_step.io [OF assms(2) io] assms(1)] assms(2) s1(4) by simp_all
  obtain s2 where s2: "DoIO env' c s1 = Some (s2, False)" "c_RunWorker (s_conns s2 c) = None" "c_closed (s_conns s2 c)"
    by (rule DoIO_worker_eof [OF i1 c1, of w env'])
      (use s1(2,3) assms(3) in \<open>auto simp: worker_ready_def conn_idle_def\<close>)
  have "0 < series (s_Metrics s1) ''WorkerFuncCount'' (announce_labels env c p s)"
    using assms(9) by (simp add: s1(5) announce_series)
  then show ?thesis
    using io s2 left_worker_shown [OF s2(1) assms(10)] by (auto simp: announce_labels_def worker_num_eq)
qed

theorem left_worker_counted_witness:
  "\<exists>s1 s2. DoIO (demo_env\<lparr>e_timeStr := ''t0''\<rparr>) 0 (demo_announcing (gobytes ''g'')) = Some (s1, True)
    \<and> DoIO demo_env 0 s1 = Some (s2, False) \<and> c_RunWorker (s_conns s2 0) = None"
  using left_worker_counted [OF demo_announcing_facts(1-4) [of "gobytes ''g''"] demo_announcing_ok(1-3),
      of "demo_env\<lparr>e_timeStr := ''t0''\<rparr>" demo_env] demo_announcing_ok
  by (auto simp: demo_announcing_facts demo_env_def)

text \<open>C14. The accept loop starts one read loop for every peer that the two access lists admit, in the order in
  which they connect and on connections that were not used before; it goes on after failed accepts
  and refused peers and ends only at a timeout or when the listener is closed; and every state on
  the way is reachable, so that the invariant holds in it.\<close>

theorem server_accepts:
  assumes "server_reachable s" "accept_loop cfg as s = (cs, s', goes_on)"
    and "\<forall>ad hp cid i. Accepted ad hp cid i \<in> set as \<longrightarrow> cid \<noteq> []"
  shows "server_reachable s'
    \<and> map (\<lambda>c. (c_Ip (s_conns s' c), c_Port (s_conns s' c))) cs = served_peers cfg as
    \<and> distinct cs \<and> (\<forall>c \<in> set cs. s_nextConn s \<le> c) \<and> (\<forall>c < s_nextConn s. s_conns s' c = s_conns s c)
    \<and> (goes_on \<longleftrightarrow> AcceptTimeout \<notin> set as \<and> AcceptClosed \<notin> set as)"
proof -
  have "goes_on \<longleftrightarrow> AcceptTimeout \<notin> set as \<and> AcceptClosed \<notin> set as"
    using accept_loop_runs [of cfg as s] assms(2) by auto
  then show ?thesis
    using accept_loop_conns [OF assms(2)] accept_loop_steps [OF assms(2,1,3)] by auto
qed

theorem server_accepts_witness:
  "\<exists>s'. accept_loop demo_cfg [AcceptError, Accepted ''a:1'' (Some (''a'', ''1'')) ''c1'' [], AcceptClosed] NewServer = ([0], s', False)
    \<and> server_reachable s' \<and> c_Ip (s_conns s' 0) = ''a''"
proof -
  obtain cs s' b where l: "accept_loop demo_cfg [AcceptError, Accepted ''a:1'' (Some (''a'', ''1'')) ''c1'' [], AcceptClosed] NewServer
      = (cs, s', b)" by (rule prod_cases3)
  have "cs = [0]" using l by (auto simp: NewConnect_def demo_cfg_def demo_list_def NewServer_def)
  then show ?thesis
    using server_accepts [OF server_reachable.start l] l by (auto simp: admitted_def demo_cfg_def demo_list_def)
qed

section \<open>The function table\<close>

text \<open>C15. The function table implements a map from function names to lists of workers: adding appends
  the worker, deleting takes one registration of the identifier out, for one function or for all of
  them, whichever of the two loops does it; the counters stay those of the lists.\<close>

theorem function_table_refines:
  assumes "fm_inv fm"
  shows "fm_inv (snd (AddFunc worker n fm)) \<and> fm_inv (snd (DelWorkerFunc wid i n fm))
    \<and> fm_inv (snd (CleanWorkerFunc wid i fm)) \<and> fm_inv (snd (DelWorker wid i fm)) \<and> fm_inv (snd (DelAllFunc n fm))
    \<and> (\<forall>w m. n \<noteq> [] \<longrightarrow> workers_of (snd (AddFunc (Some w) n fm)) m = (if m = n then workers_of fm n @ [w] else workers_of fm m))
    \<and> (\<forall>m. workers_of (snd (DelWorkerFunc wid i n fm)) m
         = (if m = n then remove_first (\<lambda>w. wid w = i) (workers_of fm n) else workers_of fm m))
    \<and> (fst (DelWorkerFunc wid i n fm) \<longleftrightarrow> (\<exists>w \<in> set (workers_of fm n). wid w = i))
    \<and> (\<forall>m. workers_of (snd (CleanWorkerFunc wid i fm)) m = remove_first (\<lambda>w. wid w = i) (workers_of fm m))
    \<and> (\<forall>m. workers_of (snd (DelWorker wid i fm)) m = remove_first (\<lambda>w. wid w = i) (workers_of fm m))
    \<and> (\<forall>m. workers_of (snd (DelAllFunc n fm)) m = (if m = n then [] else workers_of fm m))"
  using assms
  by (simp add: AddFunc_inv DelWorkerFunc_inv CleanWorkerFunc_inv DelWorker_inv DelAllFunc_inv AddFunc_workers
      DelWorkerFunc_workers DelWorkerFunc_result CleanWorkerFunc_workers DelWorker_workers DelAllFunc_workers)

theorem function_table_refines_witness:
  "workers_of (snd (DelWorkerFunc (\<lambda>_. ''c1'') ''c1'' ''f'' (s_Funcs demo_idle))) ''f'' = []"
  using function_table_refines [OF demo_funcs(1), of None "''f''" "\<lambda>_. ''c1''" "''c1''"] by (simp add: demo_workers)

text \<open>Cleaning a worker that is registered at most once per function removes it from every function
  and leaves the registrations of the others, in their order.\<close>

theorem clean_worker:
  assumes "fm_inv fm" "\<forall>n. length (filter (\<lambda>w. wid w = i) (workers_of fm n)) \<le> 1"
  shows "\<forall>n. workers_of (snd (CleanWorkerFunc wid i fm)) n = filter (\<lambda>w. wid w \<noteq> i) (workers_of fm n)"
proof
  fix n
  have "filter (\<lambda>w. wid w \<noteq> i) (workers_of (snd (CleanWorkerFunc wid i fm)) n)
      = workers_of (snd (CleanWorkerFunc wid i fm)) n"
    using fr.clean_gone [OF assms] by (auto simp: filter_id_conv)
  with fr.clean_others [OF assms(1), of wid i n]
  show "workers_of (snd (CleanWorkerFunc wid i fm)) n = filter (\<lambda>w. wid w \<noteq> i) (workers_of fm n)" by simp
qed

theorem clean_worker_witness:
  "workers_of (snd (CleanWorkerFunc (\<lambda>_. ''c1'') ''c1'' (s_Funcs demo_idle))) ''f'' = []"
  using clean_worker [OF demo_funcs(1), of "\<lambda>_. ''c1''" "''c1''"] by (simp add: demo_workers)

section \<open>Connections, pools and frames\<close>



text \<open>C17. What reaches the socket is what was written, in order and once: a successful write appends its
  packet to the output followed by the queue, and the write loop moves bytes from one to the other.\<close>

theorem writes_in_order:
  assumes "c_Conn c" "can_write p c" "p \<noteq> []"
  shows "fst (Connect_Write p c) = None \<and> stream (snd (Connect_Write p c)) = stream c @ p
    \<and> stream (fst (writeLoop_write WroteAll c)) = stream c \<and> snd (writeLoop_write WroteAll c)"
  using assms Connect_Write_ok [OF assms(2,3)] Connect_Write_stream [of p c] writeLoop_write_stream [OF assms(1)] by simp

theorem writes_in_order_witness:
  "stream (snd (Connect_Write [1] (NewConnect_obj ''c1'' [] [] [] []))) = [1]"
  using writes_in_order [of "NewConnect_obj ''c1'' [] [] [] []" "[1]"]
  by (simp add: NewConnect_obj_def can_write_def stream_def)

text \<open>The dispatch pool is a bounded queue: over any sequence of submissions and rounds, the requests
  run, followed by those waiting, are those that were waiting followed by those accepted; at most 1024 wait.\<close>

theorem dispatch_pool_fifo:
  assumes "run_ops DispatchPool_Submit DispatchPool_take ops dp = (accepted, taken, dp')"
    and "length (dp_jobCh dp) \<le> DispatchPool_cap dp"
  shows "taken @ dp_jobCh dp' = dp_jobCh dp @ accepted \<and> length (dp_jobCh dp') \<le> DispatchPool_cap dp'"
  using dpf.fifo [OF assms(1)] dpf.bounded [OF assms] by simp

theorem dispatch_pool_fifo_witness:
  "\<exists>accepted taken dp'. run_ops DispatchPool_Submit DispatchPool_take [Send demo_dj, Recv] GetDispatchPool = (accepted, taken, dp')
    \<and> taken @ dp_jobCh dp' = accepted"
proof -
  obtain a t dp' where "run_ops DispatchPool_Submit DispatchPool_take [Send demo_dj, Recv] GetDispatchPool = (a, t, dp')"
    using prod_cases3 by blast
  then show ?thesis using dispatch_pool_fifo [of "[Send demo_dj, Recv]" GetDispatchPool a t dp'] by (simp add: demo_pools)
qed

text \<open>C18. A sequence of frames of at most 32 MiB each, written one after the other, is read back frame by
  frame, and the reader stops exactly behind them.\<close>

theorem frames_roundtrip:
  assumes "\<forall>f \<in> set fs. server_frame_ok f"
  shows "read_many (server_ReadFrame False) (length fs) (map Byte (concat (map frame_bytes fs)) @ i) = (Inr fs, i)"
  using assms by (rule sf.read_many_enc)

theorem frames_roundtrip_witness:
  "read_many (server_ReadFrame False) (Suc (Suc 0)) (map Byte (concat (map frame_bytes [(3, 16, [1]), (2, 13, [])]))) = (Inr [(3, 16, [1]), (2, 13, [])], [])"
  using frames_roundtrip [of "[(3, 16, [1]), (2, 13, [])]" "[]"] by (simp add: server_frame_ok_def)

text \<open>C19. Whatever bytes arrive: a packet that decodes gives a response whose length fields are the lengths of its
  fields, in the client and in the worker.\<close>

theorem decoded_lengths:
  assumes "client_DecodePack data = Some (Inr r)" "worker_DecodePack msgpack json data' = Some (Inr q)"
  shows "unat (cr_HandleLen r) = length (cr_Handle r) \<and> unat (cr_ParamsLen r) = length (cr_Params r)
    \<and> unat (cr_RetLen r) = length (cr_Ret r) \<and> unat (cr_DataLen r) = length (cr_Data r)
    \<and> unat (wr_HandleLen q) = length (wr_Handle q) \<and> unat (wr_ParamsLen q) = length (wr_Params q)
    \<and> unat (wr_JobIdLen q) = length (wr_JobId q) \<and> unat (wr_DataLen q) = length (wr_Data q)"
  using client_DecodePack_lengths [OF assms(1)] worker_DecodePack_lengths [OF assms(2)] by simp

theorem decoded_lengths_witness:
  "\<exists>r (q :: unit WResponse). client_DecodePack (packet (result_packet demo_job [9])) = Some (Inr r)
    \<and> worker_DecodePack (\<lambda>_. None) (\<lambda>_. None) (packet (job_packet demo_job)) = Some (Inr q)
    \<and> unat (cr_RetLen r) = length (cr_Ret r) \<and> cr_Ret r = [9] \<and> unat (wr_DataLen q) = length (wr_Data q)"
proof -
  let ?m = "\<lambda>_. None :: unit option"
  have "res_sized (result_packet demo_job [9])" "res_sized (job_packet demo_job)"
    by (simp_all add: res_sized_def result_packet_def job_packet_def demo_job_def make_job_def demo_dj_def demo_env_def
      NewJobData_def server_NewRes_def)
  then have d: "client_DecodePack (packet (result_packet demo_job [9])) = Some (Inr (client_view (result_packet demo_job [9])))"
    "worker_DecodePack ?m ?m (packet (job_packet demo_job)) = Some (Inr (worker_view ?m ?m (job_packet demo_job)))"
    by (simp_all add: client_DecodePack_return_data worker_DecodePack_get_data result_packet_def job_packet_def)
  show ?thesis using d decoded_lengths [OF d] by (simp add: client_view_def result_packet_def client_NewRes_def)
qed

text \<open>Whatever the peer sends, a reader of the client or the worker never accepts a packet of more than
  32 MiB and its header, and consumes exactly the bytes of the packet that it returns.\<close>

theorem frames_bounded:
  assumes "client_ReadFrame connNil i = (Inr b, i') \<or> agent_ReadFrame connNil i = (Inr b, i')"
  shows "12 \<le> length b \<and> length b \<le> 12 + maxFrameSize \<and> length i = length b + length i'"
  using peer_ReadFrame_sound [OF assms] by simp

theorem frames_bounded_witness:
  "length (header CONN_TYPE_SERVER PDT_OK []) \<le> 12 + maxFrameSize"
proof -
  have "peer_frame_ok (packet (server_NewRes\<lparr>rs_DataType := PDT_OK\<rparr>))"
    by (rule packet_peer_frame_ok) (simp add: res_content_def)
  then have "client_ReadFrame False (map Byte (header CONN_TYPE_SERVER PDT_OK []) @ []) = (Inr (header CONN_TYPE_SERVER PDT_OK []), [])"
    using peer_ReadFrame_enc(1) [of "header CONN_TYPE_SERVER PDT_OK []" "[]"] packet_plain [of "server_NewRes\<lparr>rs_DataType := PDT_OK\<rparr>"] by simp
  with frames_bounded [of False _ "header CONN_TYPE_SERVER PDT_OK []" "[]"] show ?thesis by blast
qed

text \<open>With the black list enabled (and the white list off), the server refuses exactly the addresses
  that are \<^emph>\<open>not\<close> on the black list.\<close>

theorem black_list_inverted:
  assumes "il_Enable (cfg_BlackList cfg)" "\<not> il_Enable (cfg_WhiteList cfg)"
  shows "fst (NewConnect cfg ad (Some (ip, port)) cid i s) = None \<longleftrightarrow>
    \<not> il_List (cfg_BlackList cfg) ip \<and> (\<forall>m \<in> set (il_ListMask (cfg_BlackList cfg)). cfg_contains cfg m ip \<noteq> Some True)"
proof -
  have "mask_loop con ip ms \<longleftrightarrow> (\<exists>m \<in> set ms. con m ip = Some True)" for con ms
    by (induction ms) (auto split: option.splits bool.splits)
  then show ?thesis using assms by (auto simp: NewConnect_def DoBlackList_def)
qed

theorem black_list_inverted_witness:
  "fst (NewConnect (demo_cfg\<lparr>cfg_BlackList := \<lparr>il_Enable = True, il_List = (\<lambda>ip. ip = ''6.6.6.6''), il_ListMask = []\<rparr>\<rparr>)
     ''1.1.1.1:5'' (Some (''1.1.1.1'', ''5'')) ''c1'' [] NewServer) = None"
  using black_list_inverted [of "demo_cfg\<lparr>cfg_BlackList := \<lparr>il_Enable = True, il_List = (\<lambda>ip. ip = ''6.6.6.6''), il_ListMask = []\<rparr>\<rparr>"
      "''1.1.1.1:5''" "''1.1.1.1''" "''5''" "''c1''" "[]" NewServer]
  by (simp add: demo_cfg_def demo_list_def)

text \<open>A refused address gets no connection; it is counted and reported with the zone that the services gave for it.\<close>

theorem refused_address_reported:
  assumes "il_Enable (cfg_WhiteList cfg)" "\<not> DoWhiteList cfg ip" "zone = GetIPZone http unjson decode mapkey ip"
    and "cfg_zone cfg ip = zone_labels zone" "dg_ding a = Some d"
  shows "NewConnect cfg ad (Some (ip, port)) cid i s = (None, add_metric (Metric ''ThreatIpCount'' (ip # zone_labels zone) 1) s)
    \<and> dg_calls (fst (threat_ip mk t ''not in whitelist'' ip zone a)) = dg_calls a @ [(d, SendMarkDownMessageBySlice ''threat ip''
        (markdown_lines mk t ''WARNING'' ''threat ip'' (''not in whitelist ip '' @ ip @ '', ip zone '' @ zi_Zone zone)) [WithAtAll])]"
  using assms by (simp add: NewConnect_def threat_ip_def SendMarkDownAtAll_on DWARNING_def)

section \<open>The client and the gateway\<close>

text \<open>C20. The response of a call that had timed out is taken for the response of the next call: that call
  returns at once, having called the handler of the earlier function and not its own.\<close>

theorem stale_response:
  assumes "cl_conn c" "\<not> cl_ResClosed c" "cl_RespHandlers c = Some rhm"
    and "cl_pending c = Some r" "cr_DataType r = PDT_S_RETURN_DATA" "cr_Handle r = g" "cr_HandleLen r \<noteq> 0"
    and "g \<noteq> []" "g \<noteq> f" "rhm g = Some cb_old" "length f + length params + 28 < 2 ^ 32"
  shows "\<exists>c'. client_Do f params cb WroteAll n dial False c = Some (None, c')
    \<and> cl_calls c' = cl_calls c @ [CallResp cb_old r] \<and> cl_RespHandlers c' = Some (rhm(f \<mapsto> cb, g := None))"
  by (rule client_Do_stale [OF assms, of cb n dial]) auto

theorem stale_response_witness:
  "\<exists>c'. client_Do ''f'' [1] True WroteAll 0 (\<lambda>_. None) False
       ((NewClient 30 ''tcp'' ''s:1'')\<lparr>cl_conn := True, cl_RespHandlers := Some [''g'' \<mapsto> False],
          cl_pending := Some (client_NewRes\<lparr>cr_DataType := PDT_S_RETURN_DATA, cr_Handle := ''g'', cr_HandleLen := 1\<rparr>)\<rparr>) = Some (None, c')
     \<and> length (cl_calls c') = 1"
  using stale_response [of "(NewClient 30 ''tcp'' ''s:1'')\<lparr>cl_conn := True, cl_RespHandlers := Some [''g'' \<mapsto> False],
          cl_pending := Some (client_NewRes\<lparr>cr_DataType := PDT_S_RETURN_DATA, cr_Handle := ''g'', cr_HandleLen := 1\<rparr>)\<rparr>"
      "[''g'' \<mapsto> False]" _ "''g''" "''f''" False "[1]" True 0 "\<lambda>_. None"]
  by (auto simp: NewClient_def)

text \<open>C21. When the connection ends, the read loop closes the client and dials again; the new connection has
  no table of handlers, so the next call panics.\<close>

theorem call_after_reconnect_panics:
  assumes "cl_conn c" "cl_pending c = None" "\<not> cl_ResClosed c" "cl_RespHandlers c \<noteq> None" "cl_input c = []"
  shows "\<exists>c'. ClientRead (Some i) c = Some (c', True) \<and> cl_conn c'
    \<and> client_Do f params cb ans n dial t c' = None"
  using ClientRead_reconnect [OF assms, of i]
    Do_after_reconnect_panics [of "c\<lparr>cl_input := i, cl_RespHandlers := None\<rparr>" f params cb ans n dial t] assms(1)
  by simp

theorem call_after_reconnect_panics_witness:
  "\<exists>c'. ClientRead (Some []) demo_client = Some (c', True) \<and> client_Do ''f'' [1] () WroteAll 1 (\<lambda>_. None) False c' = None"
  using call_after_reconnect_panics [of demo_client "[]" "''f''" "[1]" "()" WroteAll 1 "\<lambda>_. None" False] demo_client_facts
  by (auto simp: demo_client_def NewClient_def)

text \<open>When the server answers a call with an error, no worker or the rate limit, the call returns and
  the error handler is called with the error of that answer.\<close>

theorem call_reports_error:
  assumes "cl_conn c" "cl_pending c = None" "\<not> cl_ResClosed c" "cl_RespHandlers c = Some rhm" "cl_ErrHandler c"
    and "length f + length params + 28 < 2 ^ 32" "dt \<in> {PDT_ERROR, PDT_CANT_DO, PDT_RATELIMIT}"
    and "cl_input c = map Byte (header CONN_TYPE_SERVER dt []) @ i" "0 < n"
  shows "\<exists>c'. client_Do f params cb WroteAll n dial False c = Some (None, c')
    \<and> cl_calls c' = cl_calls c @ [CallErr (GetResError (client_NewRes\<lparr>cr_DataType := dt\<rparr>))]"
  by (rule client_Do_error [OF assms, of cb dial]) auto

theorem call_reports_error_witness:
  "\<exists>c'. client_Do ''f'' [1] () WroteAll 1 (\<lambda>_. None) False
       (demo_client\<lparr>cl_ErrHandler := True, cl_input := map Byte (header CONN_TYPE_SERVER PDT_CANT_DO [])\<rparr>) = Some (None, c')
     \<and> length (cl_calls c') = 1"
  using call_reports_error [of "demo_client\<lparr>cl_ErrHandler := True, cl_input := map Byte (header CONN_TYPE_SERVER PDT_CANT_DO [])\<rparr>"
      NewResHandlerMap "''f''" "[1]" PDT_CANT_DO "[]" 1 "()" "\<lambda>_. None"]
  by (auto simp: demo_client_facts)

text \<open>C22. The HTTP gateway sends the request of the caller as a call to the server and answers with the data of the
  result, or with the message of a result whose code is not zero (with status 200).\<close>

theorem gateway_answers:
  assumes "ce_dial ce = Some (map Byte (packet res))" "ce_write ce = WroteAll" "0 < ce_rounds ce" "\<not> ce_timer ce"
    and "gateway_params unjson pack (params_type (hq_header r)) r = Inr params"
    and "gateway_name r \<noteq> []" "length (gateway_name r) + length params + 28 < 2 ^ 32"
    and "res_sized res" "rs_DataType res = PDT_S_RETURN_DATA" "rs_Handle res = gateway_name r"
    and "length (res_content res) \<le> maxFrameSize" "rs_Ret res \<noteq> []" "unmarshal (rs_Ret res) = Inr ret"
  shows "\<exists>w' req'. HTTPDoWorkByClientHandle unjson pack unmarshal host port ce r http_new
      = Some (w', do_job_frame req' (gateway_name r) params)
    \<and> http_answer_of w' = (if rt_Code ret = 0
        then ((gateway_header r)(NPdtDataType \<mapsto> ''PDT_S_RETURN_DATA''), 200, rt_Data ret)
        else ((gateway_header r)(NMessageStatusType \<mapsto> ''RET CODE ERROR'', NErrorMessage \<mapsto> rt_Msg ret), 200, []))"
  using assms by (rule gateway_result)

theorem gateway_answers_witness:
  "\<exists>w' out. HTTPDoWorkByClientHandle (\<lambda>_. None) (\<lambda>_ :: unit. None)
       (\<lambda>_. Inr \<lparr>rt_Code = 0, rt_Msg = [], rt_Data = [7]\<rparr>) ''s'' ''1''
       \<lparr>ce_dial = Some (map Byte (packet (result_packet demo_job [9]))), ce_write = WroteAll, ce_rounds = 1, ce_redial = (\<lambda>_. None), ce_timer = False\<rparr>
       demo_http http_new = Some (w', out)
    \<and> fst (snd (http_answer_of w')) = 200 \<and> snd (snd (http_answer_of w')) = [7]"
proof -
  have p: "params_type (hq_header demo_http) = PARAMS_TYPE_JSON"
    by (simp add: params_type_def demo_http_def header_Get_def Atoi_def ParseInt_def parse_abs_def is_digit_def)
  have g: "gateway_params (\<lambda>_. None) (\<lambda>_ :: unit. None) (params_type (hq_header demo_http)) demo_http = Inr [1, 2]"
    unfolding p by (simp add: gateway_params_def demo_http_def)
  have n: "gateway_name demo_http = ''f''" by (simp add: gateway_name_def demo_http_def header_Get_def)
  show ?thesis
    using gateway_answers [OF _ _ _ _ g, of
        "\<lparr>ce_dial = Some (map Byte (packet (result_packet demo_job [9]))), ce_write = WroteAll, ce_rounds = 1, ce_redial = (\<lambda>_. None), ce_timer = False\<rparr>"
        "result_packet demo_job [9]" "\<lambda>_. Inr \<lparr>rt_Code = 0, rt_Msg = [], rt_Data = [7]\<rparr>" "\<lparr>rt_Code = 0, rt_Msg = [], rt_Data = [7]\<rparr>" "''s''" "''1''"]
      result_packet_sized [OF demo_job_sent(5)] demo_packets(2)
    by (auto simp: n result_packet_def job_packet_def demo_job_sel packet_def)
qed

text \<open>C23. Without a result the gateway answers as follows: it panics if the server cannot be dialled; a request it
  cannot read is complained about in headers, with status 200; a call that times out gets status 408 (the status 500
  written after it comes too late).\<close>

theorem gateway_failures:
  assumes "ce_write ce = WroteAll" "ce_rounds ce = 0" "ce_timer ce"
    and "length (gateway_name r) + (case gateway_params unjson pack (params_type (hq_header r)) r of Inl _ \<Rightarrow> 0 | Inr p \<Rightarrow> length p) + 28 < 2 ^ 32"
  shows "map_option (\<lambda>(w, _). http_answer_of w) (HTTPDoWorkByClientHandle unjson pack unmarshal host port ce r http_new) =
    (if ce_dial ce = None then None
     else case gateway_params unjson pack (params_type (hq_header r)) r of
       Inl (status, msg) \<Rightarrow> Some ((gateway_header r)(NMessageStatusType \<mapsto> status, NErrorMessage \<mapsto> msg), 200, [])
     | Inr _ \<Rightarrow> Some ((gateway_header r)(NMessageStatusType \<mapsto> ''REQUST TIME OUT'', NErrorMessage \<mapsto> ''RESTIMEOUT''), 408, []))"
proof (cases "ce_dial ce")
  case None
  then show ?thesis by (simp add: gateway_no_server)
next
  case (Some i)
  show ?thesis
  proof (cases "gateway_params unjson pack (params_type (hq_header r)) r")
    case (Inl x)
    then show ?thesis using gateway_complains [of ce unjson pack r "fst x" "snd x" unmarshal host port] Some
      by (cases x) auto
  next
    case (Inr p)
    then show ?thesis using gateway_timeout [OF Some assms(1-3) Inr, of unmarshal host port] assms(4) Some by auto
  qed
qed

theorem gateway_failures_witness:
  "map_option (\<lambda>(w, _). http_answer_of w) (HTTPDoWorkByClientHandle (\<lambda>_. None) (\<lambda>_ :: unit. None) (\<lambda>_. Inl []) ''s'' ''1''
      \<lparr>ce_dial = None, ce_write = WroteAll, ce_rounds = 0, ce_redial = (\<lambda>_. None), ce_timer = True\<rparr> demo_http http_new) = None"
  by (subst gateway_failures) (simp_all add: gateway_params_def demo_http_def gateway_name_def header_Get_def params_type_def
      Atoi_def ParseInt_def parse_abs_def is_digit_def)

text \<open>A request to the gateway that names no function in its headers asks for a name that begins with a slash.\<close>

theorem path_names_function:
  assumes "meth \<in> {''POST'', ''GET'', ''PUT''}" "\<And>p. catchall p = p" "header_Get NFunctionName (hq_header r) = ''''"
  shows "\<exists>r'. StartHTTPAPIGateway catchall unrouted handle meth (CHR ''/'' # f) r w = handle r' w \<and> gateway_name r' = CHR ''/'' # f"
  by (rule routed_name [where meth = meth and catchall = catchall and unrouted = unrouted and handle = handle and r = r and w = w,
        OF assms(1,2) refl, of f]) (use assms(3) in auto)

section \<open>The worker\<close>

text \<open>C24. A worker that starts, with its servers reachable, announces its name and then every function,
  once, to every server (the list of functions stands for an order of iteration over the Go map).\<close>

theorem worker_announces:
  assumes "w_Agents w \<noteq> []" "w_Funcs w \<noteq> []" "\<forall>k. \<exists>x. dial k = Some x"
    and "length (w_WorkerName w) + 12 < 2 ^ 32" "\<forall>f \<in> fst ` set (w_Funcs w). length f + 12 < 2 ^ 32"
  shows "\<exists>w'. WorkerReady dial (\<lambda>_. WroteAll) w = Some (None, w') \<and> w_ready w'
    \<and> (\<forall>i < length (w_Agents w). ag_conn (w_Agents w' ! i)
         \<and> ag_output (w_Agents w' ! i) = name_frame PDT_W_SET_NAME (w_WorkerName w)
             @ concat (map (name_frame PDT_W_ADD_FUNC) (map fst (w_Funcs w))))"
  by (rule WorkerReady_ok [OF assms]) blast

theorem worker_announces_witness:
  "\<exists>w'. WorkerReady (\<lambda>_. Some []) (\<lambda>_. WroteAll) demo_worker = Some (None, w') \<and> w_ready w'"
  using worker_announces [of demo_worker "\<lambda>_. Some []"] by (auto simp: demo_worker_def NewWorker_def)

text \<open>C25. A round of the watchdog of a running worker that is not told to stop treats exactly the agents that were silent for
  more than the time-out. Where the server answers the dial (then the writes on the new connection are assumed to succeed), the agent has a
  new connection, on which the name and every function of the worker are announced again. Where it does not, the error is
  ignored: the old socket is closed, the agent keeps it, with its input and the time of the last sign of life, so that the next
  round tries again; and the round goes on with the other agents. The agents that were not silent are left alone. (The
  name and the functions are small enough for a packet.)\<close>

theorem watchdog_reconnects:
  assumes "length (w_WorkerName w) + 12 < 2 ^ 32" "\<forall>f \<in> fst ` set (w_Funcs w). length f + 12 < 2 ^ 32"
    and "\<forall>i. dial i \<noteq> None \<longrightarrow> ans i = WroteAll" "w_running w"
  shows "\<exists>as. watch_round now (\<lambda>_. False) old dial ans w = Some (w\<lparr>w_Agents := as\<rparr>, True)
    \<and> list_all2 (\<lambda>(i, a) a'. watched now dial w i a a') (enumerate 0 (w_Agents w)) as"
  using assms by (rule watch_round_ok)

theorem watchdog_reconnects_witness:
  "\<exists>w'. watch_round 70000 (\<lambda>_. False) (\<lambda>_. WroteAll) (\<lambda>i. if i = 0 then Some [] else None) (\<lambda>_. WroteAll)
      (demo_worker\<lparr>w_running := True, w_Agents := w_Agents demo_worker @ w_Agents demo_worker\<rparr>) = Some (w', True)
    \<and> ag_lastTime (w_Agents w' ! 0) = 70000 \<and> ag_lastTime (w_Agents w' ! 1) = 0"
proof -
  let ?w = "demo_worker\<lparr>w_running := True, w_Agents := w_Agents demo_worker @ w_Agents demo_worker\<rparr>"
  obtain as where "watch_round 70000 (\<lambda>_. False) (\<lambda>_. WroteAll) (\<lambda>i. if i = 0 then Some [] else None) (\<lambda>_. WroteAll) ?w
      = Some (?w\<lparr>w_Agents := as\<rparr>, True)"
    "list_all2 (\<lambda>(i, a) a'. watched 70000 (\<lambda>i. if i = 0 then Some [] else None) ?w i a a') (enumerate 0 (w_Agents ?w)) as"
    using watchdog_reconnects [of ?w "\<lambda>i. if i = 0 then Some [] else None" "\<lambda>_. WroteAll" 70000 "\<lambda>_. WroteAll"]
    by (auto simp: demo_worker_def NewWorker_def)
  then show ?thesis by (auto simp: demo_worker_def NewAgent_def watched_def list_all2_Cons1)
qed

text \<open>C26. Two jobs whose goroutines interleave on one agent are both returned under the identity of the job
  that stored its fields last.\<close>

theorem results_swap_identity:
  assumes "ag_conn a" "resp_sized ret1 r2" "resp_sized ret2 r2"
  shows "\<exists>a1 a2. write_result ret1 WroteAll (set_result r2 (set_result r1 a)) = Some a1
    \<and> write_result ret2 WroteAll a1 = Some a2
    \<and> ag_output a2 = ag_output a @ result_frame (wr_Handle r2) (wr_Params r2) ret1 (wr_JobId r2)
        @ result_frame (wr_Handle r2) (wr_Params r2) ret2 (wr_JobId r2)"
  by (rule interleaved_results [OF assms, of r1]) blast

theorem results_swap_identity_witness:
  "\<exists>a1 a2. write_result [1] WroteAll (set_result (worker_NewRes\<lparr>wr_JobId := ''j2'', wr_JobIdLen := 2\<rparr> :: unit WResponse)
        (set_result (worker_NewRes\<lparr>wr_JobId := ''j1'', wr_JobIdLen := 2\<rparr> :: unit WResponse) ((NewAgent 0 ''tcp'' ''s'')\<lparr>ag_conn := True\<rparr>))) = Some a1
    \<and> write_result [2] WroteAll a1 = Some a2 \<and> ag_output a2 = result_frame [] [] [1] ''j2'' @ result_frame [] [] [2] ''j2''"
  using results_swap_identity [of "(NewAgent 0 ''tcp'' ''s'')\<lparr>ag_conn := True\<rparr>" "[1]"
      "worker_NewRes\<lparr>wr_JobId := ''j2'', wr_JobIdLen := 2\<rparr> :: unit WResponse" "[2]"
      "worker_NewRes\<lparr>wr_JobId := ''j1'', wr_JobIdLen := 2\<rparr> :: unit WResponse"]
  by (simp add: NewAgent_def resp_sized_def worker_NewRes_def)

text \<open>C27. A consumer finds what changes while it watches. If a worker registers a function in etcd after the watch has begun,
  then after the next turn of the goroutine, and as long as nothing else changes, the consumer finds a server for the
  function, one of the servers of that worker, if it has any and no later entry mentions the function. But the watch reads only when it is
  told of a change: a consumer that does not know the function and begins to watch when the same entry is already there finds no
  server for it, however often its goroutine gets a turn.\<close>

theorem consumer_finds_worker:
  assumes "get EtcdBaseKey = Some (before @ Some x # after)" "unjson x = Some ins" "distinct (map fst ins)"
    and "map_of ins = snd (Worker_Register EtcdBaseKey gid w)"
    and "f \<in> (\<lambda>(_, fn). fn_FuncName fn) ` set (w_Funcs w)" "\<forall>v \<in> set after. \<not> mentions unjson f v"
    and "w_Agents w \<noteq> []"
  shows "(\<exists>a cl. a \<in> set (w_Agents w) \<and> cl_Addr cl = ag_addr a
      \<and> Consumer_Discovery timeout r f (Some (wt_Consumer
          (watch_run unjson (es @ EtcdChange get # replicate (Suc n) WatchTurn) (EtcdWatch get0 c)))) = Some (Some cl))
    \<and> (cs_Workers c f = None \<longrightarrow>
      Consumer_Discovery timeout r f (Some (wt_Consumer (watch_run unjson (replicate n WatchTurn) (EtcdWatch get c)))) = Some None)"
proof
  let ?c = "wt_Consumer (watch_run unjson (es @ EtcdChange get # replicate (Suc n) WatchTurn) (EtcdWatch get0 c))"
  have "cs_Workers ?c f = GetAllWorkerIns unjson get EtcdBaseKey f"
    using watch_reads_change [of unjson get es n "EtcdWatch get0 c"] by (simp add: table_read_def)
  then show "\<exists>a cl. a \<in> set (w_Agents w) \<and> cl_Addr cl = ag_addr a \<and> Consumer_Discovery timeout r f (Some ?c) = Some (Some cl)"
    by (rule consumer_finds_server [of get before x after unjson ins gid w f ?c, OF assms])
qed (unfold watch_waits, simp add: EtcdWatch_def Consumer_Discovery_def)

theorem consumer_finds_worker_witness:
  "\<exists>cl. cl_Addr cl = ''s:1'' \<and> Consumer_Discovery 30 5 ''f'' (Some (wt_Consumer
      (watch_run Some [EtcdChange (\<lambda>_. Some [Some [(''f'', [''s:1''])]]), WatchTurn] (EtcdWatch (\<lambda>_. Some [])
        \<lparr>cs_EtcdAddrs = [], cs_Username = [], cs_Password = [], cs_Workers = Map.empty\<rparr>)))) = Some (Some cl)"
  using consumer_finds_worker [of "\<lambda>_. Some [Some [(''f'', [''s:1''])]]" "[]" "[(''f'', [''s:1''])]" "[]" Some
      "[(''f'', [''s:1''])]" "''g''" demo_worker "''f''" 30 5 "[]" 0 "\<lambda>_. Some []"
      "\<lparr>cs_EtcdAddrs = [], cs_Username = [], cs_Password = [], cs_Workers = Map.empty\<rparr>"]
  by (auto simp: demo_worker_def Worker_Register_def NewFunction_def NewAgent_def)

text \<open>Adding and deleting functions keeps the table of functions well formed; a function is found after
  it was added and not after it was deleted, and the other functions are as before.\<close>

theorem worker_functions:
  assumes "wfuncs_ok w"
  shows "(\<forall>e w'. Worker_AddFunction f jf ans w = Some (e, w') \<longrightarrow> wfuncs_ok w'
        \<and> (e = None \<longrightarrow> GetFunction f w' = Inr (NewFunction jf f)))
    \<and> (\<forall>e w'. Worker_DelFunction f ans w = Some (e, w') \<longrightarrow> wfuncs_ok w'
        \<and> (e = None \<longrightarrow> map_of (w_Funcs w') f = None) \<and> (\<forall>g. g \<noteq> f \<longrightarrow> map_of (w_Funcs w') g = map_of (w_Funcs w) g))"
  by (intro conjI allI impI)
    (erule Worker_AddFunction_ok [OF assms] Worker_DelFunction_ok [OF assms]; assumption)+

theorem worker_functions_witness:
  "\<exists>w'. Worker_AddFunction ''f'' (\<lambda>_. None) (\<lambda>_. WroteAll) (NewWorker :: unit Worker) = Some (None, w')
    \<and> wfuncs_ok w' \<and> GetFunction ''f'' w' = Inr (NewFunction (\<lambda>_. None) ''f'')"
proof -
  have "wfuncs_ok (NewWorker :: unit Worker)" by (simp add: wfuncs_ok_def NewWorker_def)
  moreover have "\<exists>w'. Worker_AddFunction ''f'' (\<lambda>_. None) (\<lambda>_. WroteAll) (NewWorker :: unit Worker) = Some (None, w')"
    by (simp add: Worker_AddFunction_def NewWorker_def)
  ultimately show ?thesis using worker_functions by blast
qed

text \<open>At the end of its input an agent does not stop: a round of its loop changes nothing and goes on.\<close>

theorem agent_spins_at_eof:
  assumes "\<not> ag_cancelled a" "ag_conn a" "ag_input a = []"
  shows "Agent_Work msgpack json a = Some (a, None, True)"
  using assms by (rule Agent_Work_eof)

theorem agent_spins_at_eof_witness:
  "Agent_Work (\<lambda>_. None :: unit option) (\<lambda>_. None) ((NewAgent 0 ''tcp'' ''s'')\<lparr>ag_conn := True\<rparr>)
   = Some ((NewAgent 0 ''tcp'' ''s'')\<lparr>ag_conn := True\<rparr>, None, True)"
  by (rule agent_spins_at_eof) (simp_all add: NewAgent_def)

text \<open>The identifier of a trace that comes with the parameters of a job is the one that the response carries on.\<close>

theorem trace_continues:
  assumes "td_useTrace w" "td_Tracer w = Some tracer" "tc_keys tracer = [key]" "params key = Some (IsString val)" "val \<noteq> []"
    and "\<And>vs. tc_entry tracer (tp_Handle resp) vs \<noteq> None"
  shows "\<exists>resp' es. SetEntrySpan enc v w params resp = Some (resp', es) \<and> tp_Sw8 resp' = val"
  using entry_keeps_trace [of w tracer "[]" key "[]" params val resp enc v] assms by auto

section \<open>Direct calls\<close>

text \<open>C28. A direct call returns what the handler of the service returns on the payload, or its error, or
  that there is no handler: the server answers the frame that the client writes, and the client
  reads that answer.\<close>

theorem direct_call_roundtrip:
  assumes "length service + length payload + 8 \<le> 32 * 1024 * 1024"
    and "length (snd (reply_spec s service payload)) + 8 \<le> 32 * 1024 * 1024" "dc_conn c"
  shows "\<exists>req rep. handleConn WroteAll s (map Byte req) = Some (rep, [], True)
    \<and> direct_Call dial WroteAll service payload (c\<lparr>dc_input := map Byte rep\<rparr>)
        = Some (call_result (reply_spec s service payload), c\<lparr>dc_input := [], dc_output := dc_output c @ req\<rparr>)"
proof -
  let ?req = "direct_frame ConnTypeDirectClient (DTCall, call_layout service payload)"
  let ?r = "reply_spec s service payload"
  let ?rep = "direct_frame ConnTypeDirectServer (DTReply, reply_layout (fst ?r) (snd ?r))"
  have "handleConn WroteAll s (map Byte ?req) = Some (?rep, [], True)"
    using handleConn_call [OF assms(1), of s "[]"] by simp
  moreover have "direct_Call dial WroteAll service payload (c\<lparr>dc_input := map Byte ?rep\<rparr>)
      = Some (call_result ?r, c\<lparr>dc_input := [], dc_output := dc_output c @ ?req\<rparr>)"
    using direct_Call_reply [of "c\<lparr>dc_input := map Byte ?rep\<rparr>" "fst ?r" "snd ?r" "[]" dial service payload] assms(2,3)
    by simp
  ultimately show ?thesis by blast
qed

theorem direct_call_roundtrip_witness:
  "\<exists>req rep. handleConn WroteAll (direct_Register ''e'' (Some (\<lambda>p. Inr (rev p))) (direct_NewServer ''tcp'' ''a'')) (map Byte req) = Some (rep, [], True)
    \<and> map_option fst (direct_Call None WroteAll ''e'' [1, 2] ((direct_NewClient ''tcp'' ''a'')\<lparr>dc_conn := True, dc_input := map Byte rep\<rparr>))
        = Some (Inr [2, 1])"
  using direct_call_roundtrip [of "''e''" "[1, 2]" "direct_Register ''e'' (Some (\<lambda>p. Inr (rev p))) (direct_NewServer ''tcp'' ''a'')"
      "(direct_NewClient ''tcp'' ''a'')\<lparr>dc_conn := True\<rparr>" None]
  by (auto simp: reply_spec_def call_result_def getHandler_def direct_Register_def direct_NewServer_def direct_NewClient_def)

text \<open>C29. A round of a direct server never panics, whatever bytes arrive, as long as the handlers of the users do not (they are
  total functions here); if its write succeeds, it has answered with exactly one reply frame or nothing.\<close>

theorem direct_server_total:
  "\<exists>out i' goes_on. handleConn ans s i = Some (out, i', goes_on)
    \<and> (ans = WroteAll \<longrightarrow> out = [] \<or> (\<exists>status data. out = direct_frame ConnTypeDirectServer (DTReply, reply_layout status data)))"
proof -
  obtain r i' where rd: "direct_read i = (r, i')" by fastforce
  show ?thesis
  proof (cases r)
    case (Inl e)
    then show ?thesis using rd by (auto simp: handleConn_def)
  next
    case (Inr f)
    obtain dt content where f: "f = (dt, content)" by (cases f)
    obtain status data where "direct_reply s dt content = Some (direct_frame ConnTypeDirectServer (DTReply, reply_layout status data))"
      using direct_reply_total by blast
    then have "handleConn ans s i = Some (fst (write_all ans
        (direct_frame ConnTypeDirectServer (DTReply, reply_layout status data))), i', True)"
      using rd Inr f by (simp add: handleConn_def)
    moreover have "ans = WroteAll \<longrightarrow> fst (write_all ans (direct_frame ConnTypeDirectServer (DTReply, reply_layout status data)))
        = direct_frame ConnTypeDirectServer (DTReply, reply_layout status data)" by auto
    ultimately show ?thesis by blast
  qed
qed

theorem direct_server_total_witness:
  "\<exists>out i' goes_on. handleConn WroteAll (direct_NewServer ''tcp'' ''a'') [Byte 1] = Some (out, i', goes_on)"
  using direct_server_total [of WroteAll "direct_NewServer ''tcp'' ''a''" "[Byte 1]"] by blast

text \<open>Unpacking a call never panics, gives back what was packed, and rejects every proper prefix of it.\<close>

theorem direct_call_unpack:
  assumes "length service < 2 ^ 32" "length payload < 2 ^ 32"
  shows "(\<forall>content. \<exists>r. UnpackCall content = Some r)
    \<and> (\<exists>b. PackCall service payload = Some b
        \<and> UnpackCall b = Some (Inr \<lparr>call_Service = service, call_Payload = payload\<rparr>)
        \<and> (\<forall>k < length b. \<exists>e. UnpackCall (take k b) = Some (Inl e)))"
  using UnpackCall_total PackCall_eq UnpackCall_layout [OF assms, of "[]"] take_call_short [OF _ assms] by auto

theorem direct_call_unpack_witness:
  "\<exists>b. PackCall ''e'' [7] = Some b \<and> UnpackCall b = Some (Inr \<lparr>call_Service = ''e'', call_Payload = [7]\<rparr>)"
  using direct_call_unpack [of "''e''" "[7]"] by auto

text \<open>After a transport error, or an answer that does not unpack, the direct client has no connection,
  so that the next call dials again.\<close>

theorem direct_error_disconnects:
  assumes "direct_Call dial ans service payload c = Some (Inl e, c')" "\<forall>m. e \<noteq> DirectRemote m"
  shows "\<not> dc_conn c'"
  using assms by (rule direct_Call_closes)

theorem direct_error_disconnects_witness:
  "\<exists>c'. direct_Call None WroteAll ''e'' [1] (direct_NewClient ''tcp'' ''a'') = Some (Inl DirectDialErr, c') \<and> \<not> dc_conn c'"
proof -
  have "\<exists>c'. direct_Call None WroteAll ''e'' [1] (direct_NewClient ''tcp'' ''a'') = Some (Inl DirectDialErr, c')"
    by (simp add: direct_Call_def direct_Connect_def direct_NewClient_def)
  then show ?thesis using direct_error_disconnects by blast
qed

section \<open>Connection pools\<close>

text \<open>C30. A call through the pool of clients leaves the books as they were: the counter is the number of
  idle plus lent clients and at most the size, whether the connection survives the call or not;
  so a client that comes back always finds room.\<close>

theorem client_pool_books:
  assumes "pc_books pc lent" "\<not> pc_closed pc"
    and "PoolClient_Do timeout k dial f params cb ans m redial tf pc = Some (r, pc')"
  shows "pc_books pc' lent \<and> \<not> pc_closed pc'"
  using assms by (rule PoolClient_Do_books)

theorem client_pool_books_witness:
  "\<exists>r pc'. PoolClient_Do 30 1 (\<lambda>_. None) ''f'' [1] () WroteAll 0 (\<lambda>_. None) True (NewPoolClient 30 ''tcp'' ''s'' 4) = Some (r, pc')
    \<and> pc_books pc' 0"
proof -
  have "pc_books (NewPoolClient 30 ''tcp'' ''s'' 4 :: unit PoolClient) 0" "\<not> pc_closed (NewPoolClient 30 ''tcp'' ''s'' 4 :: unit PoolClient)"
    by (simp_all add: pc_books_def accounted_def NewPoolClient_def)
  note opened = this
  have "\<exists>r pc'. PoolClient_Do 30 1 (\<lambda>_. None) ''f'' [1] () WroteAll 0 (\<lambda>_. None) True (NewPoolClient 30 ''tcp'' ''s'' 4) = Some (r, pc')"
    using getOrCreate_waits [of "NewPoolClient 30 ''tcp'' ''s'' 4 :: unit PoolClient" "\<lambda>_. None" 0 30]
    by (simp add: PoolClient_Do_def NewPoolClient_def)
  then obtain r pc' where "PoolClient_Do 30 1 (\<lambda>_. None) ''f'' [1] () WroteAll 0 (\<lambda>_. None) True (NewPoolClient 30 ''tcp'' ''s'' 4) = Some (r, pc')"
    by blast
  with client_pool_books [OF opened this] show ?thesis by blast
qed

text \<open>A call through the direct pool never panics while the pool is open, and leaves the books as they
  were: a connection that failed is closed and not counted, a good one is idle again.\<close>

theorem direct_pool_books:
  assumes "dpl_books c lent" "\<not> dpl_closed c"
  shows "\<exists>r c'. PoolClient_Call dialOk ans i service payload c = Some (r, c') \<and> dpl_books c' lent \<and> \<not> dpl_closed c'"
  using assms by (rule PoolClient_Call_books)

theorem direct_pool_books_witness:
  "\<exists>r c'. PoolClient_Call True WroteAll [] ''e'' [1] (direct_NewPoolClient 4) = Some (r, c') \<and> dpl_books c' 0"
  using direct_pool_books [of "direct_NewPoolClient 4" 0 True WroteAll "[]" "''e''" "[1]"]
  by (auto simp: dpl_books_def accounted_def direct_NewPoolClient_def)

text \<open>Borrowing from an open pool of clients ends after at most one round more than there are idle
  clients: it returns a connected client, or waits for one to come back.\<close>

theorem client_pool_borrows:
  assumes "pc_books pc lent" "\<not> pc_closed pc" "length (pc_clients pc) < k"
  shows "\<exists>r pc'. getOrCreate timeout k dial pc = (r, pc') \<and> r \<noteq> Spins
    \<and> (\<forall>c. r = Got c \<longrightarrow> pc_alive pc' c \<and> pc_books pc' (Suc lent))"
proof -
  obtain r pc' where g: "getOrCreate timeout k dial pc = (r, pc')" by fastforce
  show ?thesis
    using g getOrCreate_no_spin [OF assms, of timeout dial] getOrCreate_books [OF assms(1,2) g] by (cases r) auto
qed

theorem client_pool_borrows_witness:
  "\<exists>c pc'. getOrCreate 30 1 (\<lambda>_. Some []) (NewPoolClient 30 ''tcp'' ''s'' 4 :: unit PoolClient) = (Got c, pc') \<and> pc_alive pc' c"
proof -
  have "\<exists>c pc'. getOrCreate 30 1 (\<lambda>_. Some []) (NewPoolClient 30 ''tcp'' ''s'' 4 :: unit PoolClient) = (Got c, pc')"
    by (simp add: create_client_def NewPoolClient_def Client_Start_def ClientConn_def)
  then show ?thesis
    using client_pool_borrows [of "NewPoolClient 30 ''tcp'' ''s'' 4 :: unit PoolClient" 0 1 30 "\<lambda>_. Some []"]
    by (auto simp: pc_books_def accounted_def NewPoolClient_def)
qed

text \<open>One failed dial disables the direct pool: from then on it never dials, and a call that finds no
  idle connection polls forever, whatever the network answers.\<close>

theorem direct_pool_sticky_error:
  assumes "dpl_conns c = []" "\<not> dpl_closed c" "dpl_created c < dpl_PoolSize c" "\<not> dpl_dialErr c"
  shows "\<exists>c'. getConn False c = Some (Spins, c') \<and> getConn True c' = Some (Spins, c')"
  using getConn_first_dial_error [OF assms] getConn_after_dial_error [of "c\<lparr>dpl_dialErr := True\<rparr>" True] assms by simp

theorem direct_pool_sticky_error_witness:
  "\<exists>c'. getConn False (direct_NewPoolClient 4) = Some (Spins, c') \<and> getConn True c' = Some (Spins, c')"
  using direct_pool_sticky_error [of "direct_NewPoolClient 4"] by (simp add: direct_NewPoolClient_def)

section \<open>The registries\<close>

text \<open>C31. In every state that the client of the discovery service reaches, its invariant holds (there is a
  configured node, node lists are never empty, every resolver belongs to its application), and none of its
  operations panics: registering, renewing, cancelling, setting, and a round of polling.\<close>

theorem discovery_never_panics:
  assumes "disc_reachable d"
  shows "disc_inv d
    \<and> (\<exists>e d'. Register ec marshal r ins ans d = Some (e, d'))
    \<and> (\<exists>d'. Register_tick ec marshal r ins ans ans' d = Some d') \<and> (\<exists>d'. Register_done ec r ins ans d = Some d')
    \<and> (\<exists>e d'. disc_set ec marshal r ins ans d = Some (e, d'))
    \<and> (\<exists>d' goes_on. serverproc ec r t data d = Some (d', goes_on))"
proof -
  have i: "disc_inv d" using assms by (rule disc_reachable_inv)
  show ?thesis
    using i disc.total [OF i, where i = ins and a = "(r, ans)" and ec = ec and marshal = marshal]
      Register_tick_total [OF i, of ec marshal r ins ans ans'] Register_done_total [OF i, of ec r ins ans]
      post_total [OF i, of ec r "''set''" _ ans] serverproc_total [OF i, of ec r t data]
    unfolding disc_set_def by (simp del: append.simps) blast
qed

theorem discovery_never_panics_witness:
  "\<exists>d' goes_on. serverproc demo_ec 0 True (Answer 0 [(''app'', Some demo_info)]) demo_disc = Some (d', goes_on)"
  using discovery_never_panics [OF demo_disc_reachable] by blast

text \<open>C32. Both registry clients keep the contract of a registration: of any sequence of registrations, whatever
  the registry answers to each, those that succeed have distinct services, none of which was registered
  before, and the registered services afterwards are the old ones and these.\<close>

theorem registered_once:
  assumes "disc_reachable d" "rc_Nodes (n_conf n) \<noteq> []"
  shows "(\<exists>acc d'. registers (\<lambda>ins (r, ans). Register ec marshal r ins ans) xs d = Some (acc, d')
      \<and> distinct (map in_ServiceId acc) \<and> in_ServiceId ` set acc \<inter> set (d_registry d) = {}
      \<and> set (d_registry d') = set (d_registry d) \<union> in_ServiceId ` set acc)
    \<and> (\<exists>acc n'. registers (\<lambda>ins (r, ans). nmidr_Register ec marshal r ins ans) ys n = Some (acc, n')
      \<and> distinct (map in_ServiceId acc) \<and> in_ServiceId ` set acc \<inter> set (n_registry n) = {}
      \<and> set (n_registry n') = set (n_registry n) \<union> in_ServiceId ` set acc)"
proof -
  have i: "disc_inv d" using assms(1) by (rule disc_reachable_inv)
  show ?thesis
    using disc.registers_total [OF i] disc.registers_names [OF i] nmidr.registers_total [OF assms(2)]
      nmidr.registers_names [OF assms(2)] by meson
qed

theorem registered_once_witness:
  "\<exists>acc d'. registers (\<lambda>ins (r, ans). Register demo_ec (\<lambda>_. []) r ins ans)
      [(demo_ins ''a'', 0, Answer 0 ()), (demo_ins ''a'', 0, Answer 0 ())] demo_disc = Some (acc, d')
    \<and> distinct (map in_ServiceId acc)"
proof -
  have "rc_Nodes (n_conf (nmidr_NewRegistry demo_conf)) \<noteq> []" by (simp add: nmidr_NewRegistry_def demo_conf_def)
  from registered_once [OF demo_disc_reachable this, of demo_ec "\<lambda>_. []"
      "[(demo_ins ''a'', 0, Answer 0 ()), (demo_ins ''a'', 0, Answer 0 ())]" "[]"]
  show ?thesis by (elim exE conjE, intro exI conjI)
qed

text \<open>With both clients, a service that was registered can never be registered again, whatever happens in
  between: cancelling a registration does not take it out of the table.\<close>

theorem registration_is_final:
  assumes "disc_reachable d" "Register ec marshal r ins ans d = Some (None, d1)" "disc_step\<^sup>*\<^sup>* d1 d2"
    and "rc_Nodes (n_conf n) \<noteq> []" "nmidr_Register ec marshal r ins ans n = Some (None, n1)" "nmidr_step\<^sup>*\<^sup>* n1 n2"
  shows "Register ec marshal r' ins ans' d2 = Some (Some ErrDuplication, d2)
    \<and> nmidr_Register ec marshal r' ins ans' n2 = Some (Some NDuplicate, n2)"
  using disc_life.never_again [OF disc_reachable_inv [OF assms(1)], where i = ins and a = "(r, ans)" and b = "(r', ans')"]
    nmidr.never_again [OF assms(4), where i = ins and a = "(r, ans)" and b = "(r', ans')"] assms(2,3,5,6) by fastforce

theorem registration_is_final_witness:
  "\<exists>d1 d2. Register demo_ec (\<lambda>_. []) 0 (demo_ins ''a'') (Answer 0 ()) demo_disc = Some (None, d1)
    \<and> Register_done demo_ec 0 (demo_ins ''a'') (Answer 0 ()) d1 = Some d2
    \<and> Register demo_ec (\<lambda>_. []) 0 (demo_ins ''a'') (Answer 0 ()) d2 = Some (Some ErrDuplication, d2)"
proof -
  have "\<exists>d1. Register demo_ec (\<lambda>_. []) 0 (demo_ins ''a'') (Answer 0 ()) demo_disc = Some (None, d1)"
    by (simp add: Register_def requests post_def demo_disc_sel demo_ec_def pickNode_def)
  moreover have "\<exists>n1. nmidr_Register demo_ec (\<lambda>_. []) 0 (demo_ins ''a'') (Answer 0 ()) (nmidr_NewRegistry demo_conf) = Some (None, n1)"
    by (simp add: nmidr_Register_def nmidr_requests nmidr_post_def pickMasterNode_def nmidr_NewRegistry_def demo_conf_def demo_ec_def)
  ultimately obtain d1 n1 where r: "Register demo_ec (\<lambda>_. []) 0 (demo_ins ''a'') (Answer 0 ()) demo_disc = Some (None, d1)"
    "nmidr_Register demo_ec (\<lambda>_. []) 0 (demo_ins ''a'') (Answer 0 ()) (nmidr_NewRegistry demo_conf) = Some (None, n1)" by blast
  have i: "disc_inv d1" using disc_step_inv [OF disc_step.register [OF r(1)] demo_disc_inv] .
  obtain d2 where d2: "Register_done demo_ec 0 (demo_ins ''a'') (Answer 0 ()) d1 = Some d2"
    using Register_done_total [OF i] by blast
  have s: "disc_step\<^sup>*\<^sup>* d1 d2" using disc_step.finish [OF d2] by (rule r_into_rtranclp)
  have n: "rc_Nodes (n_conf (nmidr_NewRegistry demo_conf)) \<noteq> []" by (simp add: nmidr_NewRegistry_def demo_conf_def)
  show ?thesis
    using registration_is_final [OF demo_disc_reachable r(1) s n r(2) rtranclp.rtrancl_refl] r(1) d2 by blast
qed

text \<open>C33. A poll that is answered makes the instances of an application visible: every resolver of the
  application has an event waiting, and fetching gives the zones that have instances.\<close>

theorem poll_reaches_resolvers:
  assumes "disc_reachable d" "\<not> d_done d" "d_ctx d \<longrightarrow> \<not> d_pollsCancelled d"
    and "map_of (d_apps d) k = Some app" "a \<in> set (ap_resolver app)"
    and "ec_ok ec code" "\<forall>x \<in> set data. ii_LastTs (snd x) \<noteq> 0" "distinct (map fst data)"
    and "(k, v) \<in> set data" "concat (map snd (ii_Instances v)) \<noteq> []"
  shows "\<exists>d'. serverproc ec r t (Answer code (map (\<lambda>(k, v). (k, Some v)) data)) d = Some (d', True)
    \<and> Fetch a d' = Some (live_zones v) \<and> fst (Watch_recv a d')"
  by (rule poll_visible [OF disc_reachable_inv [OF assms(1)] assms(2-10)])

theorem poll_reaches_resolvers_witness:
  "\<exists>d'. serverproc demo_ec 0 False (Answer 0 [(''app'', Some demo_info)]) demo_disc = Some (d', True)
    \<and> Fetch 1 d' = Some (demo_info\<lparr>ii_Instances := [(''z'', [0])]\<rparr>) \<and> fst (Watch_recv 1 d')"
  using poll_reaches_resolvers [OF demo_disc_reachable _ _ demo_disc_sel(4), of 1 demo_ec 0 "[(''app'', demo_info)]" demo_info 0 False]
  by (simp add: demo_disc_sel demo_ec_def demo_info_def live_zones_def)

text \<open>If no poll is answered, the client asks each of its nodes once in as many rounds as there are nodes, and
  the next round adds the configured seed nodes to the list.\<close>

theorem polls_fail_over:
  assumes "polling ns d" "d_retry d = 0" "unat (d_nodeIdx d) + length ns < 2 ^ 64"
  shows "\<exists>d1 qs d2. silent_rounds ec r (length ns) d = Some d1 \<and> map fst (d_requests d1) = map fst (d_requests d) @ qs
    \<and> set qs = set ns \<and> length qs = length ns
    \<and> serverproc ec r False NoAnswer d1 = Some (d2, True)
    \<and> (\<exists>ms. d_node d2 = Some ms \<and> set ms = set ns \<union> set (rc_Nodes (d_c d)))"
  using assms by (rule failover_all)

theorem polls_fail_over_witness:
  "\<exists>d1 qs. silent_rounds demo_ec 0 2 (demo_disc\<lparr>d_node := Some [''m1'', ''m2'']\<rparr>) = Some d1
    \<and> map fst (d_requests d1) = qs \<and> set qs = {''m1'', ''m2''}"
proof -
  let ?d = "demo_disc\<lparr>d_node := Some [''m1'', ''m2'']\<rparr>"
  have "polling [''m1'', ''m2''] ?d" "d_retry ?d = 0" "unat (d_nodeIdx ?d) + length [''m1'', ''m2''] < 2 ^ 64"
    by (simp_all add: polling_def demo_disc_def demo_first_def Build_def Let_def)
  from polls_fail_over [OF this, of demo_ec 0] show ?thesis by (auto simp: demo_disc_sel numeral_2_eq_2)
qed

text \<open>C34. A schedule that can be carried out without overflow gives every zone its share: the weights of the
  instances of a zone add up to the weight that the schedule gives it, times a factor that is the same for
  all zones, and the instances returned are those of the scheduled zones.\<close>

theorem scheduler_shares:
  assumes "schedulable h ii dst" "dst \<noteq> []" "dst = dst_of zone (ii_Scheduler ii)"
  shows "\<exists>h'. UseScheduler zone h ii = Some (concat (dst_lists ii dst), h')
    \<and> (\<forall>(z, w) \<in> set dst. wsum h' (zone_ins ii z) = w * factor h ii dst)"
  using assms by (rule UseScheduler_shares)

theorem scheduler_shares_witness:
  "\<exists>h'. UseScheduler ''z'' demo_heap demo_schedule = Some ([0, 1, 2], h')
    \<and> 3 * wsum h' [0] = wsum h' [1, 2]"
proof -
  have d: "dst_of ''z'' (ii_Scheduler demo_schedule) = [(''x'', 1), (''y'', 3)]" by (simp add: dst_of_def demo_schedule_def)
  then show ?thesis
    using scheduler_shares [OF demo_schedulable _ refl]
    by (auto simp: dst_lists_def demo_schedule_def zone_ins_def List.map_filter_def)
qed

text \<open>A schedule that names a zone without an entry among the instances, next to one with instances, panics: the
  weights and the zones have different lengths.\<close>

theorem scheduler_missing_zone:
  assumes "concat (dst_lists ii (dst_of zone (ii_Scheduler ii))) \<noteq> []"
    and "d \<in> set (dst_of zone (ii_Scheduler ii))" "map_of (ii_Instances ii) (fst d) = None"
  shows "UseScheduler zone h ii = None"
  using assms by (rule UseScheduler_missing_zone)

theorem scheduler_missing_zone_witness:
  "UseScheduler ''z'' demo_heap (demo_schedule\<lparr>ii_Instances := [(''x'', [0])]\<rparr>) = None"
  by (rule scheduler_missing_zone [of _ _ "(''y'', 3)"])
    (simp_all add: demo_schedule_def dst_of_def dst_lists_def List.map_filter_def)

text \<open>The client of the nmid registry cannot build a resolver, whatever happened before: the map of services is
  never made. And what a resolver fetches is never what the registry answered: the result is empty.\<close>

theorem nmidr_finds_nothing:
  assumes "nmidr_step\<^sup>*\<^sup>* (nmidr_NewRegistry conf) n"
  shows "nmidr_Build sid n = None
    \<and> (\<forall>m rs info ret m'. nmidr_Fetch ec r ans rs m = Some (Got (info, ret), m')
        \<longrightarrow> info = (if ret then Some \<lparr>ii_Instances = [], ii_LastTs = 0, ii_Scheduler = []\<rparr> else None))"
  using nmidr_never_builds [OF assms] nmidr_Fetch_empty by fast

theorem nmidr_finds_nothing_witness: "nmidr_Build ''a'' (nmidr_Close (nmidr_NewRegistry demo_conf)) = None"
proof -
  have "nmidr_step\<^sup>*\<^sup>* (nmidr_NewRegistry demo_conf) (nmidr_Close (nmidr_NewRegistry demo_conf))"
    by (rule r_into_rtranclp) (rule nmidr_step.close)
  from nmidr_finds_nothing [OF this] show ?thesis by blast
qed

section \<open>Job lists\<close>

text \<open>C35. The linked list of jobs implements a queue with search over the heap: pushing terminates and
  appends the job, popping returns the first one and unlinks it, searching finds the first job with
  the identifier, and no operation changes the jobs apart from their links.\<close>

theorem linked_list_queue:
  assumes "jobs_are h jl xs" "a \<notin> set xs" "length xs + 1 < 2 ^ 32"
  shows "(\<exists>h' jl'. PushList (Some a) h jl = Some (True, h', jl') \<and> jobs_are h' jl' (xs @ [a]) \<and> job_data h' = job_data h)
    \<and> (\<exists>h' jl'. PopList h jl = ((case xs of [] \<Rightarrow> None | x # _ \<Rightarrow> Some x), h', jl') \<and> jobs_are h' jl' (tl xs)
         \<and> job_data h' = job_data h)
    \<and> GetListJob i h jl = Some (find (\<lambda>x. j_JobId (h x) = i) xs)"
proof (intro conjI)
  show "\<exists>h' jl'. PushList (Some a) h jl = Some (True, h', jl') \<and> jobs_are h' jl' (xs @ [a]) \<and> job_data h' = job_data h"
    using assms by (rule PushList_are)
  show "\<exists>h' jl'. PopList h jl = ((case xs of [] \<Rightarrow> None | x # _ \<Rightarrow> Some x), h', jl') \<and> jobs_are h' jl' (tl xs)
         \<and> job_data h' = job_data h"
    using PopList_empty [of h jl] PopList_are [of h jl] assms(1) by (cases xs) auto
qed (rule GetListJob_are [OF assms(1)])

theorem linked_list_queue_witness:
  "\<exists>h' jl'. PushList (Some 5) (\<lambda>_. NewJob ''j'') NewJobList = Some (True, h', jl') \<and> jobs_are h' jl' [5]"
  using linked_list_queue [OF jobs_are_new, of 5 "\<lambda>_. NewJob ''j''" "''j''"] by auto

text \<open>Looking up and deleting a job by its identifier in the list of a worker are those of lists: the
  first job with the identifier; after its deletion, if identifiers are distinct, it is not found.\<close>

theorem job_data_list_search:
  assumes "distinct (map (\<lambda>d. jd_JobId (jd d)) (JList jlist))"
  shows "GetJobData jd i jlist = find (\<lambda>d. jd_JobId (jd d) = i) (JList jlist)
    \<and> (fst (DelJobData jd i jlist) \<longleftrightarrow> GetJobData jd i jlist \<noteq> None)
    \<and> JList (snd (DelJobData jd i jlist)) = filter (\<lambda>d. jd_JobId (jd d) \<noteq> i) (JList jlist)
    \<and> GetJobData jd i (snd (DelJobData jd i jlist)) = None"
proof -
  have "length (filter (\<lambda>d. jd_JobId (jd d) = i) (JList jlist)) \<le> 1"
    using assms by (intro distinct_map_filter_le_one)
  then have "remove_first (\<lambda>d. jd_JobId (jd d) = i) (JList jlist) = filter (\<lambda>d. jd_JobId (jd d) \<noteq> i) (JList jlist)"
    by (rule remove_first_filter)
  then show ?thesis
    using GetJobData_after_DelJobData [OF assms, of i] by (simp add: DelJobData_eq GetJobData_eq find_None_iff Bex_def)
qed

theorem job_data_list_search_witness:
  "GetJobData (\<lambda>_. NewJobData ''a'' 0) ''a'' \<lparr>JList = [3]\<rparr> = Some 3"
  using job_data_list_search [of "\<lambda>_. NewJobData ''a'' 0" "\<lparr>JList = [3]\<rparr>" "''a''"] by (simp add: NewJobData_def)

text \<open>Deleting the jobs of a status from the list of a worker deletes at most one of them.\<close>

theorem delete_status_at_most_one:
  "fst (DelJobDataStats jd st jlist) = (if \<exists>d \<in> set (JList jlist). jd_status (jd d) = st then 1 else 0)
    \<and> JList (snd (DelJobDataStats jd st jlist)) = remove_first (\<lambda>d. jd_status (jd d) = st) (JList jlist)"
  by (simp add: DelJobDataStats_eq)

text \<open>Deleting the first or the last job of the linked list by its identifier dereferences nil.\<close>

theorem linked_list_delete_panics:
  assumes "jobs_are h jl xs" "xs \<noteq> []" "j_JobId (h (hd xs)) = i \<or> (\<forall>x \<in> set (butlast xs). j_JobId (h x) \<noteq> i) \<and> j_JobId (h (last xs)) = i"
  shows "DeListJob i h jl = Some None"
proof -
  consider "j_JobId (h (hd xs)) = i" | "\<forall>x \<in> set (butlast xs). j_JobId (h x) \<noteq> i" "j_JobId (h (last xs)) = i"
    using assms(3) by blast
  then show ?thesis
  proof cases
    case 1
    then show ?thesis using assms(1,2) DeListJob_head_panics [of h jl "hd xs" "tl xs" i] by simp
  next
    case 2
    then show ?thesis using assms(1,2) DeListJob_last_panics [of h jl "butlast xs" "last xs" i] by simp
  qed
qed

theorem linked_list_delete_panics_witness:
  "DeListJob ''j'' (\<lambda>_. NewJob ''j'') \<lparr>jl_Head = Some 5, jl_Size = 1\<rparr> = Some None"
  by (rule linked_list_delete_panics [of _ _ "[5]"]) (simp_all add: jobs_are_def NewJob_def)

section \<open>The sidecar and the circuit breaker\<close>

text \<open>C36. The sidecar forwards: with a target that answers within the limit, the client of the sidecar is
  sent the target's status, its headers added to those that were set, and its body, chunk by chunk; the
  limit applies to the announced length only, so that a body of unannounced length is copied whatever its size.\<close>

theorem sidecar_forwards:
  assumes "response_writer ops obs" "RoundTrip (proxy_request (hp_Options px) req) = Inr resp"
    and "i64 (p_ContentLength resp) \<le> po_ResponseBodySize (hp_Options px)"
    and "obs r = http_fresh h" "200 \<le> p_StatusCode resp" "p_StatusCode resp \<le> 999"
    and "concat (p_Chunks resp) = [] \<or> p_StatusCode resp \<noteq> 204 \<and> p_StatusCode resp \<noteq> 304"
    and "\<And>n. declared_length (added (p_Header resp) h) = Some n \<Longrightarrow> int (length (concat (p_Chunks resp))) \<le> n"
    and "p_BodyError resp = None"
  shows "o_Sent (obs (doInflowProxy ops RoundTrip px req r)) = Some (p_StatusCode resp, added (p_Header resp) h)
    \<and> o_Body (obs (doInflowProxy ops RoundTrip px req r)) = concat (p_Chunks resp)"
  using assms by (rule response_writer.trip_forwarded)

theorem sidecar_forwards_witness:
  "\<exists>px. NewInflowServer \<lparr>si_InflowAddr = Some demo_proxy_option, si_OutflowAddr = None\<rparr> = Some px
    \<and> o_Body (doInflowProxy http_ops (\<lambda>q. if q_Host q = ''target'' then Inr demo_response else Inl demo_trip_error) px demo_request (http_fresh (\<lambda>_. [])))
        = ''hi you''"
proof -
  obtain px where px: "NewInflowServer \<lparr>si_InflowAddr = Some demo_proxy_option, si_OutflowAddr = None\<rparr> = Some px"
    "po_ResponseBodySize (hp_Options px) = 10485760" "po_TargetAddress (hp_Options px) = ''target''"
    by (auto simp: NewInflowServer_def NewHttpProxy_def ResponseBodySize_def demo_proxy_option_def second_def)
  have d: "declared_length (added (p_Header demo_response) (\<lambda>_. [])) = None"
    by (simp add: demo_response_def added_def declared_length_def canon_def)
  show ?thesis
    using px(1) sidecar_forwards [OF http.response_writer_axioms, of "\<lambda>q. if q_Host q = ''target'' then Inr demo_response else Inl demo_trip_error"
      px demo_request demo_response "http_fresh (\<lambda>_. [])" "\<lambda>_. []"] px(2,3) d
    by (simp add: demo_response_def proxy_request_def i64_def)
qed

text \<open>C37. What the sidecar answers when something fails. If the client has gone, or the target closed the connection,
  nothing is written. Any other failure to reach the target, and an announced body over the limit, is
  answered with status 200 and an error in JSON. A body that breaks off leaves the status and the part that
  was copied, with the error in JSON appended to it.\<close>

theorem sidecar_failures:
  assumes "response_writer ops obs" "obs r = http_fresh h" "declared_length (json_header h) = None"
    and "r_Size ops r = 0" "\<And>k v. r_Status ops (r_Set ops k v r) = 200"
  shows "case RoundTrip (proxy_request (hp_Options px) req) of
      Inl err \<Rightarrow> if te_Canceled err \<or> te_EOF err then doInflowProxy ops RoundTrip px req r = r
        else o_Sent (obs (doInflowProxy ops RoundTrip px req r)) = Some (200, json_header h)
          \<and> o_Body (obs (doInflowProxy ops RoundTrip px req r)) = Encode (Errno_Add RequestError (te_Text err))
    | Inr resp \<Rightarrow> if i64 (p_ContentLength resp) > po_ResponseBodySize (hp_Options px)
        then o_Sent (obs (doInflowProxy ops RoundTrip px req r)) = Some (200, json_header h)
          \<and> o_Body (obs (doInflowProxy ops RoundTrip px req r)) = Encode RequestBodyLimitError
        else \<forall>text. p_BodyError resp = Some text \<and> 200 \<le> p_StatusCode resp \<and> p_StatusCode resp \<le> 999
          \<and> p_StatusCode resp \<noteq> 204 \<and> p_StatusCode resp \<noteq> 304 \<and> declared_length (added (p_Header resp) h) = None \<longrightarrow>
            o_Sent (obs (doInflowProxy ops RoundTrip px req r)) = Some (p_StatusCode resp, added (p_Header resp) h)
          \<and> o_Body (obs (doInflowProxy ops RoundTrip px req r)) = concat (p_Chunks resp) @ Encode (Errno_Add RequestError text)"
proof (cases "RoundTrip (proxy_request (hp_Options px) req)")
  case (Inl err)
  note failed = response_writer.trip_failed [where ops = ops and obs = obs and r = r and RoundTrip = RoundTrip and px = px and req = req, OF assms(1) Inl _ _ assms(2-5)]
  show ?thesis using failed response_writer.trip_canceled [where ops = ops and obs = obs and r = r and RoundTrip = RoundTrip and px = px and req = req, OF assms(1) Inl] by (auto simp: Inl)
next
  case (Inr resp)
  note broken = response_writer.trip_broken [where ops = ops and obs = obs and r = r and RoundTrip = RoundTrip and px = px and req = req, OF assms(1) Inr _ assms(2)]
  show ?thesis
    using broken response_writer.trip_too_long [where ops = ops and obs = obs and r = r and RoundTrip = RoundTrip and px = px and req = req, OF assms(1) Inr _ assms(2,3)] by (auto simp: Inr not_less)
qed

theorem sidecar_failures_witness:
  "o_Body (doInflowProxy http_ops (\<lambda>_. Inl demo_trip_error) (NewHttpProxy demo_proxy_option) demo_request (http_fresh (\<lambda>_. [])))
    = Encode \<lparr>en_State = -105, en_Msg = ''Request Error: refused''\<rparr>"
proof -
  have "declared_length (json_header (\<lambda>_. [])) = None"
    by (simp add: json_header_def header_Set_def declared_length_def canon_def)
  moreover have "r_Size http_ops (http_fresh (\<lambda>_. [])) = 0"
    "r_Status http_ops (r_Set http_ops k v (http_fresh (\<lambda>_. []))) = 200" for k v
    by (simp_all add: http_ops_def http_fresh_def)
  ultimately show ?thesis
    using sidecar_failures [OF http.response_writer_axioms refl, of "\<lambda>_. []" "\<lambda>_. Inl demo_trip_error" "NewHttpProxy demo_proxy_option" demo_request]
    by (simp add: demo_trip_error_def Errno_Add_def RequestError_def)
qed

text \<open>C38. The breaker with the rule of percentages, on the counts of at least three requests: it opens only if the
  percentage of failures, rounded down, has reached the threshold, and always if it is above it. At the
  threshold itself the floating-point percentage may be one too small.\<close>

theorem breaker_percentage:
  assumes "F = unat (ct_TotalFailures counts)" "R = unat (ct_Requests counts)" "F \<le> R" "3 \<le> R" "bc_RuleType bc = 2"
  shows "(switchOne bc counts \<longrightarrow> unat (bc_ErrorPercent bc) \<le> 100 * F div R)
    \<and> (unat (bc_ErrorPercent bc) < 100 * F div R \<longrightarrow> switchOne bc counts)"
  using ruleTwo_exact [OF assms] by blast

theorem breaker_percentage_witness: "switchOne demo_breaker demo_counts"
  using breaker_percentage [of 6 demo_counts 10 demo_breaker] by (simp add: demo_breaker_def demo_counts_def)

text \<open>29 failures of 100 requests are computed as 28 percent: a breaker with the threshold 29 stays closed.\<close>

theorem breaker_loses_percent:
  "\<not> switchOne (demo_breaker\<lparr>bc_ErrorPercent := 29\<rparr>) \<lparr>ct_Requests = 100, ct_TotalFailures = 29, ct_ConsecutiveFailures = 1\<rparr>"
  using failureRatio_29 by (simp add: switchOne_def ruleTwo_def demo_breaker_def)

section \<open>Starting and stopping\<close>

text \<open>C39. The program starts and stops: with the sections that it reads in its configuration, and goroutines that have
  opened the listener by the time of the signal, it ends with status 0, the listener closed and a
  gateway, if there is one, closed too; it does not wait for ever and does not panic.\<close>

theorem server_exits:
  assumes "\<And>k. sc_RpcServer (g k) \<noteq> None" "\<And>k. sc_Prometheus (g k) \<noteq> None" "\<And>k. sc_Dashboard (g k) \<noteq> None"
    and "init = Some c"
    and "\<And>h st. \<exists>st'. run h st = Some st' \<and> st_Ln st' \<noteq> None \<and> (st_HTTPServerGateway st' \<noteq> None \<longrightarrow> st_Cm st' \<noteq> None)"
  shows "\<exists>st s. main init g run version = Exit0 st s \<and> st_Ln st = Some True \<and> st_HTTPServerGateway st \<noteq> Some False"
  using assms by (rule main_exits)

theorem server_exits_witness: "\<exists>st s. main (Some demo_config) (\<lambda>_. demo_config) demo_run ''1.0'' = Exit0 st s"
proof -
  have "\<exists>st'. demo_run h st = Some st' \<and> st_Ln st' \<noteq> None \<and> (st_HTTPServerGateway st' \<noteq> None \<longrightarrow> st_Cm st' \<noteq> None)" for h st
    by (auto simp: demo_run_def)
  then show ?thesis
    using server_exits [of "\<lambda>_. demo_config" "Some demo_config" demo_config demo_run "''1.0''"]
    by (auto simp: demo_config_def)
qed

text \<open>Without the section of Prometheus in the configuration the program crashes when it starts.\<close>

theorem server_crashes:
  assumes "init = Some c" "\<And>k. sc_Prometheus (g k) = None"
  shows "main init g run version = Recovered"
  using assms by (intro main_crashes)

text \<open>The wait function of the close listeners returns exactly when every listener has run, in whatever order
  the goroutines end.\<close>

theorem close_listeners_wait:
  assumes "cm_once cm True"
  shows "wait_returns cm \<longleftrightarrow> mset (cm_ran cm) = mset (cm_listeners cm)"
  using assms by (rule close_waits)

section \<open>Logging and the dashboard\<close>

text \<open>C40. The log file loses nothing while its writes succeed: file, cache and channel together hold what they held before
  followed by the accepted lines, in order, through any sequence of writes, flushes, time-outs and reopenings.\<close>

theorem log_keeps_lines:
  assumes "log_ready lf" "\<forall>e \<in> set es. good_event e"
  shows "log_ready (fold log_step es lf) \<and> log_content (fold log_step es lf) = log_content lf @ concat (accepted_lines es lf)"
  using assms by (rule log_content_steps)

theorem log_keeps_lines_witness:
  "\<exists>lf. newLogFile True ''l'' 2 = Some lf
    \<and> log_content (fold log_step [LWrite [1], LTake WroteAll, LWrite [2], LTake WroteAll, LTimeout WroteAll] lf) = [1, 2]"
proof -
  obtain lf where lf: "newLogFile True ''l'' 2 = Some lf" by (simp add: newLogFile_def openFile_def)
  then have r: "log_ready lf" "log_content lf = []" "lf_logChan lf = []"
    by (auto simp: newLogFile_def openFile_def log_ready_def log_content_def)
  have "accepted_lines [LWrite [1], LTake WroteAll, LWrite [2], LTake WroteAll, LTimeout WroteAll] lf = [[1], [2]]"
    using lf by (auto simp: newLogFile_def openFile_def logFile_Write_def run_log_def writeLog_def chan_send_def chan_recv_def logChanSize_def)
  then show ?thesis
    using lf r log_keeps_lines [of lf "[LWrite [1], LTake WroteAll, LWrite [2], LTake WroteAll, LTimeout WroteAll]"]
    by (auto simp del: accepted_lines.simps)
qed

text \<open>The counter of the goroutine manager is the number of main goroutines that run, the listener returns exactly when
  there are none, and asks them to stop at most once.\<close>

theorem goroutines_counted:
  assumes "go_step\<^sup>*\<^sup>* go_start (g, l)" "mains g < 2 ^ 63"
  shows "g_num g = int (mains g) \<and> (snd (ListenAllGO stopnil g l) \<longleftrightarrow> mains g = 0) \<and> l_stops l \<le> 1"
proof -
  have "go_inv (g, l)" using assms(1) by (rule go_reachable_inv)
  then show ?thesis
    using listener_returns [OF assms, of stopnil] assms(2) by (cases "l_flag l") (auto simp: go_inv_def i64_def)
qed

text \<open>The health checker keeps its books: distinct targets with results of their own, each checked by a goroutine.\<close>

theorem health_results:
  assumes "health_step\<^sup>*\<^sup>* NewHealthChecker hc"
  shows "health_inv hc"
  using assms by (rule health_reachable_inv)

text \<open>The number of workers shown is the number of names with a positive gauge; the list of workers is sorted by creation time
  and shows for each worker the row of its last metric.\<close>

theorem workers_counted:
  "fst (snd (GetDiscoveryWorkerFuncNum mfs)) = card (active_names (metrics_of ''nmid_server_worker_func_count'' mfs))
    \<and> sorted (map wl_CreateTime (fst (GetWorkersFuncs mfs)))
    \<and> (w \<in> set (fst (GetWorkersFuncs mfs)) \<longleftrightarrow>
        map_of (rev (worker_rows (metrics_of ''nmid_server_worker_func_count'' mfs))) (wl_Name w) = Some w)"
  using worker_num_eq workers_shown workers_sorted by blast

text \<open>The updates of the metrics that the server has made in a reachable state can be carried out on the vectors that it
  declares: none of them panics, and a counter or a gauge holds the sum of its updates. The zone of a refused address has to give
  six values, that zone and the addresses of closed connections have to be UTF-8, and no time may be negative. (A label from a
  peer that is not UTF-8 panics in the handler that uses it.)\<close>

theorem metrics_never_panic:
  assumes "server_reachable s"
    and "\<forall>ls a. Metric ''ThreatIpCount'' ls a \<in> set (s_Metrics s) \<longrightarrow> length ls = 7 \<and> list_all valid_utf8 ls"
    and "\<forall>ls a. Metric ''WorkerCloseCount'' ls a \<in> set (s_Metrics s) \<longrightarrow> list_all valid_utf8 ls"
    and "\<forall>v \<in> set server_vecs. ve_Kind v = CounterVec \<longrightarrow> (\<forall>ls a. Metric (ve_Var v) ls a \<in> set (s_Metrics s) \<longrightarrow> 0 \<le> a)"
  shows "\<exists>vecs. apply_updates (s_Metrics s) start_vectors = Some vecs
    \<and> (\<forall>v \<in> set server_vecs. ve_Kind v \<noteq> HistogramVec \<longrightarrow>
      (\<exists>d. vecs (ve_Var v) = Some d \<and> (\<forall>ls. child ls d = series (s_Metrics s) (ve_Var v) ls)))"
  using reachable_updates [OF assms] unfolding booked_def by blast

text \<open>A process that starts as a server and uses the package of the worker panics at its start: both declare a metric of
  one name.\<close>

theorem metrics_declared_twice:
  assumes "registers_once mustRegister names"
  shows "init_vecs mustRegister (server_vecs @ worker_vecs) (reg, cm) = None"
  using assms by (rule server_with_worker_panics)

text \<open>The newest log file is the one of the day, as long as midnight falls into a sleep of the loop.\<close>

theorem log_follows_day:
  assumes "no_gap today rds" "log_names logConfig env = (dir, name)"
  shows "\<exists>fs. NewLogger m logConfig env today True rds = Some (log_level logConfig, fs) \<and> fs \<noteq> []
    \<and> fst (last fs) = dir \<and> fst (snd (last fs)) = day_file (final_day today rds) name"
  using assms by (rule NewLogger_follows)

text \<open>The pages of the dashboard, one after the other, show the whole list.\<close>

theorem dashboard_pages:
  assumes "int (length xs) < 2 ^ 59"
  shows "concat (map (\<lambda>p. the (page_of p 10 xs)) (seq 1 (total_pages (int (length xs)) 10))) = xs"
  using assms by (rule pages_all)

text \<open>A query for a page that does not exist, or that is not a number, panics in the handler.\<close>

theorem dashboard_page_panics:
  assumes "current_page q < 1 \<or> int (length (fst (GetWorkersFuncs mfs))) < 10 * (current_page q - 1)"
    "- (2 ^ 59) < current_page q" "current_page q < 2 ^ 59" "da_WPageSize d = 10"
  shows "snd (workers_page None q mfs d) = Panics"
  using assms by (rule workers_page_panics)

end
